(* ===== verification/Prelude.thy ===== *)
theory Prelude
  imports Main "HOL-Library.Word" "HOL-Library.Char_ord"
begin

text \<open>
  Vocabulary shared by every component of the backend model: bytes, instants and
  durations with the width Go gives them, results that carry an error, and the
  lemmas about them that the component theories use all the time.

  A Go function that returns \<open>(T, error)\<close> is a function into \<open>'e + 'a\<close>: \<open>Inl\<close> carries
  the error, \<open>Inr\<close> the value. The pattern \<open>if err != nil { return err }\<close> is the
  function \<open>and_then\<close>.
\<close>

subsection \<open>Bytes and strings\<close>

text \<open>A Go string is an immutable byte sequence, as is \<open>string\<close> here (\<open>char\<close> is one byte).\<close>

type_synonym byte = "8 word"
type_synonym bytes = "byte list"

definition byte_of :: "char \<Rightarrow> byte" where
  "byte_of c = word_of_nat (of_char c)"

definition char_at :: "byte \<Rightarrow> char" where
  "char_at b = char_of (unat b)"

definition string_of_bytes :: "bytes \<Rightarrow> string" where
  "string_of_bytes bs = map char_at bs"

definition bytes_of_string :: "string \<Rightarrow> bytes" where
  "bytes_of_string s = map byte_of s"

lemma of_char_less_256: "(of_char c :: nat) < 256"
  by (metis of_char_mod_256 mod_less_divisor zero_less_numeral)

lemma char_at_byte_of [simp]: "char_at (byte_of c) = c"
  by (simp add: char_at_def byte_of_def unat_of_nat of_char_less_256)

lemma byte_of_char_at [simp]: "byte_of (char_at b) = b"
proof -
  have "unat b < 256" using unsigned_less [of b, where ?'a = nat] by simp
  then show ?thesis by (simp add: char_at_def byte_of_def)
qed

lemma string_of_bytes_of_string [simp]: "string_of_bytes (bytes_of_string s) = s"
  by (simp add: string_of_bytes_def bytes_of_string_def comp_def)

lemma bytes_of_string_of_bytes [simp]: "bytes_of_string (string_of_bytes bs) = bs"
  by (simp add: string_of_bytes_def bytes_of_string_def comp_def)

lemma string_of_bytes_inject [simp]: "string_of_bytes a = string_of_bytes b \<longleftrightarrow> a = b"
  by (metis bytes_of_string_of_bytes)

lemma string_of_bytes_eq_iff: "string_of_bytes bs = s \<longleftrightarrow> bs = bytes_of_string s"
  by (metis bytes_of_string_of_bytes string_of_bytes_of_string)

subsection \<open>Instants and durations\<close>

text \<open>
  A \<open>time.Time\<close> is an instant in nanoseconds since a fixed origin, an \<open>int\<close>: the instants
  the program handles are far inside the range of Go's representation. A
  \<open>time.Duration\<close> is a signed 64-bit count of nanoseconds, so products of durations
  wrap around.
\<close>

type_synonym instant = int
type_synonym duration = "64 word"

definition nanosecond :: duration where "nanosecond = 1"
definition second :: duration where "second = 1000000000"
definition minute :: duration where "minute = 60 * second"
definition hour :: duration where "hour = 60 * minute"

definition time_add :: "instant \<Rightarrow> duration \<Rightarrow> instant" where
  "time_add t d = t + sint d"

definition time_before :: "instant \<Rightarrow> instant \<Rightarrow> bool" where
  "time_before t u \<longleftrightarrow> t < u"

definition time_after :: "instant \<Rightarrow> instant \<Rightarrow> bool" where
  "time_after t u \<longleftrightarrow> u < t"

text \<open>\<open>t.Sub(u)\<close> saturates at the extreme durations instead of wrapping.\<close>

definition max_duration :: int where "max_duration = 2 ^ 63 - 1"
definition min_duration :: int where "min_duration = - (2 ^ 63)"

definition time_sub :: "instant \<Rightarrow> instant \<Rightarrow> duration" where
  "time_sub t u = word_of_int (max min_duration (min max_duration (t - u)))"

lemmas time_defs = time_add_def time_before_def time_after_def

lemma sint_word_of_int_duration:
  "min_duration \<le> k \<Longrightarrow> k \<le> max_duration \<Longrightarrow> sint (word_of_int k :: duration) = k"
  by (simp add: sint_sbintrunc' signed_take_bit_int_eq_self min_duration_def max_duration_def)

lemma sint_time_sub: "sint (time_sub t u) = max min_duration (min max_duration (t - u))"
  unfolding time_sub_def
  by (rule sint_word_of_int_duration) (simp_all add: min_duration_def max_duration_def)

lemma sint_second: "sint second = 1000000000"
  by (simp add: second_def)

lemma sint_hour: "sint hour = 3600000000000"
  by (simp add: hour_def minute_def second_def)

subsection \<open>Results\<close>

definition and_then :: "'e + 'a \<Rightarrow> ('a \<Rightarrow> 'e + 'b) \<Rightarrow> 'e + 'b" where
  "and_then r f = (case r of Inl e \<Rightarrow> Inl e | Inr x \<Rightarrow> f x)"

definition map_err :: "('e \<Rightarrow> 'f) \<Rightarrow> 'e + 'a \<Rightarrow> 'f + 'a" where
  "map_err g r = (case r of Inl e \<Rightarrow> Inl (g e) | Inr x \<Rightarrow> Inr x)"

definition is_ok :: "'e + 'a \<Rightarrow> bool" where
  "is_ok r = (case r of Inl _ \<Rightarrow> False | Inr _ \<Rightarrow> True)"

definition from_option :: "'e \<Rightarrow> 'a option \<Rightarrow> 'e + 'a" where
  "from_option e x = (case x of None \<Rightarrow> Inl e | Some y \<Rightarrow> Inr y)"

lemma and_then_simps [simp]:
  "and_then (Inl e) f = Inl e"
  "and_then (Inr x) f = f x"
  by (simp_all add: and_then_def)

lemma map_err_simps [simp]:
  "map_err g (Inl e) = Inl (g e)"
  "map_err g (Inr x) = Inr x"
  by (simp_all add: map_err_def)

lemma is_ok_simps [simp]: "\<not> is_ok (Inl e)" "is_ok (Inr x)"
  by (simp_all add: is_ok_def)

lemma from_option_simps [simp]:
  "from_option e None = Inl e"
  "from_option e (Some x) = Inr x"
  by (simp_all add: from_option_def)

text \<open>How a chain of fallible steps can have succeeded, or failed.\<close>

lemma and_then_eq_Inr [simp]: "and_then r f = Inr y \<longleftrightarrow> (\<exists>x. r = Inr x \<and> f x = Inr y)"
  by (cases r) auto

lemma Inr_eq_and_then [simp]: "Inr y = and_then r f \<longleftrightarrow> (\<exists>x. r = Inr x \<and> f x = Inr y)"
  by (cases r) auto

lemma and_then_eq_Inl:
  "and_then r f = Inl e \<longleftrightarrow> r = Inl e \<or> (\<exists>x. r = Inr x \<and> f x = Inl e)"
  by (cases r) auto

lemma map_err_eq_Inr [simp]: "map_err g r = Inr y \<longleftrightarrow> r = Inr y"
  by (cases r) auto

lemma map_err_eq_Inl: "map_err g r = Inl e \<longleftrightarrow> (\<exists>e'. r = Inl e' \<and> e = g e')"
  by (cases r) auto

lemma from_option_eq_Inr [simp]: "from_option e x = Inr y \<longleftrightarrow> x = Some y"
  by (cases x) auto

lemma is_ok_iff: "is_ok r \<longleftrightarrow> (\<exists>x. r = Inr x)"
  by (cases r) auto

lemma not_is_ok_iff: "\<not> is_ok r \<longleftrightarrow> (\<exists>e. r = Inl e)"
  by (cases r) auto

lemma and_then_cong [fundef_cong]:
  "r = s \<Longrightarrow> (\<And>x. s = Inr x \<Longrightarrow> f x = g x) \<Longrightarrow> and_then r f = and_then s g"
  by (cases s) auto

text \<open>
  A loop that stops at the first error and collects the results: Go's
  \<open>for i, x := range xs { y, err := f(i, x); if err != nil { return err }; ... }\<close>.
  The index counts from the given start.
\<close>

fun traverse_from :: "nat \<Rightarrow> (nat \<Rightarrow> 'a \<Rightarrow> 'e + 'b) \<Rightarrow> 'a list \<Rightarrow> 'e + 'b list" where
  "traverse_from i f [] = Inr []"
| "traverse_from i f (x # xs) =
     and_then (f i x) (\<lambda>y. and_then (traverse_from (Suc i) f xs) (\<lambda>ys. Inr (y # ys)))"

lemma traverse_from_length:
  "traverse_from i f xs = Inr ys \<Longrightarrow> length ys = length xs"
  by (induction xs arbitrary: i ys) auto

lemma traverse_from_nth:
  "traverse_from i f xs = Inr ys \<Longrightarrow> k < length xs \<Longrightarrow> f (i + k) (xs ! k) = Inr (ys ! k)"
proof (induction xs arbitrary: i ys k)
  case Nil
  then show ?case by simp
next
  case (Cons x xs)
  then show ?case
    by (cases k) (auto, metis add_Suc_shift add_Suc_right add_Suc)
qed

lemma traverse_from_Nil_iff [simp]: "traverse_from i f xs = Inr [] \<longleftrightarrow> xs = []"
  by (cases xs) auto

lemma traverse_from_map:
  "(\<And>k. k < length xs \<Longrightarrow> f (i + k) (xs ! k) = Inr (g (xs ! k))) \<Longrightarrow>
     traverse_from i f xs = Inr (map g xs)"
proof (induction xs arbitrary: i)
  case Nil
  then show ?case by simp
next
  case (Cons x xs)
  from Cons.prems [of 0] have "f i x = Inr (g x)" by simp
  moreover have "traverse_from (Suc i) f xs = Inr (map g xs)"
    by (rule Cons.IH) (use Cons.prems [of "Suc _"] in simp)
  ultimately show ?case by simp
qed

subsection \<open>Collections of rules\<close>

named_theorems handler_simps \<open>unfoldings of the HTTP handlers' steps\<close>
named_theorems repo_simps \<open>how the registry's operations act on its maps\<close>
named_theorems store_simps \<open>how the challenge store's operations act on its map\<close>

lemma sint_word_of_nat_small: "n < 2 ^ 63 \<Longrightarrow> sint (word_of_nat n :: 64 word) = int n"
  using sint_word_of_int_duration [of "int n"] by (simp add: min_duration_def max_duration_def)

end
