(* ===== verification/GoText.thy ===== *)
theory GoText
  imports Prelude "HOL-Library.Sublist"
begin

text \<open>
  The text functions of Go's standard library the backend calls, executable and total:
  \<open>encoding/hex\<close>, \<open>encoding/base64\<close> (\<open>StdEncoding\<close>), \<open>strconv\<close> (\<open>Atoi\<close>, \<open>ParseBool\<close>),
  \<open>(*big.Int).String\<close>, \<open>strings\<close> (\<open>HasPrefix\<close>, \<open>TrimPrefix\<close>, \<open>ToLower\<close>, \<open>EqualFold\<close>) and
  \<open>path/filepath\<close> (\<open>Clean\<close>, \<open>Join\<close>, \<open>Dir\<close> on a Unix system), with their round trips.
\<close>

lemma byte_word_of_unat: "word_of_nat (unat b) = (b :: byte)"
  by simp

subsection \<open>Hexadecimal\<close>

definition hex_digit :: "nat \<Rightarrow> char" where
  "hex_digit n = ''0123456789abcdef'' ! n"

fun hex_encode :: "bytes \<Rightarrow> string" where
  "hex_encode [] = []"
| "hex_encode (b # bs) = hex_digit (unat b div 16) # hex_digit (unat b mod 16) # hex_encode bs"

definition is_hex_lower :: "char \<Rightarrow> bool" where
  "is_hex_lower c \<longleftrightarrow> c \<in> set ''0123456789abcdef''"

lemma unat_byte_less [simp]: "unat (b :: byte) < 256"
  using unsigned_less [of b, where ?'a = nat] by simp

lemma hex_digit_inject:
  assumes "m < 16" "n < 16" "hex_digit m = hex_digit n"
  shows "m = n"
proof -
  have "distinct ''0123456789abcdef''" by code_simp
  with assms show ?thesis unfolding hex_digit_def by (subst (asm) nth_eq_iff_index_eq) simp_all
qed

lemma hex_digit_lower: "n < 16 \<Longrightarrow> is_hex_lower (hex_digit n)"
  unfolding is_hex_lower_def hex_digit_def by (rule nth_mem) simp

lemma hex_encode_length [simp]: "length (hex_encode bs) = 2 * length bs"
  by (induction bs) auto

lemma hex_encode_lower: "list_all is_hex_lower (hex_encode bs)"
  by (induction bs) (auto intro!: hex_digit_lower simp: less_mult_imp_div_less)

lemma hex_encode_Nil_iff [simp]: "hex_encode bs = [] \<longleftrightarrow> bs = []" "[] = hex_encode bs \<longleftrightarrow> bs = []"
  by (cases bs; simp)+

lemma byte_eqI:
  assumes "unat (a :: byte) div 16 = unat b div 16" "unat a mod 16 = unat b mod 16"
  shows "a = b"
  by (metis assms div_mult_mod_eq word_unat_eq_iff)

lemma hex_encode_inject: "hex_encode a = hex_encode b \<Longrightarrow> a = b"
proof (induction a arbitrary: b)
  case Nil
  then show ?case by simp
next
  case (Cons x a)
  then obtain y b' where b: "b = y # b'" by (cases b) auto
  with Cons.prems have "hex_digit (unat x div 16) = hex_digit (unat y div 16)"
    "hex_digit (unat x mod 16) = hex_digit (unat y mod 16)" "hex_encode a = hex_encode b'"
    by simp_all
  then have "x = y" "a = b'"
    by (auto intro!: byte_eqI hex_digit_inject Cons.IH simp: less_mult_imp_div_less)
  with b show ?case by simp
qed

lemma hex_encode_eq_iff [simp]: "hex_encode a = hex_encode b \<longleftrightarrow> a = b"
  using hex_encode_inject by blast

subsection \<open>Base64 with the standard alphabet and padding\<close>

definition b64_alphabet :: string where
  "b64_alphabet = ''ABCDEFGHIJKLMNOPQRSTUVWXYZabcdefghijklmnopqrstuvwxyz0123456789+/''"

definition b64_char :: "nat \<Rightarrow> char" where
  "b64_char n = b64_alphabet ! n"

definition b64_value :: "char \<Rightarrow> nat option" where
  "b64_value c =
     (let n = of_char c in
      if 65 \<le> n \<and> n \<le> 90 then Some (n - 65)
      else if 97 \<le> n \<and> n \<le> 122 then Some (n - 71)
      else if 48 \<le> n \<and> n \<le> 57 then Some (n + 4)
      else if n = 43 then Some 62
      else if n = 47 then Some 63
      else None)"

fun b64_encode :: "bytes \<Rightarrow> string" where
  "b64_encode [] = []"
| "b64_encode [a] =
     [b64_char (unat a div 4), b64_char (unat a mod 4 * 16), CHR ''='', CHR ''='']"
| "b64_encode [a, b] =
     [b64_char (unat a div 4), b64_char (unat a mod 4 * 16 + unat b div 16),
      b64_char (unat b mod 16 * 4), CHR ''='']"
| "b64_encode (a # b # c # rest) =
     b64_char (unat a div 4) # b64_char (unat a mod 4 * 16 + unat b div 16) #
     b64_char (unat b mod 16 * 4 + unat c div 64) # b64_char (unat c mod 64) # b64_encode rest"

text \<open>
  \<open>DecodeString\<close> skips carriage returns and line feeds wherever they stand, insists on the
  padding, refuses anything after it, and does not look at the unused low bits of the
  last digit (the encoding is not in strict mode).
\<close>

fun b64_decode_quads :: "string \<Rightarrow> bytes option" where
  "b64_decode_quads [] = Some []"
| "b64_decode_quads (c1 # c2 # c3 # c4 # rest) =
     (case (b64_value c1, b64_value c2) of
        (Some v1, Some v2) \<Rightarrow>
          if c3 = CHR ''='' then
            (if c4 = CHR ''='' \<and> rest = [] then Some [word_of_nat (v1 * 4 + v2 div 16)] else None)
          else (case b64_value c3 of
            None \<Rightarrow> None
          | Some v3 \<Rightarrow>
              if c4 = CHR ''='' then
                (if rest = [] then Some [word_of_nat (v1 * 4 + v2 div 16),
                                         word_of_nat (v2 mod 16 * 16 + v3 div 4)] else None)
              else (case b64_value c4 of
                None \<Rightarrow> None
              | Some v4 \<Rightarrow>
                  map_option (\<lambda>bs. word_of_nat (v1 * 4 + v2 div 16) #
                                   word_of_nat (v2 mod 16 * 16 + v3 div 4) #
                                   word_of_nat (v3 mod 4 * 64 + v4) # bs)
                    (b64_decode_quads rest)))
      | _ \<Rightarrow> None)"
| "b64_decode_quads _ = None"

definition b64_decode :: "string \<Rightarrow> bytes option" where
  "b64_decode s = b64_decode_quads (filter (\<lambda>c. of_char c \<noteq> (10::nat) \<and> of_char c \<noteq> (13::nat)) s)"

definition b64_text :: "char \<Rightarrow> bool" where
  "b64_text c \<longleftrightarrow> of_char c \<noteq> (10::nat) \<and> of_char c \<noteq> (13::nat)"

lemma b64_char_facts:
  assumes "n < 64"
  shows "b64_value (b64_char n) = Some n" "b64_char n \<noteq> CHR ''=''" "b64_text (b64_char n)"
proof -
  have u: "[0..<64] = 0 # 1 # [2..<64]" by (simp add: upt_conv_Cons numeral_2_eq_2)
  have *: "list_all (\<lambda>n. b64_value (b64_char n) = Some n \<and> b64_char n \<noteq> CHR ''='' \<and>
      b64_text (b64_char n)) [0..<64]"
    by (simp add: b64_value_def b64_char_def b64_alphabet_def b64_text_def u upt_rec_numeral)
  from assms have "n \<in> set [0..<64]" by simp
  with * show "b64_value (b64_char n) = Some n" "b64_char n \<noteq> CHR ''=''" "b64_text (b64_char n)"
    by (simp_all add: list_all_iff)
qed

lemma b64_pad_text: "b64_text (CHR ''='')"
  by (simp add: b64_text_def)

lemma b64_bounds:
  fixes a b :: byte
  shows "unat a div 4 < 64" "unat a mod 4 * 16 < 64" "unat a mod 4 * 16 + unat b div 16 < 64"
    "unat a mod 16 * 4 < 64" "unat a mod 16 * 4 + unat b div 64 < 64" "unat a mod 64 < 64"
  using unat_byte_less [of a] unat_byte_less [of b] by (auto simp del: unat_byte_less)

lemma b64_encode_text: "list_all b64_text (b64_encode bs)"
  by (induction bs rule: b64_encode.induct)
    (simp_all add: b64_char_facts b64_bounds b64_pad_text)

lemma b64_reassemble:
  fixes a b c :: byte
  shows "unat a div 4 * 4 + (unat a mod 4 * 16 + unat b div 16) div 16 = unat a"
    "unat a div 4 * 4 + unat a mod 4 * 16 div 16 = unat a"
    "(unat a mod 4 * 16 + unat b div 16) mod 16 * 16 +
       (unat b mod 16 * 4 + unat c div 64) div 4 = unat b"
    "(unat a mod 4 * 16 + unat b div 16) mod 16 * 16 + unat b mod 16 * 4 div 4 = unat b"
    "(unat b mod 16 * 4 + unat c div 64) mod 4 * 64 + unat c mod 64 = unat c"
proof -
  have bb: "unat b div 16 < 16" and cc: "unat c div 64 < 4"
    using unat_byte_less [of b] unat_byte_less [of c] by (auto simp del: unat_byte_less)
  show "unat a div 4 * 4 + (unat a mod 4 * 16 + unat b div 16) div 16 = unat a"
    using bb by simp
  show "unat a div 4 * 4 + unat a mod 4 * 16 div 16 = unat a" by simp
  have m: "(unat a mod 4 * 16 + unat b div 16) mod 16 = unat b div 16"
    using bb by (simp only: mod_mult_self3 mod_less)
  show "(unat a mod 4 * 16 + unat b div 16) mod 16 * 16 +
       (unat b mod 16 * 4 + unat c div 64) div 4 = unat b"
    using bb cc by simp
  show "(unat a mod 4 * 16 + unat b div 16) mod 16 * 16 + unat b mod 16 * 4 div 4 = unat b"
    using bb by simp
  have "(unat b mod 16 * 4 + unat c div 64) mod 4 = unat c div 64"
    using cc by (simp add: mod_mult_self3)
  then show "(unat b mod 16 * 4 + unat c div 64) mod 4 * 64 + unat c mod 64 = unat c" by simp
qed

lemma b64_decode_quads_encode: "b64_decode_quads (b64_encode bs) = Some bs"
proof (induction bs rule: b64_encode.induct)
  case 1
  then show ?case by simp
next
  case (2 a)
  then show ?case
    by (simp add: b64_char_facts b64_bounds b64_reassemble del: mult_div_mod_eq)
next
  case (3 a b)
  then show ?case
    by (simp only: b64_encode.simps b64_decode_quads.simps b64_char_facts b64_bounds
        b64_reassemble option.case prod.case if_False if_True byte_word_of_unat refl)
next
  case (4 a b c rest)
  then show ?case
    by (simp only: b64_encode.simps b64_decode_quads.simps b64_char_facts b64_bounds
        b64_reassemble option.case prod.case if_False if_True byte_word_of_unat refl option.map)
qed

lemma b64_decode_encode [simp]: "b64_decode (b64_encode bs) = Some bs"
proof -
  have "filter (\<lambda>c. of_char c \<noteq> (10::nat) \<and> of_char c \<noteq> (13::nat)) (b64_encode bs) = b64_encode bs"
    using b64_encode_text [of bs] by (simp add: filter_id_conv list_all_iff b64_text_def)
  then show ?thesis by (simp add: b64_decode_def b64_decode_quads_encode)
qed

lemma b64_encode_inject [simp]: "b64_encode a = b64_encode b \<longleftrightarrow> a = b"
  by (metis b64_decode_encode option.inject)

lemma b64_encode_length: "length (b64_encode bs) = 4 * ((length bs + 2) div 3)"
proof (induction bs rule: b64_encode.induct)
  case (4 a b c rest)
  have "(length (a # b # c # rest) + 2) div 3 = Suc ((length rest + 2) div 3)" by simp
  with 4 show ?case by simp
qed simp_all

lemma b64_encode_Nil_iff [simp]: "b64_encode bs = [] \<longleftrightarrow> bs = []"
  using b64_encode_inject [of bs "[]"] by (simp del: b64_encode_inject)

subsection \<open>Decimal numbers\<close>

definition digit_char :: "nat \<Rightarrow> char" where
  "digit_char n = char_of (48 + n)"

definition digit_value :: "char \<Rightarrow> nat option" where
  "digit_value c = (let n = of_char c in if 48 \<le> n \<and> n \<le> 57 then Some (n - 48) else None)"

fun decimal_nat :: "nat \<Rightarrow> string" where
  "decimal_nat n = (if n < 10 then [digit_char n] else decimal_nat (n div 10) @ [digit_char (n mod 10)])"

declare decimal_nat.simps [simp del]

text \<open>\<open>(*big.Int).String\<close> and \<open>strconv.Itoa\<close>.\<close>

definition decimal_int :: "int \<Rightarrow> string" where
  "decimal_int i = (if i < 0 then CHR ''-'' # decimal_nat (nat (- i)) else decimal_nat (nat i))"

fun digits_value_from :: "nat \<Rightarrow> string \<Rightarrow> nat option" where
  "digits_value_from acc [] = Some acc"
| "digits_value_from acc (c # cs) =
     (case digit_value c of None \<Rightarrow> None | Some d \<Rightarrow> digits_value_from (10 * acc + d) cs)"

definition min_int64 :: int where "min_int64 = - (2 ^ 63)"
definition max_int64 :: int where "max_int64 = 2 ^ 63 - 1"

text \<open>
  \<open>strconv.Atoi\<close> on a 64-bit platform: an optional sign, at least one decimal digit, nothing
  else, and a value that fits the type.
\<close>

definition atoi :: "string \<Rightarrow> int option" where
  "atoi s =
     (let neg = (s \<noteq> [] \<and> hd s = CHR ''-'');
          body = (if s \<noteq> [] \<and> (hd s = CHR ''-'' \<or> hd s = CHR ''+'') then tl s else s)
      in if body = [] then None
         else (case digits_value_from 0 body of
           None \<Rightarrow> None
         | Some n \<Rightarrow>
             (let v = (if neg then - int n else int n)
              in if min_int64 \<le> v \<and> v \<le> max_int64 then Some v else None)))"

text \<open>\<open>strconv.ParseBool\<close>.\<close>

definition parse_bool :: "string \<Rightarrow> bool option" where
  "parse_bool s =
     (if s \<in> set [''1'', ''t'', ''T'', ''TRUE'', ''true'', ''True''] then Some True
      else if s \<in> set [''0'', ''f'', ''F'', ''FALSE'', ''false'', ''False''] then Some False
      else None)"

lemma digit_value_char: "n < 10 \<Longrightarrow> digit_value (digit_char n) = Some n"
  by (simp add: digit_value_def digit_char_def)

lemma digit_char_not_sign:
  "n < 10 \<Longrightarrow> digit_char n \<noteq> CHR ''-''" "n < 10 \<Longrightarrow> digit_char n \<noteq> CHR ''+''"
proof -
  have "of_char (digit_char n) = 48 + n" if "n < 10" using that by (simp add: digit_char_def)
  then show "n < 10 \<Longrightarrow> digit_char n \<noteq> CHR ''-''" "n < 10 \<Longrightarrow> digit_char n \<noteq> CHR ''+''"
    by auto
qed

lemma digits_value_from_append:
  "digits_value_from acc (xs @ ys) =
     (case digits_value_from acc xs of None \<Rightarrow> None | Some a \<Rightarrow> digits_value_from a ys)"
  by (induction xs arbitrary: acc) (auto split: option.splits)

lemma digits_value_decimal_nat: "digits_value_from 0 (decimal_nat n) = Some n"
proof (induction n rule: decimal_nat.induct)
  case (1 n)
  show ?case
  proof (cases "n < 10")
    case True
    then show ?thesis by (subst decimal_nat.simps) (simp add: digit_value_char)
  next
    case False
    with 1 show ?thesis
      by (subst decimal_nat.simps) (simp add: digits_value_from_append digit_value_char)
  qed
qed

lemma decimal_nat_not_Nil [simp]: "decimal_nat n \<noteq> []"
  by (subst decimal_nat.simps) simp

lemma hd_decimal_nat: "hd (decimal_nat n) \<noteq> CHR ''-'' \<and> hd (decimal_nat n) \<noteq> CHR ''+''"
proof (induction n rule: decimal_nat.induct)
  case (1 n)
  show ?case
  proof (cases "n < 10")
    case True
    then show ?thesis by (subst (1 2) decimal_nat.simps) (simp add: digit_char_not_sign)
  next
    case False
    with 1 show ?thesis by (subst (1 2) decimal_nat.simps) simp
  qed
qed

lemma decimal_nat_inject [simp]: "decimal_nat m = decimal_nat n \<longleftrightarrow> m = n"
  by (metis digits_value_decimal_nat option.inject)

lemma decimal_int_inject [simp]: "decimal_int i = decimal_int j \<longleftrightarrow> i = j"
proof
  assume eq: "decimal_int i = decimal_int j"
  then have "(i < 0) = (j < 0)"
    using hd_decimal_nat [of "nat i"] hd_decimal_nat [of "nat j"]
    by (auto simp: decimal_int_def split: if_splits) (metis list.sel(1))+
  with eq show "i = j"
    by (auto simp: decimal_int_def split: if_splits)
qed simp

lemma decimal_int_not_Nil [simp]: "decimal_int i \<noteq> []"
  by (simp add: decimal_int_def)

lemma atoi_range: "atoi s = Some v \<Longrightarrow> min_int64 \<le> v \<and> v \<le> max_int64"
  by (auto simp: atoi_def Let_def split: if_splits option.splits)

lemma atoi_Nil [simp]: "atoi [] = None"
  by (simp add: atoi_def)

lemma atoi_decimal_int:
  assumes "min_int64 \<le> i" "i \<le> max_int64"
  shows "atoi (decimal_int i) = Some i"
  using assms hd_decimal_nat [of "nat i"]
  by (auto simp: atoi_def decimal_int_def digits_value_decimal_nat Let_def)

subsection \<open>Prefixes and case\<close>

definition has_prefix :: "string \<Rightarrow> string \<Rightarrow> bool" where
  "has_prefix s p \<longleftrightarrow> take (length p) s = p"

definition trim_prefix :: "string \<Rightarrow> string \<Rightarrow> string" where
  "trim_prefix s p = (if has_prefix s p then drop (length p) s else s)"

lemma has_prefix_append [simp]: "has_prefix (p @ s) p"
  by (simp add: has_prefix_def)

lemma trim_prefix_append [simp]: "trim_prefix (p @ s) p = s"
  by (simp add: trim_prefix_def)

lemma has_prefix_iff: "has_prefix s p \<longleftrightarrow> (\<exists>r. s = p @ r)"
  by (metis append_take_drop_id has_prefix_append has_prefix_def)

text \<open>
  \<open>strings.ToLower\<close> on the ASCII letters; bytes of other characters are left alone. (No other
  character lower-cases to a hexadecimal digit, so the keys of the revocation list that
  can equal a fingerprint are the same as with full Unicode case mapping.)
\<close>

definition lower_char :: "char \<Rightarrow> char" where
  "lower_char c = (let n = (of_char c :: nat) in if 65 \<le> n \<and> n \<le> 90 then char_of (n + 32) else c)"

definition to_lower :: "string \<Rightarrow> string" where
  "to_lower s = map lower_char s"

text \<open>
  \<open>strings.EqualFold\<close> against a text of ASCII letters: letters are compared without case, and
  the two characters outside ASCII that fold to an ASCII letter, the Kelvin sign (UTF-8
  \<open>E2 84 AA\<close>) and the long s (\<open>C5 BF\<close>), count as \<open>k\<close> and \<open>s\<close>.
\<close>

fun fold_chars :: "string \<Rightarrow> string" where
  "fold_chars (a # b # c # rest) =
     (if of_char a = (226::nat) \<and> of_char b = (132::nat) \<and> of_char c = (170::nat)
      then CHR ''k'' # fold_chars rest
      else if of_char a = (197::nat) \<and> of_char b = (191::nat)
      then CHR ''s'' # fold_chars (c # rest)
      else lower_char a # fold_chars (b # c # rest))"
| "fold_chars [a, b] =
     (if of_char a = (197::nat) \<and> of_char b = (191::nat) then [CHR ''s'']
      else [lower_char a, lower_char b])"
| "fold_chars [a] = [lower_char a]"
| "fold_chars [] = []"

definition equal_fold :: "string \<Rightarrow> string \<Rightarrow> bool" where
  "equal_fold s t \<longleftrightarrow> fold_chars s = fold_chars t"

lemma equal_fold_refl [simp]: "equal_fold s s"
  by (simp add: equal_fold_def)

text \<open>The two characters outside ASCII, and how a folded text begins.\<close>

definition kelvin_sign :: string where
  "kelvin_sign = map char_of [226, 132, 170 :: nat]"

definition long_s :: string where
  "long_s = map char_of [197, 191 :: nat]"

lemma length_kelvin [simp]: "length kelvin_sign = 3"
  by (simp add: kelvin_sign_def)

lemma char_of_iff: "c = char_of n \<longleftrightarrow> of_char c = n mod (256 :: nat)"
  by (metis char_of_char of_char_of)

lemma fold_chars_unfold:
  "fold_chars s =
     (if take 3 s = kelvin_sign then CHR ''k'' # fold_chars (drop 3 s)
      else if take 2 s = long_s then CHR ''s'' # fold_chars (drop 2 s)
      else case s of [] \<Rightarrow> [] | a # s' \<Rightarrow> lower_char a # fold_chars s')"
  by (cases s rule: fold_chars.cases)
    (auto simp: kelvin_sign_def long_s_def char_of_iff)

lemma lower_char_ascii:
  assumes "lower_char a = x" "of_char x < (128 :: nat)"
  shows "of_char a < (128 :: nat)"
  using assms by (auto simp: lower_char_def Let_def split: if_splits)

lemma fold_chars_Cons:
  assumes "of_char x < (128 :: nat)" "x \<noteq> CHR ''s''"
  shows "fold_chars s = x # xs \<longleftrightarrow>
     (\<exists>a s'. s = a # s' \<and> lower_char a = x \<and> fold_chars s' = xs) \<or>
     (\<exists>s'. s = kelvin_sign @ s' \<and> x = CHR ''k'' \<and> fold_chars s' = xs)"
proof -
  have k: "take 3 s = kelvin_sign \<longleftrightarrow> (\<exists>s'. s = kelvin_sign @ s')"
    by (metis append_eq_conv_conj append_take_drop_id kelvin_sign_def length_map
        list.size(3,4) numeral_3_eq_3 One_nat_def add.commute plus_1_eq_Suc)
  show ?thesis
  proof (cases "take 3 s = kelvin_sign")
    case True
    with k obtain s' where s: "s = kelvin_sign @ s'" by blast
    have "lower_char (char_of (226::nat)) \<noteq> x"
    proof
      assume "lower_char (char_of (226::nat)) = x"
      from lower_char_ascii [OF this assms(1)] show False by simp
    qed
    then show ?thesis
      by (subst fold_chars_unfold) (auto simp: s kelvin_sign_def)
  next
    case False
    with k have nk: "s \<noteq> kelvin_sign @ s'" for s' by blast
    show ?thesis
    proof (cases "take 2 s = long_s")
      case True
      then obtain b s' where s: "s = char_of (197::nat) # b # s'"
        by (cases s rule: fold_chars.cases) (auto simp: long_s_def)
      have "lower_char (char_of (197::nat)) \<noteq> x"
      proof
        assume "lower_char (char_of (197::nat)) = x"
        from lower_char_ascii [OF this assms(1)] show False by simp
      qed
      with False True nk assms(2) show ?thesis
        by (subst fold_chars_unfold) (auto simp: s)
    next
      case other: False
      with False nk show ?thesis
        by (subst fold_chars_unfold) (auto split: list.splits)
    qed
  qed
qed

lemma fold_chars_Nil [simp]: "fold_chars s = [] \<longleftrightarrow> s = []"
  by (cases s rule: fold_chars.cases) auto

text \<open>Folding to \<open>REVOKED\<close>, spelled out.\<close>

lemma equal_fold_revoked:
  "equal_fold s ''REVOKED'' \<longleftrightarrow>
     to_lower s = ''revoked'' \<or>
     to_lower (take 4 s) = ''revo'' \<and> take 3 (drop 4 s) = kelvin_sign \<and> to_lower (drop 7 s) = ''ed''"
proof -
  have low: "fold_chars ''REVOKED'' = ''revoked''"
    by (simp add: lower_char_def char_of_def bit_Suc_0_iff)
  have ed: "fold_chars r = ''ed'' \<longleftrightarrow> to_lower r = ''ed''" for r
    by (auto simp: fold_chars_Cons to_lower_def map_eq_Cons_conv)
  have ked: "fold_chars r = ''ked'' \<longleftrightarrow>
      to_lower r = ''ked'' \<or> take 3 r = kelvin_sign \<and> to_lower (drop 3 r) = ''ed''" for r
  proof -
    have "(\<exists>b. r = kelvin_sign @ b \<and> to_lower b = ''ed'') \<longleftrightarrow>
        take 3 r = kelvin_sign \<and> to_lower (drop 3 r) = ''ed''"
      by (metis append_eq_conv_conj append_take_drop_id length_kelvin)
    then show ?thesis
      by (auto simp: fold_chars_Cons [of "CHR ''k''"] ed) (auto simp: to_lower_def map_eq_Cons_conv)
  qed
  have "fold_chars s = ''revoked'' \<longleftrightarrow> (\<exists>a b c d r. s = a # b # c # d # r \<and>
      to_lower [a, b, c, d] = ''revo'' \<and> fold_chars r = ''ked'')"
    by (auto simp: fold_chars_Cons to_lower_def)
  also have "\<dots> \<longleftrightarrow> to_lower s = ''revoked'' \<or>
      to_lower (take 4 s) = ''revo'' \<and> take 3 (drop 4 s) = kelvin_sign \<and> to_lower (drop 7 s) = ''ed''"
  proof (cases "4 \<le> length s")
    case True
    then obtain a b c d r where "s = a # b # c # d # r"
      by (auto simp: numeral_eq_Suc Suc_le_length_iff)
    then show ?thesis by (simp add: ked) (auto simp: to_lower_def)
  next
    case False
    then have "length (to_lower s) < 4" "length (to_lower (take 4 s)) < 4" by (simp_all add: to_lower_def)
    then show ?thesis by (auto simp: to_lower_def)
  qed
  finally show ?thesis unfolding equal_fold_def low .
qed

lemma lower_char_hex: "is_hex_lower c \<Longrightarrow> lower_char c = c"
  by (auto simp: is_hex_lower_def lower_char_def Let_def)

lemma to_lower_hex: "list_all is_hex_lower s \<Longrightarrow> to_lower s = s"
  by (induction s) (auto simp: to_lower_def lower_char_hex)

lemma to_lower_hex_encode [simp]: "to_lower (hex_encode bs) = hex_encode bs"
  by (rule to_lower_hex) (rule hex_encode_lower)

subsection \<open>Slash-separated paths\<close>

abbreviation slash :: char where "slash \<equiv> CHR ''/''"

fun split_slash :: "string \<Rightarrow> string list" where
  "split_slash [] = [[]]"
| "split_slash (c # cs) =
     (if c = slash then [] # split_slash cs
      else (case split_slash cs of [] \<Rightarrow> [[c]] | w # ws \<Rightarrow> (c # w) # ws))"

fun join_slash :: "string list \<Rightarrow> string" where
  "join_slash [] = []"
| "join_slash [w] = w"
| "join_slash (w # ws) = w @ slash # join_slash ws"

definition clean_step :: "bool \<Rightarrow> string list \<Rightarrow> string \<Rightarrow> string list" where
  "clean_step rooted out w =
     (if w = [] \<or> w = ''.'' then out
      else if w = ''..'' then
        (if out \<noteq> [] \<and> last out \<noteq> ''..'' then butlast out
         else if rooted then out else out @ [w])
      else out @ [w])"

definition clean_path :: "string \<Rightarrow> string" where
  "clean_path p =
     (if p = [] then ''.''
      else let rooted = (hd p = slash);
               body = join_slash (foldl (clean_step rooted) [] (split_slash p))
           in if rooted then slash # body else if body = [] then ''.'' else body)"

lemma clean_path_Nil [simp]: "clean_path [] = ''.''"
  by (simp add: clean_path_def)

definition path_join :: "string list \<Rightarrow> string" where
  "path_join ws = (case dropWhile (\<lambda>w. w = []) ws of [] \<Rightarrow> [] | vs \<Rightarrow> clean_path (join_slash vs))"

text \<open>The text up to and including the last slash, and \<open>filepath.Dir\<close>.\<close>

definition up_to_last_slash :: "string \<Rightarrow> string" where
  "up_to_last_slash p = rev (dropWhile (\<lambda>c. c \<noteq> slash) (rev p))"

definition path_dir :: "string \<Rightarrow> string" where
  "path_dir p = clean_path (up_to_last_slash p)"

subsection \<open>Rendering times and durations\<close>

definition nanos_per_second :: int where "nanos_per_second = 1000000000"

text \<open>\<open>t.Unix()\<close>, and \<open>t.UTC().Format(time.RFC3339)\<close> for the years the program meets (0 to 9999).\<close>

definition unix_seconds :: "instant \<Rightarrow> int" where
  "unix_seconds t = t div nanos_per_second"

definition civil_date :: "int \<Rightarrow> int \<times> int \<times> int" where
  "civil_date days =
     (let z = days + 719468;
          era = z div 146097;
          doe = z mod 146097;
          yoe = (doe - doe div 1460 + doe div 36524 - doe div 146096) div 365;
          doy = doe - (365 * yoe + yoe div 4 - yoe div 100);
          mp = (5 * doy + 2) div 153;
          d = doy - (153 * mp + 2) div 5 + 1;
          m = (if mp < 10 then mp + 3 else mp - 9);
          y = yoe + era * 400 + (if m \<le> 2 then 1 else 0)
      in (y, m, d))"

definition pad_left :: "nat \<Rightarrow> int \<Rightarrow> string" where
  "pad_left w i = (let ds = decimal_nat (nat i) in replicate (w - length ds) CHR ''0'' @ ds)"

definition rfc3339 :: "instant \<Rightarrow> string" where
  "rfc3339 t =
     (let secs = unix_seconds t;
          sod = secs mod 86400
      in case civil_date (secs div 86400) of (y, m, d) \<Rightarrow>
           pad_left 4 y @ ''-'' @ pad_left 2 m @ ''-'' @ pad_left 2 d @ ''T'' @
           pad_left 2 (sod div 3600) @ '':'' @ pad_left 2 (sod div 60 mod 60) @ '':'' @
           pad_left 2 (sod mod 60) @ ''Z'')"

text \<open>
  \<open>int64(d.Seconds())\<close>: \<open>Seconds\<close> adds the whole seconds and the fraction as 64-bit floats and
  the conversion truncates towards zero. With \<open>a\<close> whole seconds and \<open>n\<close> further nanoseconds
  the sum rounds up to the next whole second when the distance to it, \<open>(10^9 - n)/10^9\<close>, is
  at most half the spacing \<open>2^(e-52)\<close> of the floats around \<open>a\<close>, where \<open>e\<close> is the binary
  logarithm of \<open>a\<close> (a tie goes to the whole number, which is even in that spacing).
\<close>

fun ilog2 :: "nat \<Rightarrow> nat" where
  "ilog2 n = (if n < 2 then 0 else Suc (ilog2 (n div 2)))"

declare ilog2.simps [simp del]

definition duration_seconds_int :: "duration \<Rightarrow> int" where
  "duration_seconds_int ttl =
     (let d = sint ttl;
          a = \<bar>d\<bar> div nanos_per_second;
          n = \<bar>d\<bar> mod nanos_per_second;
          up = (a \<noteq> 0 \<and>
                (nanos_per_second - n) * 2 ^ (53 - ilog2 (nat a)) \<le> nanos_per_second)
      in sgn d * (a + (if up then 1 else 0)))"

lemma ilog2_bound: "n < 2 ^ k \<Longrightarrow> 0 < k \<Longrightarrow> ilog2 n < k"
proof (induction n arbitrary: k rule: ilog2.induct)
  case (1 n)
  show ?case
  proof (cases "n < 2")
    case True
    with 1 show ?thesis by (simp add: ilog2.simps [of n])
  next
    case False
    from "1.prems" obtain j where k: "k = Suc j" by (cases k) auto
    have j: "0 < j" using "1.prems" False k by (cases j) auto
    from "1.prems" k have "n div 2 < 2 ^ j" by (simp add: less_mult_imp_div_less)
    with "1.IH" [OF False _ j] False k show ?thesis by (simp add: ilog2.simps [of n])
  qed
qed

lemma duration_seconds_int_whole:
  assumes "sint ttl = k * nanos_per_second"
  shows "duration_seconds_int ttl = k"
proof -
  define a where "a = \<bar>k\<bar>"
  have abs_d: "\<bar>sint ttl\<bar> = a * nanos_per_second"
    using assms by (simp add: a_def abs_mult nanos_per_second_def)
  have "\<bar>sint ttl\<bar> \<le> 2 ^ 63"
    using sint_range_size [of ttl] by (simp add: word_size abs_le_iff)
  with abs_d have "a < 2 ^ 53" by (simp add: nanos_per_second_def)
  then have "nat a < 2 ^ 53" by (simp add: nat_less_iff a_def)
  then have "ilog2 (nat a) < 53" by (rule ilog2_bound) simp
  then have "(1::int) < 2 ^ (53 - ilog2 (nat a))" by simp
  then have no_up: "\<not> nanos_per_second * 2 ^ (53 - ilog2 (nat a)) \<le> nanos_per_second"
    by (simp add: nanos_per_second_def)
  have "sgn (sint ttl) * a = k"
    using assms by (simp add: a_def nanos_per_second_def sgn_mult sgn_mult_abs)
  with no_up abs_d show ?thesis
    by (simp add: duration_seconds_int_def Let_def nanos_per_second_def)
qed

end
