(* ===== verification/Asn1.thy ===== *)
theory Asn1
  imports GoText
begin

text \<open>
  The part of Go's \<open>encoding/asn1\<close> that the attestation code runs: the header parser
  \<open>parseTagAndLength\<close> with its DER strictness (minimal tags and lengths, no indefinite
  lengths, the 32-bit limits), \<open>parseField\<close> for the Go types of the decoded structs
  (\<open>int\<close>, \<open>asn1.Enumerated\<close>, \<open>bool\<close>, \<open>[]byte\<close>, \<open>asn1.RawValue\<close>, structs, slices, the \<open>optional\<close>
  and \<open>set\<close> tags) and \<open>parseSequenceOf\<close>. Offsets into a byte slice are suffixes of a list.
\<close>

datatype asn1_error =
    Asn1Truncated | Asn1NonMinimalTag | Asn1NonMinimalInteger | Asn1Base128TooLarge
  | Asn1Indefinite | Asn1LengthTooLarge | Asn1LeadingZeroLength | Asn1NonMinimalLength
  | Asn1SequenceTruncated | Asn1TagMismatch | Asn1DataTruncated
  | Asn1EmptyInteger | Asn1IntegerTooLarge | Asn1BadBoolean

record tag_and_length =
  tl_class :: nat
  tl_compound :: bool
  tl_tag :: nat
  tl_length :: nat

subsection \<open>Headers\<close>

fun parse_base128 :: "nat \<Rightarrow> nat \<Rightarrow> bytes \<Rightarrow> asn1_error + nat \<times> bytes" where
  "parse_base128 shifted acc [] = Inl Asn1Truncated"
| "parse_base128 shifted acc (b # bs) =
     (if shifted = 5 then Inl Asn1Base128TooLarge
      else if shifted = 0 \<and> unat b = 128 then Inl Asn1NonMinimalInteger
      else let acc' = acc * 128 + unat b mod 128
           in if unat b < 128
              then (if acc' > 2147483647 then Inl Asn1Base128TooLarge else Inr (acc', bs))
              else parse_base128 (Suc shifted) acc' bs)"

fun parse_length_bytes :: "nat \<Rightarrow> nat \<Rightarrow> bytes \<Rightarrow> asn1_error + nat \<times> bytes" where
  "parse_length_bytes 0 acc bs = Inr (acc, bs)"
| "parse_length_bytes (Suc n) acc [] = Inl Asn1Truncated"
| "parse_length_bytes (Suc n) acc (b # bs) =
     (if acc \<ge> 8388608 then Inl Asn1LengthTooLarge
      else let acc' = acc * 256 + unat b
           in if acc' = 0 then Inl Asn1LeadingZeroLength else parse_length_bytes n acc' bs)"

definition parse_length :: "bytes \<Rightarrow> asn1_error + nat \<times> bytes" where
  "parse_length bs =
     (case bs of
        [] \<Rightarrow> Inl Asn1Truncated
      | b # rest \<Rightarrow>
          if unat b < 128 then Inr (unat b, rest)
          else if unat b = 128 then Inl Asn1Indefinite
          else and_then (parse_length_bytes (unat b - 128) 0 rest)
                 (\<lambda>(n, rest'). if n < 128 then Inl Asn1NonMinimalLength else Inr (n, rest')))"

definition parse_tag_and_length :: "bytes \<Rightarrow> asn1_error + tag_and_length \<times> bytes" where
  "parse_tag_and_length bs =
     (case bs of
        [] \<Rightarrow> Inl Asn1Truncated
      | b # rest \<Rightarrow>
          and_then
            (if unat b mod 32 = 31
             then and_then (parse_base128 0 0 rest)
                    (\<lambda>(t, rest'). if t < 31 then Inl Asn1NonMinimalTag else Inr (t, rest'))
             else Inr (unat b mod 32, rest))
            (\<lambda>(t, rest'). and_then (parse_length rest')
               (\<lambda>(n, rest''). Inr (\<lparr>tl_class = unat b div 64, tl_compound = odd (unat b div 32),
                                    tl_tag = t, tl_length = n\<rparr>, rest''))))"

lemma parse_base128_shorter:
  "parse_base128 s a bs = Inr (t, rest) \<Longrightarrow> length rest < length bs"
  by (induction s a bs rule: parse_base128.induct) (fastforce simp: Let_def split: if_splits)+

lemma parse_length_bytes_shorter:
  "parse_length_bytes n a bs = Inr (t, rest) \<Longrightarrow> length rest \<le> length bs"
  by (induction n a bs rule: parse_length_bytes.induct) (fastforce simp: Let_def split: if_splits)+

lemma parse_length_shorter: "parse_length bs = Inr (t, rest) \<Longrightarrow> length rest < length bs"
  by (auto simp: parse_length_def less_Suc_eq_le dest!: parse_length_bytes_shorter
      split: list.splits if_splits)

lemma parse_tag_and_length_shorter:
  "parse_tag_and_length bs = Inr (t, rest) \<Longrightarrow> length rest < length bs"
  by (fastforce simp: parse_tag_and_length_def dest!: parse_length_shorter parse_base128_shorter
      split: list.splits if_splits)

subsection \<open>Primitive values\<close>

definition big_endian :: "bytes \<Rightarrow> int" where
  "big_endian bs = foldl (\<lambda>a b. a * 256 + uint b) 0 bs"

definition twos_complement :: "bytes \<Rightarrow> int" where
  "twos_complement bs =
     (if bs \<noteq> [] \<and> 128 \<le> unat (hd bs) then big_endian bs - 256 ^ length bs else big_endian bs)"

definition check_integer :: "bytes \<Rightarrow> asn1_error + unit" where
  "check_integer bs =
     (case bs of
        [] \<Rightarrow> Inl Asn1EmptyInteger
      | [_] \<Rightarrow> Inr ()
      | a # b # _ \<Rightarrow>
          if (unat a = 0 \<and> unat b < 128) \<or> (unat a = 255 \<and> 128 \<le> unat b)
          then Inl Asn1NonMinimalInteger else Inr ())"

definition parse_int64 :: "bytes \<Rightarrow> asn1_error + int" where
  "parse_int64 bs =
     and_then (check_integer bs)
       (\<lambda>_. if length bs > 8 then Inl Asn1IntegerTooLarge else Inr (twos_complement bs))"

definition parse_int32 :: "bytes \<Rightarrow> asn1_error + int" where
  "parse_int32 bs =
     and_then (check_integer bs) (\<lambda>_. and_then (parse_int64 bs)
       (\<lambda>v. if v < - (2 ^ 31) \<or> v > 2 ^ 31 - 1 then Inl Asn1IntegerTooLarge else Inr v))"

definition parse_boolean :: "bytes \<Rightarrow> asn1_error + bool" where
  "parse_boolean bs =
     (case bs of
        [b] \<Rightarrow> if unat b = 0 then Inr False else if unat b = 255 then Inr True else Inl Asn1BadBoolean
      | _ \<Rightarrow> Inl Asn1BadBoolean)"

subsection \<open>Fields\<close>

record raw_value =
  rv_class :: nat
  rv_tag :: nat
  rv_compound :: bool
  rv_bytes :: bytes
  rv_full :: bytes

text \<open>
  \<open>parseField\<close>: a missing or differently tagged optional field takes its default and
  consumes nothing; the tag is compared before the length is.
\<close>

definition parse_field ::
  "'a option \<Rightarrow> (tag_and_length \<Rightarrow> bool) \<Rightarrow> (tag_and_length \<Rightarrow> bytes \<Rightarrow> bytes \<Rightarrow> asn1_error + 'a) \<Rightarrow>
     bytes \<Rightarrow> asn1_error + 'a \<times> bytes" where
  "parse_field dflt matches conv bs =
     (if bs = [] then (case dflt of Some d \<Rightarrow> Inr (d, bs) | None \<Rightarrow> Inl Asn1SequenceTruncated)
      else and_then (parse_tag_and_length bs) (\<lambda>(t, rest).
        if \<not> matches t then (case dflt of Some d \<Rightarrow> Inr (d, bs) | None \<Rightarrow> Inl Asn1TagMismatch)
        else if length rest < tl_length t then Inl Asn1DataTruncated
        else let inner = take (tl_length t) rest;
                 rest' = drop (tl_length t) rest;
                 full = take (length bs - length rest') bs
             in and_then (conv t inner full) (\<lambda>v. Inr (v, rest'))))"

definition universal :: "nat \<Rightarrow> bool \<Rightarrow> tag_and_length \<Rightarrow> bool" where
  "universal tag compound t \<longleftrightarrow> tl_class t = 0 \<and> tl_tag t = tag \<and> tl_compound t = compound"

definition parse_int_field :: "bytes \<Rightarrow> asn1_error + int \<times> bytes" where
  "parse_int_field = parse_field None (universal 2 False) (\<lambda>_ inner _. parse_int64 inner)"

definition parse_enumerated_field :: "bytes \<Rightarrow> asn1_error + int \<times> bytes" where
  "parse_enumerated_field = parse_field None (universal 10 False) (\<lambda>_ inner _. parse_int32 inner)"

definition parse_boolean_field :: "bytes \<Rightarrow> asn1_error + bool \<times> bytes" where
  "parse_boolean_field = parse_field None (universal 1 False) (\<lambda>_ inner _. parse_boolean inner)"

definition parse_octets_field :: "bytes option \<Rightarrow> bytes \<Rightarrow> asn1_error + bytes \<times> bytes" where
  "parse_octets_field dflt = parse_field dflt (universal 4 False) (\<lambda>_ inner _. Inr inner)"

definition parse_raw_field :: "bytes \<Rightarrow> asn1_error + raw_value \<times> bytes" where
  "parse_raw_field =
     parse_field None (\<lambda>_. True)
       (\<lambda>t inner full. Inr \<lparr>rv_class = tl_class t, rv_tag = tl_tag t, rv_compound = tl_compound t,
                            rv_bytes = inner, rv_full = full\<rparr>)"

text \<open>A struct: its fields one after the other; bytes left at the end are allowed.\<close>

definition parse_struct :: "(bytes \<Rightarrow> asn1_error + 'a) \<Rightarrow> bytes \<Rightarrow> asn1_error + 'a \<times> bytes" where
  "parse_struct p = parse_field None (universal 16 True) (\<lambda>_ inner _. p inner)"

text \<open>
  \<open>parseSequenceOf\<close>: a first pass over the headers counts the elements (and refuses a
  wrong tag), a second one decodes that many.
\<close>

function count_elements :: "(tag_and_length \<Rightarrow> bool) \<Rightarrow> bytes \<Rightarrow> asn1_error + nat" where
  "count_elements matches bs =
     (if bs = [] then Inr 0
      else and_then (parse_tag_and_length bs) (\<lambda>(t, rest).
        if \<not> matches t then Inl Asn1TagMismatch
        else if length rest < tl_length t then Inl Asn1DataTruncated
        else and_then (count_elements matches (drop (tl_length t) rest)) (\<lambda>n. Inr (Suc n))))"
  by pat_completeness auto
termination
  by (relation "measure (\<lambda>(_, bs). length bs)") (auto dest!: parse_tag_and_length_shorter)

declare count_elements.simps [simp del]

fun parse_elements :: "nat \<Rightarrow> (bytes \<Rightarrow> asn1_error + 'a \<times> bytes) \<Rightarrow> bytes \<Rightarrow> asn1_error + 'a list" where
  "parse_elements 0 p bs = Inr []"
| "parse_elements (Suc n) p bs =
     and_then (p bs) (\<lambda>(x, rest). and_then (parse_elements n p rest) (\<lambda>xs. Inr (x # xs)))"

definition parse_sequence_of ::
  "(tag_and_length \<Rightarrow> bool) \<Rightarrow> (bytes \<Rightarrow> asn1_error + 'a \<times> bytes) \<Rightarrow> bytes \<Rightarrow> asn1_error + 'a list" where
  "parse_sequence_of matches p bs =
     and_then (count_elements matches bs) (\<lambda>n. parse_elements n p bs)"

definition parse_slice_field ::
  "bool \<Rightarrow> (tag_and_length \<Rightarrow> bool) \<Rightarrow> (bytes \<Rightarrow> asn1_error + 'a \<times> bytes) \<Rightarrow>
     bytes \<Rightarrow> asn1_error + 'a list \<times> bytes" where
  "parse_slice_field is_set matches p =
     parse_field None (universal (if is_set then 17 else 16) True)
       (\<lambda>_ inner _. parse_sequence_of matches p inner)"

text \<open>\<open>asn1.Unmarshal\<close> whose remaining bytes the caller ignores.\<close>

definition unmarshal :: "(bytes \<Rightarrow> asn1_error + 'a \<times> bytes) \<Rightarrow> bytes \<Rightarrow> asn1_error + 'a" where
  "unmarshal p bs = and_then (p bs) (\<lambda>(x, _). Inr x)"

lemma unmarshal_Nil_field [simp]:
  "unmarshal (parse_field None m c) [] = Inl Asn1SequenceTruncated"
  by (simp add: unmarshal_def parse_field_def)

lemma parse_field_shorter:
  "parse_field dflt m c bs = Inr (v, rest) \<Longrightarrow> length rest \<le> length bs"
  by (auto simp: parse_field_def Let_def dest!: parse_tag_and_length_shorter
      split: if_splits option.splits)

lemma parse_elements_length: "parse_elements n p bs = Inr xs \<Longrightarrow> length xs = n"
  by (induction n p bs arbitrary: xs rule: parse_elements.induct) auto

text \<open>The range of the integers the parser returns.\<close>

lemma big_endian_snoc: "big_endian (bs @ [b]) = big_endian bs * 256 + uint b"
  by (simp add: big_endian_def)

lemma uint_byte_bounds: "0 \<le> uint (b :: byte)" "uint (b :: byte) < 256"
  using uint_lt2p [of b] by simp_all

lemma big_endian_bounds: "0 \<le> big_endian bs \<and> big_endian bs < 256 ^ length bs"
proof (induction bs rule: rev_induct)
  case Nil
  then show ?case by (simp add: big_endian_def)
next
  case (snoc b bs)
  then have "big_endian bs * 256 + uint b < 256 ^ length bs * 256"
    using uint_byte_bounds [of b] by linarith
  with snoc show ?case using uint_byte_bounds [of b]
    by (simp add: big_endian_snoc mult.commute)
qed

lemma parse_int32_range: "parse_int32 bs = Inr v \<Longrightarrow> - (2 ^ 31) \<le> v \<and> v < 2 ^ 31"
  by (auto simp: parse_int32_def split: if_splits)

end
