(* ===== verification/X509.thy ===== *)
theory X509
  imports Asn1
begin

text \<open>
  What the backend sees of \<open>crypto/x509\<close>, \<open>encoding/pem\<close>, \<open>encoding/json\<close> and \<open>net/url\<close>: the
  values they return (certificates, requests, keys, pools) as records, and the functions
  whose algorithms are cryptography or general-purpose parsing as the fields of one record,
  \<open>golib\<close>, an argument of every definition that calls them. The facts of their
  documentation the proofs rely on are the named predicates at the end.
\<close>

type_synonym lib_error = string

subsection \<open>Keys\<close>

text \<open>
  A \<open>crypto.PublicKey\<close> as parsing leaves it: \<open>nil\<close> for an algorithm Go does not know, a key
  that \<open>MarshalPKIXPublicKey\<close> cannot encode (DSA), or one it can, identified with its
  canonical SubjectPublicKeyInfo encoding.
\<close>

datatype public_key = NilKey | UnencodableKey | EncodableKey bytes

definition MarshalPKIXPublicKey :: "public_key \<Rightarrow> lib_error + bytes" where
  "MarshalPKIXPublicKey k =
     (case k of EncodableKey der \<Rightarrow> Inr der | _ \<Rightarrow> Inl ''x509: unsupported public key type'')"

lemma MarshalPKIXPublicKey_eq_Inr [simp]:
  "MarshalPKIXPublicKey k = Inr der \<longleftrightarrow> k = EncodableKey der"
  by (cases k) (auto simp: MarshalPKIXPublicKey_def)

record ecdsa_key =
  key_secret :: bytes
  key_public :: public_key

datatype any_key = EcdsaPrivate ecdsa_key | OtherPrivate

subsection \<open>Certificates and requests\<close>

record extension =
  ext_id :: "nat list"
  ext_value :: bytes

fun oid_string :: "nat list \<Rightarrow> string" where
  "oid_string [] = []"
| "oid_string [n] = decimal_nat n"
| "oid_string (n # ns) = decimal_nat n @ CHR ''.'' # oid_string ns"

type_synonym key_usage = "64 word"

definition KeyUsageDigitalSignature :: key_usage where "KeyUsageDigitalSignature = 1"
definition KeyUsageKeyEncipherment :: key_usage where "KeyUsageKeyEncipherment = 4"
definition KeyUsageCertSign :: key_usage where "KeyUsageCertSign = 32"
definition KeyUsageCRLSign :: key_usage where "KeyUsageCRLSign = 64"

datatype ext_key_usage = ExtKeyUsageAny | ExtKeyUsageServerAuth | ExtKeyUsageClientAuth

text \<open>\<open>x509.Certificate\<close>, the type of templates and of parsed certificates alike.\<close>

record certificate =
  Raw :: bytes
  SerialNumber :: int
  CommonName :: string
  Organization :: "string list"
  IssuerCommonName :: string
  URIs :: "string list"
  DNSNames :: "string list"
  IPAddresses :: "bytes list"
  NotBefore :: instant
  NotAfter :: instant
  PublicKey :: public_key
  KeyUsage :: key_usage
  ExtKeyUsage :: "ext_key_usage list"
  BasicConstraintsValid :: bool
  IsCA :: bool
  MaxPathLen :: int
  Extensions :: "extension list"

text \<open>The zero value of the struct, from which a Go composite literal starts.\<close>

definition zero_certificate :: certificate where
  "zero_certificate = \<lparr>Raw = [], SerialNumber = 0, CommonName = [], Organization = [],
     IssuerCommonName = [], URIs = [], DNSNames = [], IPAddresses = [], NotBefore = 0,
     NotAfter = 0, PublicKey = NilKey, KeyUsage = 0, ExtKeyUsage = [],
     BasicConstraintsValid = False, IsCA = False, MaxPathLen = 0, Extensions = []\<rparr>"

record certificate_request =
  csr_raw :: bytes
  csr_public_key :: public_key

record pem_block =
  block_type :: string
  block_headers :: "(string \<times> string) list"
  block_bytes :: bytes

text \<open>
  A certificate pool keeps the certificates in the order they were added, each once
  (pools compare the raw encodings).
\<close>

type_synonym cert_pool = "certificate list"

definition AddCert :: "cert_pool \<Rightarrow> certificate \<Rightarrow> cert_pool" where
  "AddCert pool c = (if Raw c \<in> Raw ` set pool then pool else pool @ [c])"

subsection \<open>The library functions that stay parameters\<close>

record enroll_request =
  DeviceID :: string
  CSR :: string
  AttestationChain :: "string list"

text \<open>
  \<open>lib_verify\<close> is \<open>(*Certificate).Verify\<close> with the roots, the intermediates, the accepted
  extended key usages and the current time; \<open>lib_create_certificate\<close> takes the random
  bytes the signature consumes. \<open>lib_status_entries\<close> is the JSON decoding of the
  revocation list, its entries in the order Go's map iteration yields them.
\<close>

text \<open>A TLS certificate and key as \<open>tls.LoadX509KeyPair\<close> returns them: the chain of DER encodings.\<close>

type_synonym tls_certificate = "bytes list"

record golib =
  lib_parse_certificate :: "bytes \<Rightarrow> lib_error + certificate"
  lib_parse_request :: "bytes \<Rightarrow> lib_error + certificate_request"
  lib_check_signature :: "certificate_request \<Rightarrow> bool"
  lib_verify ::
    "certificate \<Rightarrow> cert_pool \<Rightarrow> cert_pool \<Rightarrow> ext_key_usage list \<Rightarrow> instant \<Rightarrow> bool"
  lib_create_certificate ::
    "bytes \<Rightarrow> certificate \<Rightarrow> certificate \<Rightarrow> public_key \<Rightarrow> ecdsa_key \<Rightarrow> lib_error + bytes"
  lib_url_parse :: "string \<Rightarrow> lib_error + string"
  lib_pem_decode :: "bytes \<Rightarrow> (pem_block \<times> bytes) option"
  lib_pem_encode :: "string \<Rightarrow> bytes \<Rightarrow> bytes"
  lib_parse_ec_key :: "bytes \<Rightarrow> lib_error + ecdsa_key"
  lib_parse_pkcs8_key :: "bytes \<Rightarrow> lib_error + any_key"
  lib_marshal_ec_key :: "ecdsa_key \<Rightarrow> lib_error + bytes"
  lib_decode_enroll_request :: "bytes \<Rightarrow> lib_error + enroll_request"
  lib_x509_key_pair :: "bytes \<Rightarrow> bytes \<Rightarrow> lib_error + tls_certificate"
  lib_status_entries :: "bytes \<Rightarrow> lib_error + (string \<times> string) list"

text \<open>
  Documented behaviour of \<open>CreateCertificate\<close> and \<open>ParseCertificate\<close>: parsing what was
  created from a template gives back the template's serial number, subject and URIs and
  the public key the certificate was created for.
\<close>

definition certificates_round_trip :: "golib \<Rightarrow> bool" where
  "certificates_round_trip lib \<longleftrightarrow>
     (\<forall>e t p k sk der c.
        lib_create_certificate lib e t p k sk = Inr der \<longrightarrow>
        lib_parse_certificate lib der = Inr c \<longrightarrow>
        SerialNumber c = SerialNumber t \<and> CommonName c = CommonName t \<and>
        URIs c = URIs t \<and> PublicKey c = k)"

lemma certificates_round_tripD:
  assumes "certificates_round_trip lib"
    and "lib_create_certificate lib e t p k sk = Inr der"
    and "lib_parse_certificate lib der = Inr c"
  shows "SerialNumber c = SerialNumber t" "CommonName c = CommonName t" "URIs c = URIs t"
    "PublicKey c = k"
  using assms unfolding certificates_round_trip_def by blast+

text \<open>Documented behaviour of \<open>url.Parse\<close>: a URN of plain characters is kept as it is.\<close>

definition parses_plain_urns :: "golib \<Rightarrow> bool" where
  "parses_plain_urns lib \<longleftrightarrow>
     (\<forall>s. list_all is_hex_lower s \<longrightarrow>
        lib_url_parse lib (''urn:device:'' @ s) = Inr (''urn:device:'' @ s))"

text \<open>
  Documented behaviour of \<open>pem\<close> (a block without headers survives encoding and decoding) and
  of \<open>MarshalECPrivateKey\<close> and \<open>ParseECPrivateKey\<close>.
\<close>

definition pem_round_trip :: "golib \<Rightarrow> bool" where
  "pem_round_trip lib \<longleftrightarrow>
     (\<forall>ty der. lib_pem_decode lib (lib_pem_encode lib ty der) =
        Some (\<lparr>block_type = ty, block_headers = [], block_bytes = der\<rparr>, []))"

definition ec_keys_round_trip :: "golib \<Rightarrow> bool" where
  "ec_keys_round_trip lib \<longleftrightarrow>
     (\<forall>k der. lib_marshal_ec_key lib k = Inr der \<longrightarrow> lib_parse_ec_key lib der = Inr k)"

end
