(* ===== verification/AttestationTypes.thy ===== *)
theory AttestationTypes
  imports X509
begin

text \<open>
  \<open>internal/attestation/types.go\<close>: the policy, the ASN.1 structures of the Android key
  attestation extension with their decoders, and the record the verifier returns.
\<close>

definition AndroidKeyAttestationOID :: string where
  "AndroidKeyAttestationOID = ''1.3.6.1.4.1.11129.2.1.17''"

definition TagRootOfTrust :: nat where "TagRootOfTrust = 704"
definition TagOSVersion :: nat where "TagOSVersion = 705"
definition TagOSPatch :: nat where "TagOSPatch = 706"
definition TagAttestationApplicationId :: nat where "TagAttestationApplicationId = 709"

lemmas tag_defs = TagRootOfTrust_def TagOSVersion_def TagOSPatch_def TagAttestationApplicationId_def

subsection \<open>Enumerations\<close>

text \<open>Go's named integer types: any integer converts to them, three or four values have names.\<close>

type_synonym SecurityLevel = int

definition SecurityLevelSoftware :: SecurityLevel where "SecurityLevelSoftware = 0"
definition SecurityLevelTrustedEnvironment :: SecurityLevel where
  "SecurityLevelTrustedEnvironment = 1"
definition SecurityLevelStrongBox :: SecurityLevel where "SecurityLevelStrongBox = 2"

definition SecurityLevel_String :: "SecurityLevel \<Rightarrow> string" where
  "SecurityLevel_String s =
     (if s = SecurityLevelSoftware then ''SOFTWARE''
      else if s = SecurityLevelTrustedEnvironment then ''TEE''
      else if s = SecurityLevelStrongBox then ''STRONGBOX''
      else ''UNKNOWN'')"

type_synonym VerifiedBootState = int

definition VerifiedBootStateVerified :: VerifiedBootState where "VerifiedBootStateVerified = 0"
definition VerifiedBootStateSelfSigned :: VerifiedBootState where
  "VerifiedBootStateSelfSigned = 1"
definition VerifiedBootStateUnverified :: VerifiedBootState where
  "VerifiedBootStateUnverified = 2"
definition VerifiedBootStateFailed :: VerifiedBootState where "VerifiedBootStateFailed = 3"

definition VerifiedBootState_String :: "VerifiedBootState \<Rightarrow> string" where
  "VerifiedBootState_String v =
     (if v = VerifiedBootStateVerified then ''Verified''
      else if v = VerifiedBootStateSelfSigned then ''SelfSigned''
      else if v = VerifiedBootStateUnverified then ''Unverified''
      else if v = VerifiedBootStateFailed then ''Failed''
      else ''Unknown'')"

lemmas level_defs = SecurityLevelSoftware_def SecurityLevelTrustedEnvironment_def
  SecurityLevelStrongBox_def

definition hardware_level :: "SecurityLevel \<Rightarrow> bool" where
  "hardware_level s \<longleftrightarrow> s = SecurityLevelTrustedEnvironment \<or> s = SecurityLevelStrongBox"

lemma SecurityLevel_String_hardware:
  "SecurityLevel_String s \<in> {''TEE'', ''STRONGBOX''} \<longleftrightarrow> hardware_level s"
  by (auto simp: SecurityLevel_String_def hardware_level_def level_defs)

subsection \<open>The decoded structures\<close>

record KeyDescription =
  kd_AttestationVersion :: int
  kd_AttestationSecurityLevel :: int
  kd_KeymasterVersion :: int
  kd_KeymasterSecurityLevel :: int
  kd_AttestationChallenge :: bytes
  kd_UniqueID :: bytes
  kd_SoftwareEnforced :: raw_value
  kd_TeeEnforced :: raw_value

definition KeyDescription_fields :: "bytes \<Rightarrow> asn1_error + KeyDescription" where
  "KeyDescription_fields bs0 =
     and_then (parse_int_field bs0) (\<lambda>(version, bs1).
     and_then (parse_enumerated_field bs1) (\<lambda>(level, bs2).
     and_then (parse_int_field bs2) (\<lambda>(km_version, bs3).
     and_then (parse_enumerated_field bs3) (\<lambda>(km_level, bs4).
     and_then (parse_octets_field None bs4) (\<lambda>(challenge, bs5).
     and_then (parse_octets_field None bs5) (\<lambda>(unique_id, bs6).
     and_then (parse_raw_field bs6) (\<lambda>(software, bs7).
     and_then (parse_raw_field bs7) (\<lambda>(tee, _).
       Inr \<lparr>kd_AttestationVersion = version, kd_AttestationSecurityLevel = level,
            kd_KeymasterVersion = km_version, kd_KeymasterSecurityLevel = km_level,
            kd_AttestationChallenge = challenge, kd_UniqueID = unique_id,
            kd_SoftwareEnforced = software, kd_TeeEnforced = tee\<rparr>))))))))"

definition parse_KeyDescription :: "bytes \<Rightarrow> asn1_error + KeyDescription" where
  "parse_KeyDescription = unmarshal (parse_struct KeyDescription_fields)"

record RootOfTrust =
  rot_VerifiedBootKey :: bytes
  rot_DeviceLocked :: bool
  rot_VerifiedBootState :: int
  rot_VerifiedBootHash :: bytes

text \<open>\<open>VerifiedBootHash\<close> is tagged \<open>optional\<close>: absent, it is the empty slice.\<close>

definition RootOfTrust_fields :: "bytes \<Rightarrow> asn1_error + RootOfTrust" where
  "RootOfTrust_fields bs0 =
     and_then (parse_octets_field None bs0) (\<lambda>(key, bs1).
     and_then (parse_boolean_field bs1) (\<lambda>(locked, bs2).
     and_then (parse_enumerated_field bs2) (\<lambda>(state, bs3).
     and_then (parse_octets_field (Some []) bs3) (\<lambda>(hash, _).
       Inr \<lparr>rot_VerifiedBootKey = key, rot_DeviceLocked = locked,
            rot_VerifiedBootState = state, rot_VerifiedBootHash = hash\<rparr>))))"

definition parse_RootOfTrust :: "bytes \<Rightarrow> asn1_error + RootOfTrust" where
  "parse_RootOfTrust = unmarshal (parse_struct RootOfTrust_fields)"

record AttestationRecord =
  rec_AttestationVersion :: int
  rec_AttestationSecurityLevel :: SecurityLevel
  rec_KeymasterVersion :: int
  rec_KeymasterSecurityLevel :: SecurityLevel
  rec_AttestationChallenge :: bytes
  rec_DeviceLocked :: bool
  rec_VerifiedBootState :: VerifiedBootState
  rec_VerifiedBootKey :: bytes
  rec_OsVersion :: int
  rec_OsPatchLevel :: int

definition zero_AttestationRecord :: AttestationRecord where
  "zero_AttestationRecord = \<lparr>rec_AttestationVersion = 0, rec_AttestationSecurityLevel = 0,
     rec_KeymasterVersion = 0, rec_KeymasterSecurityLevel = 0, rec_AttestationChallenge = [],
     rec_DeviceLocked = False, rec_VerifiedBootState = 0, rec_VerifiedBootKey = [],
     rec_OsVersion = 0, rec_OsPatchLevel = 0\<rparr>"

subsection \<open>Policies\<close>

record Policy =
  RequireHardwareBacked :: bool
  RequireDeviceLocked :: bool
  RequireVerifiedBoot :: bool
  SkipChainValidation :: bool
  AllowEmptyAttestation :: bool
  ExpectedPackageName :: string
  MinOsVersion :: int
  MinPatchLevel :: int
  CheckRevocationList :: bool

definition DefaultStrictPolicy :: Policy where
  "DefaultStrictPolicy = \<lparr>RequireHardwareBacked = True, RequireDeviceLocked = True,
     RequireVerifiedBoot = True, SkipChainValidation = False, AllowEmptyAttestation = False,
     ExpectedPackageName = [], MinOsVersion = 0, MinPatchLevel = 0, CheckRevocationList = True\<rparr>"

definition DevelopmentPolicy :: Policy where
  "DevelopmentPolicy = \<lparr>RequireHardwareBacked = False, RequireDeviceLocked = False,
     RequireVerifiedBoot = False, SkipChainValidation = True, AllowEmptyAttestation = True,
     ExpectedPackageName = [], MinOsVersion = 0, MinPatchLevel = 0, CheckRevocationList = False\<rparr>"

end
