(* ===== verification/Sha256.thy ===== *)
theory Sha256
  imports GoText
begin

unbundle bit_operations_syntax

text \<open>
  \<open>crypto/sha256.Sum256\<close> as FIPS 180-4 defines it, on 32-bit words. The backend uses it for
  one purpose: the identity of a device is the hexadecimal digest of its public key. What
  the other theories need from it is the shape of that text (64 lower-case digits).
\<close>

type_synonym u32 = "32 word"

definition sha_k :: "u32 list" where
  "sha_k =
    [0x428a2f98, 0x71374491, 0xb5c0fbcf, 0xe9b5dba5, 0x3956c25b, 0x59f111f1, 0x923f82a4, 0xab1c5ed5,
     0xd807aa98, 0x12835b01, 0x243185be, 0x550c7dc3, 0x72be5d74, 0x80deb1fe, 0x9bdc06a7, 0xc19bf174,
     0xe49b69c1, 0xefbe4786, 0x0fc19dc6, 0x240ca1cc, 0x2de92c6f, 0x4a7484aa, 0x5cb0a9dc, 0x76f988da,
     0x983e5152, 0xa831c66d, 0xb00327c8, 0xbf597fc7, 0xc6e00bf3, 0xd5a79147, 0x06ca6351, 0x14292967,
     0x27b70a85, 0x2e1b2138, 0x4d2c6dfc, 0x53380d13, 0x650a7354, 0x766a0abb, 0x81c2c92e, 0x92722c85,
     0xa2bfe8a1, 0xa81a664b, 0xc24b8b70, 0xc76c51a3, 0xd192e819, 0xd6990624, 0xf40e3585, 0x106aa070,
     0x19a4c116, 0x1e376c08, 0x2748774c, 0x34b0bcb5, 0x391c0cb3, 0x4ed8aa4a, 0x5b9cca4f, 0x682e6ff3,
     0x748f82ee, 0x78a5636f, 0x84c87814, 0x8cc70208, 0x90befffa, 0xa4506ceb, 0xbef9a3f7, 0xc67178f2]"

record sha_state =
  ha :: u32  hb :: u32  hc :: u32  hd' :: u32  he :: u32  hf :: u32  hg :: u32  hh :: u32

definition sha_init :: sha_state where
  "sha_init = \<lparr>ha = 0x6a09e667, hb = 0xbb67ae85, hc = 0x3c6ef372, hd' = 0xa54ff53a,
               he = 0x510e527f, hf = 0x9b05688c, hg = 0x1f83d9ab, hh = 0x5be0cd19\<rparr>"

definition big_endian32 :: "bytes \<Rightarrow> u32" where
  "big_endian32 bs = foldl (\<lambda>a b. push_bit 8 a OR ucast b) 0 bs"

definition bytes_of_u32 :: "u32 \<Rightarrow> bytes" where
  "bytes_of_u32 w = [ucast (drop_bit 24 w), ucast (drop_bit 16 w), ucast (drop_bit 8 w), ucast w]"

definition bytes_of_length :: "nat \<Rightarrow> bytes" where
  "bytes_of_length n =
     map (\<lambda>k. word_of_nat (n div 256 ^ k)) [7, 6, 5, 4, 3, 2, 1, 0]"

definition sha_pad :: "bytes \<Rightarrow> bytes" where
  "sha_pad m =
     m @ [0x80] @ replicate ((119 - length m mod 64) mod 64) 0 @ bytes_of_length (8 * length m)"

fun words_of_block :: "bytes \<Rightarrow> u32 list" where
  "words_of_block (a # b # c # d # rest) = big_endian32 [a, b, c, d] # words_of_block rest"
| "words_of_block _ = []"

definition sigma0 :: "u32 \<Rightarrow> u32" where
  "sigma0 x = word_rotr 7 x XOR word_rotr 18 x XOR drop_bit 3 x"

definition sigma1 :: "u32 \<Rightarrow> u32" where
  "sigma1 x = word_rotr 17 x XOR word_rotr 19 x XOR drop_bit 10 x"

fun sha_schedule :: "nat \<Rightarrow> u32 list \<Rightarrow> u32 list" where
  "sha_schedule 0 ws = ws"
| "sha_schedule (Suc n) ws =
     (let i = length ws
      in sha_schedule n
           (ws @ [ws ! (i - 16) + sigma0 (ws ! (i - 15)) + ws ! (i - 7) + sigma1 (ws ! (i - 2))]))"

definition sha_round :: "sha_state \<Rightarrow> u32 \<times> u32 \<Rightarrow> sha_state" where
  "sha_round s kw =
     (let s1 = word_rotr 6 (he s) XOR word_rotr 11 (he s) XOR word_rotr 25 (he s);
          ch = (he s AND hf s) XOR (NOT (he s) AND hg s);
          t1 = hh s + s1 + ch + fst kw + snd kw;
          s0 = word_rotr 2 (ha s) XOR word_rotr 13 (ha s) XOR word_rotr 22 (ha s);
          maj = (ha s AND hb s) XOR (ha s AND hc s) XOR (hb s AND hc s);
          t2 = s0 + maj
      in \<lparr>ha = t1 + t2, hb = ha s, hc = hb s, hd' = hc s,
          he = hd' s + t1, hf = he s, hg = hf s, hh = hg s\<rparr>)"

definition sha_add :: "sha_state \<Rightarrow> sha_state \<Rightarrow> sha_state" where
  "sha_add s t = \<lparr>ha = ha s + ha t, hb = hb s + hb t, hc = hc s + hc t, hd' = hd' s + hd' t,
                  he = he s + he t, hf = hf s + hf t, hg = hg s + hg t, hh = hh s + hh t\<rparr>"

definition sha_block :: "sha_state \<Rightarrow> bytes \<Rightarrow> sha_state" where
  "sha_block s block =
     sha_add s (foldl sha_round s (zip sha_k (sha_schedule 48 (words_of_block block))))"

function sha_blocks :: "sha_state \<Rightarrow> bytes \<Rightarrow> sha_state" where
  "sha_blocks s m =
     (if length m < 64 then s else sha_blocks (sha_block s (take 64 m)) (drop 64 m))"
  by pat_completeness auto
termination
  by (relation "measure (\<lambda>(s, m). length m)") auto

declare sha_blocks.simps [simp del]

definition sha_digest :: "sha_state \<Rightarrow> bytes" where
  "sha_digest s = concat (map bytes_of_u32 [ha s, hb s, hc s, hd' s, he s, hf s, hg s, hh s])"

definition sha256 :: "bytes \<Rightarrow> bytes" where
  "sha256 m = sha_digest (sha_blocks sha_init (sha_pad m))"

lemma length_sha_digest: "length (sha_digest s) = 32"
  by (simp add: sha_digest_def bytes_of_u32_def)

lemma length_sha256 [simp]: "length (sha256 m) = 32"
  by (simp add: sha256_def length_sha_digest)

lemma sha256_not_Nil [simp]: "sha256 m \<noteq> []"
  using length_sha256 [of m] by (metis list.size(3) zero_neq_numeral)

lemma sha_pad_blocks: "64 dvd length (sha_pad m)"
proof -
  define r where "r = length m mod 64"
  have r: "r < 64" by (simp add: r_def)
  have "length (sha_pad m) = length m + 9 + (119 - r) mod 64"
    by (simp add: sha_pad_def bytes_of_length_def r_def)
  also have "\<dots> = 64 * (length m div 64) + (r + 9 + (119 - r) mod 64)"
    using mult_div_mod_eq [of 64 "length m"] by (simp add: r_def)
  also have "(119 - r) mod 64 = (if r \<le> 55 then 55 - r else 119 - r)"
    using r by (auto simp: mod_if)
  finally show ?thesis using r by (cases "r \<le> 55") auto
qed

text \<open>The digest of a key as the identity text.\<close>

lemma sha_identity_text:
  "length (hex_encode (sha256 m)) = 64" "list_all is_hex_lower (hex_encode (sha256 m))"
  by (simp_all add: hex_encode_lower)

end
