(* ===== verification/Revocation.thy ===== *)
theory Revocation
  imports AttestationTypes Sha256
begin

text \<open>
  \<open>internal/attestation/revocation.go\<close>: the fingerprint that is a device's identity, and the
  client that caches Google's revocation status list. The client's mutex makes one call of
  \<open>IsKeyRevoked\<close> atomic: it is a function from the client's state to its result and the new
  state. What the call reads from its surroundings (two clock readings, the HTTP exchange)
  is a record of its own.
\<close>

definition DefaultRevocationListURL :: string where
  "DefaultRevocationListURL = ''https://android.googleapis.com/attestation/status''"

definition PublicKeyFingerprint :: "public_key \<Rightarrow> lib_error + string" where
  "PublicKeyFingerprint k =
     and_then (map_err (\<lambda>e. ''failed to marshal public key: '' @ e) (MarshalPKIXPublicKey k))
       (\<lambda>der. Inr (hex_encode (sha256 der)))"

lemma PublicKeyFingerprint_eq_Inr:
  "PublicKeyFingerprint k = Inr s \<longleftrightarrow> (\<exists>der. k = EncodableKey der \<and> s = hex_encode (sha256 der))"
  by (auto simp: PublicKeyFingerprint_def)

lemma PublicKeyFingerprint_encodable [simp]:
  "PublicKeyFingerprint (EncodableKey der) = Inr (hex_encode (sha256 der))"
  by (simp add: PublicKeyFingerprint_eq_Inr)

lemma PublicKeyFingerprint_unencodable [simp]:
  "\<exists>e. PublicKeyFingerprint NilKey = Inl e" "\<exists>e. PublicKeyFingerprint UnencodableKey = Inl e"
  by (simp_all add: PublicKeyFingerprint_def MarshalPKIXPublicKey_def)

lemma fingerprint_shape:
  assumes "PublicKeyFingerprint k = Inr s"
  shows "length s = 64" "list_all is_hex_lower s" "s \<noteq> []" "to_lower s = s"
  using assms by (auto simp: PublicKeyFingerprint_eq_Inr sha_identity_text)

subsection \<open>The status list client\<close>

text \<open>\<open>entries\<close> is \<open>None\<close> before the first successful fetch (Go's nil map).\<close>

record RevocationStatusClient =
  listURL :: string
  client_timeout :: "duration option"
  list_ttl :: duration
  entries :: "(string \<rightharpoonup> string) option"
  fetched :: instant

text \<open>The zero \<open>time.Time\<close>: the first of January of the year 1, in nanoseconds before 1970.\<close>

definition zero_time :: instant where "zero_time = - 62135596800000000000"

text \<open>
  The \<open>http.Client\<close> argument is represented by its timeout: \<open>None\<close> for the nil pointer,
  \<open>Some t\<close> for a client with timeout \<open>t\<close>.
\<close>

definition NewRevocationStatusClient ::
  "string \<Rightarrow> duration \<Rightarrow> duration option \<Rightarrow> RevocationStatusClient" where
  "NewRevocationStatusClient url ttl client =
     (let url' = (if url = [] then DefaultRevocationListURL else url);
          client' = (case client of None \<Rightarrow> Some (10 * second) | Some t \<Rightarrow> Some t)
      in \<lparr>listURL = url', client_timeout = client', list_ttl = ttl, entries = None,
          fetched = zero_time\<rparr>)"

text \<open>
  An exchange with the list's server: no response, or a status and a body that ends either
  regularly or with a read error.
\<close>

datatype http_result =
    HttpFailed lib_error
  | HttpResponse (http_status: int) (http_body: bytes) (http_broken: bool)

datatype revocation_error =
    FetchFailed lib_error | FetchStatus int | FetchRead | FetchParse lib_error
  | FingerprintFailed lib_error

definition max_list_bytes :: nat where "max_list_bytes = 4194304"

text \<open>\<open>io.ReadAll(io.LimitReader(body, 4 << 20))\<close>.\<close>

definition read_limited :: "bytes \<Rightarrow> bool \<Rightarrow> revocation_error + bytes" where
  "read_limited body broken =
     (if broken \<and> length body < max_list_bytes then Inl FetchRead
      else Inr (take max_list_bytes body))"

definition list_entries :: "(string \<times> string) list \<Rightarrow> (string \<rightharpoonup> string)" where
  "list_entries parsed = foldl (\<lambda>m (kid, status). m(to_lower kid \<mapsto> status)) Map.empty parsed"

definition fetchLocked ::
  "golib \<Rightarrow> http_result \<Rightarrow> instant \<Rightarrow> RevocationStatusClient \<Rightarrow>
     (revocation_error + unit) \<times> RevocationStatusClient" where
  "fetchLocked lib resp now c =
     (case resp of
        HttpFailed e \<Rightarrow> (Inl (FetchFailed e), c)
      | HttpResponse status body broken \<Rightarrow>
          if status \<noteq> 200 then (Inl (FetchStatus status), c)
          else (case read_limited body broken of
            Inl e \<Rightarrow> (Inl e, c)
          | Inr bytes \<Rightarrow>
              (case lib_status_entries lib bytes of
                 Inl e \<Rightarrow> (Inl (FetchParse e), c)
               | Inr parsed \<Rightarrow>
                   (Inr (), c\<lparr>entries := Some (list_entries parsed), fetched := now\<rparr>))))"

record revocation_reading =
  since_now :: instant
  fetch_response :: http_result
  fetch_now :: instant

definition list_stale :: "RevocationStatusClient \<Rightarrow> instant \<Rightarrow> bool" where
  "list_stale c now \<longleftrightarrow> entries c = None \<or> sint (list_ttl c) < sint (time_sub now (fetched c))"

text \<open>The refresh of a stale list, and the lookup in the list the client then holds.\<close>

definition refresh_list ::
  "golib \<Rightarrow> revocation_reading \<Rightarrow> RevocationStatusClient \<Rightarrow>
     (revocation_error + unit) \<times> RevocationStatusClient" where
  "refresh_list lib env c =
     (if list_stale c (since_now env) then fetchLocked lib (fetch_response env) (fetch_now env) c
      else (Inr (), c))"

definition reads_revoked :: "string \<Rightarrow> bool" where
  "reads_revoked status \<longleftrightarrow> equal_fold status ''REVOKED''"

definition lookup_revoked :: "(string \<rightharpoonup> string) option \<Rightarrow> string \<Rightarrow> bool" where
  "lookup_revoked es kid =
     (case es of
        None \<Rightarrow> False
      | Some m \<Rightarrow> (case m kid of None \<Rightarrow> False | Some status \<Rightarrow> reads_revoked status))"

definition IsKeyRevoked ::
  "golib \<Rightarrow> revocation_reading \<Rightarrow> public_key \<Rightarrow> RevocationStatusClient \<Rightarrow>
     (revocation_error + bool) \<times> RevocationStatusClient" where
  "IsKeyRevoked lib env key c =
     (case PublicKeyFingerprint key of
        Inl e \<Rightarrow> (Inl (FingerprintFailed e), c)
      | Inr kid \<Rightarrow>
          (case refresh_list lib env c of
             (Inl e, c') \<Rightarrow> (Inl e, c')
           | (Inr _, c') \<Rightarrow> (Inr (lookup_revoked (entries c') kid), c')))"

subsection \<open>What the client guarantees\<close>

lemma fetchLocked_error_keeps_state: "fetchLocked lib r now c = (Inl e, c') \<Longrightarrow> c' = c"
  by (auto simp: fetchLocked_def split: http_result.splits if_splits sum.splits)

lemma fetchLocked_ok:
  assumes "fetchLocked lib r now c = (Inr u, c')"
  obtains body broken bytes parsed where
    "r = HttpResponse 200 body broken" "read_limited body broken = Inr bytes"
    "lib_status_entries lib bytes = Inr parsed"
    "c' = c\<lparr>entries := Some (list_entries parsed), fetched := now\<rparr>"
  using assms by (auto simp: fetchLocked_def split: http_result.splits if_splits sum.splits)

lemma refresh_list_error_keeps_state: "refresh_list lib env c = (Inl e, c') \<Longrightarrow> c' = c"
  by (auto simp: refresh_list_def dest: fetchLocked_error_keeps_state split: if_splits)

lemma fetchLocked_frame:
  "fetchLocked lib r now c = (x, c') \<Longrightarrow> listURL c' = listURL c \<and> list_ttl c' = list_ttl c"
  by (auto simp: fetchLocked_def split: http_result.splits if_splits sum.splits)

lemma refresh_list_frame:
  "refresh_list lib env c = (x, c') \<Longrightarrow> listURL c' = listURL c \<and> list_ttl c' = list_ttl c"
  by (auto simp: refresh_list_def dest: fetchLocked_frame split: if_splits)

lemma refresh_list_entries:
  assumes "refresh_list lib env c = (Inr u, c')"
  obtains m where "entries c' = Some m"
  using assms
  by (auto simp: refresh_list_def list_stale_def elim: fetchLocked_ok split: if_splits)

lemma IsKeyRevoked_eq_Inr:
  "IsKeyRevoked lib env k c = (Inr b, c') \<longleftrightarrow>
     (\<exists>kid. PublicKeyFingerprint k = Inr kid \<and> refresh_list lib env c = (Inr (), c') \<and>
            b = lookup_revoked (entries c') kid)"
  by (auto simp: IsKeyRevoked_def split: sum.splits prod.splits)

lemma IsKeyRevoked_eq_Inl:
  "IsKeyRevoked lib env k c = (Inl e, c') \<Longrightarrow> c' = c"
  by (auto simp: IsKeyRevoked_def dest: refresh_list_error_keeps_state
      split: sum.splits prod.splits)

lemma IsKeyRevoked_frame:
  "IsKeyRevoked lib env k c = (x, c') \<Longrightarrow> listURL c' = listURL c \<and> list_ttl c' = list_ttl c"
  by (auto simp: IsKeyRevoked_def dest: refresh_list_frame split: sum.splits prod.splits)

text \<open>The list as a map: the last entry of an id, in iteration order, wins.\<close>

lemma list_entries_snoc [simp]:
  "list_entries (xs @ [(kid, st)]) = (list_entries xs)(to_lower kid \<mapsto> st)"
  by (simp add: list_entries_def)

lemma list_entries_Nil [simp]: "list_entries [] = Map.empty"
  by (simp add: list_entries_def)

lemma list_entries_Some_iff:
  "distinct (map (to_lower \<circ> fst) xs) \<Longrightarrow>
     list_entries xs k = Some st \<longleftrightarrow> (\<exists>kid. (kid, st) \<in> set xs \<and> to_lower kid = k)"
proof (induction xs rule: rev_induct)
  case Nil
  then show ?case by simp
next
  case (snoc x xs)
  obtain kid st' where x: "x = (kid, st')" by (cases x)
  from snoc.prems x have nin: "to_lower kid \<notin> (to_lower \<circ> fst) ` set xs" by simp
  show ?case
  proof (cases "k = to_lower kid")
    case True
    with nin x show ?thesis by (auto simp: image_iff)
  next
    case False
    with snoc x show ?thesis by auto
  qed
qed

text \<open>
  What the list says, without reference to the code: an entry whose id is the fingerprint in any
  case and whose status is the word revoked in any case (also with the Kelvin sign for its k).
\<close>

definition spells_revoked :: "string \<Rightarrow> bool" where
  "spells_revoked status \<longleftrightarrow>
     to_lower status = ''revoked'' \<or>
     to_lower (take 4 status) = ''revo'' \<and> take 3 (drop 4 status) = kelvin_sign \<and>
       to_lower (drop 7 status) = ''ed''"

definition names_revoked :: "(string \<times> string) list \<Rightarrow> string \<Rightarrow> bool" where
  "names_revoked xs kid \<longleftrightarrow>
     (\<exists>(name, status) \<in> set xs. to_lower name = kid \<and> spells_revoked status)"

lemma reads_revoked_iff: "reads_revoked status \<longleftrightarrow> spells_revoked status"
  by (simp only: reads_revoked_def spells_revoked_def equal_fold_revoked)

lemma lookup_revoked_iff:
  "lookup_revoked es kid \<longleftrightarrow>
     (\<exists>m status. es = Some m \<and> m kid = Some status \<and> spells_revoked status)"
  by (auto simp: lookup_revoked_def reads_revoked_iff split: option.splits)

lemma lookup_list_entries:
  assumes "distinct (map (to_lower \<circ> fst) xs)"
  shows "lookup_revoked (Some (list_entries xs)) kid \<longleftrightarrow> names_revoked xs kid"
  unfolding lookup_revoked_iff names_revoked_def using list_entries_Some_iff [OF assms]
  by auto

end
