(* ===== verification/Verifier.thy ===== *)
theory Verifier
  imports Revocation
begin

text \<open>
  \<open>internal/attestation/verifier.go\<close>: the chain of checks that turns a certificate chain, a
  challenge and the public key of a CSR into an attestation record or an error. The order
  of the checks and every early return are the code's; each error message is a constructor.

  What an accepted chain satisfies, without reference to the order of the checks, is in
  \<open>VerifierFacts\<close>.
\<close>

datatype verify_error =
    EmptyChain | ShortChain | LongChain | BadCertificate nat lib_error
  | RevocationCheckFailed nat revocation_error | CertificateRevoked nat
  | ChainInvalid | LeafKeyMarshal lib_error | CsrKeyMarshal lib_error | KeyMismatch
  | MissingExtension | BadKeyDescription asn1_error | ChallengeMismatch
  | UntrustedAttestationLevel SecurityLevel | UntrustedKeymasterLevel SecurityLevel
  | BadTeeRootOfTrust asn1_error | BadSoftwareRootOfTrust asn1_error
  | BadApplicationId asn1_error | MissingApplicationId | WrongPackage
  | BadOsVersion asn1_error | BadOsPatch asn1_error
  | OsVersionMissing | OsVersionBelow int int | PatchLevelMissing | PatchLevelBelow int int
  | DeviceNotLocked | BootStateUntrusted VerifiedBootState | RootOfTrustMissing

definition maxChainCertificates :: nat where "maxChainCertificates = 16"

record Verifier =
  rootPool :: cert_pool
  policy :: Policy
  revocations :: "RevocationStatusClient option"

definition WithRevocationChecker :: "Verifier \<Rightarrow> RevocationStatusClient \<Rightarrow> Verifier" where
  "WithRevocationChecker v rc = v\<lparr>revocations := Some rc\<rparr>"

subsection \<open>Authorization lists\<close>

definition parse_raw_items :: "bytes \<Rightarrow> asn1_error + raw_value list" where
  "parse_raw_items = unmarshal (parse_slice_field False (\<lambda>_. True) parse_raw_field)"

text \<open>\<open>None\<close> is the \<open>found == false\<close> result.\<close>

definition findTagged :: "bytes \<Rightarrow> nat \<Rightarrow> asn1_error + raw_value option" where
  "findTagged rawSeq tag =
     (if rawSeq = [] then Inr None
      else and_then (parse_raw_items rawSeq)
             (\<lambda>rawItems. Inr (List.find (\<lambda>item. rv_tag item = tag) rawItems)))"

definition findRootOfTrust :: "bytes \<Rightarrow> asn1_error + RootOfTrust option" where
  "findRootOfTrust rawSeq =
     and_then (findTagged rawSeq TagRootOfTrust)
       (\<lambda>found. case found of
          None \<Rightarrow> Inr None
        | Some raw \<Rightarrow> and_then (parse_RootOfTrust (rv_bytes raw)) (\<lambda>rot. Inr (Some rot)))"

definition parse_int_value :: "bytes \<Rightarrow> asn1_error + int" where
  "parse_int_value = unmarshal parse_int_field"

definition findIntTag :: "bytes \<Rightarrow> nat \<Rightarrow> asn1_error + int" where
  "findIntTag rawSeq tag =
     and_then (findTagged rawSeq tag)
       (\<lambda>found. case found of None \<Rightarrow> Inr 0 | Some raw \<Rightarrow> parse_int_value (rv_bytes raw))"

subsection \<open>The application id\<close>

record attestationPackageInfo =
  PackageName :: bytes
  PackageVersion :: int

definition attestationPackageInfo_fields :: "bytes \<Rightarrow> asn1_error + attestationPackageInfo" where
  "attestationPackageInfo_fields bs0 =
     and_then (parse_octets_field None bs0) (\<lambda>(name, bs1).
     and_then (parse_int_field bs1) (\<lambda>(version, _).
       Inr \<lparr>PackageName = name, PackageVersion = version\<rparr>))"

text \<open>\<open>attestationApplicationId\<close> has one field, the SET of package infos.\<close>

definition attestationApplicationId_fields ::
  "bytes \<Rightarrow> asn1_error + attestationPackageInfo list" where
  "attestationApplicationId_fields bs0 =
     and_then (parse_slice_field True (universal 16 True)
                 (parse_struct attestationPackageInfo_fields) bs0)
       (\<lambda>(infos, _). Inr infos)"

definition parseAttestationApplicationId ::
  "bytes \<Rightarrow> asn1_error + attestationPackageInfo list" where
  "parseAttestationApplicationId raw =
     and_then (unmarshal parse_raw_field raw)
       (\<lambda>octet. unmarshal (parse_struct attestationApplicationId_fields) (rv_bytes octet))"

text \<open>Tag 709 of the TEE-enforced list, or else of the software-enforced one.\<close>

definition find_application_id :: "KeyDescription \<Rightarrow> verify_error + raw_value option" where
  "find_application_id kd =
     and_then (map_err BadApplicationId
                 (findTagged (rv_full (kd_TeeEnforced kd)) TagAttestationApplicationId))
       (\<lambda>tee. case tee of
          Some raw \<Rightarrow> Inr (Some raw)
        | None \<Rightarrow> map_err BadApplicationId
            (findTagged (rv_full (kd_SoftwareEnforced kd)) TagAttestationApplicationId))"

definition lists_package :: "attestationPackageInfo list \<Rightarrow> string \<Rightarrow> bool" where
  "lists_package packages expectedPackage \<longleftrightarrow>
     list_ex (\<lambda>pkg. string_of_bytes (PackageName pkg) = expectedPackage) packages"

definition verifyApplicationID :: "KeyDescription \<Rightarrow> string \<Rightarrow> verify_error + unit" where
  "verifyApplicationID kd expectedPackage =
     and_then (find_application_id kd)
       (\<lambda>found. case found of
          None \<Rightarrow> Inl MissingApplicationId
        | Some raw \<Rightarrow>
            and_then (map_err BadApplicationId (parseAttestationApplicationId (rv_bytes raw)))
              (\<lambda>packages. if lists_package packages expectedPackage then Inr () else Inl WrongPackage))"

subsection \<open>OS version and patch level\<close>

text \<open>
  One of the two integers: the TEE-enforced value, or the software-enforced one when the
  first is absent (zero) and hardware backing is not required; an error while reading the
  software-enforced list is dropped.
\<close>

definition os_value :: "KeyDescription \<Rightarrow> Policy \<Rightarrow> nat \<Rightarrow> asn1_error + int" where
  "os_value kd p tag =
     and_then (findIntTag (rv_full (kd_TeeEnforced kd)) tag)
       (\<lambda>tee. if tee = 0 \<and> \<not> RequireHardwareBacked p
              then (case findIntTag (rv_full (kd_SoftwareEnforced kd)) tag of
                      Inl _ \<Rightarrow> Inr tee
                    | Inr v \<Rightarrow> Inr v)
              else Inr tee)"

definition extractOSInfo :: "KeyDescription \<Rightarrow> Policy \<Rightarrow> verify_error + int \<times> int" where
  "extractOSInfo kd p =
     and_then (map_err BadOsVersion (os_value kd p TagOSVersion)) (\<lambda>osVersion.
     and_then (map_err BadOsPatch (os_value kd p TagOSPatch)) (\<lambda>osPatch.
       if 0 < MinOsVersion p \<and> osVersion = 0 then Inl OsVersionMissing
       else if 0 < MinOsVersion p \<and> osVersion < MinOsVersion p
       then Inl (OsVersionBelow osVersion (MinOsVersion p))
       else if 0 < MinPatchLevel p \<and> osPatch = 0 then Inl PatchLevelMissing
       else if 0 < MinPatchLevel p \<and> osPatch < MinPatchLevel p
       then Inl (PatchLevelBelow osPatch (MinPatchLevel p))
       else Inr (osVersion, osPatch)))"

subsection \<open>The steps of \<open>VerifyAttestation\<close>\<close>

definition is_attestation_ext :: "extension \<Rightarrow> bool" where
  "is_attestation_ext e \<longleftrightarrow> oid_string (ext_id e) = AndroidKeyAttestationOID"

definition find_attestation_ext :: "certificate \<Rightarrow> extension option" where
  "find_attestation_ext leaf = List.find is_attestation_ext (Extensions leaf)"

definition ExtractChallenge :: "golib \<Rightarrow> bytes list \<Rightarrow> verify_error + bytes" where
  "ExtractChallenge lib chainDER =
     (case chainDER of
        [] \<Rightarrow> Inl EmptyChain
      | der # _ \<Rightarrow>
          and_then (map_err (BadCertificate 0) (lib_parse_certificate lib der)) (\<lambda>leaf.
            case find_attestation_ext leaf of
              None \<Rightarrow> Inl MissingExtension
            | Some ext \<Rightarrow>
                and_then (map_err BadKeyDescription (parse_KeyDescription (ext_value ext)))
                  (\<lambda>kd. Inr (kd_AttestationChallenge kd))))"

text \<open>The record that stands for a missing attestation in development mode.\<close>

definition empty_attestation :: "bytes \<Rightarrow> AttestationRecord" where
  "empty_attestation challenge = zero_AttestationRecord
     \<lparr>rec_AttestationSecurityLevel := SecurityLevelSoftware,
      rec_KeymasterSecurityLevel := SecurityLevelSoftware,
      rec_AttestationChallenge := challenge\<rparr>"

definition parse_chain :: "golib \<Rightarrow> bytes list \<Rightarrow> verify_error + certificate list" where
  "parse_chain lib chainDER =
     traverse_from 0 (\<lambda>i der. map_err (BadCertificate i) (lib_parse_certificate lib der)) chainDER"

fun check_revocations ::
  "golib \<Rightarrow> (nat \<Rightarrow> revocation_reading) \<Rightarrow> nat \<Rightarrow> certificate list \<Rightarrow> RevocationStatusClient \<Rightarrow>
     (verify_error + unit) \<times> RevocationStatusClient" where
  "check_revocations lib env i [] rc = (Inr (), rc)"
| "check_revocations lib env i (c # cs) rc =
     (case IsKeyRevoked lib (env i) (PublicKey c) rc of
        (Inl e, rc') \<Rightarrow> (Inl (RevocationCheckFailed i e), rc')
      | (Inr revoked, rc') \<Rightarrow>
          if revoked then (Inl (CertificateRevoked i), rc')
          else check_revocations lib env (Suc i) cs rc')"

definition revocation_step ::
  "golib \<Rightarrow> (nat \<Rightarrow> revocation_reading) \<Rightarrow> Verifier \<Rightarrow> certificate list \<Rightarrow>
     (verify_error + unit) \<times> Verifier" where
  "revocation_step lib env v certs =
     (case revocations v of
        Some rc \<Rightarrow>
          if CheckRevocationList (policy v)
          then (case check_revocations lib env 0 certs rc of
                  (r, rc') \<Rightarrow> (r, v\<lparr>revocations := Some rc'\<rparr>))
          else (Inr (), v)
      | None \<Rightarrow> (Inr (), v))"

definition chain_step ::
  "golib \<Rightarrow> instant \<Rightarrow> Verifier \<Rightarrow> certificate list \<Rightarrow> verify_error + unit" where
  "chain_step lib now v certs =
     (if SkipChainValidation (policy v) then Inr ()
      else let intermediates = foldl AddCert [] (tl certs)
           in if lib_verify lib (hd certs) (rootPool v) intermediates [ExtKeyUsageAny] now
              then Inr () else Inl ChainInvalid)"

definition key_step :: "certificate \<Rightarrow> public_key \<Rightarrow> verify_error + unit" where
  "key_step leaf expectedCsrPublicKey =
     (if expectedCsrPublicKey = NilKey then Inr ()
      else and_then (map_err LeafKeyMarshal (MarshalPKIXPublicKey (PublicKey leaf))) (\<lambda>leafPKIX.
           and_then (map_err CsrKeyMarshal (MarshalPKIXPublicKey expectedCsrPublicKey)) (\<lambda>csrPKIX.
             if leafPKIX = csrPKIX then Inr () else Inl KeyMismatch)))"

definition level_step :: "Policy \<Rightarrow> KeyDescription \<Rightarrow> verify_error + unit" where
  "level_step p kd =
     (let attestationLevel = kd_AttestationSecurityLevel kd;
          keymasterLevel = kd_KeymasterSecurityLevel kd
      in if RequireHardwareBacked p then
           (if attestationLevel \<noteq> SecurityLevelTrustedEnvironment \<and>
               attestationLevel \<noteq> SecurityLevelStrongBox
            then Inl (UntrustedAttestationLevel attestationLevel)
            else if keymasterLevel \<noteq> SecurityLevelTrustedEnvironment \<and>
                    keymasterLevel \<noteq> SecurityLevelStrongBox
            then Inl (UntrustedKeymasterLevel keymasterLevel)
            else Inr ())
         else Inr ())"

definition root_of_trust_step :: "Policy \<Rightarrow> KeyDescription \<Rightarrow> verify_error + RootOfTrust option" where
  "root_of_trust_step p kd =
     and_then (map_err BadTeeRootOfTrust (findRootOfTrust (rv_full (kd_TeeEnforced kd)))) (\<lambda>rot.
       if rot = None \<and> \<not> RequireHardwareBacked p
       then map_err BadSoftwareRootOfTrust (findRootOfTrust (rv_full (kd_SoftwareEnforced kd)))
       else Inr rot)"

definition application_step :: "Policy \<Rightarrow> KeyDescription \<Rightarrow> verify_error + unit" where
  "application_step p kd =
     (if ExpectedPackageName p \<noteq> [] then verifyApplicationID kd (ExpectedPackageName p) else Inr ())"

definition boot_step ::
  "Policy \<Rightarrow> AttestationRecord \<Rightarrow> RootOfTrust option \<Rightarrow> verify_error + AttestationRecord" where
  "boot_step p record0 rot =
     (case rot of
        Some r \<Rightarrow>
          let record1 = record0\<lparr>rec_DeviceLocked := rot_DeviceLocked r,
                                rec_VerifiedBootState := rot_VerifiedBootState r,
                                rec_VerifiedBootKey := rot_VerifiedBootKey r\<rparr>
          in if RequireDeviceLocked p \<and> \<not> rot_DeviceLocked r then Inl DeviceNotLocked
             else if RequireVerifiedBoot p \<and> rec_VerifiedBootState record1 \<noteq> VerifiedBootStateVerified
             then Inl (BootStateUntrusted (rec_VerifiedBootState record1))
             else Inr record1
      | None \<Rightarrow>
          if RequireVerifiedBoot p \<or> RequireDeviceLocked p then Inl RootOfTrustMissing
          else Inr record0)"

definition record_of :: "KeyDescription \<Rightarrow> int \<Rightarrow> int \<Rightarrow> AttestationRecord" where
  "record_of kd osVersion osPatch = zero_AttestationRecord
     \<lparr>rec_AttestationVersion := kd_AttestationVersion kd,
      rec_AttestationSecurityLevel := kd_AttestationSecurityLevel kd,
      rec_KeymasterVersion := kd_KeymasterVersion kd,
      rec_KeymasterSecurityLevel := kd_KeymasterSecurityLevel kd,
      rec_AttestationChallenge := kd_AttestationChallenge kd,
      rec_OsVersion := osVersion,
      rec_OsPatchLevel := osPatch\<rparr>"

definition description_step ::
  "Policy \<Rightarrow> bytes \<Rightarrow> KeyDescription \<Rightarrow> verify_error + AttestationRecord" where
  "description_step p expectedChallenge kd =
     (if kd_AttestationChallenge kd \<noteq> expectedChallenge then Inl ChallengeMismatch
      else and_then (level_step p kd) (\<lambda>_.
           and_then (root_of_trust_step p kd) (\<lambda>rot.
           and_then (application_step p kd) (\<lambda>_.
           and_then (extractOSInfo kd p) (\<lambda>(osVersion, osPatch).
             boot_step p (record_of kd osVersion osPatch) rot)))))"

definition extension_step ::
  "Policy \<Rightarrow> certificate \<Rightarrow> bytes \<Rightarrow> verify_error + AttestationRecord" where
  "extension_step p leaf expectedChallenge =
     (let attestationBytes =
            (case find_attestation_ext leaf of None \<Rightarrow> [] | Some ext \<Rightarrow> ext_value ext)
      in if attestationBytes = [] then
           (if AllowEmptyAttestation p then Inr (empty_attestation expectedChallenge)
            else Inl MissingExtension)
         else and_then (map_err BadKeyDescription (parse_KeyDescription attestationBytes))
                (description_step p expectedChallenge))"

record verify_env =
  list_env :: "nat \<Rightarrow> revocation_reading"
  chain_now :: instant

definition VerifyAttestation ::
  "golib \<Rightarrow> verify_env \<Rightarrow> Verifier \<Rightarrow> bytes list \<Rightarrow> bytes \<Rightarrow> public_key \<Rightarrow>
     (verify_error + AttestationRecord) \<times> Verifier" where
  "VerifyAttestation lib env v chainDER expectedChallenge expectedCsrPublicKey =
     (if chainDER = [] then
        (if AllowEmptyAttestation (policy v) then Inr (empty_attestation expectedChallenge)
         else Inl EmptyChain, v)
      else if length chainDER < 2 \<and> \<not> AllowEmptyAttestation (policy v) then (Inl ShortChain, v)
      else if length chainDER > maxChainCertificates then (Inl LongChain, v)
      else (case parse_chain lib chainDER of
          Inl e \<Rightarrow> (Inl e, v)
        | Inr certs \<Rightarrow>
            (case revocation_step lib (list_env env) v certs of
               (Inl e, v') \<Rightarrow> (Inl e, v')
             | (Inr _, v') \<Rightarrow>
                 (and_then (chain_step lib (chain_now env) v' certs) (\<lambda>_.
                  and_then (key_step (hd certs) expectedCsrPublicKey) (\<lambda>_.
                    extension_step (policy v') (hd certs) expectedChallenge)), v'))))"

lemmas verify_step_defs = chain_step_def key_step_def level_step_def root_of_trust_step_def
  application_step_def boot_step_def

end
