(* ===== verification/VerifierFacts.thy ===== *)
theory VerifierFacts
  imports Verifier
begin

text \<open>
  What an accepted attestation satisfies, and which attestations are accepted: the
  declarative counterparts of the verifier's steps and the facts the handlers and the
  properties use.
\<close>

subsection \<open>The steps, on success\<close>

lemma level_step_ok:
  "level_step p kd = Inr u \<longleftrightarrow>
     (RequireHardwareBacked p \<longrightarrow>
        hardware_level (kd_AttestationSecurityLevel kd) \<and>
        hardware_level (kd_KeymasterSecurityLevel kd))"
  by (auto simp: level_step_def hardware_level_def Let_def)

lemma key_step_ok:
  "key_step leaf k = Inr u \<longleftrightarrow>
     k = NilKey \<or> (\<exists>der. k = EncodableKey der \<and> PublicKey leaf = EncodableKey der)"
  by (cases k) (auto simp: key_step_def and_then_def map_err_def MarshalPKIXPublicKey_def
      split: sum.splits public_key.splits)

lemma chain_step_ok:
  "chain_step lib now v certs = Inr u \<longleftrightarrow>
     SkipChainValidation (policy v) \<or>
     lib_verify lib (hd certs) (rootPool v) (foldl AddCert [] (tl certs)) [ExtKeyUsageAny] now"
  by (auto simp: chain_step_def Let_def)

text \<open>Where the root of trust comes from, and what the policy asks of it.\<close>

definition boot_requirements :: "Policy \<Rightarrow> RootOfTrust option \<Rightarrow> bool" where
  "boot_requirements p rot =
     (case rot of
        None \<Rightarrow> \<not> RequireVerifiedBoot p \<and> \<not> RequireDeviceLocked p
      | Some r \<Rightarrow>
          (RequireDeviceLocked p \<longrightarrow> rot_DeviceLocked r) \<and>
          (RequireVerifiedBoot p \<longrightarrow> rot_VerifiedBootState r = VerifiedBootStateVerified))"

definition with_root :: "AttestationRecord \<Rightarrow> RootOfTrust option \<Rightarrow> AttestationRecord" where
  "with_root record0 rot =
     (case rot of
        None \<Rightarrow> record0
      | Some r \<Rightarrow> record0\<lparr>rec_DeviceLocked := rot_DeviceLocked r,
                         rec_VerifiedBootState := rot_VerifiedBootState r,
                         rec_VerifiedBootKey := rot_VerifiedBootKey r\<rparr>)"

lemma boot_step_ok:
  "boot_step p record0 rot = Inr rec \<longleftrightarrow> boot_requirements p rot \<and> rec = with_root record0 rot"
  by (auto simp: boot_step_def boot_requirements_def with_root_def Let_def split: option.splits)

lemma root_of_trust_step_hardware:
  "RequireHardwareBacked p \<Longrightarrow>
     root_of_trust_step p kd = Inr rot \<longleftrightarrow> findRootOfTrust (rv_full (kd_TeeEnforced kd)) = Inr rot"
  by (auto simp: root_of_trust_step_def)

lemma root_of_trust_step_tee:
  "findRootOfTrust (rv_full (kd_TeeEnforced kd)) = Inr (Some r) \<Longrightarrow>
     root_of_trust_step p kd = Inr (Some r)"
  by (simp add: root_of_trust_step_def)

text \<open>The minimum versions, once the two values have been read.\<close>

definition versions_allowed :: "Policy \<Rightarrow> int \<Rightarrow> int \<Rightarrow> bool" where
  "versions_allowed p osVersion osPatch \<longleftrightarrow>
     (0 < MinOsVersion p \<longrightarrow> osVersion \<noteq> 0 \<and> MinOsVersion p \<le> osVersion) \<and>
     (0 < MinPatchLevel p \<longrightarrow> osPatch \<noteq> 0 \<and> MinPatchLevel p \<le> osPatch)"

lemma extractOSInfo_ok:
  "extractOSInfo kd p = Inr (v, l) \<longleftrightarrow>
     os_value kd p TagOSVersion = Inr v \<and> os_value kd p TagOSPatch = Inr l \<and> versions_allowed p v l"
  by (cases "os_value kd p TagOSVersion"; cases "os_value kd p TagOSPatch")
    (auto simp: extractOSInfo_def versions_allowed_def)

lemma os_value_hardware:
  "RequireHardwareBacked p \<Longrightarrow> os_value kd p tag = findIntTag (rv_full (kd_TeeEnforced kd)) tag"
  by (cases "findIntTag (rv_full (kd_TeeEnforced kd)) tag") (simp_all add: os_value_def)

text \<open>The application id lists the package, in the TEE-enforced list or else in the other.\<close>

definition application_id_at :: "KeyDescription \<Rightarrow> raw_value \<Rightarrow> bool" where
  "application_id_at kd raw \<longleftrightarrow>
     (case findTagged (rv_full (kd_TeeEnforced kd)) TagAttestationApplicationId of
        Inl _ \<Rightarrow> False
      | Inr (Some raw') \<Rightarrow> raw' = raw
      | Inr None \<Rightarrow>
          findTagged (rv_full (kd_SoftwareEnforced kd)) TagAttestationApplicationId = Inr (Some raw))"

definition application_listed :: "KeyDescription \<Rightarrow> string \<Rightarrow> bool" where
  "application_listed kd package \<longleftrightarrow>
     (\<exists>raw packages. application_id_at kd raw \<and>
        parseAttestationApplicationId (rv_bytes raw) = Inr packages \<and>
        (\<exists>pkg \<in> set packages. PackageName pkg = bytes_of_string package))"

lemma find_application_id_ok: "find_application_id kd = Inr (Some raw) \<longleftrightarrow> application_id_at kd raw"
  by (cases "findTagged (rv_full (kd_TeeEnforced kd)) TagAttestationApplicationId")
    (auto simp: find_application_id_def application_id_at_def split: option.splits)

lemma lists_package_iff:
  "lists_package packages package \<longleftrightarrow>
     (\<exists>pkg \<in> set packages. PackageName pkg = bytes_of_string package)"
  by (simp add: lists_package_def list_ex_iff string_of_bytes_eq_iff)

lemma verifyApplicationID_ok: "verifyApplicationID kd package = Inr u \<longleftrightarrow> application_listed kd package"
proof -
  have "verifyApplicationID kd package = Inr u \<longleftrightarrow>
      (\<exists>raw packages. find_application_id kd = Inr (Some raw) \<and>
         parseAttestationApplicationId (rv_bytes raw) = Inr packages \<and>
         lists_package packages package)"
    by (auto simp: verifyApplicationID_def split: option.splits)
  then show ?thesis
    by (simp add: application_listed_def find_application_id_ok lists_package_iff)
qed

lemma application_step_ok:
  "application_step p kd = Inr u \<longleftrightarrow>
     ExpectedPackageName p = [] \<or> application_listed kd (ExpectedPackageName p)"
  by (auto simp: application_step_def verifyApplicationID_ok)

lemma description_step_ok:
  "description_step p ch kd = Inr rec \<longleftrightarrow>
     kd_AttestationChallenge kd = ch \<and>
     (RequireHardwareBacked p \<longrightarrow>
        hardware_level (kd_AttestationSecurityLevel kd) \<and>
        hardware_level (kd_KeymasterSecurityLevel kd)) \<and>
     (ExpectedPackageName p = [] \<or> application_listed kd (ExpectedPackageName p)) \<and>
     (\<exists>rot v l. root_of_trust_step p kd = Inr rot \<and> boot_requirements p rot \<and>
        os_value kd p TagOSVersion = Inr v \<and> os_value kd p TagOSPatch = Inr l \<and>
        versions_allowed p v l \<and> rec = with_root (record_of kd v l) rot)"
  unfolding description_step_def
  by (auto simp: level_step_ok application_step_ok extractOSInfo_ok boot_step_ok)

subsection \<open>The whole verification\<close>

lemma check_revocations_states:
  assumes "check_revocations lib env i certs rc = (Inr u, rc')"
  shows "\<exists>cs. length cs = Suc (length certs) \<and> cs ! 0 = rc \<and> cs ! length certs = rc' \<and>
    (\<forall>k < length certs.
       IsKeyRevoked lib (env (i + k)) (PublicKey (certs ! k)) (cs ! k) = (Inr False, cs ! Suc k))"
  using assms
proof (induction certs arbitrary: i rc)
  case Nil
  then show ?case by (intro exI [of _ "[rc]"]) simp
next
  case (Cons c certs)
  from Cons.prems obtain rc1 where first: "IsKeyRevoked lib (env i) (PublicKey c) rc = (Inr False, rc1)"
    and rest: "check_revocations lib env (Suc i) certs rc1 = (Inr u, rc')"
    by (auto split: prod.splits sum.splits if_splits)
  from Cons.IH [OF rest] obtain cs where cs: "length cs = Suc (length certs)" "cs ! 0 = rc1"
    "cs ! length certs = rc'"
    "\<forall>k < length certs. IsKeyRevoked lib (env (Suc i + k)) (PublicKey (certs ! k)) (cs ! k) =
       (Inr False, cs ! Suc k)" by blast
  have "IsKeyRevoked lib (env (i + k)) (PublicKey ((c # certs) ! k)) ((rc # cs) ! k) =
      (Inr False, (rc # cs) ! Suc k)" if "k < length (c # certs)" for k
    using that first cs(2,4) by (cases k) auto
  with cs show ?case by (intro exI [of _ "rc # cs"]) simp
qed

lemma check_revocations_frame:
  "check_revocations lib env i certs rc = (x, rc') \<Longrightarrow>
     listURL rc' = listURL rc \<and> list_ttl rc' = list_ttl rc"
  by (induction lib env i certs rc rule: check_revocations.induct)
    (auto split: prod.splits sum.splits if_splits dest!: IsKeyRevoked_frame)

lemma revocation_step_frame:
  "revocation_step lib env v certs = (x, v') \<Longrightarrow> rootPool v' = rootPool v \<and> policy v' = policy v"
  by (auto simp: revocation_step_def split: option.splits if_splits prod.splits)

lemma VerifyAttestation_frame:
  "VerifyAttestation lib env v chain ch k = (x, v') \<Longrightarrow>
     rootPool v' = rootPool v \<and> policy v' = policy v"
  by (auto simp: VerifyAttestation_def dest: revocation_step_frame
      split: if_splits sum.splits prod.splits)

lemma parse_chain_ok:
  assumes "parse_chain lib chain = Inr certs"
  shows "length certs = length chain"
    and "i < length chain \<Longrightarrow> lib_parse_certificate lib (chain ! i) = Inr (certs ! i)"
proof -
  show "length certs = length chain"
    using assms unfolding parse_chain_def by (rule traverse_from_length)
  assume "i < length chain"
  with traverse_from_nth [OF assms [unfolded parse_chain_def]]
  show "lib_parse_certificate lib (chain ! i) = Inr (certs ! i)" by fastforce
qed

text \<open>The chains for which there is something to verify.\<close>

lemma VerifyAttestation_chain:
  assumes "VerifyAttestation lib env v chain ch k = (Inr rec, v')" "chain \<noteq> []"
  obtains certs where
    "length chain \<le> maxChainCertificates"
    "AllowEmptyAttestation (policy v) \<or> 2 \<le> length chain"
    "parse_chain lib chain = Inr certs" "certs \<noteq> []"
    "revocation_step lib (list_env env) v certs = (Inr (), v')"
    "chain_step lib (chain_now env) v' certs = Inr ()"
    "key_step (hd certs) k = Inr ()"
    "extension_step (policy v) (hd certs) ch = Inr rec"
proof -
  from assms have len: "length chain \<le> maxChainCertificates"
    "AllowEmptyAttestation (policy v) \<or> 2 \<le> length chain"
    by (auto simp: VerifyAttestation_def split: if_splits)
  from assms obtain certs where certs: "parse_chain lib chain = Inr certs"
    and step: "revocation_step lib (list_env env) v certs = (Inr (), v')"
    and rest: "chain_step lib (chain_now env) v' certs = Inr ()"
      "key_step (hd certs) k = Inr ()" "extension_step (policy v') (hd certs) ch = Inr rec"
    by (auto simp: VerifyAttestation_def split: if_splits sum.splits prod.splits)
  from parse_chain_ok(1) [OF certs] assms(2) have "certs \<noteq> []" by auto
  with that len certs step rest revocation_step_frame [OF step] show thesis by simp
qed

text \<open>The extension, when the policy does not accept an empty attestation.\<close>

lemma extension_step_strict:
  assumes "\<not> AllowEmptyAttestation p"
  shows "extension_step p leaf ch = Inr rec \<longleftrightarrow>
     (\<exists>ext kd. find_attestation_ext leaf = Some ext \<and> ext_value ext \<noteq> [] \<and>
        parse_KeyDescription (ext_value ext) = Inr kd \<and> description_step p ch kd = Inr rec)"
  using assms by (auto simp: extension_step_def Let_def split: option.splits)

subsection \<open>The challenge\<close>

lemma parse_KeyDescription_Nil: "parse_KeyDescription [] = Inl Asn1SequenceTruncated"
  by (simp add: parse_KeyDescription_def parse_struct_def)

lemma ExtractChallenge_ok:
  "ExtractChallenge lib chain = Inr ch \<longleftrightarrow>
     (\<exists>der ders leaf ext kd. chain = der # ders \<and> lib_parse_certificate lib der = Inr leaf \<and>
        find_attestation_ext leaf = Some ext \<and> parse_KeyDescription (ext_value ext) = Inr kd \<and>
        ch = kd_AttestationChallenge kd)"
  by (auto simp: ExtractChallenge_def split: list.splits option.splits)

lemma steps_not_mismatch:
  "level_step p kd \<noteq> Inl ChallengeMismatch"
  "root_of_trust_step p kd \<noteq> Inl ChallengeMismatch"
  "application_step p kd \<noteq> Inl ChallengeMismatch"
  "extractOSInfo kd p \<noteq> Inl ChallengeMismatch"
  "boot_step p record0 rot \<noteq> Inl ChallengeMismatch"
proof -
  show "level_step p kd \<noteq> Inl ChallengeMismatch" by (simp add: level_step_def Let_def)
  show "root_of_trust_step p kd \<noteq> Inl ChallengeMismatch"
    by (simp add: root_of_trust_step_def and_then_eq_Inl map_err_eq_Inl)
  have "find_application_id kd \<noteq> Inl ChallengeMismatch"
    by (auto simp: find_application_id_def and_then_eq_Inl map_err_eq_Inl split: option.splits)
  then show "application_step p kd \<noteq> Inl ChallengeMismatch"
    by (auto simp: application_step_def verifyApplicationID_def and_then_eq_Inl map_err_eq_Inl
        split: option.splits if_splits)
  show "extractOSInfo kd p \<noteq> Inl ChallengeMismatch"
    by (simp add: extractOSInfo_def and_then_eq_Inl map_err_eq_Inl)
  show "boot_step p record0 rot \<noteq> Inl ChallengeMismatch"
    by (simp add: boot_step_def Let_def split: option.splits)
qed

lemma extension_step_not_mismatch:
  assumes "find_attestation_ext leaf = Some ext" "parse_KeyDescription (ext_value ext) = Inr kd"
    "ch = kd_AttestationChallenge kd"
  shows "extension_step p leaf ch \<noteq> Inl ChallengeMismatch"
proof -
  have "description_step p ch kd \<noteq> Inl ChallengeMismatch"
    using assms(3) by (auto simp: description_step_def and_then_eq_Inl steps_not_mismatch)
  with assms(1,2) show ?thesis
    by (auto simp: extension_step_def and_then_eq_Inl map_err_eq_Inl Let_def)
qed

subsection \<open>Acceptance under a strict policy\<close>

definition strict_policy :: "Policy \<Rightarrow> bool" where
  "strict_policy p \<longleftrightarrow> RequireHardwareBacked p \<and> RequireDeviceLocked p \<and> RequireVerifiedBoot p \<and>
     \<not> SkipChainValidation p \<and> \<not> AllowEmptyAttestation p"

text \<open>What the attestation extension must say, without reference to the order of the checks.\<close>

definition hardware_description :: "Policy \<Rightarrow> bytes \<Rightarrow> KeyDescription \<Rightarrow> bool" where
  "hardware_description p ch kd \<longleftrightarrow>
     kd_AttestationChallenge kd = ch \<and>
     hardware_level (kd_AttestationSecurityLevel kd) \<and> hardware_level (kd_KeymasterSecurityLevel kd) \<and>
     (\<exists>r. findRootOfTrust (rv_full (kd_TeeEnforced kd)) = Inr (Some r) \<and>
        rot_DeviceLocked r \<and> rot_VerifiedBootState r = VerifiedBootStateVerified) \<and>
     (ExpectedPackageName p = [] \<or> application_listed kd (ExpectedPackageName p)) \<and>
     (\<exists>v l. findIntTag (rv_full (kd_TeeEnforced kd)) TagOSVersion = Inr v \<and>
        findIntTag (rv_full (kd_TeeEnforced kd)) TagOSPatch = Inr l \<and> versions_allowed p v l)"

text \<open>
  A chain of 2 to 16 certificates that ends in the given roots, whose leaf certifies the key
  and describes it as one of a locked, verified device's secure hardware.
\<close>

definition attested_key ::
  "golib \<Rightarrow> cert_pool \<Rightarrow> Policy \<Rightarrow> instant \<Rightarrow> bytes list \<Rightarrow> bytes \<Rightarrow> public_key \<Rightarrow> bool" where
  "attested_key lib roots p now chain ch k \<longleftrightarrow>
     2 \<le> length chain \<and> length chain \<le> maxChainCertificates \<and>
     (\<exists>leaf rest ext kd. parse_chain lib chain = Inr (leaf # rest) \<and>
        lib_verify lib leaf roots (foldl AddCert [] rest) [ExtKeyUsageAny] now \<and>
        (k = NilKey \<or> (\<exists>der. k = EncodableKey der \<and> PublicKey leaf = EncodableKey der)) \<and>
        find_attestation_ext leaf = Some ext \<and> ext_value ext \<noteq> [] \<and>
        parse_KeyDescription (ext_value ext) = Inr kd \<and> hardware_description p ch kd)"

lemma description_step_strict:
  assumes "strict_policy p"
  shows "(\<exists>rec. description_step p ch kd = Inr rec) \<longleftrightarrow> hardware_description p ch kd"
proof -
  have pol: "RequireHardwareBacked p" "RequireDeviceLocked p" "RequireVerifiedBoot p"
    using assms by (simp_all add: strict_policy_def)
  have rot: "(\<exists>rot. root_of_trust_step p kd = Inr rot \<and> boot_requirements p rot) \<longleftrightarrow>
      (\<exists>r. findRootOfTrust (rv_full (kd_TeeEnforced kd)) = Inr (Some r) \<and>
        rot_DeviceLocked r \<and> rot_VerifiedBootState r = VerifiedBootStateVerified)"
    using pol by (auto simp: root_of_trust_step_hardware boot_requirements_def split: option.splits)
  show ?thesis
    using pol rot unfolding description_step_ok hardware_description_def
    by (auto simp: os_value_hardware; blast)
qed

lemma description_step_levels:
  "description_step p ch kd = Inr rec \<Longrightarrow>
     rec_AttestationSecurityLevel rec = kd_AttestationSecurityLevel kd \<and>
     rec_KeymasterSecurityLevel rec = kd_KeymasterSecurityLevel kd"
  by (auto simp: description_step_ok with_root_def record_of_def split: option.splits)

lemma VerifyAttestation_strict:
  assumes "strict_policy (policy v)" "VerifyAttestation lib env v chain ch k = (Inr rec, v')"
  shows "attested_key lib (rootPool v) (policy v) (chain_now env) chain ch k"
    and "hardware_level (rec_AttestationSecurityLevel rec)"
proof -
  have ne: "chain \<noteq> []"
    using assms by (auto simp: VerifyAttestation_def strict_policy_def)
  from assms(2) ne obtain certs where len: "length chain \<le> maxChainCertificates"
      "AllowEmptyAttestation (policy v) \<or> 2 \<le> length chain"
    and certs: "parse_chain lib chain = Inr certs" "certs \<noteq> []"
    and rev: "revocation_step lib (list_env env) v certs = (Inr (), v')"
    and chain: "chain_step lib (chain_now env) v' certs = Inr ()"
    and key: "key_step (hd certs) k = Inr ()"
    and ext: "extension_step (policy v) (hd certs) ch = Inr rec"
    by (rule VerifyAttestation_chain)
  from certs(2) obtain leaf rest where [simp]: "certs = leaf # rest" by (cases certs) auto
  have pol: "\<not> AllowEmptyAttestation (policy v)" "\<not> SkipChainValidation (policy v)"
    using assms(1) by (simp_all add: strict_policy_def)
  from ext pol obtain e kd where e: "find_attestation_ext leaf = Some e" "ext_value e \<noteq> []"
      "parse_KeyDescription (ext_value e) = Inr kd"
    and d: "description_step (policy v) ch kd = Inr rec"
    by (auto simp: extension_step_strict)
  from d description_step_strict [OF assms(1)] have hw: "hardware_description (policy v) ch kd" by blast
  with description_step_levels [OF d] show "hardware_level (rec_AttestationSecurityLevel rec)"
    by (simp add: hardware_description_def)
  show "attested_key lib (rootPool v) (policy v) (chain_now env) chain ch k"
    unfolding attested_key_def
    using len certs chain key e hw pol revocation_step_frame [OF rev]
    by (auto simp: chain_step_ok key_step_ok)
qed

lemma VerifyAttestation_strict_complete:
  assumes strict: "strict_policy (policy v)"
    and key: "attested_key lib (rootPool v) (policy v) (chain_now env) chain ch k"
    and rev: "\<And>certs. parse_chain lib chain = Inr certs \<Longrightarrow>
      revocation_step lib (list_env env) v certs = (Inr (), v')"
  shows "\<exists>rec. VerifyAttestation lib env v chain ch k = (Inr rec, v')"
proof -
  from key obtain leaf rest e kd where len: "2 \<le> length chain" "length chain \<le> maxChainCertificates"
    and certs: "parse_chain lib chain = Inr (leaf # rest)"
    and verify: "lib_verify lib leaf (rootPool v) (foldl AddCert [] rest) [ExtKeyUsageAny] (chain_now env)"
    and k: "k = NilKey \<or> (\<exists>der. k = EncodableKey der \<and> PublicKey leaf = EncodableKey der)"
    and e: "find_attestation_ext leaf = Some e" "ext_value e \<noteq> []"
      "parse_KeyDescription (ext_value e) = Inr kd"
    and hw: "hardware_description (policy v) ch kd"
    unfolding attested_key_def by blast
  note rev' = rev [OF certs]
  from description_step_strict [OF strict] hw obtain rec
    where "description_step (policy v) ch kd = Inr rec" by blast
  with e strict have "extension_step (policy v) leaf ch = Inr rec"
    by (auto simp: extension_step_strict strict_policy_def)
  moreover have "key_step leaf k = Inr ()" using k by (simp add: key_step_ok)
  moreover have "chain_step lib (chain_now env) v' (leaf # rest) = Inr ()"
    using verify revocation_step_frame [OF rev'] by (simp add: chain_step_ok)
  ultimately have "VerifyAttestation lib env v chain ch k = (Inr rec, v')"
    using len certs rev' revocation_step_frame [OF rev']
    by (auto simp: VerifyAttestation_def maxChainCertificates_def)
  then show ?thesis by blast
qed

text \<open>
  The exact verdict: what the chain must attest, and the revocation check of its certificates.
\<close>

lemma VerifyAttestation_strict_iff:
  assumes "strict_policy (policy v)"
  shows "(\<exists>rec v'. VerifyAttestation lib env v chain ch k = (Inr rec, v')) \<longleftrightarrow>
     attested_key lib (rootPool v) (policy v) (chain_now env) chain ch k \<and>
     (\<exists>certs v'. parse_chain lib chain = Inr certs \<and>
        revocation_step lib (list_env env) v certs = (Inr (), v'))"
proof
  assume "\<exists>rec v'. VerifyAttestation lib env v chain ch k = (Inr rec, v')"
  then obtain rec v' where v: "VerifyAttestation lib env v chain ch k = (Inr rec, v')" by blast
  with assms have "chain \<noteq> []" by (auto simp: VerifyAttestation_def strict_policy_def)
  with v obtain certs where "parse_chain lib chain = Inr certs"
    "revocation_step lib (list_env env) v certs = (Inr (), v')"
    by (rule VerifyAttestation_chain)
  with VerifyAttestation_strict(1) [OF assms v]
  show "attested_key lib (rootPool v) (policy v) (chain_now env) chain ch k \<and>
     (\<exists>certs v'. parse_chain lib chain = Inr certs \<and>
        revocation_step lib (list_env env) v certs = (Inr (), v'))" by blast
next
  assume "attested_key lib (rootPool v) (policy v) (chain_now env) chain ch k \<and>
     (\<exists>certs v'. parse_chain lib chain = Inr certs \<and>
        revocation_step lib (list_env env) v certs = (Inr (), v'))"
  then obtain certs v' where key: "attested_key lib (rootPool v) (policy v) (chain_now env) chain ch k"
    and "parse_chain lib chain = Inr certs" "revocation_step lib (list_env env) v certs = (Inr (), v')"
    by blast
  then have "revocation_step lib (list_env env) v certs' = (Inr (), v')"
    if "parse_chain lib chain = Inr certs'" for certs' using that by simp
  from VerifyAttestation_strict_complete [OF assms key this]
  show "\<exists>rec v'. VerifyAttestation lib env v chain ch k = (Inr rec, v')" by blast
qed

subsection \<open>Every certificate is checked against the revocation list\<close>

text \<open>
  The client's states from question to question: it starts as the verifier's client, every
  answer is no, on the list held after the question, and it ends as the client that is kept.
\<close>

lemma VerifyAttestation_checked:
  assumes v: "VerifyAttestation lib env v chain ch k = (Inr rec, v')" "chain \<noteq> []"
    and on: "CheckRevocationList (policy v)" "revocations v = Some rc"
  shows "\<exists>certs cs. parse_chain lib chain = Inr certs \<and>
     length cs = Suc (length certs) \<and> cs ! 0 = rc \<and> revocations v' = Some (cs ! length certs) \<and>
     (\<forall>i < length certs.
        IsKeyRevoked lib (list_env env i) (PublicKey (certs ! i)) (cs ! i) = (Inr False, cs ! Suc i) \<and>
        (\<exists>kid listed. PublicKeyFingerprint (PublicKey (certs ! i)) = Inr kid \<and>
           entries (cs ! Suc i) = Some listed \<and>
           (\<forall>status. listed kid = Some status \<longrightarrow> \<not> spells_revoked status)))"
proof -
  from v obtain certs where certs: "parse_chain lib chain = Inr certs"
    and rev: "revocation_step lib (list_env env) v certs = (Inr (), v')"
    by (rule VerifyAttestation_chain)
  from on rev obtain rc' where check: "check_revocations lib (list_env env) 0 certs rc = (Inr (), rc')"
    and v': "revocations v' = Some rc'"
    by (auto simp: revocation_step_def split: prod.splits)
  from check_revocations_states [OF check] obtain cs where cs: "length cs = Suc (length certs)"
      "cs ! 0 = rc" "cs ! length certs = rc'"
    and asked: "\<And>i. i < length certs \<Longrightarrow>
      IsKeyRevoked lib (list_env env i) (PublicKey (certs ! i)) (cs ! i) = (Inr False, cs ! Suc i)"
    by auto
  have "\<exists>kid listed. PublicKeyFingerprint (PublicKey (certs ! i)) = Inr kid \<and>
      entries (cs ! Suc i) = Some listed \<and>
      (\<forall>status. listed kid = Some status \<longrightarrow> \<not> spells_revoked status)" if "i < length certs" for i
  proof -
    from asked [OF that] obtain kid where kid: "PublicKeyFingerprint (PublicKey (certs ! i)) = Inr kid"
      and refresh: "refresh_list lib (list_env env i) (cs ! i) = (Inr (), cs ! Suc i)"
      and no: "\<not> lookup_revoked (entries (cs ! Suc i)) kid"
      by (auto simp: IsKeyRevoked_eq_Inr)
    from refresh obtain listed where "entries (cs ! Suc i) = Some listed" by (rule refresh_list_entries)
    with kid no show ?thesis by (auto simp: lookup_revoked_iff)
  qed
  with certs cs v' asked show ?thesis by (intro exI [of _ certs] exI [of _ cs]) simp
qed

subsection \<open>Development mode\<close>

text \<open>
  The development policy with the package and the versions of another one. \<open>main\<close> also carries
  over whether the revocation list is checked (\<open>REQUIRE_REVOCATION_CHECK\<close>):
  \<open>relaxed_checking\<close>.
\<close>

definition relaxed_policy :: "Policy \<Rightarrow> Policy" where
  "relaxed_policy p = DevelopmentPolicy
     \<lparr>ExpectedPackageName := ExpectedPackageName p, MinOsVersion := MinOsVersion p,
      MinPatchLevel := MinPatchLevel p\<rparr>"

definition relaxed_checking :: "bool \<Rightarrow> Policy \<Rightarrow> Policy" where
  "relaxed_checking check p = (relaxed_policy p)\<lparr>CheckRevocationList := check\<rparr>"

lemma relaxed_policy_unchecked: "relaxed_policy p = relaxed_checking False p"
  by (simp add: relaxed_checking_def relaxed_policy_def DevelopmentPolicy_def)

lemma os_value_tee:
  "findIntTag (rv_full (kd_TeeEnforced kd)) tag = Inr v \<Longrightarrow>
     \<exists>w. os_value kd p tag = Inr w \<and> (v \<noteq> 0 \<longrightarrow> w = v)"
  by (auto simp: os_value_def split: sum.splits)

lemma versions_allowed_tee:
  "versions_allowed p v l \<Longrightarrow> v \<noteq> 0 \<longrightarrow> v' = v \<Longrightarrow> l \<noteq> 0 \<longrightarrow> l' = l \<Longrightarrow> versions_allowed p v' l'"
  by (auto simp: versions_allowed_def)

lemma relaxed_checking_simps [simp]:
  "AllowEmptyAttestation (relaxed_checking check p)" "SkipChainValidation (relaxed_checking check p)"
  "\<not> RequireHardwareBacked (relaxed_checking check p)"
  "CheckRevocationList (relaxed_checking check p) = check"
  "ExpectedPackageName (relaxed_checking check p) = ExpectedPackageName p"
  "versions_allowed (relaxed_checking check p) v l = versions_allowed p v l"
  "boot_requirements (relaxed_checking check p) (Some r)"
  by (simp_all add: relaxed_checking_def relaxed_policy_def DevelopmentPolicy_def
      versions_allowed_def boot_requirements_def)

lemma description_step_relaxed:
  assumes "hardware_description p ch kd"
  shows "\<exists>rec. description_step (relaxed_checking check p) ch kd = Inr rec"
proof -
  from assms obtain r v l where r: "findRootOfTrust (rv_full (kd_TeeEnforced kd)) = Inr (Some r)"
    and vl: "findIntTag (rv_full (kd_TeeEnforced kd)) TagOSVersion = Inr v"
      "findIntTag (rv_full (kd_TeeEnforced kd)) TagOSPatch = Inr l" "versions_allowed p v l"
    by (auto simp: hardware_description_def)
  from os_value_tee [OF vl(1)] os_value_tee [OF vl(2)] obtain v' l' where
    "os_value kd (relaxed_checking check p) TagOSVersion = Inr v'" "v \<noteq> 0 \<longrightarrow> v' = v"
    "os_value kd (relaxed_checking check p) TagOSPatch = Inr l'" "l \<noteq> 0 \<longrightarrow> l' = l" by blast
  with versions_allowed_tee [OF vl(3)] root_of_trust_step_tee [OF r, of "relaxed_checking check p"]
    assms
  show ?thesis unfolding description_step_ok by (auto simp: hardware_description_def)
qed

lemma VerifyAttestation_relaxed:
  assumes "strict_policy (policy v)" "VerifyAttestation lib env v chain ch k = (Inr rec, v')"
    and "check \<longrightarrow> CheckRevocationList (policy v)"
  defines "w \<equiv> v\<lparr>policy := relaxed_checking check (policy v)\<rparr>"
    and "w' \<equiv> (if check then v' else v)\<lparr>policy := relaxed_checking check (policy v)\<rparr>"
  shows "\<exists>rec'. VerifyAttestation lib env w chain ch k = (Inr rec', w')"
proof -
  from VerifyAttestation_strict(1) [OF assms(1,2)] obtain leaf rest ext kd where
    len: "2 \<le> length chain" "length chain \<le> maxChainCertificates"
    and certs: "parse_chain lib chain = Inr (leaf # rest)"
    and k: "k = NilKey \<or> (\<exists>der. k = EncodableKey der \<and> PublicKey leaf = EncodableKey der)"
    and ext: "find_attestation_ext leaf = Some ext" "ext_value ext \<noteq> []"
      "parse_KeyDescription (ext_value ext) = Inr kd"
    and hw: "hardware_description (policy v) ch kd"
    unfolding attested_key_def by blast
  have "chain \<noteq> []" using len by auto
  with assms(2) have rev: "revocation_step lib (list_env env) v (leaf # rest) = (Inr (), v')"
    using certs by (auto elim: VerifyAttestation_chain)
  from description_step_relaxed [OF hw] obtain rec'
    where "description_step (relaxed_checking check (policy v)) ch kd = Inr rec'" by blast
  with ext have "extension_step (policy w') leaf ch = Inr rec'"
    by (simp add: extension_step_def w'_def)
  moreover have "key_step leaf k = Inr ()" using k by (simp add: key_step_ok)
  moreover have "chain_step lib (chain_now env) w' (leaf # rest) = Inr ()"
    by (simp add: chain_step_ok w'_def)
  moreover have "revocation_step lib (list_env env) w (leaf # rest) = (Inr (), w')"
    using rev assms(3)
    by (cases check) (auto simp: revocation_step_def w_def w'_def split: option.splits prod.splits)
  moreover have "AllowEmptyAttestation (policy w)" by (simp add: w_def)
  ultimately have "VerifyAttestation lib env w chain ch k = (Inr rec', w')"
    using len certs by (auto simp: VerifyAttestation_def)
  then show ?thesis by blast
qed

end
