(* ===== verification/Files.thy ===== *)
theory Files
  imports GoText
begin

text \<open>
  The file operations of package \<open>os\<close> that certificate bootstrapping and the CA loader use, on
  a small model of a file system: nodes under their cleaned path, and the ways the system
  can refuse an operation (opening for writing, writing only a prefix, reading) as part of
  the state. Paths are cleaned lexically, so a path through the parent of a missing directory
  finds what the cleaned path finds; symbolic links and a changing working directory are
  outside the model.
\<close>

datatype node = File bytes nat | Directory

datatype file_error = NotExist | IsDirectory | NotDirectory | NotEmpty | Denied | ShortWrite

record files =
  nodes :: "string \<rightharpoonup> node"
  refuses_write :: "string \<Rightarrow> bool"
  refuses_read :: "string \<Rightarrow> bool"
  short_write :: "string \<Rightarrow> nat option"

text \<open>The working directory and the root always exist.\<close>

definition node_at :: "files \<Rightarrow> string \<Rightarrow> node option" where
  "node_at fs q = (if q = ''.'' \<or> q = ''/'' then Some Directory else nodes fs q)"

text \<open>The empty path names nothing: every operation on it fails.\<close>

definition stat :: "files \<Rightarrow> string \<Rightarrow> node option" where
  "stat fs p = (if p = [] then None else node_at fs (clean_path p))"

definition is_file :: "files \<Rightarrow> string \<Rightarrow> bool" where
  "is_file fs p = (case stat fs p of Some (File _ _) \<Rightarrow> True | _ \<Rightarrow> False)"

definition file_content :: "files \<Rightarrow> string \<Rightarrow> bytes option" where
  "file_content fs p = (case stat fs p of Some (File c _) \<Rightarrow> Some c | _ \<Rightarrow> None)"

definition read_file :: "files \<Rightarrow> string \<Rightarrow> file_error + bytes" where
  "read_file fs p =
     (case stat fs p of
        None \<Rightarrow> Inl NotExist
      | Some Directory \<Rightarrow> Inl IsDirectory
      | Some (File c _) \<Rightarrow> if refuses_read fs (clean_path p) then Inl Denied else Inr c)"

text \<open>
  \<open>os.WriteFile\<close>: a new file gets the given mode, an existing one keeps its own; a short
  write leaves the prefix that was written.
\<close>

definition write_file :: "string \<Rightarrow> bytes \<Rightarrow> nat \<Rightarrow> files \<Rightarrow> file_error option \<times> files" where
  "write_file p content mode fs =
     (let q = clean_path p in
      if p = [] then (Some NotExist, fs)
      else if node_at fs q = Some Directory then (Some IsDirectory, fs)
      else if node_at fs (path_dir q) \<noteq> Some Directory then (Some NotExist, fs)
      else if refuses_write fs q then (Some Denied, fs)
      else let mode' = (case node_at fs q of Some (File _ m) \<Rightarrow> m | _ \<Rightarrow> mode) in
        (case short_write fs q of
           Some n \<Rightarrow> (Some ShortWrite, fs\<lparr>nodes := (nodes fs)(q \<mapsto> File (take n content) mode')\<rparr>)
         | None \<Rightarrow> (None, fs\<lparr>nodes := (nodes fs)(q \<mapsto> File content mode')\<rparr>)))"

text \<open>\<open>os.MkdirAll\<close>: the directories on the way to a path, outermost first.\<close>

fun prefixes_slash :: "string \<Rightarrow> string list \<Rightarrow> string list" where
  "prefixes_slash acc [] = []"
| "prefixes_slash acc (w # ws) =
     (let acc' = (if acc = [] then w else acc @ slash # w) in acc' # prefixes_slash acc' ws)"

definition path_ancestors :: "string \<Rightarrow> string list" where
  "path_ancestors p =
     (let q = clean_path p
      in if q \<noteq> [] \<and> hd q = slash
         then map (\<lambda>w. slash # w) (prefixes_slash [] (split_slash (tl q)))
         else prefixes_slash [] (split_slash q))"

fun make_dirs :: "string list \<Rightarrow> files \<Rightarrow> file_error option \<times> files" where
  "make_dirs [] fs = (None, fs)"
| "make_dirs (d # ds) fs =
     (case node_at fs d of
        Some Directory \<Rightarrow> make_dirs ds fs
      | Some (File _ _) \<Rightarrow> (Some NotDirectory, fs)
      | None \<Rightarrow> if refuses_write fs d then (Some Denied, fs)
                else make_dirs ds (fs\<lparr>nodes := (nodes fs)(d \<mapsto> Directory)\<rparr>))"

definition mkdir_all :: "string \<Rightarrow> files \<Rightarrow> file_error option \<times> files" where
  "mkdir_all p fs =
     (if p = [] then (Some NotExist, fs) else make_dirs (path_ancestors p) fs)"

text \<open>\<open>os.Remove\<close>: a file, or a directory with nothing below it.\<close>

definition below :: "string \<Rightarrow> string \<Rightarrow> bool" where
  "below d q \<longleftrightarrow> has_prefix q (d @ ''/'')"

definition directory_empty :: "files \<Rightarrow> string \<Rightarrow> bool" where
  "directory_empty fs d \<longleftrightarrow> (\<forall>q. below d q \<longrightarrow> nodes fs q = None)"

definition remove_file :: "string \<Rightarrow> files \<Rightarrow> file_error option \<times> files" where
  "remove_file p fs =
     (let q = clean_path p in
      case (if p = [] then None else node_at fs q) of
        None \<Rightarrow> (Some NotExist, fs)
      | Some n \<Rightarrow>
          if n = Directory \<and> (q = ''.'' \<or> q = ''/'' \<or> \<not> directory_empty fs q)
          then (Some NotEmpty, fs)
          else if refuses_write fs q then (Some Denied, fs)
          else (None, fs\<lparr>nodes := (nodes fs)(q := None)\<rparr>))"

subsection \<open>Facts\<close>

lemma is_file_iff_content: "is_file fs p \<longleftrightarrow> file_content fs p \<noteq> None"
  by (auto simp: is_file_def file_content_def split: option.splits node.splits)

lemma read_file_content: "read_file fs p = Inr c \<Longrightarrow> file_content fs p = Some c"
  by (auto simp: read_file_def file_content_def split: option.splits node.splits if_splits)

lemma write_file_ok:
  assumes "write_file p content mode fs = (None, fs')"
  shows "file_content fs' p = Some content" and "\<not> refuses_write fs (clean_path p)"
  using assms
  by (auto simp: write_file_def file_content_def stat_def node_at_def Let_def
      split: if_splits option.splits node.splits)

lemma read_file_iff:
  "read_file fs p = Inr c \<longleftrightarrow> file_content fs p = Some c \<and> \<not> refuses_read fs (clean_path p)"
  by (auto simp: read_file_def file_content_def split: option.splits node.splits)

lemma write_file_other:
  assumes "write_file p content mode fs = (e, fs')" and "clean_path p' \<noteq> clean_path p"
  shows "stat fs' p' = stat fs p'"
  using assms
  by (auto simp: write_file_def stat_def node_at_def Let_def split: if_splits option.splits)

lemma write_file_other_content:
  assumes "write_file p content mode fs = (e, fs')" and "clean_path p' \<noteq> clean_path p"
  shows "file_content fs' p' = file_content fs p'"
  using write_file_other [OF assms] by (simp add: file_content_def)

lemma write_file_keeps_files:
  assumes "write_file p content mode fs = (e, fs')" "is_file fs p'"
  shows "is_file fs' p'"
  using assms
  by (auto simp: write_file_def is_file_def stat_def node_at_def Let_def
      split: if_splits option.splits node.splits)

lemma make_dirs_files:
  "make_dirs ds fs = (e, fs') \<Longrightarrow> is_file fs' p = is_file fs p \<and> file_content fs' p = file_content fs p"
proof (induction ds fs rule: make_dirs.induct)
  case (2 d ds fs)
  show ?case
  proof (cases "node_at fs d")
    case None
    let ?fs1 = "fs\<lparr>nodes := (nodes fs)(d \<mapsto> Directory)\<rparr>"
    have "is_file ?fs1 p = is_file fs p \<and> file_content ?fs1 p = file_content fs p"
      using None by (auto simp: is_file_def file_content_def stat_def node_at_def)
    with 2 None show ?thesis by (auto split: if_splits)
  next
    case (Some n)
    with 2 show ?thesis by (cases n) auto
  qed
qed simp

lemma mkdir_all_files:
  assumes "mkdir_all d fs = (e, fs')"
  shows "is_file fs' p = is_file fs p" "file_content fs' p = file_content fs p"
  using make_dirs_files assms by (auto simp: mkdir_all_def split: if_splits)

text \<open>The parameters that describe the system's refusals never change.\<close>

lemma write_file_frame:
  "write_file p content mode fs = (e, fs') \<Longrightarrow>
     refuses_write fs' = refuses_write fs \<and> refuses_read fs' = refuses_read fs \<and>
     short_write fs' = short_write fs"
  by (auto simp: write_file_def Let_def split: if_splits option.splits)

lemma mkdir_all_ok:
  "mkdir_all p fs = (None, fs') \<longleftrightarrow> p \<noteq> [] \<and> make_dirs (path_ancestors p) fs = (None, fs')"
  by (simp add: mkdir_all_def)

lemma make_dirs_frame:
  "make_dirs ds fs = (e, fs') \<Longrightarrow>
     refuses_write fs' = refuses_write fs \<and> refuses_read fs' = refuses_read fs \<and>
     short_write fs' = short_write fs"
  by (induction ds fs arbitrary: fs' rule: make_dirs.induct)
    (auto split: option.splits node.splits if_splits)

text \<open>Directories, once there, are found again.\<close>

lemma write_file_directories:
  "write_file p content mode fs = (e, fs') \<Longrightarrow> node_at fs d = Some Directory \<Longrightarrow>
     node_at fs' d = Some Directory"
  by (auto simp: write_file_def node_at_def Let_def split: if_splits option.splits)

lemma make_dirs_directories:
  "make_dirs ds fs = (e, fs') \<Longrightarrow> node_at fs d = Some Directory \<Longrightarrow> node_at fs' d = Some Directory"
proof (induction ds fs arbitrary: fs' rule: make_dirs.induct)
  case (2 d' ds fs)
  then show ?case
    by (auto simp: node_at_def split: option.splits node.splits if_splits)
qed simp

lemma make_dirs_all:
  "make_dirs ds fs = (None, fs') \<Longrightarrow> list_all (\<lambda>d. node_at fs' d = Some Directory) ds"
proof (induction ds fs arbitrary: fs' rule: make_dirs.induct)
  case (2 d ds fs)
  show ?case
  proof (cases "node_at fs d")
    case None
    let ?fs1 = "fs\<lparr>nodes := (nodes fs)(d \<mapsto> Directory)\<rparr>"
    from None 2 have "make_dirs ds ?fs1 = (None, fs')" by (auto split: if_splits)
    moreover have "node_at ?fs1 d = Some Directory" by (simp add: node_at_def)
    ultimately show ?thesis using 2 None make_dirs_directories by (auto split: if_splits)
  next
    case (Some n)
    with 2 make_dirs_directories show ?thesis by (cases n) auto
  qed
qed simp

lemma make_dirs_existing:
  "list_all (\<lambda>d. node_at fs d = Some Directory) ds \<Longrightarrow> make_dirs ds fs = (None, fs)"
  by (induction ds) auto

text \<open>A directory that is there with all those above it; making it again does nothing.\<close>

definition dir_ready :: "files \<Rightarrow> string \<Rightarrow> bool" where
  "dir_ready fs d \<longleftrightarrow> d \<noteq> [] \<and> list_all (\<lambda>q. node_at fs q = Some Directory) (path_ancestors d)"

lemma mkdir_all_ready: "mkdir_all d fs = (None, fs') \<Longrightarrow> dir_ready fs' d"
  by (auto simp: mkdir_all_ok dir_ready_def intro: make_dirs_all)

lemma dir_ready_mkdir_all: "dir_ready fs d \<Longrightarrow> mkdir_all d fs = (None, fs)"
  by (simp add: mkdir_all_ok dir_ready_def make_dirs_existing)

lemma dir_ready_mono:
  "dir_ready fs d \<Longrightarrow> (\<And>q. node_at fs q = Some Directory \<Longrightarrow> node_at fs' q = Some Directory) \<Longrightarrow>
     dir_ready fs' d"
  by (auto simp: dir_ready_def list_all_iff)

lemma mkdir_all_keeps_ready: "mkdir_all d fs = (e, fs') \<Longrightarrow> dir_ready fs d' \<Longrightarrow> dir_ready fs' d'"
  by (erule dir_ready_mono) (auto simp: mkdir_all_def dest: make_dirs_directories split: if_splits)

lemma write_file_keeps_ready:
  "write_file p content mode fs = (e, fs') \<Longrightarrow> dir_ready fs d \<Longrightarrow> dir_ready fs' d"
  by (erule dir_ready_mono) (rule write_file_directories)

end
