(* ===== verification/Signer.thy ===== *)
theory Signer
  imports X509 Files
begin

text \<open>
  \<open>internal/ca\<close>: the certificate authority. \<open>SignCSR\<close> (\<open>signer.go\<close>) mints a client certificate,
  \<open>GenerateCA\<close> a self-signed root, \<open>LoadCA\<close> reads one from disk; \<open>cert_pool.go\<close> builds the
  pools. Randomness and clock readings are arguments.
\<close>

record CA =
  ca_Certificate :: certificate
  ca_PrivateKey :: ecdsa_key

definition NewCA :: "certificate \<Rightarrow> ecdsa_key \<Rightarrow> CA" where
  "NewCA cert key = \<lparr>ca_Certificate = cert, ca_PrivateKey = key\<rparr>"

text \<open>The bound of the random serial numbers, \<open>1 << 128\<close>.\<close>

definition serialNumberLimit :: int where "serialNumberLimit = 2 ^ 128"

text \<open>
  \<open>rand.Int(rand.Reader, max)\<close>: the documented range is the half-open interval up to
  \<open>max\<close>; a reading outside it is not one the function returns.
\<close>

definition draw_in_range :: "lib_error + int \<Rightarrow> bool" where
  "draw_in_range d = (case d of Inl _ \<Rightarrow> True | Inr n \<Rightarrow> 0 \<le> n \<and> n < serialNumberLimit)"

subsection \<open>Signing a request\<close>

datatype sign_error =
    CsrUnparsable lib_error | CsrSignatureInvalid | SerialDrawFailed lib_error
  | DeviceUriInvalid lib_error | SigningFailed lib_error | IssuedUnparsable lib_error

record sign_reading =
  serial_draw :: "lib_error + int"
  sign_now :: instant
  sign_entropy :: bytes

definition client_template :: "int \<Rightarrow> string \<Rightarrow> string \<Rightarrow> instant \<Rightarrow> duration \<Rightarrow> certificate" where
  "client_template serialNumber deviceID deviceURI now ttl = zero_certificate
     \<lparr>SerialNumber := serialNumber,
      CommonName := deviceID,
      Organization := [''Hardware mTLS Client''],
      URIs := [deviceURI],
      NotBefore := time_add now (- minute),
      NotAfter := time_add now ttl,
      KeyUsage := KeyUsageDigitalSignature,
      ExtKeyUsage := [ExtKeyUsageClientAuth],
      BasicConstraintsValid := True,
      IsCA := False\<rparr>"

definition SignCSR ::
  "golib \<Rightarrow> sign_reading \<Rightarrow> CA \<Rightarrow> bytes \<Rightarrow> string \<Rightarrow> duration \<Rightarrow>
     sign_error + certificate \<times> bytes" where
  "SignCSR lib env c csrDER deviceID ttl =
     and_then (map_err CsrUnparsable (lib_parse_request lib csrDER)) (\<lambda>csr.
     if \<not> lib_check_signature lib csr then Inl CsrSignatureInvalid
     else and_then (map_err SerialDrawFailed (serial_draw env)) (\<lambda>serialNumber.
     and_then (map_err DeviceUriInvalid (lib_url_parse lib (''urn:device:'' @ deviceID)))
       (\<lambda>deviceURI.
     and_then (map_err SigningFailed
         (lib_create_certificate lib (sign_entropy env)
            (client_template serialNumber deviceID deviceURI (sign_now env) ttl)
            (ca_Certificate c) (csr_public_key csr) (ca_PrivateKey c)))
       (\<lambda>certDER.
     and_then (map_err IssuedUnparsable (lib_parse_certificate lib certDER)) (\<lambda>cert.
       Inr (cert, lib_pem_encode lib ''CERTIFICATE'' certDER))))))"

text \<open>What an issued certificate is, as an elimination rule.\<close>

lemma SignCSR_ok:
  assumes "SignCSR lib env c csrDER deviceID ttl = Inr (cert, pem)"
  obtains csr serialNumber uri certDER where
    "lib_parse_request lib csrDER = Inr csr" "lib_check_signature lib csr"
    "serial_draw env = Inr serialNumber"
    "lib_url_parse lib (''urn:device:'' @ deviceID) = Inr uri"
    "lib_create_certificate lib (sign_entropy env)
       (client_template serialNumber deviceID uri (sign_now env) ttl)
       (ca_Certificate c) (csr_public_key csr) (ca_PrivateKey c) = Inr certDER"
    "lib_parse_certificate lib certDER = Inr cert"
    "pem = lib_pem_encode lib ''CERTIFICATE'' certDER"
  using assms by (auto simp: SignCSR_def split: if_splits)

lemma SignCSR_certificate:
  assumes signed: "SignCSR lib env c csrDER deviceID ttl = Inr (cert, pem)"
    and lib: "certificates_round_trip lib" and csr: "lib_parse_request lib csrDER = Inr csr"
  shows "CommonName cert = deviceID" "PublicKey cert = csr_public_key csr"
    "serial_draw env = Inr (SerialNumber cert)"
    "lib_url_parse lib (''urn:device:'' @ deviceID) = Inr uri \<Longrightarrow> URIs cert = [uri]"
proof -
  from signed obtain csr' n u der where
    parsed: "lib_parse_request lib csrDER = Inr csr'" and n: "serial_draw env = Inr n"
    and u: "lib_url_parse lib (''urn:device:'' @ deviceID) = Inr u"
    and created: "lib_create_certificate lib (sign_entropy env)
       (client_template n deviceID u (sign_now env) ttl)
       (ca_Certificate c) (csr_public_key csr') (ca_PrivateKey c) = Inr der"
    and cert: "lib_parse_certificate lib der = Inr cert"
    by (rule SignCSR_ok)
  note facts = certificates_round_tripD [OF lib created cert]
  show "CommonName cert = deviceID" "serial_draw env = Inr (SerialNumber cert)"
    using facts n by (simp_all add: client_template_def)
  show "PublicKey cert = csr_public_key csr" using facts parsed csr by simp
  show "lib_url_parse lib (''urn:device:'' @ deviceID) = Inr uri \<Longrightarrow> URIs cert = [uri]"
    using facts u by (simp add: client_template_def)
qed

text \<open>An invalid request signature never yields a certificate.\<close>

lemma SignCSR_bad_signature:
  "lib_parse_request lib csrDER = Inr csr \<Longrightarrow> \<not> lib_check_signature lib csr \<Longrightarrow>
     SignCSR lib env c csrDER deviceID ttl = Inl CsrSignatureInvalid"
  by (simp add: SignCSR_def)

subsection \<open>Generating a root\<close>

datatype generate_error =
    CaKeyFailed lib_error | CaSerialFailed lib_error | CaCreateFailed lib_error
  | CaUnparsable lib_error | CaKeyMarshalFailed lib_error

record ca_reading =
  ca_key_draw :: "lib_error + ecdsa_key"
  ca_serial_draw :: "lib_error + int"
  ca_now_before :: instant
  ca_now_after :: instant
  ca_entropy :: bytes

definition ca_template :: "int \<Rightarrow> string \<Rightarrow> instant \<Rightarrow> instant \<Rightarrow> duration \<Rightarrow> certificate" where
  "ca_template serialNumber commonName now1 now2 validity = zero_certificate
     \<lparr>SerialNumber := serialNumber,
      CommonName := commonName,
      Organization := [''Hardware mTLS PoC''],
      NotBefore := time_add now1 (- minute),
      NotAfter := time_add now2 validity,
      KeyUsage := or (or KeyUsageCertSign KeyUsageCRLSign) KeyUsageDigitalSignature,
      BasicConstraintsValid := True,
      IsCA := True,
      MaxPathLen := 1\<rparr>"

definition GenerateCA ::
  "golib \<Rightarrow> ca_reading \<Rightarrow> string \<Rightarrow> duration \<Rightarrow> generate_error + CA \<times> bytes \<times> bytes" where
  "GenerateCA lib env commonName validity =
     and_then (map_err CaKeyFailed (ca_key_draw env)) (\<lambda>privKey.
     and_then (map_err CaSerialFailed (ca_serial_draw env)) (\<lambda>serialNumber.
     let template = ca_template serialNumber commonName (ca_now_before env) (ca_now_after env) validity
     in and_then (map_err CaCreateFailed
            (lib_create_certificate lib (ca_entropy env) template template (key_public privKey) privKey))
       (\<lambda>certDER.
     and_then (map_err CaUnparsable (lib_parse_certificate lib certDER)) (\<lambda>parsedCert.
     let certPEM = lib_pem_encode lib ''CERTIFICATE'' certDER
     in and_then (map_err CaKeyMarshalFailed (lib_marshal_ec_key lib privKey)) (\<lambda>keyDER.
     let keyPEM = lib_pem_encode lib ''EC PRIVATE KEY'' keyDER
     in Inr (\<lparr>ca_Certificate = parsedCert, ca_PrivateKey = privKey\<rparr>, certPEM, keyPEM))))))"

subsection \<open>Loading a root from disk\<close>

datatype load_error =
    CaCertUnreadable file_error | CaCertNotPem | CaCertUnparsable lib_error
  | CaKeyUnreadable file_error | CaKeyNotPem | CaKeyNotEcdsa
  | CaKeyTypeUnsupported string | CaKeyUnparsable lib_error

definition LoadCA :: "golib \<Rightarrow> files \<Rightarrow> string \<Rightarrow> string \<Rightarrow> load_error + CA" where
  "LoadCA lib fs certPath keyPath =
     and_then (map_err CaCertUnreadable (read_file fs certPath)) (\<lambda>certPEM.
     and_then (case lib_pem_decode lib certPEM of
                 None \<Rightarrow> Inl CaCertNotPem
               | Some (block, _) \<Rightarrow>
                   if block_type block \<noteq> ''CERTIFICATE'' then Inl CaCertNotPem else Inr block)
       (\<lambda>block.
     and_then (map_err CaCertUnparsable (lib_parse_certificate lib (block_bytes block))) (\<lambda>cert.
     and_then (map_err CaKeyUnreadable (read_file fs keyPath)) (\<lambda>keyPEM.
     and_then (case lib_pem_decode lib keyPEM of
                 None \<Rightarrow> Inl CaKeyNotPem | Some (keyBlock, _) \<Rightarrow> Inr keyBlock)
       (\<lambda>keyBlock.
     and_then
       (if block_type keyBlock = ''EC PRIVATE KEY'' then
          map_err CaKeyUnparsable (lib_parse_ec_key lib (block_bytes keyBlock))
        else if block_type keyBlock = ''PRIVATE KEY'' then
          and_then (map_err CaKeyUnparsable (lib_parse_pkcs8_key lib (block_bytes keyBlock)))
            (\<lambda>parsed. case parsed of EcdsaPrivate k \<Rightarrow> Inr k | OtherPrivate \<Rightarrow> Inl CaKeyNotEcdsa)
        else Inl (CaKeyTypeUnsupported (block_type keyBlock)))
       (\<lambda>privKey. Inr \<lparr>ca_Certificate = cert, ca_PrivateKey = privKey\<rparr>))))))"

text \<open>The files of a generated root are loaded as that root.\<close>

lemma LoadCA_generated:
  assumes gen: "GenerateCA lib env commonName validity = Inr (c, certPEM, keyPEM)"
    and lib: "pem_round_trip lib" "ec_keys_round_trip lib"
    and files: "read_file fs certPath = Inr certPEM" "read_file fs keyPath = Inr keyPEM"
  shows "LoadCA lib fs certPath keyPath = Inr c"
proof -
  from gen obtain certDER keyDER where
    "certPEM = lib_pem_encode lib ''CERTIFICATE'' certDER"
    "keyPEM = lib_pem_encode lib ''EC PRIVATE KEY'' keyDER"
    "lib_parse_certificate lib certDER = Inr (ca_Certificate c)"
    "lib_marshal_ec_key lib (ca_PrivateKey c) = Inr keyDER"
    by (auto simp: GenerateCA_def Let_def)
  with lib files show ?thesis
    by (simp add: LoadCA_def pem_round_trip_def ec_keys_round_trip_def)
qed

text \<open>Loading depends on nothing but what is read from the two paths.\<close>

lemma LoadCA_cong:
  "read_file fs certPath = read_file fs' certPath \<Longrightarrow> read_file fs keyPath = read_file fs' keyPath \<Longrightarrow>
     LoadCA lib fs certPath keyPath = LoadCA lib fs' certPath keyPath"
  by (simp add: LoadCA_def)

subsection \<open>Certificate pools\<close>

definition NewCertPoolFromCert :: "certificate \<Rightarrow> cert_pool" where
  "NewCertPoolFromCert cert = AddCert [] cert"

text \<open>
  \<open>AppendCertsFromPEM\<close>: every block of type CERTIFICATE without headers that parses is
  added; \<open>pem.Decode\<close> returns the rest of the input, which is shorter than the input.
\<close>

function append_certs_from_pem ::
  "golib \<Rightarrow> cert_pool \<Rightarrow> bool \<Rightarrow> bytes \<Rightarrow> cert_pool \<times> bool" where
  "append_certs_from_pem lib pool found pemCerts =
     (case lib_pem_decode lib pemCerts of
        None \<Rightarrow> (pool, found)
      | Some (block, rest) \<Rightarrow>
          if length rest < length pemCerts then
            (if block_type block \<noteq> ''CERTIFICATE'' \<or> block_headers block \<noteq> []
             then append_certs_from_pem lib pool found rest
             else (case lib_parse_certificate lib (block_bytes block) of
                     Inl _ \<Rightarrow> append_certs_from_pem lib pool found rest
                   | Inr cert \<Rightarrow> append_certs_from_pem lib (AddCert pool cert) True rest))
          else (pool, found))"
  by pat_completeness auto
termination
  by (relation "measure (\<lambda>(_, _, _, pemCerts). length pemCerts)") auto

declare append_certs_from_pem.simps [simp del]

datatype pool_error = NoCertificatesInPem | PoolFileUnreadable file_error

definition NewCertPoolFromPEM :: "golib \<Rightarrow> bytes \<Rightarrow> pool_error + cert_pool" where
  "NewCertPoolFromPEM lib pemBytes =
     (case append_certs_from_pem lib [] False pemBytes of
        (pool, found) \<Rightarrow> if \<not> found then Inl NoCertificatesInPem else Inr pool)"

definition NewCertPoolFromFile :: "golib \<Rightarrow> files \<Rightarrow> string \<Rightarrow> pool_error + cert_pool" where
  "NewCertPoolFromFile lib fs certPath =
     and_then (map_err PoolFileUnreadable (read_file fs certPath)) (NewCertPoolFromPEM lib)"

lemma AddCert_raws: "distinct (map Raw pool) \<Longrightarrow> distinct (map Raw (AddCert pool c))"
  by (auto simp: AddCert_def)

lemma AddCert_not_Nil [simp]: "AddCert pool c \<noteq> []"
  by (auto simp: AddCert_def)

lemma append_certs_from_pem_pool:
  assumes "append_certs_from_pem lib pool found pemCerts = (pool', found')"
    and "distinct (map Raw pool)" "found \<longrightarrow> pool \<noteq> []"
  shows "distinct (map Raw pool') \<and> (found' \<longrightarrow> pool' \<noteq> [])"
  using assms
proof (induction lib pool found pemCerts arbitrary: pool' found'
    rule: append_certs_from_pem.induct)
  case (1 lib pool found pemCerts)
  show ?case
  proof (cases "lib_pem_decode lib pemCerts")
    case None
    with 1 show ?thesis by (simp add: append_certs_from_pem.simps)
  next
    case (Some br)
    obtain block rest where br: "br = (block, rest)" by (cases br)
    show ?thesis
    proof (cases "length rest < length pemCerts")
      case False
      with 1 Some br show ?thesis by (simp add: append_certs_from_pem.simps [of lib pool])
    next
      case short: True
      show ?thesis
      proof (cases "block_type block \<noteq> ''CERTIFICATE'' \<or> block_headers block \<noteq> []")
        case True
        with short Some br "1.prems" show ?thesis
          by (intro "1.IH"(1) [OF Some br [symmetric]])
            (auto simp: append_certs_from_pem.simps [of lib pool])
      next
        case False
        show ?thesis
        proof (cases "lib_parse_certificate lib (block_bytes block)")
          case (Inl e)
          with short Some br False "1.prems" show ?thesis
            by (intro "1.IH"(2) [OF Some br [symmetric]])
              (auto simp: append_certs_from_pem.simps [of lib pool])
        next
          case (Inr cert)
          with short Some br False "1.prems" show ?thesis
            by (intro "1.IH"(3) [OF Some br [symmetric]])
              (auto simp: append_certs_from_pem.simps [of lib pool] intro: AddCert_raws)
        qed
      qed
    qed
  qed
qed

end
