(* ===== verification/GoogleRoots.thy ===== *)
theory GoogleRoots
  imports VerifierFacts Signer
begin

text \<open>
  \<open>internal/attestation/google_root.go\<close> and the constructors of \<open>verifier.go\<close>: the two embedded
  root certificates, the pool built from them, and the verifier that uses the pool when it
  is given none. A Go function that panics is a function whose error is the panic.
\<close>

subsection \<open>The embedded certificates\<close>

fun join_lines :: "string list \<Rightarrow> string" where
  "join_lines [] = []"
| "join_lines [l] = l"
| "join_lines (l # ls) = l @ CHR 0x0A # join_lines ls"

definition GoogleHardwareAttestationRootRSA :: string where
  "GoogleHardwareAttestationRootRSA = join_lines
    [''-----BEGIN CERTIFICATE-----'',
     ''MIIFHDCCAwSgAwIBAgIJAPHBcqaZ6vUdMA0GCSqGSIb3DQEBCwUAMBsxGTAXBgNV'',
     ''BAUTEGY5MjAwOWU4NTNiNmIwNDUwHhcNMjIwMzIwMTgwNzQ4WhcNNDIwMzE1MTgw'',
     ''NzQ4WjAbMRkwFwYDVQQFExBmOTIwMDllODUzYjZiMDQ1MIICIjANBgkqhkiG9w0B'',
     ''AQEFAAOCAg8AMIICCgKCAgEAr7bHgiuxpwHsK7Qui8xUFmOr75gvMsd/dTEDDJdS'',
     ''Sxtf6An7xyqpRR90PL2abxM1dEqlXnf2tqw1Ne4Xwl5jlRfdnJLmN0pTy/4lj4/7'',
     ''tv0Sk3iiKkypnEUtR6WfMgH0QZfKHM1+di+y9TFRtv6y//0rb+T+W8a9nsNL/ggj'',
     ''nar86461qO0rOs2cXjp3kOG1FEJ5MVmFmBGtnrKpa73XpXyTqRxB/M0n1n/W9nGq'',
     ''C4FSYa04T6N5RIZGBN2z2MT5IKGbFlbC8UrW0DxW7AYImQQcHtGl/m00QLVWutHQ'',
     ''oVJYnFPlXTcHYvASLu+RhhsbDmxMgJJ0mcDpvsC4PjvB+TxywElgS70vE0XmLD+O'',
     ''JtvsBslHZvPBKCOdT0MS+tgSOIfga+z1Z1g7+DVagf7quvmag8jfPioyKvxnK/Eg'',
     ''sTUVi2ghzq8wm27ud/mIM7AY2qEORR8Go3TVB4HzWQgpZrt3i5MIlCaY504LzSRi'',
     ''igHCzAPlHws+W0rB5N+er5/2pJKnfBSDiCiFAVtCLOZ7gLiMm0jhO2B6tUXHI/+M'',
     ''RPjy02i59lINMRRev56GKtcd9qO/0kUJWdZTdA2XoS82ixPvZtXQpUpuL12ab+9E'',
     ''aDK8Z4RHJYYfCT3Q5vNAXaiWQ+8PTWm2QgBR/bkwSWc+NpUFgNPN9PvQi8WEg5Um'',
     ''AGMCAwEAAaNjMGEwHQYDVR0OBBYEFDZh4QB8iAUJUYtEbEf/GkzJ6k8SMB8GA1Ud'',
     ''IwQYMBaAFDZh4QB8iAUJUYtEbEf/GkzJ6k8SMA8GA1UdEwEB/wQFMAMBAf8wDgYD'',
     ''VR0PAQH/BAQDAgIEMA0GCSqGSIb3DQEBCwUAA4ICAQB8cMqTllHc8U+qCrOlg3H7'',
     ''174lmaCsbo/bJ0C17JEgMLb4kvrqsXZs01U3mB/qABg/1t5Pd5AORHARs1hhqGIC'',
     ''W/nKMav574f9rZN4PC2ZlufGXb7sIdJpGiO9ctRhiLuYuly10JccUZGEHpHSYM2G'',
     ''tkgYbZba6lsCPYAAP83cyDV+1aOkTf1RCp/lM0PKvmxYN10RYsK631jrleGdcdkx'',
     ''oSK//mSQbgcWnmAEZrzHoF1/0gso1HZgIn0YLzVhLSA/iXCX4QT2h3J5z3znluKG'',
     ''1nv8NQdxei2DIIhASWfu804CA96cQKTTlaae2fweqXjdN1/v2nqOhngNyz1361mF'',
     ''mr4XmaKH/ItTwOe72NI9ZcwS1lVaCvsIkTDCEXdm9rCNPAY10iTunIHFXRh+7KPz'',
     ''lHGewCq/8TOohBRn0/NNfh7uRslOSZ/xKbN9tMBtw37Z8d2vvnXq/YWdsm1+JLVw'',
     ''n6yYD/yacNJBlwpddla8eaVMjsF6nBnIgQOf9zKSe06nSTqvgwUHosgOECZJZ1Eu'',
     ''zbH4yswbt02tKtKEFhx+v+OTge/06V+jGsqTWLsfrOCNLuA8H++z+pUENmpqnnHo'',
     ''vaI47gC+TNpkgYGkkBT6B/m/U01BuOBBTzhIlMEZq9qkDWuM2cA5kW5V3FJUcfHn'',
     ''w1IdYIg2Wxg7yHcQZemFQg=='',
     ''-----END CERTIFICATE-----'']"

definition GoogleHardwareAttestationRootEC :: string where
  "GoogleHardwareAttestationRootEC = join_lines
    [''-----BEGIN CERTIFICATE-----'',
     ''MIICIjCCAaigAwIBAgIRAISp0Cl7DrWK5/8OgN52BgUwCgYIKoZIzj0EAwMwUjEc'',
     ''MBoGA1UEAwwTS2V5IEF0dGVzdGF0aW9uIENBMTEQMA4GA1UECwwHQW5kcm9pZDET'',
     ''MBEGA1UECgwKR29vZ2xlIExMQzELMAkGA1UEBhMCVVMwHhcNMjUwNzE3MjIzMjE4'',
     ''WhcNMzUwNzE1MjIzMjE4WjBSMRwwGgYDVQQDDBNLZXkgQXR0ZXN0YXRpb24gQ0Ex'',
     ''MRAwDgYDVQQLDAdBbmRyb2lkMRMwEQYDVQQKDApHb29nbGUgTExDMQswCQYDVQQG'',
     ''EwJVUzB2MBAGByqGSM49AgEGBSuBBAAiA2IABCPaI3FO3z5bBQo8cuiEas4HjqCt'',
     ''G/mLFfRT0MsIssPBEEU5Cfbt6sH5yOAxqEi5QagpU1yX4HwnGb7OtBYpDTB57uH5'',
     ''Eczm34A5FNijV3s0/f0UPl7zbJcTx6xwqMIRq6NCMEAwDwYDVR0TAQH/BAUwAwEB'',
     ''/zAOBgNVHQ8BAf8EBAMCAQYwHQYDVR0OBBYEFFIyuyz7RkOb3NaBqQ5lZuA0QepA'',
     ''MAoGCCqGSM49BAMDA2gAMGUCMETfjPO/HwqReR2CS7p0ZWoD/LHs6hDi422opifH'',
     ''EUaYLxwGlT9SLdjkVpz0UUOR5wIxAIoGyxGKRHVTpqpGRFiJtQEOOTp/+s1GcxeY'',
     ''uR2zh/80lQyu9vAFCj6E4AXc+osmRg=='',
     ''-----END CERTIFICATE-----'']"

definition DefaultGoogleRootPEMs :: "string list" where
  "DefaultGoogleRootPEMs = [GoogleHardwareAttestationRootRSA, GoogleHardwareAttestationRootEC]"

subsection \<open>The pool\<close>

datatype root_error = RootNotPem nat | RootUnparsable nat lib_error

definition parse_root :: "golib \<Rightarrow> nat \<Rightarrow> string \<Rightarrow> root_error + certificate" where
  "parse_root lib i pemStr =
     (case lib_pem_decode lib (bytes_of_string pemStr) of
        None \<Rightarrow> Inl (RootNotPem i)
      | Some (block, _) \<Rightarrow> map_err (RootUnparsable i) (lib_parse_certificate lib (block_bytes block)))"

text \<open>The loop over the embedded roots; the index is the position in the list.\<close>

fun add_roots :: "golib \<Rightarrow> nat \<Rightarrow> string list \<Rightarrow> cert_pool \<Rightarrow> root_error + cert_pool" where
  "add_roots lib i [] pool = Inr pool"
| "add_roots lib i (pemStr # rest) pool =
     and_then (parse_root lib i pemStr) (\<lambda>cert. add_roots lib (Suc i) rest (AddCert pool cert))"

text \<open>The variadic argument is a list of pointers, of which the nil ones are skipped.\<close>

fun add_additional :: "certificate option list \<Rightarrow> cert_pool \<Rightarrow> cert_pool" where
  "add_additional [] pool = pool"
| "add_additional (None # rest) pool = add_additional rest pool"
| "add_additional (Some cert # rest) pool = add_additional rest (AddCert pool cert)"

definition NewGoogleRootCertPool ::
  "golib \<Rightarrow> certificate option list \<Rightarrow> root_error + cert_pool" where
  "NewGoogleRootCertPool lib additionalRoots =
     and_then (add_roots lib 0 DefaultGoogleRootPEMs [])
       (\<lambda>pool. Inr (add_additional additionalRoots pool))"

datatype 'e go_panic = Panic 'e

definition MustNewGoogleRootCertPool ::
  "golib \<Rightarrow> certificate option list \<Rightarrow> root_error go_panic + cert_pool" where
  "MustNewGoogleRootCertPool lib additionalRoots =
     map_err Panic (NewGoogleRootCertPool lib additionalRoots)"

definition ParseCertificateDER :: "golib \<Rightarrow> bytes \<Rightarrow> lib_error + certificate" where
  "ParseCertificateDER lib der =
     map_err (\<lambda>e. ''failed to parse X.509 certificate: '' @ e) (lib_parse_certificate lib der)"

subsection \<open>The verifier's constructors\<close>

definition NewVerifier :: "golib \<Rightarrow> cert_pool option \<Rightarrow> Policy \<Rightarrow> root_error + Verifier" where
  "NewVerifier lib pool p =
     and_then (case pool of None \<Rightarrow> NewGoogleRootCertPool lib [] | Some roots \<Rightarrow> Inr roots)
       (\<lambda>roots. Inr \<lparr>rootPool = roots, policy = p, revocations = None\<rparr>)"

definition MustNewVerifier ::
  "golib \<Rightarrow> cert_pool option \<Rightarrow> Policy \<Rightarrow> root_error go_panic + Verifier" where
  "MustNewVerifier lib pool p = map_err Panic (NewVerifier lib pool p)"

subsection \<open>What ends up in the pool\<close>

lemma AddCert_raw_set: "Raw ` set (AddCert pool c) = insert (Raw c) (Raw ` set pool)"
  by (auto simp: AddCert_def)

lemma AddCert_subset: "set (AddCert pool c) \<subseteq> insert c (set pool)" "set pool \<subseteq> set (AddCert pool c)"
  by (auto simp: AddCert_def)

lemma add_roots_grows:
  "add_roots lib i pems pool = Inr pool' \<Longrightarrow> set pool \<subseteq> set pool'"
proof (induction pems arbitrary: i pool)
  case (Cons p pems)
  then obtain c where "add_roots lib (Suc i) pems (AddCert pool c) = Inr pool'" by auto
  from Cons.IH [OF this] AddCert_subset(2) [of pool c] show ?case by blast
qed simp

lemma add_roots_contains:
  assumes "add_roots lib i pems pool = Inr pool'" "k < length pems"
  shows "\<exists>c. parse_root lib (i + k) (pems ! k) = Inr c \<and> Raw c \<in> Raw ` set pool'"
  using assms
proof (induction pems arbitrary: i pool k)
  case (Cons p pems)
  from Cons.prems obtain c where c: "parse_root lib i p = Inr c"
    and rest: "add_roots lib (Suc i) pems (AddCert pool c) = Inr pool'" by auto
  have "Raw c \<in> Raw ` set (AddCert pool c)" by (simp add: AddCert_raw_set)
  with add_roots_grows [OF rest] have raw: "Raw c \<in> Raw ` set pool'" by blast
  show ?case
  proof (cases k)
    case 0
    with c raw show ?thesis by simp
  next
    case (Suc j)
    with Cons.IH [OF rest, of j] Cons.prems(2) show ?thesis by simp
  qed
qed simp

lemma add_roots_only:
  assumes "add_roots lib i pems pool = Inr pool'" "c \<in> set pool'"
  shows "c \<in> set pool \<or> (\<exists>k < length pems. parse_root lib (i + k) (pems ! k) = Inr c)"
  using assms
proof (induction pems arbitrary: i pool)
  case (Cons p pems)
  from Cons.prems obtain d where d: "parse_root lib i p = Inr d"
    and rest: "add_roots lib (Suc i) pems (AddCert pool d) = Inr pool'" by auto
  from Cons.IH [OF rest Cons.prems(2)] AddCert_subset(1) [of pool d]
  consider "c \<in> set pool" | "c = d"
    | k where "k < length pems" "parse_root lib (Suc i + k) (pems ! k) = Inr c" by blast
  then show ?case
  proof cases
    case 2
    with d show ?thesis by (intro disjI2 exI [of _ 0]) simp
  next
    case 3
    then show ?thesis by (intro disjI2 exI [of _ "Suc k"]) simp
  qed simp
qed simp

lemma NewVerifier_ok:
  "NewVerifier lib pool p = Inr v \<longleftrightarrow>
     policy v = p \<and> revocations v = None \<and>
     (case pool of None \<Rightarrow> NewGoogleRootCertPool lib [] = Inr (rootPool v)
                 | Some roots \<Rightarrow> rootPool v = roots)"
  by (cases v) (auto simp: NewVerifier_def split: option.splits)

end
