(* ===== verification/Config.thy ===== *)
theory Config
  imports GoText
begin

text \<open>
  \<open>internal/config/config.go\<close>: the configuration read from environment variables. The
  environment is a map from names to values. Durations keep Go's 64-bit width, so the
  products of \<open>LoadConfig\<close> wrap around as the code's do.
\<close>

type_synonym environment = "string \<rightharpoonup> string"

record Config =
  EnrollPort :: string
  MtlsPort :: string
  CertDir :: string
  CaCertPath :: string
  CaKeyPath :: string
  ServerCertPath :: string
  ServerKeyPath :: string
  EnrollCertPath :: string
  EnrollKeyPath :: string
  ChallengeTTL :: duration
  ClientCertTTL :: duration
  DevMode :: bool
  ExpectedAppPackage :: string
  cfg_MinOsVersion :: int
  cfg_MinPatchLevel :: int
  RevocationListURL :: string
  RequireRevocationCheck :: bool

subsection \<open>Reading a variable\<close>

text \<open>A variable that is set to the empty string counts as unset.\<close>

definition lookup_env :: "environment \<Rightarrow> string \<Rightarrow> string option" where
  "lookup_env e key = (case e key of None \<Rightarrow> None | Some v \<Rightarrow> if v \<noteq> [] then Some v else None)"

definition getEnv :: "environment \<Rightarrow> string \<Rightarrow> string \<Rightarrow> string" where
  "getEnv e key defaultVal = (case lookup_env e key of Some v \<Rightarrow> v | None \<Rightarrow> defaultVal)"

definition getEnvInt :: "environment \<Rightarrow> string \<Rightarrow> int \<Rightarrow> int" where
  "getEnvInt e key defaultVal =
     (case lookup_env e key of
        None \<Rightarrow> defaultVal
      | Some v \<Rightarrow> (case atoi v of Some parsed \<Rightarrow> parsed | None \<Rightarrow> defaultVal))"

definition getEnvDuration :: "environment \<Rightarrow> string \<Rightarrow> int \<Rightarrow> duration" where
  "getEnvDuration e key defaultVal =
     (case lookup_env e key of
        None \<Rightarrow> word_of_int defaultVal
      | Some v \<Rightarrow> (case atoi v of Some parsed \<Rightarrow> word_of_int parsed
                                | None \<Rightarrow> word_of_int defaultVal))"

definition getEnvBool :: "environment \<Rightarrow> string \<Rightarrow> bool \<Rightarrow> bool" where
  "getEnvBool e key defaultVal =
     (case lookup_env e key of
        None \<Rightarrow> defaultVal
      | Some v \<Rightarrow> (case parse_bool v of Some parsed \<Rightarrow> parsed | None \<Rightarrow> defaultVal))"

definition attestationRevocationListURL :: string where
  "attestationRevocationListURL = ''https://android.googleapis.com/attestation/status''"

subsection \<open>The configuration\<close>

definition LoadConfig :: "environment \<Rightarrow> Config" where
  "LoadConfig e =
     (let certDir = getEnv e ''CERT_DIR'' ''certs'';
          serverCert = getEnv e ''SERVER_CERT_PATH'' (path_join [certDir, ''server.crt'']);
          serverKey = getEnv e ''SERVER_KEY_PATH'' (path_join [certDir, ''server.key'']);
          devMode = getEnvBool e ''DEV_MODE'' False
      in \<lparr>EnrollPort = getEnv e ''ENROLL_PORT'' '':8080'',
          MtlsPort = getEnv e ''MTLS_PORT'' '':8443'',
          CertDir = certDir,
          CaCertPath = getEnv e ''CA_CERT_PATH'' (path_join [certDir, ''ca.crt'']),
          CaKeyPath = getEnv e ''CA_KEY_PATH'' (path_join [certDir, ''ca.key'']),
          ServerCertPath = serverCert,
          ServerKeyPath = serverKey,
          EnrollCertPath = getEnv e ''ENROLL_CERT_PATH'' serverCert,
          EnrollKeyPath = getEnv e ''ENROLL_KEY_PATH'' serverKey,
          ChallengeTTL = getEnvDuration e ''CHALLENGE_TTL_SECONDS'' 60 * second,
          ClientCertTTL = getEnvDuration e ''CLIENT_CERT_TTL_HOURS'' (7 * 24) * hour,
          DevMode = devMode,
          ExpectedAppPackage = getEnv e ''EXPECTED_APP_PACKAGE'' ''com.kypeli.mtlspoc'',
          cfg_MinOsVersion = getEnvInt e ''MIN_OS_VERSION'' 0,
          cfg_MinPatchLevel = getEnvInt e ''MIN_PATCH_LEVEL'' 0,
          RevocationListURL = getEnv e ''ATTESTATION_REVOCATION_LIST_URL'' attestationRevocationListURL,
          RequireRevocationCheck = getEnvBool e ''REQUIRE_REVOCATION_CHECK'' (\<not> devMode)\<rparr>)"

subsection \<open>Facts\<close>

lemma lookup_env_set: "e key = Some v \<Longrightarrow> v \<noteq> [] \<Longrightarrow> lookup_env e key = Some v"
  by (simp add: lookup_env_def)

lemma lookup_env_unset: "e key = None \<or> e key = Some [] \<Longrightarrow> lookup_env e key = None"
  by (auto simp: lookup_env_def)

lemma getEnv_not_Nil: "defaultVal \<noteq> [] \<Longrightarrow> getEnv e key defaultVal \<noteq> []"
  by (auto simp: getEnv_def lookup_env_def split: option.splits if_splits)


lemma getEnvDuration_eq: "getEnvDuration e key d = word_of_int (getEnvInt e key d)"
  by (simp add: getEnvDuration_def getEnvInt_def split: option.splits)

lemma getEnvInt_range:
  "min_int64 \<le> d \<Longrightarrow> d \<le> max_int64 \<Longrightarrow> min_int64 \<le> getEnvInt e key d \<and> getEnvInt e key d \<le> max_int64"
  by (auto simp: getEnvInt_def dest: atoi_range split: option.splits)

text \<open>A product of durations is exact exactly when it fits into 64 bits.\<close>

lemma sint_duration_product:
  fixes k u :: int
  shows "sint (word_of_int k * word_of_int u :: duration) = k * u \<longleftrightarrow>
     min_duration \<le> k * u \<and> k * u \<le> max_duration"
proof -
  have eq: "(word_of_int k * word_of_int u :: duration) = word_of_int (k * u)" by simp
  show ?thesis
  proof
    assume "sint (word_of_int k * word_of_int u :: duration) = k * u"
    moreover have "- (2 ^ 63) \<le> sint (word_of_int (k * u) :: duration)"
      "sint (word_of_int (k * u) :: duration) < 2 ^ 63"
      using sint_greater_eq [of "word_of_int (k * u) :: duration"]
        sint_less [of "word_of_int (k * u) :: duration"] by simp_all
    ultimately show "min_duration \<le> k * u \<and> k * u \<le> max_duration"
      unfolding eq by (simp add: min_duration_def max_duration_def)
  qed (simp only: eq, blast intro: sint_word_of_int_duration)
qed

lemma second_word: "second = word_of_int 1000000000"
  by (simp add: second_def)

lemma hour_word: "hour = word_of_int 3600000000000"
  by (simp add: hour_def minute_def second_def)

lemma LoadConfig_durations:
  "ChallengeTTL (LoadConfig e) =
     word_of_int (getEnvInt e ''CHALLENGE_TTL_SECONDS'' 60) * word_of_int 1000000000"
  "ClientCertTTL (LoadConfig e) =
     word_of_int (getEnvInt e ''CLIENT_CERT_TTL_HOURS'' 168) * word_of_int 3600000000000"
  by (simp_all only: LoadConfig_def Let_def Config.simps getEnvDuration_eq second_word hour_word)
    simp_all

end
