(* ===== verification/Bootstrap.thy ===== *)
theory Bootstrap
  imports Signer
begin

text \<open>
  \<open>internal/ca/bootstrap.go\<close> and the command \<open>cmd/certgen\<close>: generating the root and the server
  certificate when none of their files exist. Both are functions from the file system to
  their outcome and the file system they leave behind, every early return included.
\<close>

unbundle bit_operations_syntax

record BootstrapPaths =
  bp_CaCertPath :: string
  bp_CaKeyPath :: string
  bp_ServerCertPath :: string
  bp_ServerKeyPath :: string

record BootstrapOptions =
  bo_Paths :: BootstrapPaths
  bo_CaCN :: string
  bo_ServerCN :: string
  bo_CaValidity :: duration
  bo_ServerValidity :: duration

subsection \<open>The host's addresses\<close>

type_synonym iface_flags = "64 word"

definition FlagUp :: iface_flags where "FlagUp = 1"
definition FlagLoopback :: iface_flags where "FlagLoopback = 4"

datatype net_addr = IPNet bytes | OtherAddr

record iface =
  if_flags :: iface_flags
  if_addrs :: "lib_error + net_addr list"

text \<open>\<open>net.IP.To4\<close>: four bytes, or sixteen with the prefix of an IPv4-mapped address.\<close>

definition v4_in_v6_prefix :: bytes where
  "v4_in_v6_prefix = replicate 10 0 @ [255, 255]"

definition To4 :: "bytes \<Rightarrow> bytes option" where
  "To4 ip =
     (if length ip = 4 then Some ip
      else if length ip = 16 \<and> take 12 ip = v4_in_v6_prefix then Some (drop 12 ip)
      else None)"

definition addr_ip4 :: "net_addr \<Rightarrow> bytes list" where
  "addr_ip4 a =
     (case a of IPNet ip \<Rightarrow> (case To4 ip of Some ip4 \<Rightarrow> [ip4] | None \<Rightarrow> []) | OtherAddr \<Rightarrow> [])"

definition iface_ips :: "iface \<Rightarrow> bytes list" where
  "iface_ips i =
     (if if_flags i AND FlagUp = 0 \<or> if_flags i AND FlagLoopback \<noteq> 0 then []
      else (case if_addrs i of Inl _ \<Rightarrow> [] | Inr addrs \<Rightarrow> concat (map addr_ip4 addrs)))"

text \<open>\<open>127.0.0.1\<close>, \<open>10.0.2.2\<close> (the host as the Android emulator sees it) and \<open>::1\<close>, as parsed.\<close>

definition fixed_ips :: "bytes list" where
  "fixed_ips = [v4_in_v6_prefix @ [127, 0, 0, 1], v4_in_v6_prefix @ [10, 0, 2, 2],
                replicate 15 0 @ [1]]"

definition HostSANIPs :: "lib_error + iface list \<Rightarrow> bytes list" where
  "HostSANIPs interfaces =
     fixed_ips @ (case interfaces of Inl _ \<Rightarrow> [] | Inr ifaces \<Rightarrow> concat (map iface_ips ifaces))"

subsection \<open>Paths and files\<close>

text \<open>The loop of \<open>dirOf\<close>, from the last byte down: \<open>n\<close> bytes are left to look at.\<close>

fun dir_scan :: "string \<Rightarrow> nat \<Rightarrow> string" where
  "dir_scan path 0 = ''.''"
| "dir_scan path (Suc n) = (if path ! n = slash then take n path else dir_scan path n)"

definition dirOf :: "string \<Rightarrow> string" where
  "dirOf path = dir_scan path (length path)"

lemma dir_scan_found: "path ! n = slash \<Longrightarrow> dir_scan path (Suc n) = take n path"
  by simp

lemma dir_scan_over: "path ! n \<noteq> slash \<Longrightarrow> dir_scan path (Suc n) = dir_scan path n"
  by simp

lemma dir_scan_skip:
  "n \<le> length name \<Longrightarrow> slash \<notin> set name \<Longrightarrow>
     dir_scan (dir @ slash # name) (Suc (length dir + n)) = dir"
proof (induction n)
  case 0
  have "(dir @ slash # name) ! length dir = slash" by simp
  from dir_scan_found [OF this] show ?case by simp
next
  case (Suc n)
  then have "name ! n \<noteq> slash" using nth_mem [of n name] by (metis Suc_le_lessD)
  moreover have "(dir @ slash # name) ! Suc (length dir + n) = name ! n" by (simp add: nth_append)
  ultimately have "(dir @ slash # name) ! Suc (length dir + n) \<noteq> slash" by metis
  from dir_scan_over [OF this]
  have "dir_scan (dir @ slash # name) (Suc (length dir + Suc n)) =
      dir_scan (dir @ slash # name) (Suc (length dir + n))" by (simp only: add_Suc_right)
  also have "\<dots> = dir" by (rule Suc.IH) (use Suc.prems in simp_all)
  finally show ?case .
qed

text \<open>The part before the last slash.\<close>

lemma dirOf_slash: "slash \<notin> set name \<Longrightarrow> dirOf (dir @ slash # name) = dir"
  using dir_scan_skip [of "length name" name dir] by (simp add: dirOf_def del: dir_scan.simps)

definition fileExists :: "files \<Rightarrow> string \<Rightarrow> bool" where
  "fileExists fs path = (case stat fs path of None \<Rightarrow> False | Some n \<Rightarrow> n \<noteq> Directory)"

lemma fileExists_iff: "fileExists fs p \<longleftrightarrow> is_file fs p"
  by (auto simp: fileExists_def is_file_def split: option.splits node.splits)

subsection \<open>Bootstrapping\<close>

datatype bootstrap_error =
    CertsDirFailed file_error | PartialSet "string list" | RootFailed generate_error
  | WriteFailed string file_error | ServerKeyFailed lib_error | ServerSerialFailed lib_error
  | ServerCreateFailed lib_error | ServerMarshalFailed lib_error

record bootstrap_reading =
  ca_draws :: ca_reading
  server_key_draw :: "lib_error + ecdsa_key"
  server_serial_draw :: "lib_error + int"
  host_interfaces :: "lib_error + iface list"
  server_now_before :: instant
  server_now_after :: instant
  server_entropy :: bytes

definition managed_paths :: "BootstrapPaths \<Rightarrow> string list" where
  "managed_paths p = [bp_CaCertPath p, bp_CaKeyPath p, bp_ServerCertPath p, bp_ServerKeyPath p]"

definition with_defaults :: "BootstrapOptions \<Rightarrow> BootstrapOptions" where
  "with_defaults opts =
     (let o1 = (if bo_CaValidity opts = 0 then opts\<lparr>bo_CaValidity := 10 * 365 * 24 * hour\<rparr> else opts);
          o2 = (if bo_ServerValidity o1 = 0 then o1\<lparr>bo_ServerValidity := 5 * 365 * 24 * hour\<rparr> else o1);
          o3 = (if bo_CaCN o2 = [] then o2\<lparr>bo_CaCN := ''Hardware mTLS PoC Root CA''\<rparr> else o2);
          o4 = (if bo_ServerCN o3 = [] then o3\<lparr>bo_ServerCN := ''localhost''\<rparr> else o3)
      in o4)"

definition server_template ::
  "int \<Rightarrow> string \<Rightarrow> bytes list \<Rightarrow> instant \<Rightarrow> instant \<Rightarrow> duration \<Rightarrow> certificate" where
  "server_template serverSerial commonName ips now1 now2 validity = zero_certificate
     \<lparr>SerialNumber := serverSerial,
      CommonName := commonName,
      Organization := [''Hardware mTLS Server''],
      DNSNames := [''localhost'', ''android.local''],
      IPAddresses := ips,
      NotBefore := time_add now1 (- minute),
      NotAfter := time_add now2 validity,
      KeyUsage := KeyUsageDigitalSignature OR KeyUsageKeyEncipherment,
      ExtKeyUsage := [ExtKeyUsageServerAuth],
      BasicConstraintsValid := True\<rparr>"

text \<open>
  Steps that can fail and change the file system, composed like \<open>and_then\<close>.
\<close>

type_synonym 'a fs_step = "files \<Rightarrow> (bootstrap_error + 'a) \<times> files"

definition fs_then :: "'a fs_step \<Rightarrow> ('a \<Rightarrow> 'b fs_step) \<Rightarrow> 'b fs_step" where
  "fs_then m f fs = (case m fs of (Inl e, fs') \<Rightarrow> (Inl e, fs') | (Inr x, fs') \<Rightarrow> f x fs')"

definition fs_pure :: "bootstrap_error + 'a \<Rightarrow> 'a fs_step" where
  "fs_pure r fs = (r, fs)"

definition fs_mkdir :: "string \<Rightarrow> unit fs_step" where
  "fs_mkdir d fs =
     (case mkdir_all d fs of
        (Some e, fs') \<Rightarrow> (Inl (CertsDirFailed e), fs') | (None, fs') \<Rightarrow> (Inr (), fs'))"

definition fs_write :: "string \<Rightarrow> bytes \<Rightarrow> nat \<Rightarrow> unit fs_step" where
  "fs_write path content mode fs =
     (case write_file path content mode fs of
        (Some e, fs') \<Rightarrow> (Inl (WriteFailed path e), fs') | (None, fs') \<Rightarrow> (Inr (), fs'))"

text \<open>The server's certificate and key, as PEM texts.\<close>

definition make_server ::
  "golib \<Rightarrow> bootstrap_reading \<Rightarrow> BootstrapOptions \<Rightarrow> CA \<Rightarrow> bootstrap_error + bytes \<times> bytes" where
  "make_server lib env opts caInstance =
     and_then (map_err ServerKeyFailed (server_key_draw env)) (\<lambda>serverKey.
     and_then (map_err ServerSerialFailed (server_serial_draw env)) (\<lambda>serverSerial.
     let serverTemplate = server_template serverSerial (bo_ServerCN opts)
           (HostSANIPs (host_interfaces env)) (server_now_before env) (server_now_after env)
           (bo_ServerValidity opts)
     in and_then (map_err ServerCreateFailed
          (lib_create_certificate lib (server_entropy env) serverTemplate
             (ca_Certificate caInstance) (key_public serverKey) (ca_PrivateKey caInstance)))
          (\<lambda>serverCertDER.
     let serverCertPEM = lib_pem_encode lib ''CERTIFICATE'' serverCertDER
     in and_then (map_err ServerMarshalFailed (lib_marshal_ec_key lib serverKey)) (\<lambda>serverKeyDER.
     let serverKeyPEM = lib_pem_encode lib ''EC PRIVATE KEY'' serverKeyDER
     in Inr (serverCertPEM, serverKeyPEM)))))"

text \<open>Modes are octal in the code: \<open>0600\<close> is 384, \<open>0644\<close> is 420.\<close>

definition generate_all ::
  "golib \<Rightarrow> bootstrap_reading \<Rightarrow> BootstrapOptions \<Rightarrow> BootstrapPaths \<Rightarrow> BootstrapPaths fs_step" where
  "generate_all lib env opts p =
     fs_then (fs_pure (map_err RootFailed
       (GenerateCA lib (ca_draws env) (bo_CaCN opts) (bo_CaValidity opts))))
       (\<lambda>(caInstance, caCertPEM, caKeyPEM).
     fs_then (fs_write (bp_CaKeyPath p) caKeyPEM 384) (\<lambda>_.
     fs_then (fs_write (bp_CaCertPath p) caCertPEM 420) (\<lambda>_.
     fs_then (fs_pure (make_server lib env opts caInstance)) (\<lambda>(serverCertPEM, serverKeyPEM).
     fs_then (fs_write (bp_ServerKeyPath p) serverKeyPEM 384) (\<lambda>_.
     fs_then (fs_write (bp_ServerCertPath p) serverCertPEM 420) (\<lambda>_.
       fs_pure (Inr p)))))))"

definition existing_files :: "files \<Rightarrow> BootstrapPaths \<Rightarrow> string list" where
  "existing_files fs p = filter (fileExists fs) (managed_paths p)"

definition bootstrap_missing ::
  "golib \<Rightarrow> bootstrap_reading \<Rightarrow> BootstrapOptions \<Rightarrow> BootstrapPaths fs_step" where
  "bootstrap_missing lib env opts fs =
     (let p = bo_Paths opts; existing = existing_files fs p in
      if length existing = 4 then (Inr p, fs)
      else if length existing > 0 then (Inl (PartialSet existing), fs)
      else generate_all lib env (with_defaults opts) p fs)"

definition BootstrapCertificates ::
  "golib \<Rightarrow> bootstrap_reading \<Rightarrow> BootstrapOptions \<Rightarrow> BootstrapPaths fs_step" where
  "BootstrapCertificates lib env opts =
     (let p = bo_Paths opts in
      fs_then (fs_mkdir (dirOf (bp_CaCertPath p))) (\<lambda>_.
      fs_then (fs_mkdir (dirOf (bp_ServerCertPath p))) (\<lambda>_.
      bootstrap_missing lib env opts)))"

subsection \<open>How the steps compose\<close>

lemma fs_then_ok [simp]:
  "fs_then m f fs = (Inr y, fs') \<longleftrightarrow> (\<exists>x fs1. m fs = (Inr x, fs1) \<and> f x fs1 = (Inr y, fs'))"
  by (auto simp: fs_then_def split: prod.splits sum.splits)

lemma fs_pure_ok [simp]: "fs_pure r fs = (x, fs') \<longleftrightarrow> r = x \<and> fs' = fs"
  by (auto simp: fs_pure_def)

lemma fs_mkdir_ok [simp]: "fs_mkdir d fs = (Inr u, fs') \<longleftrightarrow> mkdir_all d fs = (None, fs')"
  by (auto simp: fs_mkdir_def split: prod.splits option.splits)

lemma fs_write_ok [simp]:
  "fs_write p c m fs = (Inr u, fs') \<longleftrightarrow> write_file p c m fs = (None, fs')"
  by (auto simp: fs_write_def split: prod.splits option.splits)

text \<open>A property of file systems that every step keeps is kept by the whole.\<close>

definition keeps :: "(files \<Rightarrow> bool) \<Rightarrow> 'a fs_step \<Rightarrow> bool" where
  "keeps P m \<longleftrightarrow> (\<forall>fs x fs'. P fs \<longrightarrow> m fs = (x, fs') \<longrightarrow> P fs')"

lemma keepsD: "keeps P m \<Longrightarrow> m fs = (x, fs') \<Longrightarrow> P fs \<Longrightarrow> P fs'"
  by (auto simp: keeps_def)

lemma keeps_then:
  assumes "keeps P m" "\<And>x. keeps P (f x)"
  shows "keeps P (fs_then m f)"
  unfolding keeps_def
proof (intro allI impI)
  fix fs x fs'
  assume "P fs" and run: "fs_then m f fs = (x, fs')"
  obtain r fs1 where m: "m fs = (r, fs1)" by fastforce
  with \<open>P fs\<close> assms(1) have "P fs1" by (rule keepsD [rotated -1])
  show "P fs'"
  proof (cases r)
    case (Inl e)
    with run m \<open>P fs1\<close> show ?thesis by (simp add: fs_then_def)
  next
    case (Inr y)
    with run m have "f y fs1 = (x, fs')" by (simp add: fs_then_def)
    with assms(2) \<open>P fs1\<close> show ?thesis by (auto dest: keepsD)
  qed
qed

lemma keeps_pure: "keeps P (fs_pure r)"
  by (simp add: keeps_def)

lemma keeps_mkdir:
  "(\<And>ds fs x fs'. P fs \<Longrightarrow> make_dirs ds fs = (x, fs') \<Longrightarrow> P fs') \<Longrightarrow> keeps P (fs_mkdir d)"
  by (auto simp: keeps_def fs_mkdir_def mkdir_all_def split: prod.splits option.splits)

lemma keeps_write:
  "(\<And>fs x fs'. P fs \<Longrightarrow> write_file p c m fs = (x, fs') \<Longrightarrow> P fs') \<Longrightarrow> keeps P (fs_write p c m)"
  by (auto simp: keeps_def fs_write_def split: prod.splits option.splits)

lemma keeps_generate_all:
  assumes "\<And>q c m. q \<in> set (managed_paths p) \<Longrightarrow> keeps P (fs_write q c m)"
  shows "keeps P (generate_all lib env opts p)"
proof -
  have writes: "keeps P (fs_write (bp_CaKeyPath p) c m)" "keeps P (fs_write (bp_CaCertPath p) c m)"
    "keeps P (fs_write (bp_ServerKeyPath p) c m)" "keeps P (fs_write (bp_ServerCertPath p) c m)"
    for c m
    using assms by (simp_all add: managed_paths_def)
  show ?thesis
    unfolding generate_all_def
    by (intro keeps_then keeps_pure) (auto intro!: keeps_then keeps_pure writes)
qed

subsection \<open>What a bootstrap leaves behind\<close>

definition same_files :: "files \<Rightarrow> files \<Rightarrow> bool" where
  "same_files fs fs' \<longleftrightarrow> (\<forall>q. file_content fs' q = file_content fs q)"

lemma same_filesI: "mkdir_all d fs = (e, fs') \<Longrightarrow> same_files fs fs'"
  by (simp add: same_files_def mkdir_all_files)

lemma same_files_trans: "same_files a b \<Longrightarrow> same_files b c \<Longrightarrow> same_files a c"
  by (simp add: same_files_def)

lemma same_files_existing: "same_files fs fs' \<Longrightarrow> existing_files fs' p = existing_files fs p"
  unfolding existing_files_def
  by (rule filter_cong) (simp_all add: same_files_def fileExists_iff is_file_iff_content)

text \<open>
  The two directories are made first; only then the files are looked at, and nothing a
  caller can read has changed so far.
\<close>

lemma bootstrap_cases:
  assumes "BootstrapCertificates lib env opts fs = (r, fs')"
  obtains e where "r = Inl (CertsDirFailed e)" "same_files fs fs'"
    | fs1 where "same_files fs fs1" "bootstrap_missing lib env opts fs1 = (r, fs')"
      "dir_ready fs1 (dirOf (bp_CaCertPath (bo_Paths opts))) \<and>
       dir_ready fs1 (dirOf (bp_ServerCertPath (bo_Paths opts)))"
proof -
  let ?d1 = "dirOf (bp_CaCertPath (bo_Paths opts))" and ?d2 = "dirOf (bp_ServerCertPath (bo_Paths opts))"
  obtain e1 fs1 where m1: "mkdir_all ?d1 fs = (e1, fs1)" by fastforce
  obtain e2 fs2 where m2: "mkdir_all ?d2 fs1 = (e2, fs2)" by fastforce
  note same1 = same_filesI [OF m1] and same2 = same_files_trans [OF same_filesI [OF m1] same_filesI [OF m2]]
  show thesis
  proof (cases e1)
    case (Some e)
    with assms m1 same1 that(1) [of e] show ?thesis
      by (simp add: BootstrapCertificates_def fs_then_def fs_mkdir_def Let_def)
  next
    case None
    show ?thesis
    proof (cases e2)
      case (Some e)
      with None assms m1 m2 same2 that(1) [of e] show ?thesis
        by (simp add: BootstrapCertificates_def fs_then_def fs_mkdir_def Let_def)
    next
      case None': None
      from mkdir_all_ready m1 m2 None None' mkdir_all_keeps_ready [OF m2]
      have "dir_ready fs2 ?d1 \<and> dir_ready fs2 ?d2" by blast
      moreover from None None' assms m1 m2 have "bootstrap_missing lib env opts fs2 = (r, fs')"
        by (simp add: BootstrapCertificates_def fs_then_def fs_mkdir_def Let_def)
      ultimately show ?thesis using same2 that(2) by blast
    qed
  qed
qed

lemma existing_files_Nil_iff:
  "existing_files fs p = [] \<longleftrightarrow> (\<forall>q \<in> set (managed_paths p). \<not> is_file fs q)"
  by (simp add: existing_files_def filter_empty_conv fileExists_iff)

lemma existing_files_all_iff:
  "length (existing_files fs p) = 4 \<longleftrightarrow> (\<forall>q \<in> set (managed_paths p). is_file fs q)"
  by (auto simp: existing_files_def managed_paths_def fileExists_iff)

lemma is_file_path: "clean_path q = clean_path q' \<Longrightarrow> is_file fs q = is_file fs q'"
  using clean_path_Nil by (auto simp: is_file_def stat_def node_at_def)

lemma bootstrap_missing_keeps_content:
  assumes run: "bootstrap_missing lib env opts fs = (r, fs')" and c: "file_content fs q = Some c"
  shows "file_content fs' q = Some c"
proof (cases "existing_files fs (bo_Paths opts) = []")
  case False
  with run c show ?thesis by (auto simp: bootstrap_missing_def Let_def split: if_splits)
next
  case True
  have "is_file fs q" using c by (simp add: is_file_iff_content)
  with True is_file_path [of q _ fs] have other: "clean_path q \<noteq> clean_path q'"
    if "q' \<in> set (managed_paths (bo_Paths opts))" for q'
    using that by (auto simp: existing_files_Nil_iff)
  have "keeps (\<lambda>fs. file_content fs q = Some c)
      (generate_all lib env (with_defaults opts) (bo_Paths opts))"
  proof (rule keeps_generate_all, rule keeps_write)
    fix q' content m fs x fs'
    assume "q' \<in> set (managed_paths (bo_Paths opts))" "file_content fs q = Some c"
      "write_file q' content m fs = (x, fs')"
    with other write_file_other [of q' content m fs x fs' q]
    show "file_content fs' q = Some c" by (simp add: file_content_def)
  qed
  with True run c show ?thesis by (auto simp: bootstrap_missing_def Let_def dest: keepsD)
qed

lemma bootstrap_keeps_content:
  assumes "BootstrapCertificates lib env opts fs = (r, fs')" "file_content fs q = Some c"
  shows "file_content fs' q = Some c"
  using assms(1)
proof (cases rule: bootstrap_cases)
  case (1 e)
  with assms(2) show ?thesis by (simp add: same_files_def)
next
  case (2 fs1)
  with assms(2) show ?thesis by (auto simp: same_files_def intro: bootstrap_missing_keeps_content)
qed

lemma bootstrap_partial:
  assumes "BootstrapCertificates lib env opts fs = (r, fs')"
    and "\<exists>q \<in> set (managed_paths (bo_Paths opts)). is_file fs q"
    and "\<exists>q \<in> set (managed_paths (bo_Paths opts)). \<not> is_file fs q"
  shows "same_files fs fs'"
    and "r = Inl (PartialSet (existing_files fs (bo_Paths opts))) \<or> (\<exists>e. r = Inl (CertsDirFailed e))"
proof -
  have ex: "existing_files fs (bo_Paths opts) \<noteq> []" "length (existing_files fs (bo_Paths opts)) \<noteq> 4"
    using assms(2,3) by (auto simp: existing_files_Nil_iff existing_files_all_iff)
  have "same_files fs fs' \<and>
    (r = Inl (PartialSet (existing_files fs (bo_Paths opts))) \<or> (\<exists>e. r = Inl (CertsDirFailed e)))"
    using assms(1)
  proof (cases rule: bootstrap_cases)
    case (2 fs1)
    with ex same_files_existing [OF 2(1)] show ?thesis
      by (simp add: bootstrap_missing_def Let_def)
  qed simp
  then show "same_files fs fs'"
    "r = Inl (PartialSet (existing_files fs (bo_Paths opts))) \<or> (\<exists>e. r = Inl (CertsDirFailed e))"
    by blast+
qed

lemma generate_all_ok:
  assumes "generate_all lib env opts p fs = (Inr p', fs')"
  obtains c caCertPEM caKeyPEM serverCertPEM serverKeyPEM fs1 fs2 fs3 where
    "GenerateCA lib (ca_draws env) (bo_CaCN opts) (bo_CaValidity opts) = Inr (c, caCertPEM, caKeyPEM)"
    "make_server lib env opts c = Inr (serverCertPEM, serverKeyPEM)"
    "write_file (bp_CaKeyPath p) caKeyPEM 384 fs = (None, fs1)"
    "write_file (bp_CaCertPath p) caCertPEM 420 fs1 = (None, fs2)"
    "write_file (bp_ServerKeyPath p) serverKeyPEM 384 fs2 = (None, fs3)"
    "write_file (bp_ServerCertPath p) serverCertPEM 420 fs3 = (None, fs')"
    "p' = p"
  using assms that unfolding generate_all_def by auto

lemma generate_all_files:
  assumes "generate_all lib env opts p fs = (Inr p', fs')" "q \<in> set (managed_paths p)"
  shows "is_file fs' q"
  using assms(1)
proof (rule generate_all_ok)
  fix c caCertPEM caKeyPEM serverCertPEM serverKeyPEM fs1 fs2 fs3
  assume w: "write_file (bp_CaKeyPath p) caKeyPEM 384 fs = (None, fs1)"
    "write_file (bp_CaCertPath p) caCertPEM 420 fs1 = (None, fs2)"
    "write_file (bp_ServerKeyPath p) serverKeyPEM 384 fs2 = (None, fs3)"
    "write_file (bp_ServerCertPath p) serverCertPEM 420 fs3 = (None, fs')"
  have "is_file fs1 (bp_CaKeyPath p)" "is_file fs2 (bp_CaCertPath p)"
    "is_file fs3 (bp_ServerKeyPath p)" "is_file fs' (bp_ServerCertPath p)"
    using w by (simp_all add: is_file_iff_content write_file_ok)
  then have "is_file fs' (bp_CaKeyPath p)" "is_file fs' (bp_CaCertPath p)"
    "is_file fs' (bp_ServerKeyPath p)" "is_file fs' (bp_ServerCertPath p)"
    using w by (blast intro: write_file_keeps_files)+
  with assms(2) show ?thesis by (auto simp: managed_paths_def)
qed

lemma bootstrap_ok_files:
  assumes "BootstrapCertificates lib env opts fs = (Inr p, fs')"
  shows "p = bo_Paths opts" "\<forall>q \<in> set (managed_paths p). is_file fs' q"
proof -
  have "p = bo_Paths opts \<and> (\<forall>q \<in> set (managed_paths p). is_file fs' q)"
    using assms
  proof (cases rule: bootstrap_cases)
    case (2 fs1)
    then show ?thesis
      by (auto simp: bootstrap_missing_def Let_def existing_files_all_iff elim: generate_all_ok
          intro: generate_all_files split: if_splits)
  qed simp
  then show "p = bo_Paths opts" "\<forall>q \<in> set (managed_paths p). is_file fs' q" by simp_all
qed

text \<open>A second bootstrap finds its directories and files and does nothing.\<close>

lemma bootstrap_ok_directories:
  assumes "BootstrapCertificates lib env opts fs = (Inr p, fs')"
  shows "dir_ready fs' (dirOf (bp_CaCertPath (bo_Paths opts))) \<and>
       dir_ready fs' (dirOf (bp_ServerCertPath (bo_Paths opts)))"
  using assms
proof (cases rule: bootstrap_cases)
  case (2 fs1)
  have keep: "keeps (\<lambda>fs. dir_ready fs d)
      (generate_all lib env (with_defaults opts) (bo_Paths opts))" for d
    by (intro keeps_generate_all keeps_write) (rule write_file_keeps_ready)
  have "dir_ready fs' d" if "dir_ready fs1 d" for d
    using 2(2) that keepsD [OF keep]
    by (auto simp: bootstrap_missing_def Let_def split: if_splits)
  with 2(3) show ?thesis by blast
qed simp

lemma bootstrap_complete:
  assumes "\<forall>q \<in> set (managed_paths (bo_Paths opts)). is_file fs q"
    and "dir_ready fs (dirOf (bp_CaCertPath (bo_Paths opts))) \<and>
       dir_ready fs (dirOf (bp_ServerCertPath (bo_Paths opts)))"
  shows "BootstrapCertificates lib env opts fs = (Inr (bo_Paths opts), fs)"
proof -
  have "length (existing_files fs (bo_Paths opts)) = 4"
    using assms(1) by (simp only: existing_files_all_iff)
  moreover have "mkdir_all (dirOf (bp_CaCertPath (bo_Paths opts))) fs = (None, fs)"
    "mkdir_all (dirOf (bp_ServerCertPath (bo_Paths opts))) fs = (None, fs)"
    using assms(2) by (simp_all add: dir_ready_mkdir_all)
  ultimately show ?thesis
    by (simp add: BootstrapCertificates_def bootstrap_missing_def fs_then_def fs_mkdir_def Let_def)
qed

text \<open>
  What a generation writes is there afterwards, when the four paths name four files: the
  root that \<open>LoadCA\<close> then reads is the generated one.
\<close>

lemma generate_all_load:
  assumes run: "generate_all lib env opts p fs = (Inr p', fs')"
    and distinct: "distinct (map clean_path (managed_paths p))"
    and lib: "pem_round_trip lib" "ec_keys_round_trip lib"
    and readable: "\<forall>q. \<not> refuses_read fs q"
  shows "\<exists>c certPEM keyPEM.
     GenerateCA lib (ca_draws env) (bo_CaCN opts) (bo_CaValidity opts) = Inr (c, certPEM, keyPEM) \<and>
     LoadCA lib fs' (bp_CaCertPath p) (bp_CaKeyPath p) = Inr c"
  using run
proof (rule generate_all_ok)
  fix c caCertPEM caKeyPEM serverCertPEM serverKeyPEM fs1 fs2 fs3
  assume gen: "GenerateCA lib (ca_draws env) (bo_CaCN opts) (bo_CaValidity opts) =
      Inr (c, caCertPEM, caKeyPEM)"
    and w1: "write_file (bp_CaKeyPath p) caKeyPEM 384 fs = (None, fs1)"
    and w2: "write_file (bp_CaCertPath p) caCertPEM 420 fs1 = (None, fs2)"
    and w3: "write_file (bp_ServerKeyPath p) serverKeyPEM 384 fs2 = (None, fs3)"
    and w4: "write_file (bp_ServerCertPath p) serverCertPEM 420 fs3 = (None, fs')"
  have "file_content fs' (bp_CaKeyPath p) = file_content fs1 (bp_CaKeyPath p)"
    "file_content fs' (bp_CaCertPath p) = file_content fs2 (bp_CaCertPath p)"
    using distinct write_file_other_content [OF w2, of "bp_CaKeyPath p", OF not_sym] write_file_other_content [OF w3] write_file_other_content [OF w4]
    by (simp_all add: managed_paths_def)
  with write_file_ok(1) [OF w1] write_file_ok(1) [OF w2]
  have content: "file_content fs' (bp_CaKeyPath p) = Some caKeyPEM"
    "file_content fs' (bp_CaCertPath p) = Some caCertPEM" by simp_all
  have "refuses_read fs' = refuses_read fs"
    using write_file_frame [OF w1] write_file_frame [OF w2] write_file_frame [OF w3]
      write_file_frame [OF w4] by simp
  with readable content have "read_file fs' (bp_CaCertPath p) = Inr caCertPEM"
    "read_file fs' (bp_CaKeyPath p) = Inr caKeyPEM" by (simp_all add: read_file_iff)
  with gen lib have "LoadCA lib fs' (bp_CaCertPath p) (bp_CaKeyPath p) = Inr c"
    by (blast intro: LoadCA_generated)
  with gen show ?thesis by blast
qed

lemma bootstrap_fresh_load:
  assumes run: "BootstrapCertificates lib env opts fs = (Inr p, fs')"
    and fresh: "\<forall>q \<in> set (managed_paths (bo_Paths opts)). \<not> is_file fs q"
    and distinct: "distinct (map clean_path (managed_paths (bo_Paths opts)))"
    and lib: "pem_round_trip lib" "ec_keys_round_trip lib"
    and readable: "\<forall>q. \<not> refuses_read fs q"
  shows "\<exists>c certPEM keyPEM.
     GenerateCA lib (ca_draws env) (bo_CaCN (with_defaults opts)) (bo_CaValidity (with_defaults opts))
       = Inr (c, certPEM, keyPEM) \<and>
     LoadCA lib fs' (bp_CaCertPath p) (bp_CaKeyPath p) = Inr c"
proof -
  have keep: "keeps (\<lambda>fs. \<forall>q. \<not> refuses_read fs q) (fs_mkdir d)" for d
    by (rule keeps_mkdir) (auto dest: make_dirs_frame)
  from run obtain fs1 fs2 where m: "fs_mkdir (dirOf (bp_CaCertPath (bo_Paths opts))) fs = (Inr (), fs1)"
    "fs_mkdir (dirOf (bp_ServerCertPath (bo_Paths opts))) fs1 = (Inr (), fs2)"
    and step: "bootstrap_missing lib env opts fs2 = (Inr p, fs')"
    by (auto simp: BootstrapCertificates_def Let_def simp del: fs_mkdir_ok)
  have r2: "\<forall>q. \<not> refuses_read fs2 q"
    by (rule keepsD [OF keep m(2)]) (rule keepsD [OF keep m(1) readable])
  have "same_files fs fs2"
    using m by (auto intro: same_files_trans same_filesI)
  with fresh have "existing_files fs2 (bo_Paths opts) = []"
    by (simp add: same_files_existing existing_files_Nil_iff)
  with step have gen: "generate_all lib env (with_defaults opts) (bo_Paths opts) fs2 = (Inr p, fs')"
    by (simp add: bootstrap_missing_def Let_def)
  moreover have "p = bo_Paths opts" using gen by (auto elim: generate_all_ok)
  ultimately show ?thesis using generate_all_load [OF gen distinct lib r2] by simp
qed

end
