(* ===== verification/Http.thy ===== *)
theory Http
  imports X509
begin

text \<open>
  Requests and responses as the handlers see them: of a request its method, path, body and
  the peer certificates of its TLS connection (\<open>None\<close> for a connection without TLS); a
  response is either \<open>http.Error\<close> with a status and a text, or a JSON value with a status.
\<close>

record http_request =
  req_Method :: string
  req_Path :: string
  req_Body :: bytes
  req_TLS :: "certificate list option"

definition MethodGet :: string where "MethodGet = ''GET''"
definition MethodPost :: string where "MethodPost = ''POST''"

definition StatusOK :: nat where "StatusOK = 200"
definition StatusCreated :: nat where "StatusCreated = 201"
definition StatusBadRequest :: nat where "StatusBadRequest = 400"
definition StatusUnauthorized :: nat where "StatusUnauthorized = 401"
definition StatusForbidden :: nat where "StatusForbidden = 403"
definition StatusNotFound :: nat where "StatusNotFound = 404"
definition StatusMethodNotAllowed :: nat where "StatusMethodNotAllowed = 405"
definition StatusInternalServerError :: nat where "StatusInternalServerError = 500"

lemmas status_defs = StatusOK_def StatusCreated_def StatusBadRequest_def StatusUnauthorized_def
  StatusForbidden_def StatusNotFound_def StatusMethodNotAllowed_def StatusInternalServerError_def

type_synonym http_error = "nat \<times> string"

datatype 'b http_response = ErrorResponse nat string | JsonResponse nat 'b

definition http_fail :: "http_error \<Rightarrow> 'b http_response" where
  "http_fail e = ErrorResponse (fst e) (snd e)"

fun response_status :: "'b http_response \<Rightarrow> nat" where
  "response_status (ErrorResponse status _) = status"
| "response_status (JsonResponse status _) = status"

lemma http_fail_simps [simp]:
  "http_fail (status, text) = ErrorResponse status text"
  "http_fail e \<noteq> JsonResponse s b" "JsonResponse s b \<noteq> http_fail e"
  "response_status (http_fail e) = fst e"
  by (simp_all add: http_fail_def)

end
