(* ===== verification/DeviceRepo.thy ===== *)
theory DeviceRepo
  imports Prelude
begin

text \<open>
  \<open>internal/storage/device_repo.go\<close>: the registry of enrolled devices and of revoked
  certificate serials. The Go interface is a record of functions on an abstract state; the
  in-memory registry is a state of two maps with one function per method, each atomic under
  the registry's lock.

  The locale \<open>device_repo\<close> is the contract the enrollment handler and the mTLS middleware
  rely on, over the abstract content (\<open>devs\<close>, \<open>revs\<close>) of a state; \<open>memrepo\<close> interprets it on
  the in-memory registry. The last part is about sequences of registry calls.
\<close>

text \<open>
  The two sentinel errors of the package; the interface admits implementations that fail
  in other ways.
\<close>

datatype storage_error = ErrDeviceNotFound | ErrDeviceRevoked | StorageFailure string

record DeviceRecord =
  dev_Identity :: string
  dev_Label :: string
  dev_CertSerial :: string
  dev_EnrolledAt :: instant
  dev_IsRevoked :: bool
  dev_HardwareSecurityLevel :: string

text \<open>Methods that only return an error give \<open>None\<close> for Go's nil.\<close>

record 'r DeviceRepo =
  RegisterDevice :: "DeviceRecord \<Rightarrow> 'r \<Rightarrow> storage_error option \<times> 'r"
  GetDevice :: "string \<Rightarrow> 'r \<Rightarrow> storage_error + DeviceRecord"
  RevokeDevice :: "string \<Rightarrow> 'r \<Rightarrow> storage_error option \<times> 'r"
  RevokeSerial :: "string \<Rightarrow> 'r \<Rightarrow> storage_error option \<times> 'r"
  IsSerialRevoked :: "string \<Rightarrow> 'r \<Rightarrow> bool"
  IsDeviceActive :: "string \<Rightarrow> 'r \<Rightarrow> bool"

subsection \<open>The in-memory registry\<close>

record memoryDeviceRepo =
  devices :: "string \<rightharpoonup> DeviceRecord"
  revokedSerials :: "string set"

definition NewMemoryDeviceRepo :: memoryDeviceRepo where
  "NewMemoryDeviceRepo = \<lparr>devices = Map.empty, revokedSerials = {}\<rparr>"

definition mem_RegisterDevice ::
  "DeviceRecord \<Rightarrow> memoryDeviceRepo \<Rightarrow> storage_error option \<times> memoryDeviceRepo" where
  "mem_RegisterDevice record r =
     (None, r\<lparr>devices := (devices r)(dev_Identity record \<mapsto> record)\<rparr>)"

definition mem_GetDevice :: "string \<Rightarrow> memoryDeviceRepo \<Rightarrow> storage_error + DeviceRecord" where
  "mem_GetDevice identity r =
     (case devices r identity of None \<Rightarrow> Inl ErrDeviceNotFound | Some record \<Rightarrow> Inr record)"

definition mem_RevokeDevice ::
  "string \<Rightarrow> memoryDeviceRepo \<Rightarrow> storage_error option \<times> memoryDeviceRepo" where
  "mem_RevokeDevice identity r =
     (case devices r identity of
        None \<Rightarrow> (Some ErrDeviceNotFound, r)
      | Some record \<Rightarrow>
          (None, r\<lparr>devices := (devices r)(identity \<mapsto> record\<lparr>dev_IsRevoked := True\<rparr>),
                   revokedSerials := insert (dev_CertSerial record) (revokedSerials r)\<rparr>))"

definition mem_RevokeSerial ::
  "string \<Rightarrow> memoryDeviceRepo \<Rightarrow> storage_error option \<times> memoryDeviceRepo" where
  "mem_RevokeSerial serial r =
     (None, r\<lparr>revokedSerials := insert serial (revokedSerials r)\<rparr>)"

definition mem_IsSerialRevoked :: "string \<Rightarrow> memoryDeviceRepo \<Rightarrow> bool" where
  "mem_IsSerialRevoked serial r \<longleftrightarrow> serial \<in> revokedSerials r"

definition mem_IsDeviceActive :: "string \<Rightarrow> memoryDeviceRepo \<Rightarrow> bool" where
  "mem_IsDeviceActive identity r =
     (case devices r identity of None \<Rightarrow> False | Some record \<Rightarrow> \<not> dev_IsRevoked record)"

definition memory_device_repo :: "memoryDeviceRepo DeviceRepo" where
  "memory_device_repo = \<lparr>RegisterDevice = mem_RegisterDevice, GetDevice = mem_GetDevice,
     RevokeDevice = mem_RevokeDevice, RevokeSerial = mem_RevokeSerial,
     IsSerialRevoked = mem_IsSerialRevoked, IsDeviceActive = mem_IsDeviceActive\<rparr>"

lemma memory_device_repo_simps [simp]:
  "RegisterDevice memory_device_repo = mem_RegisterDevice"
  "GetDevice memory_device_repo = mem_GetDevice"
  "RevokeDevice memory_device_repo = mem_RevokeDevice"
  "RevokeSerial memory_device_repo = mem_RevokeSerial"
  "IsSerialRevoked memory_device_repo = mem_IsSerialRevoked"
  "IsDeviceActive memory_device_repo = mem_IsDeviceActive"
  by (simp_all add: memory_device_repo_def)

lemma mem_RegisterDevice_simps [repo_simps]:
  "fst (mem_RegisterDevice record r) = None"
  "devices (snd (mem_RegisterDevice record r)) = (devices r)(dev_Identity record \<mapsto> record)"
  "revokedSerials (snd (mem_RegisterDevice record r)) = revokedSerials r"
  by (simp_all add: mem_RegisterDevice_def)

lemma mem_RevokeDevice_simps [repo_simps]:
  "devices (snd (mem_RevokeDevice identity r)) =
     (devices r)(identity := map_option (\<lambda>record. record\<lparr>dev_IsRevoked := True\<rparr>)
                               (devices r identity))"
  "revokedSerials (snd (mem_RevokeDevice identity r)) =
     (case devices r identity of
        None \<Rightarrow> revokedSerials r
      | Some record \<Rightarrow> insert (dev_CertSerial record) (revokedSerials r))"
  "fst (mem_RevokeDevice identity r) = None \<longleftrightarrow> devices r identity \<noteq> None"
  by (auto simp: mem_RevokeDevice_def fun_upd_idem_iff split: option.splits)

lemma mem_RevokeSerial_simps [repo_simps]:
  "fst (mem_RevokeSerial serial r) = None"
  "devices (snd (mem_RevokeSerial serial r)) = devices r"
  "revokedSerials (snd (mem_RevokeSerial serial r)) = insert serial (revokedSerials r)"
  by (simp_all add: mem_RevokeSerial_def)

subsection \<open>The contract\<close>

locale device_repo =
  fixes ops :: "'r DeviceRepo"
    and devs :: "'r \<Rightarrow> string \<rightharpoonup> DeviceRecord"
    and revs :: "'r \<Rightarrow> string set"
  assumes register_ok:
      "RegisterDevice ops rec r = (None, r') \<Longrightarrow>
         devs r' = (devs r)(dev_Identity rec \<mapsto> rec) \<and> revs r' = revs r"
    and register_error:
      "RegisterDevice ops rec r = (Some e, r') \<Longrightarrow> devs r' = devs r \<and> revs r' = revs r"
    and get_device:
      "GetDevice ops i r = (case devs r i of None \<Rightarrow> Inl ErrDeviceNotFound | Some rec \<Rightarrow> Inr rec)"
    and revoke_device_ok:
      "RevokeDevice ops i r = (None, r') \<Longrightarrow>
         \<exists>rec. devs r i = Some rec \<and> devs r' = (devs r)(i \<mapsto> rec\<lparr>dev_IsRevoked := True\<rparr>) \<and>
               revs r' = insert (dev_CertSerial rec) (revs r)"
    and revoke_device_error:
      "RevokeDevice ops i r = (Some e, r') \<Longrightarrow> devs r' = devs r \<and> revs r' = revs r"
    and revoke_serial_ok:
      "RevokeSerial ops s r = (None, r') \<Longrightarrow> devs r' = devs r \<and> revs r' = insert s (revs r)"
    and revoke_serial_error:
      "RevokeSerial ops s r = (Some e, r') \<Longrightarrow> devs r' = devs r \<and> revs r' = revs r"
    and is_serial_revoked: "IsSerialRevoked ops s r \<longleftrightarrow> s \<in> revs r"
    and is_device_active:
      "IsDeviceActive ops i r \<longleftrightarrow> (\<exists>rec. devs r i = Some rec \<and> \<not> dev_IsRevoked rec)"
begin

lemma get_device_eq_Inr: "GetDevice ops i r = Inr rec \<longleftrightarrow> devs r i = Some rec"
  by (simp add: get_device split: option.splits)

lemma get_device_eq_Inl: "GetDevice ops i r = Inl e \<longleftrightarrow> devs r i = None \<and> e = ErrDeviceNotFound"
  by (auto simp: get_device split: option.splits)

lemma revoked_device_inactive:
  assumes "RevokeDevice ops i r = (None, r')"
  shows "\<not> IsDeviceActive ops i r'"
    and "devs r i = Some rec \<Longrightarrow> IsSerialRevoked ops (dev_CertSerial rec) r'"
  using revoke_device_ok [OF assms] by (auto simp: is_device_active is_serial_revoked)

lemma revs_register: "RegisterDevice ops rec r = (x, r') \<Longrightarrow> revs r' = revs r"
  by (cases x) (auto dest: register_ok register_error)

lemma revs_revoke_serial: "RevokeSerial ops s r = (x, r') \<Longrightarrow> revs r \<subseteq> revs r'"
  by (cases x) (auto dest: revoke_serial_ok revoke_serial_error)

lemma devs_revoke_serial: "RevokeSerial ops s r = (x, r') \<Longrightarrow> devs r' = devs r"
  by (cases x) (auto dest: revoke_serial_ok revoke_serial_error)

end

interpretation memrepo: device_repo memory_device_repo devices revokedSerials
  by unfold_locales
    (auto simp: mem_RegisterDevice_def mem_GetDevice_def mem_RevokeDevice_def mem_RevokeSerial_def
      mem_IsSerialRevoked_def mem_IsDeviceActive_def split: option.splits)

subsection \<open>Sequences of calls\<close>

datatype repo_call =
    CallRegister DeviceRecord
  | CallRevokeDevice string
  | CallRevokeSerial string

fun repo_step :: "repo_call \<Rightarrow> memoryDeviceRepo \<Rightarrow> memoryDeviceRepo" where
  "repo_step (CallRegister record) r = snd (mem_RegisterDevice record r)"
| "repo_step (CallRevokeDevice identity) r = snd (mem_RevokeDevice identity r)"
| "repo_step (CallRevokeSerial serial) r = snd (mem_RevokeSerial serial r)"

definition repo_run :: "repo_call list \<Rightarrow> memoryDeviceRepo \<Rightarrow> memoryDeviceRepo" where
  "repo_run cs r = fold repo_step cs r"

text \<open>
  Well-formed content: a record is stored under its own identity, and the serial of a
  revoked record is a revoked serial.
\<close>

definition repo_wf :: "memoryDeviceRepo \<Rightarrow> bool" where
  "repo_wf r \<longleftrightarrow>
     (\<forall>i rec. devices r i = Some rec \<longrightarrow>
        dev_Identity rec = i \<and> (dev_IsRevoked rec \<longrightarrow> dev_CertSerial rec \<in> revokedSerials r))"

text \<open>The enrollment handler registers records that are not marked revoked.\<close>

fun registers_unrevoked :: "repo_call \<Rightarrow> bool" where
  "registers_unrevoked (CallRegister record) = (\<not> dev_IsRevoked record)"
| "registers_unrevoked _ = True"

lemma repo_wf_new: "repo_wf NewMemoryDeviceRepo"
  by (simp add: repo_wf_def NewMemoryDeviceRepo_def)

lemma repo_step_wf: "repo_wf r \<Longrightarrow> registers_unrevoked c \<Longrightarrow> repo_wf (repo_step c r)"
  by (cases c) (auto simp: repo_wf_def repo_simps split: option.splits if_splits)

lemma repo_run_Cons [simp]: "repo_run (c # cs) r = repo_run cs (repo_step c r)"
  by (simp add: repo_run_def)

lemma repo_run_Nil [simp]: "repo_run [] r = r"
  by (simp add: repo_run_def)

lemma repo_run_wf: "repo_wf r \<Longrightarrow> list_all registers_unrevoked cs \<Longrightarrow> repo_wf (repo_run cs r)"
  by (induction cs arbitrary: r) (auto intro: repo_step_wf)

lemma repo_step_revokedSerials: "revokedSerials r \<subseteq> revokedSerials (repo_step c r)"
  by (cases c) (auto simp: repo_simps split: option.splits)

lemma repo_run_revokedSerials: "revokedSerials r \<subseteq> revokedSerials (repo_run cs r)"
  by (induction cs arbitrary: r) (auto dest: repo_step_revokedSerials [THEN subsetD])

text \<open>A device stays revoked as long as nobody registers its identity again.\<close>

fun registers :: "string \<Rightarrow> repo_call \<Rightarrow> bool" where
  "registers identity (CallRegister record) = (dev_Identity record = identity)"
| "registers identity _ = False"

lemma repo_step_stays_inactive:
  "\<not> mem_IsDeviceActive i r \<Longrightarrow> \<not> registers i c \<Longrightarrow> \<not> mem_IsDeviceActive i (repo_step c r)"
  by (cases c) (auto simp: mem_IsDeviceActive_def repo_simps split: option.splits if_splits)

lemma repo_run_stays_inactive:
  "\<not> mem_IsDeviceActive i r \<Longrightarrow> list_all (\<lambda>c. \<not> registers i c) cs \<Longrightarrow>
     \<not> mem_IsDeviceActive i (repo_run cs r)"
  by (induction cs arbitrary: r) (auto simp: repo_step_stays_inactive)

subsection \<open>Properties\<close>

text \<open>
  C19. Whatever is registered and revoked, in whatever order: every record is stored under its
  own identity, and the certificate serial of a revoked record is a revoked serial. The
  registering calls are those of the enrollment handler, which never stores a record that
  is marked revoked.
\<close>

theorem registry_well_formed:
  "list_all registers_unrevoked cs \<Longrightarrow> repo_wf (repo_run cs NewMemoryDeviceRepo)"
  by (rule repo_run_wf [OF repo_wf_new])

theorem registry_well_formed_witness:
  "repo_wf (repo_run [CallRegister \<lparr>dev_Identity = ''a'', dev_Label = [], dev_CertSerial = ''1'',
       dev_EnrolledAt = 0, dev_IsRevoked = False, dev_HardwareSecurityLevel = ''TEE''\<rparr>,
     CallRevokeDevice ''a''] NewMemoryDeviceRepo)"
  by (rule registry_well_formed) simp

end
