(* ===== verification/Middleware.thy ===== *)
theory Middleware
  imports Http Revocation DeviceRepo
begin

text \<open>
  \<open>internal/middleware/mtls_auth.go\<close>: the middleware that binds the client certificate of a
  TLS connection to the registry. It makes up to three calls of the registry; other requests
  may change the registry between them, so the model takes the registry as each call finds
  it (\<open>r1\<close>, \<open>r2\<close>, \<open>r3\<close>). When nothing intervenes the three are the same.
\<close>

record DeviceIdentity =
  id_Identity :: string
  id_Label :: string
  id_CertSerial :: string
  id_Record :: "DeviceRecord option"

abbreviation urn_prefix :: string where "urn_prefix \<equiv> ''urn:device:''"

text \<open>The loop over the SAN URIs stops at the first device URN.\<close>

fun identity_from_uris :: "string list \<Rightarrow> string" where
  "identity_from_uris [] = []"
| "identity_from_uris (u # us) =
     (if has_prefix u urn_prefix then trim_prefix u urn_prefix else identity_from_uris us)"

definition certificate_identity :: "certificate \<Rightarrow> string" where
  "certificate_identity clientCert =
     (if CommonName clientCert = [] then identity_from_uris (URIs clientCert)
      else CommonName clientCert)"

definition serial_text :: "certificate \<Rightarrow> string" where
  "serial_text c = decimal_int (SerialNumber c)"

definition registry_step ::
  "'r DeviceRepo \<Rightarrow> 'r \<Rightarrow> 'r \<Rightarrow> 'r \<Rightarrow> string \<Rightarrow> string \<Rightarrow> http_error + DeviceRecord" where
  "registry_step ops r1 r2 r3 identity serial =
     (case GetDevice ops identity r1 of
        Inl _ \<Rightarrow> Inl (StatusForbidden, ''Device is unauthorized or revoked'')
      | Inr record \<Rightarrow>
          if \<not> IsDeviceActive ops identity r2
          then Inl (StatusForbidden, ''Device is unauthorized or revoked'')
          else if IsSerialRevoked ops serial r3
          then Inl (StatusForbidden, ''Device certificate is revoked'')
          else if dev_CertSerial record \<noteq> serial
          then Inl (StatusForbidden, ''Device certificate is not current'')
          else Inr record)"

definition identity_step :: "certificate \<Rightarrow> http_error + string" where
  "identity_step clientCert =
     (let identity = certificate_identity clientCert in
      if identity = [] then
        Inl (StatusForbidden,
          ''Mutual TLS authentication failed: unable to identify device from client certificate'')
      else (case PublicKeyFingerprint (PublicKey clientCert) of
              Inl _ \<Rightarrow> Inl (StatusForbidden,
                ''Mutual TLS authentication failed: certificate identity mismatch'')
            | Inr fingerprint \<Rightarrow>
                if fingerprint \<noteq> identity
                then Inl (StatusForbidden,
                  ''Mutual TLS authentication failed: certificate identity mismatch'')
                else Inr identity))"

definition authenticate ::
  "'r DeviceRepo option \<Rightarrow> 'r \<Rightarrow> 'r \<Rightarrow> 'r \<Rightarrow> http_request \<Rightarrow> http_error + DeviceIdentity" where
  "authenticate repo r1 r2 r3 req =
     (case req_TLS req of
        Some (clientCert # _) \<Rightarrow>
          and_then (identity_step clientCert) (\<lambda>identity.
          and_then
            (case repo of
               None \<Rightarrow> Inr None
             | Some ops \<Rightarrow>
                 and_then (registry_step ops r1 r2 r3 identity (serial_text clientCert))
                   (\<lambda>record. Inr (Some record)))
            (\<lambda>record. Inr
               \<lparr>id_Identity = identity,
                id_Label = (case record of None \<Rightarrow> [] | Some rec \<Rightarrow> dev_Label rec),
                id_CertSerial = serial_text clientCert,
                id_Record = record\<rparr>))
      | _ \<Rightarrow> Inl (StatusUnauthorized,
          ''Mutual TLS authentication required: no client certificate presented''))"

text \<open>
  The context a handler gets carries the identity, if any; \<open>GetDeviceIdentity\<close> reads it.
\<close>

type_synonym request_context = "DeviceIdentity option"

definition GetDeviceIdentity :: "request_context \<Rightarrow> DeviceIdentity option" where
  "GetDeviceIdentity ctx = ctx"

definition MtlsAuthMiddleware ::
  "'r DeviceRepo option \<Rightarrow> (request_context \<Rightarrow> http_request \<Rightarrow> 'b http_response) \<Rightarrow>
     'r \<Rightarrow> 'r \<Rightarrow> 'r \<Rightarrow> http_request \<Rightarrow> 'b http_response" where
  "MtlsAuthMiddleware repo next_handler r1 r2 r3 req =
     (case authenticate repo r1 r2 r3 req of
        Inl e \<Rightarrow> http_fail e
      | Inr identity \<Rightarrow> next_handler (Some identity) req)"

subsection \<open>Which certificates are let through\<close>

text \<open>A certificate whose claimed identity is the fingerprint of its own key.\<close>

definition self_bound :: "certificate \<Rightarrow> string \<Rightarrow> bool" where
  "self_bound c identity \<longleftrightarrow>
     certificate_identity c = identity \<and> PublicKeyFingerprint (PublicKey c) = Inr identity"

lemma identity_step_eq_Inr: "identity_step c = Inr i \<longleftrightarrow> self_bound c i"
  by (auto simp: identity_step_def self_bound_def Let_def fingerprint_shape(3) split: sum.splits)

lemma identity_step_eq_Inl: "identity_step c = Inl e \<Longrightarrow> fst e = StatusForbidden"
  by (auto simp: identity_step_def Let_def split: sum.splits if_splits)

lemma registry_step_eq_Inl: "registry_step ops r1 r2 r3 i s = Inl e \<Longrightarrow> fst e = StatusForbidden"
  by (auto simp: registry_step_def split: sum.splits if_splits)

lemma self_bound_text: "self_bound c i \<Longrightarrow> length i = 64 \<and> list_all is_hex_lower i"
  by (auto simp: self_bound_def fingerprint_shape)

lemma certificate_identity_CommonName [simp]:
  "CommonName c \<noteq> [] \<Longrightarrow> certificate_identity c = CommonName c"
  by (simp add: certificate_identity_def)

context device_repo
begin

lemma registry_step_eq_Inr:
  "registry_step ops r1 r2 r3 i serial = Inr record \<longleftrightarrow>
     devs r1 i = Some record \<and> dev_CertSerial record = serial \<and>
     (\<exists>record2. devs r2 i = Some record2 \<and> \<not> dev_IsRevoked record2) \<and> serial \<notin> revs r3"
  by (auto simp: registry_step_def get_device is_serial_revoked is_device_active
      split: option.splits)

lemma authenticate_eq_Inr:
  "authenticate (Some ops) r1 r2 r3 req = Inr identity \<longleftrightarrow>
     (\<exists>c cs record. req_TLS req = Some (c # cs) \<and> self_bound c (id_Identity identity) \<and>
        devs r1 (id_Identity identity) = Some record \<and> dev_CertSerial record = serial_text c \<and>
        (\<exists>record2. devs r2 (id_Identity identity) = Some record2 \<and> \<not> dev_IsRevoked record2) \<and>
        serial_text c \<notin> revs r3 \<and>
        identity = \<lparr>id_Identity = id_Identity identity, id_Label = dev_Label record,
                    id_CertSerial = serial_text c, id_Record = Some record\<rparr>)"
  (is "?L \<longleftrightarrow> ?R")
proof
  assume ?L
  then obtain c cs where tls: "req_TLS req = Some (c # cs)"
    by (auto simp: authenticate_def split: option.splits list.splits)
  with \<open>?L\<close> obtain i rec where i: "identity_step c = Inr i"
    and stored: "registry_step ops r1 r2 r3 i (serial_text c) = Inr rec"
    and identity: "identity = \<lparr>id_Identity = i, id_Label = dev_Label rec,
                    id_CertSerial = serial_text c, id_Record = Some rec\<rparr>"
    by (auto simp: authenticate_def)
  from identity have [simp]: "id_Identity identity = i" by simp
  from tls i stored identity show ?R
    unfolding identity_step_eq_Inr registry_step_eq_Inr by auto
next
  assume ?R
  then obtain c cs rec where tls: "req_TLS req = Some (c # cs)"
    and i: "identity_step c = Inr (id_Identity identity)"
    and stored: "registry_step ops r1 r2 r3 (id_Identity identity) (serial_text c) = Inr rec"
    and identity: "identity = \<lparr>id_Identity = id_Identity identity, id_Label = dev_Label rec,
                    id_CertSerial = serial_text c, id_Record = Some rec\<rparr>"
    unfolding identity_step_eq_Inr registry_step_eq_Inr by auto
  from tls i stored have "authenticate (Some ops) r1 r2 r3 req =
      Inr \<lparr>id_Identity = id_Identity identity, id_Label = dev_Label rec,
           id_CertSerial = serial_text c, id_Record = Some rec\<rparr>"
    by (simp add: authenticate_def)
  with identity show ?L by simp
qed

lemma authenticate_now_eq_Inr:
  "authenticate (Some ops) r r r req = Inr identity \<longleftrightarrow>
     (\<exists>c cs record. req_TLS req = Some (c # cs) \<and> self_bound c (id_Identity identity) \<and>
        devs r (id_Identity identity) = Some record \<and> dev_CertSerial record = serial_text c \<and>
        \<not> dev_IsRevoked record \<and> serial_text c \<notin> revs r \<and>
        identity = \<lparr>id_Identity = id_Identity identity, id_Label = dev_Label record,
                    id_CertSerial = serial_text c, id_Record = Some record\<rparr>)"
  unfolding authenticate_eq_Inr by fastforce

end

lemma authenticate_error_status:
  "authenticate repo r1 r2 r3 req = Inl e \<Longrightarrow>
     fst e = (if \<exists>c cs. req_TLS req = Some (c # cs) then StatusForbidden else StatusUnauthorized)"
  by (auto simp: authenticate_def and_then_eq_Inl dest: identity_step_eq_Inl registry_step_eq_Inl
      split: option.splits list.splits)

end
