(* ===== verification/ChallengeStore.thy ===== *)
theory ChallengeStore
  imports GoText
begin

text \<open>
  \<open>internal/storage/challenge_store.go\<close>: single-use challenges with an expiry. The interface
  \<open>ChallengeStore\<close> is a record of functions on an abstract store state, as a Go interface
  value is a table of methods; the in-memory implementation is a state (the map) with one
  function per method and one for a pass of the cleanup worker. The mutex makes each of
  them atomic. The clock reading and the random bytes a call takes are arguments.

  The locale \<open>challenge_store\<close> states the contract the enrollment handler relies on, in
  terms of the live challenges of a state; \<open>mem\<close> is its interpretation on the in-memory
  store. The last part is about sequences of calls.
\<close>

text \<open>What one call of \<open>GenerateAndStoreChallenge\<close> draws: 32 random bytes (or the error of the
  random source) and the time.\<close>

record generate_reading =
  random_bytes :: "string + bytes"
  generate_now :: instant

record 'c ChallengeStore =
  GenerateAndStoreChallenge ::
    "generate_reading \<Rightarrow> duration \<Rightarrow> 'c \<Rightarrow> (string + string \<times> instant) \<times> 'c"
  VerifyAndConsumeChallenge :: "instant \<Rightarrow> string \<Rightarrow> 'c \<Rightarrow> bool \<times> 'c"

subsection \<open>The in-memory store\<close>

record memoryChallengeStore =
  challenges :: "string \<rightharpoonup> instant"

definition NewMemoryChallengeStore :: memoryChallengeStore where
  "NewMemoryChallengeStore = \<lparr>challenges = Map.empty\<rparr>"

definition mem_Generate ::
  "generate_reading \<Rightarrow> duration \<Rightarrow> memoryChallengeStore \<Rightarrow>
     (string + string \<times> instant) \<times> memoryChallengeStore" where
  "mem_Generate env ttl s =
     (case random_bytes env of
        Inl err \<Rightarrow> (Inl err, s)
      | Inr bytes \<Rightarrow>
          let challenge = b64_encode bytes;
              expiresAt = time_add (generate_now env) ttl
          in (Inr (challenge, expiresAt),
              s\<lparr>challenges := (challenges s)(challenge \<mapsto> expiresAt)\<rparr>))"

definition mem_VerifyAndConsume ::
  "instant \<Rightarrow> string \<Rightarrow> memoryChallengeStore \<Rightarrow> bool \<times> memoryChallengeStore" where
  "mem_VerifyAndConsume now challenge s =
     (case challenges s challenge of
        None \<Rightarrow> (False, s)
      | Some expiresAt \<Rightarrow>
          (time_before now expiresAt, s\<lparr>challenges := (challenges s)(challenge := None)\<rparr>))"

text \<open>One tick of \<open>cleanupWorker\<close>: every entry whose expiry lies before now is deleted.\<close>

definition cleanup_pass :: "instant \<Rightarrow> memoryChallengeStore \<Rightarrow> memoryChallengeStore" where
  "cleanup_pass now s =
     s\<lparr>challenges := (\<lambda>ch. case challenges s ch of
          None \<Rightarrow> None
        | Some ex \<Rightarrow> if time_after now ex then None else Some ex)\<rparr>"

definition memory_challenge_store :: "memoryChallengeStore ChallengeStore" where
  "memory_challenge_store = \<lparr>GenerateAndStoreChallenge = mem_Generate,
                             VerifyAndConsumeChallenge = mem_VerifyAndConsume\<rparr>"

lemma memory_challenge_store_simps [simp]:
  "GenerateAndStoreChallenge memory_challenge_store = mem_Generate"
  "VerifyAndConsumeChallenge memory_challenge_store = mem_VerifyAndConsume"
  by (simp_all add: memory_challenge_store_def)

lemma mem_VerifyAndConsume_result [store_simps]:
  "fst (mem_VerifyAndConsume now ch s) \<longleftrightarrow> (\<exists>ex. challenges s ch = Some ex \<and> now < ex)"
  by (auto simp: mem_VerifyAndConsume_def time_defs split: option.splits)

lemma mem_VerifyAndConsume_state [store_simps]:
  "challenges (snd (mem_VerifyAndConsume now ch s)) = (challenges s)(ch := None)"
  by (auto simp: mem_VerifyAndConsume_def split: option.splits)

lemma mem_Generate_ok [store_simps]:
  "mem_Generate env ttl s = (Inr (ch, ex), s') \<longleftrightarrow>
     (\<exists>bytes. random_bytes env = Inr bytes \<and> ch = b64_encode bytes \<and>
              ex = generate_now env + sint ttl \<and>
              s' = s\<lparr>challenges := (challenges s)(ch \<mapsto> ex)\<rparr>)"
  by (auto simp: mem_Generate_def time_defs Let_def split: sum.splits)

lemma mem_Generate_error [store_simps]:
  "mem_Generate env ttl s = (Inl err, s') \<longleftrightarrow> random_bytes env = Inl err \<and> s' = s"
  by (auto simp: mem_Generate_def Let_def split: sum.splits)

lemma cleanup_pass_challenges [store_simps]:
  "challenges (cleanup_pass now s) ch = Some ex \<longleftrightarrow> challenges s ch = Some ex \<and> now \<le> ex"
  by (auto simp: cleanup_pass_def time_defs split: option.splits)

subsection \<open>The contract\<close>

locale challenge_store =
  fixes ops :: "'c ChallengeStore"
    and live :: "'c \<Rightarrow> string \<rightharpoonup> instant"
  assumes generate_ok:
      "GenerateAndStoreChallenge ops env ttl s = (Inr (ch, ex), s') \<Longrightarrow>
         live s' = (live s)(ch \<mapsto> ex)"
    and generate_text:
      "GenerateAndStoreChallenge ops env ttl s = (Inr (ch, ex), s') \<Longrightarrow>
         \<exists>bytes. random_bytes env = Inr bytes \<and> ch = b64_encode bytes \<and>
                 ex = generate_now env + sint ttl"
    and generate_error:
      "GenerateAndStoreChallenge ops env ttl s = (Inl err, s') \<Longrightarrow> live s' = live s"
    and consume_result:
      "fst (VerifyAndConsumeChallenge ops now ch s) \<longleftrightarrow> (\<exists>ex. live s ch = Some ex \<and> now < ex)"
    and consume_state:
      "live (snd (VerifyAndConsumeChallenge ops now ch s)) = (live s)(ch := None)"
begin

lemma consume_once:
  "\<not> fst (VerifyAndConsumeChallenge ops now2 ch (snd (VerifyAndConsumeChallenge ops now1 ch s)))"
  by (simp add: consume_result consume_state)

lemma consume_other:
  "ch' \<noteq> ch \<Longrightarrow>
     fst (VerifyAndConsumeChallenge ops now' ch' (snd (VerifyAndConsumeChallenge ops now ch s))) =
     fst (VerifyAndConsumeChallenge ops now' ch' s)"
  by (simp add: consume_result consume_state)

lemma generate_then_consume:
  assumes "GenerateAndStoreChallenge ops env ttl s = (Inr (ch, ex), s')"
  shows "fst (VerifyAndConsumeChallenge ops now ch s') \<longleftrightarrow> now < generate_now env + sint ttl"
  using generate_ok [OF assms] generate_text [OF assms] by (auto simp: consume_result)

end

interpretation mem: challenge_store memory_challenge_store challenges
  by unfold_locales (auto simp: store_simps)

subsection \<open>Sequences of calls\<close>

text \<open>Any interleaving of handlers and the cleanup worker is a sequence of these calls.\<close>

datatype store_call =
    Generate generate_reading duration
  | Consume instant string
  | Cleanup instant

fun store_step :: "store_call \<Rightarrow> memoryChallengeStore \<Rightarrow> memoryChallengeStore" where
  "store_step (Generate env ttl) s = snd (mem_Generate env ttl s)"
| "store_step (Consume now ch) s = snd (mem_VerifyAndConsume now ch s)"
| "store_step (Cleanup now) s = cleanup_pass now s"

text \<open>Does this call hand out, or accept, the challenge?\<close>

fun issues :: "string \<Rightarrow> store_call \<Rightarrow> bool" where
  "issues ch (Generate env ttl) =
     (case random_bytes env of Inl _ \<Rightarrow> False | Inr bytes \<Rightarrow> b64_encode bytes = ch)"
| "issues ch _ = False"

fun accepts :: "string \<Rightarrow> store_call \<Rightarrow> memoryChallengeStore \<Rightarrow> bool" where
  "accepts ch (Consume now ch') s = (ch' = ch \<and> fst (mem_VerifyAndConsume now ch' s))"
| "accepts ch _ s = False"

fun count_issued :: "string \<Rightarrow> store_call list \<Rightarrow> nat" where
  "count_issued ch [] = 0"
| "count_issued ch (c # cs) = (if issues ch c then 1 else 0) + count_issued ch cs"

fun count_accepted :: "string \<Rightarrow> store_call list \<Rightarrow> memoryChallengeStore \<Rightarrow> nat" where
  "count_accepted ch [] s = 0"
| "count_accepted ch (c # cs) s =
     (if accepts ch c s then 1 else 0) + count_accepted ch cs (store_step c s)"

lemma store_step_live:
  "challenges (store_step c s) ch \<noteq> None \<Longrightarrow> \<not> issues ch c \<Longrightarrow> challenges s ch \<noteq> None"
proof (induction c s rule: store_step.induct)
  case (1 env ttl s)
  then show ?case
    by (cases "random_bytes env") (auto simp: mem_Generate_def Let_def split: if_splits)
qed (auto simp: store_simps cleanup_pass_def split: if_splits option.splits)

lemma accepts_live: "accepts ch c s \<Longrightarrow> challenges s ch \<noteq> None"
  by (cases c) (auto simp: store_simps)

lemma accepts_removes: "accepts ch c s \<Longrightarrow> challenges (store_step c s) ch = None \<and> \<not> issues ch c"
  by (cases c) (auto simp: store_simps)

lemma count_accepted_le:
  "count_accepted ch cs s \<le> count_issued ch cs + (if challenges s ch = None then 0 else 1)"
proof (induction cs arbitrary: s)
  case Nil
  then show ?case by simp
next
  case (Cons c cs)
  have IH: "count_accepted ch cs (store_step c s) \<le>
      count_issued ch cs + (if challenges (store_step c s) ch = None then 0 else 1)"
    by (rule Cons.IH)
  show ?case
  proof (cases "accepts ch c s")
    case True
    with IH accepts_live [OF True] accepts_removes [OF True] show ?thesis by auto
  next
    case False
    with IH store_step_live [of c s ch] show ?thesis by (auto split: if_splits)
  qed
qed

text \<open>
  The cleanup worker cannot be observed: a store after a pass at an earlier time answers
  every later call as the store without the pass does.
\<close>

definition same_from :: "instant \<Rightarrow> memoryChallengeStore \<Rightarrow> memoryChallengeStore \<Rightarrow> bool" where
  "same_from t s s' \<longleftrightarrow>
     (\<forall>ch ex. t < ex \<longrightarrow> (challenges s ch = Some ex \<longleftrightarrow> challenges s' ch = Some ex))"

fun call_time :: "store_call \<Rightarrow> instant" where
  "call_time (Generate env ttl) = generate_now env"
| "call_time (Consume now ch) = now"
| "call_time (Cleanup now) = now"

fun times_from :: "instant \<Rightarrow> store_call list \<Rightarrow> bool" where
  "times_from t [] = True"
| "times_from t (c # cs) = (t \<le> call_time c \<and> times_from (call_time c) cs)"

fun answers :: "store_call list \<Rightarrow> memoryChallengeStore \<Rightarrow> bool list" where
  "answers [] s = []"
| "answers (Consume now ch # cs) s =
     fst (mem_VerifyAndConsume now ch s) # answers cs (store_step (Consume now ch) s)"
| "answers (c # cs) s = answers cs (store_step c s)"

lemma same_from_refl: "same_from t s s"
  by (simp add: same_from_def)

lemma same_from_mono: "same_from t s s' \<Longrightarrow> t \<le> u \<Longrightarrow> same_from u s s'"
  by (auto simp: same_from_def)

lemma same_from_cleanup: "same_from now s (cleanup_pass now s)"
  by (auto simp: same_from_def store_simps)

lemma same_from_step: "same_from t s s' \<Longrightarrow> same_from t (store_step c s) (store_step c s')"
proof (cases c)
  case (Generate env ttl)
  assume "same_from t s s'"
  with Generate show ?thesis
    by (cases "random_bytes env") (auto simp: same_from_def mem_Generate_def Let_def)
qed (auto simp: same_from_def store_simps)

lemma same_from_answer:
  "same_from t s s' \<Longrightarrow> t \<le> now \<Longrightarrow>
     fst (mem_VerifyAndConsume now ch s) = fst (mem_VerifyAndConsume now ch s')"
  unfolding same_from_def store_simps by (meson le_less_trans)

lemma answers_same:
  "same_from t s s' \<Longrightarrow> times_from t cs \<Longrightarrow> answers cs s = answers cs s'"
proof (induction cs arbitrary: t s s')
  case (Cons c cs)
  then have "same_from (call_time c) (store_step c s) (store_step c s')"
    by (intro same_from_step) (auto intro: same_from_mono)
  with Cons have "answers cs (store_step c s) = answers cs (store_step c s')" by simp
  with Cons.prems same_from_answer show ?case by (cases c) auto
qed simp

subsection \<open>Properties\<close>

text \<open>
  C17. Single use: whatever the handlers and the cleanup worker call, in whatever order and at
  whatever times, a challenge is accepted at most as often as it was handed out by the store.
\<close>

theorem challenge_single_use:
  "count_accepted ch cs NewMemoryChallengeStore \<le> count_issued ch cs"
  using count_accepted_le [of ch cs NewMemoryChallengeStore]
  by (simp add: NewMemoryChallengeStore_def)

text \<open>
  C18. The cleanup worker only frees memory: with a clock that does not run backwards, a pass
  of the worker changes the answer of no later call of the store.
\<close>

theorem cleanup_unobservable:
  "times_from now cs \<Longrightarrow> answers cs (cleanup_pass now s) = answers cs s"
  by (rule answers_same [OF same_from_cleanup, symmetric])

theorem cleanup_unobservable_witness:
  "answers [Consume 5 ''a'', Consume 6 ''b'']
     (cleanup_pass 4 \<lparr>challenges = [''a'' \<mapsto> 3, ''b'' \<mapsto> 9]\<rparr>) = [False, True]"
proof -
  have "answers [Consume 5 ''a'', Consume 6 ''b'']
      (cleanup_pass 4 \<lparr>challenges = [''a'' \<mapsto> 3, ''b'' \<mapsto> 9]\<rparr>) =
    answers [Consume 5 ''a'', Consume 6 ''b''] \<lparr>challenges = [''a'' \<mapsto> 3, ''b'' \<mapsto> 9]\<rparr>"
    by (rule cleanup_unobservable) simp
  then show ?thesis by (simp add: mem_VerifyAndConsume_def time_defs)
qed

end
