(* ===== verification/Handlers.thy ===== *)
theory Handlers
  imports Middleware ChallengeStore
begin

text \<open>
  The two small handlers of \<open>internal/handlers\<close>: \<open>challenge_handler.go\<close>, which hands out
  challenges, and \<open>protected_handler.go\<close>, the resource behind the mTLS middleware.
\<close>

subsection \<open>\<open>GET /api/v1/enroll/challenge\<close>\<close>

record ChallengeResponse =
  cr_Challenge :: string
  cr_ExpiresIn :: int
  cr_ExpiresAt :: string

definition ChallengeHandler_ServeHTTP ::
  "'c ChallengeStore \<Rightarrow> duration \<Rightarrow> generate_reading \<Rightarrow> http_request \<Rightarrow> 'c \<Rightarrow>
     ChallengeResponse http_response \<times> 'c" where
  "ChallengeHandler_ServeHTTP store_ops ttl env req store =
     (if req_Method req \<noteq> MethodGet
      then (ErrorResponse StatusMethodNotAllowed ''Method not allowed'', store)
      else (case GenerateAndStoreChallenge store_ops env ttl store of
          (Inl _, store') \<Rightarrow>
            (ErrorResponse StatusInternalServerError ''Failed to generate attestation challenge'', store')
        | (Inr (challenge, expiresAt), store') \<Rightarrow>
            (JsonResponse StatusOK
               \<lparr>cr_Challenge = challenge,
                cr_ExpiresIn = duration_seconds_int ttl,
                cr_ExpiresAt = rfc3339 expiresAt\<rparr>, store')))"

text \<open>A successful answer, and the store after it, under the store's contract.\<close>

context challenge_store
begin

lemma challenge_handler_ok:
  assumes "ChallengeHandler_ServeHTTP ops ttl env req s = (JsonResponse status body, s')"
  shows "req_Method req = MethodGet" "status = StatusOK"
    "cr_ExpiresIn body = duration_seconds_int ttl"
    "cr_ExpiresAt body = rfc3339 (time_add (generate_now env) ttl)"
    "\<exists>bytes. random_bytes env = Inr bytes \<and> cr_Challenge body = b64_encode bytes"
    "live s' = (live s)(cr_Challenge body \<mapsto> time_add (generate_now env) ttl)"
proof -
  from assms obtain ch ex where
    gen: "GenerateAndStoreChallenge ops env ttl s = (Inr (ch, ex), s')"
    and body: "body = \<lparr>cr_Challenge = ch, cr_ExpiresIn = duration_seconds_int ttl,
                        cr_ExpiresAt = rfc3339 ex\<rparr>"
    and "req_Method req = MethodGet" "status = StatusOK"
    by (auto simp: ChallengeHandler_ServeHTTP_def split: if_splits prod.splits sum.splits)
  then show "req_Method req = MethodGet" "status = StatusOK"
    "cr_ExpiresIn body = duration_seconds_int ttl" by simp_all
  show "cr_ExpiresAt body = rfc3339 (time_add (generate_now env) ttl)"
    "\<exists>bytes. random_bytes env = Inr bytes \<and> cr_Challenge body = b64_encode bytes"
    "live s' = (live s)(cr_Challenge body \<mapsto> time_add (generate_now env) ttl)"
    using generate_text [OF gen] generate_ok [OF gen] body by (auto simp: time_add_def)
qed

lemma challenge_handler_error:
  assumes "ChallengeHandler_ServeHTTP ops ttl env req s = (ErrorResponse status text, s')"
  shows "live s' = live s"
  using assms
  by (auto simp: ChallengeHandler_ServeHTTP_def dest: generate_error
      split: if_splits prod.splits sum.splits)

end

subsection \<open>\<open>GET /api/v1/protected/ping\<close>\<close>

record ProtectedResponse =
  pr_Status :: string
  pr_Message :: string
  pr_ClientIdentity :: string
  pr_DeviceLabel :: string
  pr_CertSerial :: string
  pr_Timestamp :: int

definition ProtectedPingHandler_ServeHTTP ::
  "instant \<Rightarrow> request_context \<Rightarrow> http_request \<Rightarrow> ProtectedResponse http_response" where
  "ProtectedPingHandler_ServeHTTP now ctx req =
     (if req_Method req \<noteq> MethodGet
      then ErrorResponse StatusMethodNotAllowed ''Method not allowed''
      else (case GetDeviceIdentity ctx of
          None \<Rightarrow> ErrorResponse StatusUnauthorized ''Unauthorized: missing device context''
        | Some identity \<Rightarrow>
            JsonResponse StatusOK
              \<lparr>pr_Status = ''ok'',
               pr_Message = ''mTLS handshake verified successfully'',
               pr_ClientIdentity = id_Identity identity,
               pr_DeviceLabel = id_Label identity,
               pr_CertSerial = id_CertSerial identity,
               pr_Timestamp = unix_seconds now\<rparr>))"

text \<open>The protected resource as \<open>main\<close> mounts it, behind the middleware.\<close>

definition protected_ping ::
  "'r DeviceRepo option \<Rightarrow> instant \<Rightarrow> 'r \<Rightarrow> 'r \<Rightarrow> 'r \<Rightarrow> http_request \<Rightarrow>
     ProtectedResponse http_response" where
  "protected_ping repo now r1 r2 r3 req =
     MtlsAuthMiddleware repo (ProtectedPingHandler_ServeHTTP now) r1 r2 r3 req"

lemma protected_ping_ok_iff:
  "protected_ping repo now r1 r2 r3 req = JsonResponse status body \<longleftrightarrow>
     (\<exists>identity. authenticate repo r1 r2 r3 req = Inr identity \<and> req_Method req = MethodGet \<and>
        status = StatusOK \<and>
        body = \<lparr>pr_Status = ''ok'', pr_Message = ''mTLS handshake verified successfully'',
                pr_ClientIdentity = id_Identity identity, pr_DeviceLabel = id_Label identity,
                pr_CertSerial = id_CertSerial identity, pr_Timestamp = unix_seconds now\<rparr>)"
  by (auto simp: protected_ping_def MtlsAuthMiddleware_def ProtectedPingHandler_ServeHTTP_def
      GetDeviceIdentity_def split: sum.splits)

end
