(* ===== verification/EnrollHandler.thy ===== *)
theory EnrollHandler
  imports Handlers Verifier Signer
begin

text \<open>
  \<open>internal/handlers/enroll_handler.go\<close>: attestation verification and certificate issuance.
  The handler is the sequence of its steps, each a definition of its own: decoding the
  request, consuming the challenge, verifying the attestation and deriving the identity,
  refusing a revoked identity, signing, persisting. A step that answers the request early
  returns the error \<open>http.Error\<close> is called with.

  The steps that touch shared state (the challenge store, the registry, the revocation
  client inside the verifier) are separate, so that the same steps also make up the
  interleaved machine.
\<close>

definition maxEnrollBodyBytes :: nat where "maxEnrollBodyBytes = 262144"

subsection \<open>The label\<close>

definition label_first :: "char \<Rightarrow> bool" where
  "label_first c =
     (let n = (of_char c :: nat)
      in (65 \<le> n \<and> n \<le> 90) \<or> (97 \<le> n \<and> n \<le> 122) \<or> (48 \<le> n \<and> n \<le> 57))"

definition label_rest :: "char \<Rightarrow> bool" where
  "label_rest c \<longleftrightarrow> label_first c \<or> c = CHR ''.'' \<or> c = CHR ''_'' \<or> c = CHR ''-''"

text \<open>\<open>^[A-Za-z0-9][A-Za-z0-9._-]{0,63}$\<close>\<close>

definition deviceLabelPattern :: "string \<Rightarrow> bool" where
  "deviceLabelPattern s =
     (case s of [] \<Rightarrow> False | c # cs \<Rightarrow> label_first c \<and> length cs \<le> 63 \<and> list_all label_rest cs)"

subsection \<open>Requests, responses, state\<close>

record EnrollResponse =
  er_ClientCertificate :: string
  er_CaCertificate :: string
  er_CertificateChain :: "string list"
  er_DeviceIdentity :: string
  er_DeviceLabel :: string

text \<open>The handler's fields that no request changes, and the state behind the others.\<close>

record ('c, 'r) EnrollHandler =
  eh_ca :: CA
  eh_caPEM :: string
  eh_store :: "'c ChallengeStore"
  eh_deviceRepo :: "'r DeviceRepo"
  eh_clientCertTTL :: duration

definition NewEnrollHandler ::
  "CA \<Rightarrow> string \<Rightarrow> 'c ChallengeStore \<Rightarrow> 'r DeviceRepo \<Rightarrow> duration \<Rightarrow> ('c, 'r) EnrollHandler" where
  "NewEnrollHandler caInstance caPEM store deviceRepo clientCertTTL =
     \<lparr>eh_ca = caInstance, eh_caPEM = caPEM, eh_store = store, eh_deviceRepo = deviceRepo,
      eh_clientCertTTL = clientCertTTL\<rparr>"

record ('c, 'r) enroll_state =
  es_verifier :: Verifier
  es_store :: 'c
  es_repo :: 'r

record enroll_reading =
  consume_now :: instant
  verify_reading :: verify_env
  signing :: sign_reading
  enrolled_now :: instant

record prepared =
  p_label :: string
  p_csrDER :: bytes
  p_csr :: certificate_request
  p_chainDER :: "bytes list"
  p_challenge :: bytes

subsection \<open>Decoding (no shared state)\<close>

definition decode_chain :: "string list \<Rightarrow> http_error + bytes list" where
  "decode_chain chain =
     traverse_from 0 (\<lambda>_ certB64.
       from_option (StatusBadRequest, ''failed to decode certificate in attestation_chain'')
         (b64_decode certB64)) chain"

definition locate_challenge :: "golib \<Rightarrow> Policy \<Rightarrow> bytes list \<Rightarrow> http_error + bytes" where
  "locate_challenge lib p chainDER =
     (if chainDER = [] then Inr []
      else (case ExtractChallenge lib chainDER of
          Inl _ \<Rightarrow>
            if \<not> AllowEmptyAttestation p
            then Inl (StatusBadRequest, ''attestation challenge could not be located'')
            else Inr []
        | Inr challengeBytes \<Rightarrow> Inr challengeBytes))"

definition enroll_decode :: "golib \<Rightarrow> Policy \<Rightarrow> http_request \<Rightarrow> http_error + prepared" where
  "enroll_decode lib p r =
     (if req_Method r \<noteq> MethodPost then Inl (StatusMethodNotAllowed, ''Method not allowed'')
      else and_then (map_err (\<lambda>_. (StatusBadRequest, ''invalid JSON body''))
             (lib_decode_enroll_request lib (take maxEnrollBodyBytes (req_Body r)))) (\<lambda>req.
      let label = DeviceID req in
      if label \<noteq> [] \<and> \<not> deviceLabelPattern label
      then Inl (StatusBadRequest, ''invalid device_id label'')
      else if CSR req = [] then Inl (StatusBadRequest, ''csr is required'')
      else and_then (from_option (StatusBadRequest, ''failed to decode base64 CSR'')
             (b64_decode (CSR req))) (\<lambda>csrDER.
      and_then (map_err (\<lambda>_. (StatusBadRequest, ''invalid CSR'')) (lib_parse_request lib csrDER))
        (\<lambda>parsedCSR.
      if \<not> AllowEmptyAttestation p \<and> length (AttestationChain req) < 2
      then Inl (StatusBadRequest,
        ''attestation_chain must contain at least leaf and intermediate certificates'')
      else and_then (decode_chain (AttestationChain req)) (\<lambda>chainDER.
      and_then (locate_challenge lib p chainDER) (\<lambda>challengeBytes.
        Inr \<lparr>p_label = label, p_csrDER = csrDER, p_csr = parsedCSR, p_chainDER = chainDER,
             p_challenge = challengeBytes\<rparr>))))))"

subsection \<open>The steps on shared state\<close>

definition enroll_consume ::
  "'c ChallengeStore \<Rightarrow> Policy \<Rightarrow> instant \<Rightarrow> prepared \<Rightarrow> 'c \<Rightarrow> (http_error + unit) \<times> 'c" where
  "enroll_consume ops p now q store =
     (if p_challenge q \<noteq> [] then
        (case VerifyAndConsumeChallenge ops now (b64_encode (p_challenge q)) store of
           (ok, store') \<Rightarrow>
             (if \<not> ok then Inl (StatusBadRequest, ''invalid or expired attestation challenge'')
              else Inr (), store'))
      else if \<not> AllowEmptyAttestation p
      then (Inl (StatusBadRequest, ''attestation challenge is required''), store)
      else (Inr (), store))"

text \<open>The verified record and the identity: the fingerprint of the key in the CSR.\<close>

definition enroll_attest ::
  "golib \<Rightarrow> verify_env \<Rightarrow> prepared \<Rightarrow> Verifier \<Rightarrow>
     (http_error + AttestationRecord \<times> string) \<times> Verifier" where
  "enroll_attest lib env q v =
     (case VerifyAttestation lib env v (p_chainDER q) (p_challenge q) (csr_public_key (p_csr q)) of
        (Inl _, v') \<Rightarrow> (Inl (StatusForbidden, ''attestation verification failed''), v')
      | (Inr rec, v') \<Rightarrow>
          (map_err (\<lambda>_. (StatusInternalServerError, ''failed to derive device identity''))
             (and_then (PublicKeyFingerprint (csr_public_key (p_csr q)))
                (\<lambda>identity. Inr (rec, identity))), v'))"

definition enroll_refuse_revoked :: "'r DeviceRepo \<Rightarrow> string \<Rightarrow> 'r \<Rightarrow> http_error + unit" where
  "enroll_refuse_revoked ops identity repo =
     (case GetDevice ops identity repo of
        Inr existing \<Rightarrow>
          if dev_IsRevoked existing then Inl (StatusForbidden, ''device identity is revoked'')
          else Inr ()
      | Inl _ \<Rightarrow> Inr ())"

definition enroll_sign ::
  "golib \<Rightarrow> sign_reading \<Rightarrow> ('c, 'r) EnrollHandler \<Rightarrow> prepared \<Rightarrow> string \<Rightarrow>
     http_error + certificate \<times> bytes" where
  "enroll_sign lib env h q identity =
     map_err (\<lambda>_. (StatusInternalServerError, ''failed to sign CSR''))
       (SignCSR lib env (eh_ca h) (p_csrDER q) identity (eh_clientCertTTL h))"

definition device_record ::
  "prepared \<Rightarrow> AttestationRecord \<Rightarrow> string \<Rightarrow> certificate \<Rightarrow> instant \<Rightarrow> DeviceRecord" where
  "device_record q rec identity clientCert now =
     \<lparr>dev_Identity = identity,
      dev_Label = p_label q,
      dev_CertSerial = decimal_int (SerialNumber clientCert),
      dev_EnrolledAt = now,
      dev_IsRevoked = False,
      dev_HardwareSecurityLevel = SecurityLevel_String (rec_AttestationSecurityLevel rec)\<rparr>"

definition enroll_persist ::
  "'r DeviceRepo \<Rightarrow> DeviceRecord \<Rightarrow> 'r \<Rightarrow> (http_error + unit) \<times> 'r" where
  "enroll_persist ops devRecord repo =
     (case RegisterDevice ops devRecord repo of
        (Some _, repo') \<Rightarrow>
          (Inl (StatusInternalServerError, ''failed to persist device record''),
           snd (RevokeSerial ops (dev_CertSerial devRecord) repo'))
      | (None, repo') \<Rightarrow> (Inr (), repo'))"

definition enroll_response ::
  "('c, 'r) EnrollHandler \<Rightarrow> prepared \<Rightarrow> string \<Rightarrow> bytes \<Rightarrow> EnrollResponse" where
  "enroll_response h q identity clientPEM =
     (let clientPEMStr = string_of_bytes clientPEM
      in \<lparr>er_ClientCertificate = clientPEMStr,
          er_CaCertificate = eh_caPEM h,
          er_CertificateChain = [clientPEMStr, eh_caPEM h],
          er_DeviceIdentity = identity,
          er_DeviceLabel = p_label q\<rparr>)"

subsection \<open>The handler\<close>

text \<open>The part after the challenge: from the attestation to the stored record.\<close>

definition enroll_issue ::
  "golib \<Rightarrow> enroll_reading \<Rightarrow> ('c, 'r) EnrollHandler \<Rightarrow> prepared \<Rightarrow> ('c, 'r) enroll_state \<Rightarrow>
     EnrollResponse http_response \<times> ('c, 'r) enroll_state" where
  "enroll_issue lib env h q s =
     (case enroll_attest lib (verify_reading env) q (es_verifier s) of
        (Inl e, v') \<Rightarrow> (http_fail e, s\<lparr>es_verifier := v'\<rparr>)
      | (Inr (rec, identity), v') \<Rightarrow>
          let s1 = s\<lparr>es_verifier := v'\<rparr> in
          (case and_then (enroll_refuse_revoked (eh_deviceRepo h) identity (es_repo s1))
                  (\<lambda>_. enroll_sign lib (signing env) h q identity) of
             Inl e \<Rightarrow> (http_fail e, s1)
           | Inr (clientCert, clientPEM) \<Rightarrow>
               (case enroll_persist (eh_deviceRepo h)
                       (device_record q rec identity clientCert (enrolled_now env)) (es_repo s1) of
                  (Inl e, repo') \<Rightarrow> (http_fail e, s1\<lparr>es_repo := repo'\<rparr>)
                | (Inr _, repo') \<Rightarrow>
                    (JsonResponse StatusCreated (enroll_response h q identity clientPEM),
                     s1\<lparr>es_repo := repo'\<rparr>))))"

definition EnrollHandler_ServeHTTP ::
  "golib \<Rightarrow> enroll_reading \<Rightarrow> ('c, 'r) EnrollHandler \<Rightarrow> http_request \<Rightarrow> ('c, 'r) enroll_state \<Rightarrow>
     EnrollResponse http_response \<times> ('c, 'r) enroll_state" where
  "EnrollHandler_ServeHTTP lib env h req s =
     (case enroll_decode lib (policy (es_verifier s)) req of
        Inl e \<Rightarrow> (http_fail e, s)
      | Inr q \<Rightarrow>
          (case enroll_consume (eh_store h) (policy (es_verifier s)) (consume_now env) q (es_store s) of
             (Inl e, store') \<Rightarrow> (http_fail e, s\<lparr>es_store := store'\<rparr>)
           | (Inr _, store') \<Rightarrow> enroll_issue lib env h q (s\<lparr>es_store := store'\<rparr>)))"

text \<open>\<open>shortIdentity\<close> only serves the log output.\<close>

definition shortIdentity :: "string \<Rightarrow> string" where
  "shortIdentity identity =
     (if length identity \<le> 16 then identity else take 16 identity @ ''...'')"

end
