(* ===== verification/EnrollFacts.thy ===== *)
theory EnrollFacts
  imports EnrollHandler VerifierFacts
begin

text \<open>
  What an enrollment does to the challenge store, the registry and the client. The lemmas
  about shared state are proved in the locale \<open>enroll_backend\<close>, which joins the contracts of
  the two stores behind a handler; \<open>mem_enroll\<close> interprets it on the handler that \<open>main\<close>
  builds from the in-memory stores.
\<close>

subsection \<open>The steps of a successful enrollment\<close>

lemma enroll_created:
  assumes "EnrollHandler_ServeHTTP lib env h req s = (JsonResponse status body, s')"
  obtains q rec identity cert pem where
    "enroll_decode lib (policy (es_verifier s)) req = Inr q"
    "enroll_consume (eh_store h) (policy (es_verifier s)) (consume_now env) q (es_store s) =
       (Inr (), es_store s')"
    "enroll_attest lib (verify_reading env) q (es_verifier s) = (Inr (rec, identity), es_verifier s')"
    "enroll_refuse_revoked (eh_deviceRepo h) identity (es_repo s) = Inr ()"
    "enroll_sign lib (signing env) h q identity = Inr (cert, pem)"
    "enroll_persist (eh_deviceRepo h) (device_record q rec identity cert (enrolled_now env))
       (es_repo s) = (Inr (), es_repo s')"
    "status = StatusCreated" "body = enroll_response h q identity pem"
proof -
  from assms obtain q store' where q: "enroll_decode lib (policy (es_verifier s)) req = Inr q"
    and store: "enroll_consume (eh_store h) (policy (es_verifier s)) (consume_now env) q (es_store s)
      = (Inr (), store')"
    and issue: "enroll_issue lib env h q (s\<lparr>es_store := store'\<rparr>) = (JsonResponse status body, s')"
    by (auto simp: EnrollHandler_ServeHTTP_def split: sum.splits prod.splits)
  from issue obtain rec identity v' where
    attest: "enroll_attest lib (verify_reading env) q (es_verifier s) = (Inr (rec, identity), v')"
    by (auto simp: enroll_issue_def split: sum.splits prod.splits)
  from issue attest obtain cert pem repo' where
    "enroll_refuse_revoked (eh_deviceRepo h) identity (es_repo s) = Inr ()"
    "enroll_sign lib (signing env) h q identity = Inr (cert, pem)"
    "enroll_persist (eh_deviceRepo h) (device_record q rec identity cert (enrolled_now env))
       (es_repo s) = (Inr (), repo')"
    "status = StatusCreated" "body = enroll_response h q identity pem"
    "s' = s\<lparr>es_store := store', es_verifier := v', es_repo := repo'\<rparr>"
    by (auto simp: enroll_issue_def Let_def split: sum.splits prod.splits)
  with that q store attest show thesis by simp
qed

lemma enroll_attest_ok:
  "enroll_attest lib env q v = (Inr (rec, identity), v') \<longleftrightarrow>
     VerifyAttestation lib env v (p_chainDER q) (p_challenge q) (csr_public_key (p_csr q)) =
       (Inr rec, v') \<and>
     PublicKeyFingerprint (csr_public_key (p_csr q)) = Inr identity"
  by (auto simp: enroll_attest_def split: prod.splits sum.splits)

lemma enroll_attest_frame: "enroll_attest lib env q v = (x, v') \<Longrightarrow> policy v' = policy v"
  by (auto simp: enroll_attest_def split: prod.splits sum.splits
      dest: VerifyAttestation_frame)

lemma enroll_decode_ok:
  assumes "enroll_decode lib p r = Inr q"
  obtains req where
    "req_Method r = MethodPost"
    "lib_decode_enroll_request lib (take maxEnrollBodyBytes (req_Body r)) = Inr req"
    "p_label q = DeviceID req" "p_label q = [] \<or> deviceLabelPattern (p_label q)"
    "b64_decode (CSR req) = Some (p_csrDER q)" "lib_parse_request lib (p_csrDER q) = Inr (p_csr q)"
    "AllowEmptyAttestation p \<or> 2 \<le> length (AttestationChain req)"
    "decode_chain (AttestationChain req) = Inr (p_chainDER q)"
    "locate_challenge lib p (p_chainDER q) = Inr (p_challenge q)"
  using assms by (auto simp: enroll_decode_def Let_def split: if_splits)

lemma decode_chain_length: "decode_chain chain = Inr ders \<Longrightarrow> length ders = length chain"
  unfolding decode_chain_def by (rule traverse_from_length)

lemma locate_challenge_ok:
  "locate_challenge lib p chain = Inr ch \<longleftrightarrow>
     (chain = [] \<and> ch = []) \<or>
     (chain \<noteq> [] \<and> (ExtractChallenge lib chain = Inr ch \<or>
        (\<exists>e. ExtractChallenge lib chain = Inl e \<and> AllowEmptyAttestation p \<and> ch = [])))"
  by (auto simp: locate_challenge_def split: sum.splits)

text \<open>The statuses of the error answers.\<close>

lemma decode_chain_status: "decode_chain chain = Inl e \<Longrightarrow> fst e = StatusBadRequest"
proof -
  have "traverse_from i (\<lambda>_ certB64. from_option (StatusBadRequest, m) (b64_decode certB64)) xs = Inl e
      \<Longrightarrow> fst e = StatusBadRequest" for i m and xs :: "string list"
    by (induction xs arbitrary: i)
      (auto simp: and_then_eq_Inl from_option_def split: option.splits)
  then show "decode_chain chain = Inl e \<Longrightarrow> fst e = StatusBadRequest" by (simp add: decode_chain_def)
qed

lemma locate_challenge_status: "locate_challenge lib p chain = Inl e \<Longrightarrow> fst e = StatusBadRequest"
  by (auto simp: locate_challenge_def split: if_splits sum.splits)

lemma enroll_decode_status:
  "enroll_decode lib p req = Inl e \<Longrightarrow>
     fst e = (if req_Method req \<noteq> MethodPost then StatusMethodNotAllowed else StatusBadRequest)"
  by (auto simp: enroll_decode_def Let_def and_then_eq_Inl map_err_eq_Inl from_option_def
      dest: decode_chain_status locate_challenge_status split: if_splits option.splits)

lemma enroll_error_status:
  assumes "EnrollHandler_ServeHTTP lib env h req s = (ErrorResponse status msg, s')"
  shows "status \<in> {StatusMethodNotAllowed, StatusBadRequest, StatusForbidden, StatusInternalServerError}"
    and "status = StatusMethodNotAllowed \<longleftrightarrow> req_Method req \<noteq> MethodPost"
proof -
  have later: "status \<in> {StatusForbidden, StatusInternalServerError}"
    if "enroll_issue lib env h q t = (ErrorResponse status msg, t')" for q t t'
    using that
    by (auto simp: enroll_issue_def enroll_attest_def enroll_refuse_revoked_def enroll_sign_def
        enroll_persist_def http_fail_def and_then_eq_Inl map_err_eq_Inl Let_def
        split: prod.splits sum.splits if_splits option.splits)
  have "(req_Method req \<noteq> MethodPost \<and> status = StatusMethodNotAllowed) \<or>
    (req_Method req = MethodPost \<and>
       status \<in> {StatusBadRequest, StatusForbidden, StatusInternalServerError})"
  proof (cases "enroll_decode lib (policy (es_verifier s)) req")
    case (Inl e)
    with assms have "status = fst e" by (simp add: EnrollHandler_ServeHTTP_def http_fail_def)
    with enroll_decode_status [OF Inl] show ?thesis by simp
  next
    case (Inr q)
    then have post: "req_Method req = MethodPost" by (auto elim: enroll_decode_ok)
    obtain x store' where consume: "enroll_consume (eh_store h) (policy (es_verifier s))
        (consume_now env) q (es_store s) = (x, store')" by fastforce
    show ?thesis
    proof (cases x)
      case (Inl e)
      with consume have "fst e = StatusBadRequest"
        by (auto simp: enroll_consume_def split: if_splits prod.splits)
      with assms Inr consume Inl post show ?thesis
        by (simp add: EnrollHandler_ServeHTTP_def http_fail_def)
    next
      case ok: (Inr u)
      with assms Inr consume
      have "enroll_issue lib env h q (s\<lparr>es_store := store'\<rparr>) = (ErrorResponse status msg, s')"
        by (simp add: EnrollHandler_ServeHTTP_def)
      with later post show ?thesis by blast
    qed
  qed
  then show "status \<in> {StatusMethodNotAllowed, StatusBadRequest, StatusForbidden, StatusInternalServerError}"
    "status = StatusMethodNotAllowed \<longleftrightarrow> req_Method req \<noteq> MethodPost"
    by (auto simp: status_defs)
qed

text \<open>
  The challenge handed to the verifier is the one it will find in the extension, so the
  verifier's comparison of the two never fails in an enrollment.
\<close>

lemma check_revocations_not_mismatch:
  "fst (check_revocations lib env i certs rc) \<noteq> Inl ChallengeMismatch"
  by (induction lib env i certs rc rule: check_revocations.induct)
    (auto split: prod.splits sum.splits)

lemma revocation_step_not_mismatch:
  "fst (revocation_step lib env v certs) \<noteq> Inl ChallengeMismatch"
  using check_revocations_not_mismatch [of lib env 0 certs]
  by (auto simp: revocation_step_def split: option.splits prod.splits if_splits) (metis fst_conv)

lemma parse_chain_not_mismatch: "parse_chain lib chain \<noteq> Inl ChallengeMismatch"
proof -
  have "traverse_from i (\<lambda>i der. map_err (BadCertificate i) (lib_parse_certificate lib der)) ders
      \<noteq> Inl ChallengeMismatch" for i and ders :: "bytes list"
    by (induction ders arbitrary: i) (auto simp: and_then_eq_Inl map_err_eq_Inl)
  then show ?thesis by (simp add: parse_chain_def)
qed

lemma chain_key_not_mismatch:
  "chain_step lib now v certs \<noteq> Inl ChallengeMismatch"
  "key_step leaf k \<noteq> Inl ChallengeMismatch"
  by (auto simp: chain_step_def key_step_def and_then_eq_Inl map_err_eq_Inl Let_def)

lemma extension_step_located:
  assumes "locate_challenge lib p (der # ders) = Inr ch" "lib_parse_certificate lib der = Inr leaf"
  shows "extension_step p' leaf ch \<noteq> Inl ChallengeMismatch"
proof (cases "find_attestation_ext leaf")
  case None
  then show ?thesis by (simp add: extension_step_def Let_def)
next
  case (Some ext)
  show ?thesis
  proof (cases "parse_KeyDescription (ext_value ext)")
    case (Inl e)
    with Some show ?thesis by (simp add: extension_step_def Let_def)
  next
    case (Inr kd)
    with Some assms have "ch = kd_AttestationChallenge kd"
      by (simp add: locate_challenge_def ExtractChallenge_def)
    with Some Inr show ?thesis by (rule extension_step_not_mismatch)
  qed
qed

lemma VerifyAttestation_not_mismatch:
  assumes "locate_challenge lib p chain = Inr ch"
  shows "fst (VerifyAttestation lib env v chain ch k) \<noteq> Inl ChallengeMismatch"
proof (cases chain)
  case Nil
  then show ?thesis by (simp add: VerifyAttestation_def)
next
  case (Cons der ders)
  show ?thesis
  proof (cases "parse_chain lib chain")
    case (Inl e)
    with parse_chain_not_mismatch [of lib chain] Cons show ?thesis
      by (auto simp: VerifyAttestation_def)
  next
    case (Inr certs)
    with Cons have "lib_parse_certificate lib der = Inr (hd certs)"
      by (auto simp: parse_chain_def)
    with assms Cons have "extension_step p' (hd certs) ch \<noteq> Inl ChallengeMismatch" for p'
      using extension_step_located by blast
    with Inr Cons revocation_step_not_mismatch [of lib "list_env env" v certs]
    show ?thesis
      by (auto simp: VerifyAttestation_def and_then_eq_Inl chain_key_not_mismatch
          split: sum.splits prod.splits)
  qed
qed

text \<open>A request that failed because its record could not be stored.\<close>

lemma enroll_persist_failed:
  assumes "EnrollHandler_ServeHTTP lib env h req s =
    (ErrorResponse StatusInternalServerError ''failed to persist device record'', s')"
  obtains q rec identity cert pem e where
    "enroll_decode lib (policy (es_verifier s)) req = Inr q"
    "enroll_sign lib (signing env) h q identity = Inr (cert, pem)"
    "enroll_persist (eh_deviceRepo h) (device_record q rec identity cert (enrolled_now env)) (es_repo s) =
       (Inl e, es_repo s')"
proof -
  have "fst e \<noteq> StatusInternalServerError" if "enroll_decode lib (policy (es_verifier s)) req = Inl e" for e
    using enroll_decode_status [OF that] by (simp add: status_defs)
  with assms obtain q where q: "enroll_decode lib (policy (es_verifier s)) req = Inr q"
    by (cases "enroll_decode lib (policy (es_verifier s)) req")
      (auto simp: EnrollHandler_ServeHTTP_def http_fail_def)
  have "fst e \<noteq> StatusInternalServerError"
    if "enroll_consume (eh_store h) (policy (es_verifier s)) (consume_now env) q (es_store s) = (Inl e, st)" for e st
    using that by (auto simp: enroll_consume_def status_defs split: if_splits prod.splits)
  with assms q obtain st where
    issue: "enroll_issue lib env h q (s\<lparr>es_store := st\<rparr>) =
      (ErrorResponse StatusInternalServerError ''failed to persist device record'', s')"
    by (auto simp: EnrollHandler_ServeHTTP_def http_fail_def split: prod.splits sum.splits)
  then obtain rec identity v' where
    attest: "enroll_attest lib (verify_reading env) q (es_verifier s) = (Inr (rec, identity), v')"
    by (auto simp: enroll_issue_def enroll_attest_def http_fail_def map_err_eq_Inl and_then_eq_Inl
        status_defs split: sum.splits prod.splits)
  have "e \<noteq> (StatusInternalServerError, ''failed to persist device record'')"
    if "enroll_refuse_revoked (eh_deviceRepo h) identity (es_repo s) = Inl e" for e
    using that by (auto simp: enroll_refuse_revoked_def split: sum.splits if_splits)
  with issue attest obtain cert pem where
    sign: "enroll_refuse_revoked (eh_deviceRepo h) identity (es_repo s) = Inr ()"
      "enroll_sign lib (signing env) h q identity = Inr (cert, pem)"
    by (auto simp: enroll_issue_def enroll_sign_def http_fail_def map_err_eq_Inl and_then_eq_Inl Let_def
        split: sum.splits prod.splits)
  with issue attest obtain e where "enroll_persist (eh_deviceRepo h)
      (device_record q rec identity cert (enrolled_now env)) (es_repo s) = (Inl e, es_repo s')"
    by (auto simp: enroll_issue_def Let_def split: sum.splits prod.splits)
  with that q sign show thesis by blast
qed

text \<open>The label only reaches the record and the answer.\<close>

lemma label_unused [simp]:
  "enroll_consume ops p now (q\<lparr>p_label := l\<rparr>) st = enroll_consume ops p now q st"
  "enroll_attest lib e (q\<lparr>p_label := l\<rparr>) v = enroll_attest lib e q v"
  "enroll_sign lib se h (q\<lparr>p_label := l\<rparr>) i = enroll_sign lib se h q i"
  "device_record (q\<lparr>p_label := l\<rparr>) rec i cert t = (device_record q rec i cert t)\<lparr>dev_Label := l\<rparr>"
  "enroll_response h (q\<lparr>p_label := l\<rparr>) i pem = (enroll_response h q i pem)\<lparr>er_DeviceLabel := l\<rparr>"
  by (simp_all add: enroll_consume_def enroll_attest_def enroll_sign_def device_record_def
      enroll_response_def Let_def split: prod.split sum.split)

subsection \<open>The outcome over the two contracts\<close>

text \<open>
  A handler over any stores that keep their contracts. The three lemmas say what the steps
  on shared state do; the last ones what a whole request does.
\<close>

locale enroll_backend =
  store: challenge_store "eh_store h" live + repo: device_repo "eh_deviceRepo h" devs revs
  for h :: "('c, 'r) EnrollHandler"
    and live :: "'c \<Rightarrow> string \<rightharpoonup> instant"
    and devs :: "'r \<Rightarrow> string \<rightharpoonup> DeviceRecord"
    and revs :: "'r \<Rightarrow> string set"
begin

lemma consume_ok:
  assumes "enroll_consume (eh_store h) p now q st = (Inr u, st')"
  shows "if p_challenge q = [] then AllowEmptyAttestation p \<and> st' = st
     else (\<exists>ex. live st (b64_encode (p_challenge q)) = Some ex \<and> now < ex) \<and>
          live st' = (live st)(b64_encode (p_challenge q) := None)"
  using assms store.consume_result [of now "b64_encode (p_challenge q)" st]
    store.consume_state [of now "b64_encode (p_challenge q)" st]
  by (auto simp: enroll_consume_def split: if_splits prod.splits)

lemma consume_frame:
  assumes "enroll_consume (eh_store h) p now q st = (x, st')"
  shows "live st' c = Some ex \<Longrightarrow> live st c = Some ex"
  using assms store.consume_state [of now "b64_encode (p_challenge q)" st]
  by (auto simp: enroll_consume_def split: if_splits prod.splits)

lemma refuse_revoked_ok:
  "enroll_refuse_revoked (eh_deviceRepo h) i r = Inr u \<longleftrightarrow>
     (\<forall>rec. devs r i = Some rec \<longrightarrow> \<not> dev_IsRevoked rec)"
  by (auto simp: enroll_refuse_revoked_def repo.get_device split: option.splits)

lemma persist_ok:
  assumes "enroll_persist (eh_deviceRepo h) rec r = (Inr u, r')"
  shows "devs r' = (devs r)(dev_Identity rec \<mapsto> rec)" "revs r' = revs r"
  using assms repo.register_ok [of rec r]
  by (auto simp: enroll_persist_def split: prod.splits option.splits)

lemma persist_error:
  assumes "enroll_persist (eh_deviceRepo h) rec r = (Inl e, r')"
  shows "devs r' = devs r" "revs r \<subseteq> revs r'" "revs r' \<subseteq> insert (dev_CertSerial rec) (revs r)"
proof -
  from assms obtain e1 r1 where reg: "RegisterDevice (eh_deviceRepo h) rec r = (Some e1, r1)"
    and r': "r' = snd (RevokeSerial (eh_deviceRepo h) (dev_CertSerial rec) r1)"
    by (auto simp: enroll_persist_def split: prod.splits option.splits)
  obtain x where rev: "RevokeSerial (eh_deviceRepo h) (dev_CertSerial rec) r1 = (x, r')"
    using r' by (cases "RevokeSerial (eh_deviceRepo h) (dev_CertSerial rec) r1") auto
  from repo.register_error [OF reg] have r1: "devs r1 = devs r" "revs r1 = revs r" by auto
  show "devs r' = devs r" using repo.devs_revoke_serial [OF rev] r1 by simp
  show "revs r \<subseteq> revs r'" using repo.revs_revoke_serial [OF rev] r1 by simp
  show "revs r' \<subseteq> insert (dev_CertSerial rec) (revs r)"
    using rev r1 by (cases x) (auto dest: repo.revoke_serial_ok repo.revoke_serial_error)
qed

text \<open>
  A record is stored under the fingerprint of the request's key only, with the serial of the
  certificate that was just issued; no earlier record of that identity was revoked.
\<close>

lemma created:
  assumes "EnrollHandler_ServeHTTP lib env h req s = (JsonResponse status body, s')"
  obtains q rec cert pem where
    "enroll_decode lib (policy (es_verifier s)) req = Inr q"
    "VerifyAttestation lib (verify_reading env) (es_verifier s) (p_chainDER q) (p_challenge q)
       (csr_public_key (p_csr q)) = (Inr rec, es_verifier s')"
    "PublicKeyFingerprint (csr_public_key (p_csr q)) = Inr (er_DeviceIdentity body)"
    "SignCSR lib (signing env) (eh_ca h) (p_csrDER q) (er_DeviceIdentity body) (eh_clientCertTTL h)
       = Inr (cert, pem)"
    "if p_challenge q = [] then AllowEmptyAttestation (policy (es_verifier s)) \<and> es_store s' = es_store s
     else (\<exists>ex. live (es_store s) (b64_encode (p_challenge q)) = Some ex \<and> consume_now env < ex) \<and>
          live (es_store s') = (live (es_store s))(b64_encode (p_challenge q) := None)"
    "\<forall>old. devs (es_repo s) (er_DeviceIdentity body) = Some old \<longrightarrow> \<not> dev_IsRevoked old"
    "devs (es_repo s') = (devs (es_repo s))(er_DeviceIdentity body \<mapsto>
       device_record q rec (er_DeviceIdentity body) cert (enrolled_now env))"
    "revs (es_repo s') = revs (es_repo s)"
    "status = StatusCreated" "body = enroll_response h q (er_DeviceIdentity body) pem"
proof -
  from assms obtain q rec identity cert pem where
    q: "enroll_decode lib (policy (es_verifier s)) req = Inr q"
    and consume: "enroll_consume (eh_store h) (policy (es_verifier s)) (consume_now env) q
       (es_store s) = (Inr (), es_store s')"
    and attest: "enroll_attest lib (verify_reading env) q (es_verifier s) =
       (Inr (rec, identity), es_verifier s')"
    and refuse: "enroll_refuse_revoked (eh_deviceRepo h) identity (es_repo s) = Inr ()"
    and sign: "enroll_sign lib (signing env) h q identity = Inr (cert, pem)"
    and persist: "enroll_persist (eh_deviceRepo h)
       (device_record q rec identity cert (enrolled_now env)) (es_repo s) = (Inr (), es_repo s')"
    and body: "status = StatusCreated" "body = enroll_response h q identity pem"
    by (rule enroll_created)
  have identity: "er_DeviceIdentity body = identity"
    using body by (simp add: enroll_response_def Let_def)
  show thesis
    using that [OF q, of rec cert pem] attest sign body identity consume_ok [OF consume]
      refuse persist_ok [OF persist]
    unfolding enroll_attest_ok refuse_revoked_ok enroll_sign_def
    by (simp add: device_record_def)
qed

text \<open>A refused request stores no record and restores no challenge or serial.\<close>

lemma issue_refused:
  assumes "enroll_issue lib env h q s = (ErrorResponse status text, s')"
  shows "devs (es_repo s') = devs (es_repo s)" "revs (es_repo s) \<subseteq> revs (es_repo s')"
    "es_store s' = es_store s"
  using assms
  by (auto simp: enroll_issue_def Let_def persist_error(1) dest: persist_error(2) [THEN subsetD]
      split: sum.splits prod.splits)

lemma refused:
  assumes "EnrollHandler_ServeHTTP lib env h req s = (ErrorResponse status text, s')"
  shows "devs (es_repo s') = devs (es_repo s)" "revs (es_repo s) \<subseteq> revs (es_repo s')"
    "live (es_store s') c = Some ex \<Longrightarrow> live (es_store s) c = Some ex"
proof -
  have "(\<exists>store'. s' = s\<lparr>es_store := store'\<rparr> \<and>
          (\<forall>c ex. live store' c = Some ex \<longrightarrow> live (es_store s) c = Some ex)) \<or>
    (\<exists>q store'. enroll_issue lib env h q (s\<lparr>es_store := store'\<rparr>) = (ErrorResponse status text, s') \<and>
          (\<forall>c ex. live store' c = Some ex \<longrightarrow> live (es_store s) c = Some ex))"
  proof (cases "enroll_decode lib (policy (es_verifier s)) req")
    case (Inl e)
    with assms show ?thesis
      by (intro disjI1 exI [of _ "es_store s"])
        (simp add: EnrollHandler_ServeHTTP_def)
  next
    case (Inr q)
    obtain x store' where step: "enroll_consume (eh_store h) (policy (es_verifier s))
        (consume_now env) q (es_store s) = (x, store')" by fastforce
    show ?thesis
    proof (cases x)
      case (Inl e)
      with assms Inr step consume_frame [OF step] \<open>enroll_decode _ _ _ = _\<close> show ?thesis
        by (intro disjI1 exI [of _ store'])
          (auto simp add: EnrollHandler_ServeHTTP_def)
    next
      case (Inr u)
      with assms step consume_frame [OF step] \<open>enroll_decode _ _ _ = _\<close> show ?thesis
        by (intro disjI2 exI [of _ q] exI [of _ store']) (simp add: EnrollHandler_ServeHTTP_def)
    qed
  qed
  then show "devs (es_repo s') = devs (es_repo s)" "revs (es_repo s) \<subseteq> revs (es_repo s')"
    "live (es_store s') c = Some ex \<Longrightarrow> live (es_store s) c = Some ex"
    using issue_refused by fastforce+
qed

text \<open>Both cases: only the identity of the answer changes in the registry.\<close>

lemma registry_frame:
  assumes "EnrollHandler_ServeHTTP lib env h req s = (resp, s')"
  shows "revs (es_repo s) \<subseteq> revs (es_repo s')"
    and "(case resp of JsonResponse _ body \<Rightarrow> i \<noteq> er_DeviceIdentity body | _ \<Rightarrow> True) \<Longrightarrow>
           devs (es_repo s') i = devs (es_repo s) i"
proof -
  consider status msg where "resp = ErrorResponse status msg"
    | status body where "resp = JsonResponse status body" by (cases resp)
  then have "revs (es_repo s) \<subseteq> revs (es_repo s') \<and>
      ((case resp of JsonResponse _ body \<Rightarrow> i \<noteq> er_DeviceIdentity body | _ \<Rightarrow> True) \<longrightarrow>
         devs (es_repo s') i = devs (es_repo s) i)"
  proof cases
    case 1
    with assms refused show ?thesis by fastforce
  next
    case 2
    with assms show ?thesis by (auto elim!: created)
  qed
  then show "revs (es_repo s) \<subseteq> revs (es_repo s')"
    "(case resp of JsonResponse _ body \<Rightarrow> i \<noteq> er_DeviceIdentity body | _ \<Rightarrow> True) \<Longrightarrow>
       devs (es_repo s') i = devs (es_repo s) i" by blast+
qed

text \<open>A key whose identity is revoked is not enrolled again, whatever the request.\<close>

lemma revoked_not_enrolled:
  assumes "EnrollHandler_ServeHTTP lib env h req s = (resp, s')"
    and "devs (es_repo s) i = Some rec" "dev_IsRevoked rec"
  shows "devs (es_repo s') i = Some rec"
    and "resp = JsonResponse status body \<Longrightarrow> er_DeviceIdentity body \<noteq> i"
proof -
  show no: "resp = JsonResponse status body \<Longrightarrow> er_DeviceIdentity body \<noteq> i" for status body
    using assms by (auto elim!: created)
  have "case resp of JsonResponse _ body \<Rightarrow> i \<noteq> er_DeviceIdentity body | _ \<Rightarrow> True"
    using no by (cases resp) auto
  with registry_frame(2) [OF assms(1)] assms(2) show "devs (es_repo s') i = Some rec" by metis
qed

end

abbreviation mem_handler ::
  "CA \<Rightarrow> string \<Rightarrow> duration \<Rightarrow> (memoryChallengeStore, memoryDeviceRepo) EnrollHandler" where
  "mem_handler caInstance caPEM ttl \<equiv>
     NewEnrollHandler caInstance caPEM memory_challenge_store memory_device_repo ttl"

lemma NewEnrollHandler_simps [simp]:
  "eh_ca (NewEnrollHandler c pem st rp ttl) = c"
  "eh_caPEM (NewEnrollHandler c pem st rp ttl) = pem"
  "eh_store (NewEnrollHandler c pem st rp ttl) = st"
  "eh_deviceRepo (NewEnrollHandler c pem st rp ttl) = rp"
  "eh_clientCertTTL (NewEnrollHandler c pem st rp ttl) = ttl"
  by (simp_all add: NewEnrollHandler_def)

interpretation mem_enroll: enroll_backend "mem_handler caInstance caPEM ttl" challenges devices
    revokedSerials for caInstance caPEM ttl
  by (simp add: enroll_backend_def mem.challenge_store_axioms memrepo.device_repo_axioms)

text \<open>Two registries that differ in labels only.\<close>

definition erase_labels :: "memoryDeviceRepo \<Rightarrow> memoryDeviceRepo" where
  "erase_labels r = r\<lparr>devices := (\<lambda>i. map_option (\<lambda>rec. rec\<lparr>dev_Label := []\<rparr>) (devices r i))\<rparr>"

fun relabel :: "string \<Rightarrow> EnrollResponse http_response \<Rightarrow> EnrollResponse http_response" where
  "relabel l (ErrorResponse status msg) = ErrorResponse status msg"
| "relabel l (JsonResponse status body) = JsonResponse status (body\<lparr>er_DeviceLabel := l\<rparr>)"

lemma relabel_fail [simp]: "relabel l (http_fail e) = http_fail e"
  by (simp add: http_fail_def)

lemma enroll_issue_label:
  assumes "enroll_issue lib env (mem_handler c caPEM ttl) q s = (r, s1)"
  shows "\<exists>s2. enroll_issue lib env (mem_handler c caPEM ttl) (q\<lparr>p_label := l\<rparr>) s = (relabel l r, s2) \<and>
     es_store s2 = es_store s1 \<and> es_verifier s2 = es_verifier s1 \<and>
     erase_labels (es_repo s2) = erase_labels (es_repo s1)"
proof -
  have erase: "erase_labels (snd (mem_RegisterDevice (rec\<lparr>dev_Label := l\<rparr>) rp)) =
      erase_labels (snd (mem_RegisterDevice rec rp))" for rec rp
    by (simp add: erase_labels_def mem_RegisterDevice_def fun_eq_iff)
  have persist: "enroll_persist memory_device_repo rec rp = (Inr (), snd (mem_RegisterDevice rec rp))" for rec rp
    by (simp add: enroll_persist_def mem_RegisterDevice_def)
  show ?thesis
    using assms
    by (auto simp: enroll_issue_def persist Let_def erase split: sum.splits prod.splits)
qed

end
