(* ===== verification/Server.thy ===== *)
theory Server
  imports GoogleRoots Config Bootstrap EnrollFacts
begin

text \<open>
  \<open>cmd/server/main.go\<close>: how \<open>main\<close> turns the configuration into the two listeners, their
  routes and their TLS settings, and the wrappers it puts around the handlers. Starting and
  stopping the listeners is in \<open>Lifecycle\<close>; logging is not modelled.
\<close>

subsection \<open>Certificates\<close>

definition server_bootstrap_options :: "Config \<Rightarrow> BootstrapOptions" where
  "server_bootstrap_options cfg =
     \<lparr>bo_Paths = \<lparr>bp_CaCertPath = CaCertPath cfg, bp_CaKeyPath = CaKeyPath cfg,
                  bp_ServerCertPath = ServerCertPath cfg, bp_ServerKeyPath = ServerKeyPath cfg\<rparr>,
      bo_CaCN = ''Hardware mTLS PoC Root CA'', bo_ServerCN = ''localhost'',
      bo_CaValidity = 0, bo_ServerValidity = 0\<rparr>"

definition ensureCertificates ::
  "golib \<Rightarrow> bootstrap_reading \<Rightarrow> Config \<Rightarrow> unit fs_step" where
  "ensureCertificates lib env cfg =
     fs_then (BootstrapCertificates lib env (server_bootstrap_options cfg)) (\<lambda>_. fs_pure (Inr ()))"

text \<open>\<open>tls.LoadX509KeyPair\<close> reads both files before it parses them.\<close>

definition LoadX509KeyPair ::
  "golib \<Rightarrow> files \<Rightarrow> string \<Rightarrow> string \<Rightarrow> (file_error + lib_error) + tls_certificate" where
  "LoadX509KeyPair lib fs certFile keyFile =
     and_then (map_err Inl (read_file fs certFile)) (\<lambda>certPEM.
     and_then (map_err Inl (read_file fs keyFile)) (\<lambda>keyPEM.
       map_err Inr (lib_x509_key_pair lib certPEM keyPEM)))"

subsection \<open>The attestation policy and the verifier\<close>

definition attestation_policy :: "Config \<Rightarrow> Policy" where
  "attestation_policy cfg =
     (if DevMode cfg then DevelopmentPolicy else DefaultStrictPolicy)
       \<lparr>ExpectedPackageName := ExpectedAppPackage cfg,
        MinOsVersion := cfg_MinOsVersion cfg,
        MinPatchLevel := cfg_MinPatchLevel cfg,
        CheckRevocationList := RequireRevocationCheck cfg\<rparr>"

definition build_verifier :: "golib \<Rightarrow> Config \<Rightarrow> root_error + Verifier" where
  "build_verifier lib cfg =
     and_then (NewVerifier lib None (attestation_policy cfg)) (\<lambda>v.
       Inr (if RequireRevocationCheck cfg
            then WithRevocationChecker v
                   (NewRevocationStatusClient (RevocationListURL cfg) (24 * hour) None)
            else v))"

subsection \<open>Listeners\<close>

datatype client_auth = NoClientCert | RequireAndVerifyClientCert

type_synonym tls_version = "16 word"

definition VersionTLS12 :: tls_version where "VersionTLS12 = 0x0303"
definition VersionTLS13 :: tls_version where "VersionTLS13 = 0x0304"

record tls_config =
  tls_Certificates :: "tls_certificate list"
  tls_ClientCAs :: cert_pool
  tls_ClientAuth :: client_auth
  tls_MinVersion :: tls_version

record server =
  enroll_addr :: string
  enroll_tls :: tls_config
  challenge_ttl :: duration
  enroll_handler :: "(memoryChallengeStore, memoryDeviceRepo) EnrollHandler"
  mtls_addr :: string
  mtls_tls :: tls_config

type_synonym backend_state = "(memoryChallengeStore, memoryDeviceRepo) enroll_state"

datatype startup_error =
    StartCertificates bootstrap_error
  | StartCA load_error
  | StartCaPem file_error
  | StartVerifier root_error
  | StartEnrollKeyPair "file_error + lib_error"
  | StartServerKeyPair "file_error + lib_error"

text \<open>
  \<open>main\<close> up to the listeners, on the file system that \<open>ensureCertificates\<close> leaves; every
  \<open>log.Fatalf\<close> is an error of its own.
\<close>

definition build_server ::
  "golib \<Rightarrow> Config \<Rightarrow> files \<Rightarrow> startup_error + server \<times> backend_state" where
  "build_server lib cfg fs =
     and_then (map_err StartCA (LoadCA lib fs (CaCertPath cfg) (CaKeyPath cfg))) (\<lambda>caInstance.
     and_then (map_err StartCaPem (read_file fs (CaCertPath cfg))) (\<lambda>caPEMBytes.
     and_then (map_err StartVerifier (build_verifier lib cfg)) (\<lambda>verifier.
     and_then (map_err StartEnrollKeyPair
         (LoadX509KeyPair lib fs (EnrollCertPath cfg) (EnrollKeyPath cfg))) (\<lambda>enrollCert.
     and_then (map_err StartServerKeyPair
         (LoadX509KeyPair lib fs (ServerCertPath cfg) (ServerKeyPath cfg))) (\<lambda>serverCert.
       Inr (\<lparr>enroll_addr = EnrollPort cfg,
             enroll_tls = \<lparr>tls_Certificates = [enrollCert], tls_ClientCAs = [],
               tls_ClientAuth = NoClientCert, tls_MinVersion = VersionTLS12\<rparr>,
             challenge_ttl = ChallengeTTL cfg,
             enroll_handler = mem_handler caInstance (string_of_bytes caPEMBytes) (ClientCertTTL cfg),
             mtls_addr = MtlsPort cfg,
             mtls_tls = \<lparr>tls_Certificates = [serverCert],
               tls_ClientCAs = NewCertPoolFromCert (ca_Certificate caInstance),
               tls_ClientAuth = RequireAndVerifyClientCert, tls_MinVersion = VersionTLS13\<rparr>\<rparr>,
            \<lparr>es_verifier = verifier, es_store = NewMemoryChallengeStore,
             es_repo = NewMemoryDeviceRepo\<rparr>))))))"

text \<open>What a server that was built rests on.\<close>

lemma build_server_ok:
  assumes "build_server lib cfg fs = Inr (srv, s)"
  shows "\<exists>v. build_verifier lib cfg = Inr v \<and>
     s = \<lparr>es_verifier = v, es_store = NewMemoryChallengeStore, es_repo = NewMemoryDeviceRepo\<rparr> \<and>
     tls_ClientAuth (mtls_tls srv) = RequireAndVerifyClientCert \<and>
     tls_MinVersion (mtls_tls srv) = VersionTLS13 \<and>
     tls_ClientCAs (mtls_tls srv) = [ca_Certificate (eh_ca (enroll_handler srv))] \<and>
     LoadCA lib fs (CaCertPath cfg) (CaKeyPath cfg) = Inr (eh_ca (enroll_handler srv))"
  using assms by (auto simp: build_server_def NewCertPoolFromCert_def AddCert_def)

definition start_server ::
  "golib \<Rightarrow> bootstrap_reading \<Rightarrow> environment \<Rightarrow> files \<Rightarrow>
     (startup_error + server \<times> backend_state) \<times> files" where
  "start_server lib env e fs =
     (let cfg = LoadConfig e in
      case ensureCertificates lib env cfg fs of
        (Inl err, fs') \<Rightarrow> (Inl (StartCertificates err), fs')
      | (Inr _, fs') \<Rightarrow> (build_server lib cfg fs', fs'))"

subsection \<open>TLS handshakes\<close>

text \<open>
  What \<open>crypto/tls\<close> does with a client's certificates under each setting: it ignores them, or
  it insists on a chain for client authentication that ends in the configured pool.
\<close>

definition handshake_accepts ::
  "golib \<Rightarrow> tls_config \<Rightarrow> instant \<Rightarrow> certificate list \<Rightarrow> bool" where
  "handshake_accepts lib cfg now peers =
     (case tls_ClientAuth cfg of
        NoClientCert \<Rightarrow> True
      | RequireAndVerifyClientCert \<Rightarrow>
          peers \<noteq> [] \<and>
          lib_verify lib (hd peers) (tls_ClientCAs cfg) (foldl AddCert [] (tl peers))
            [ExtKeyUsageClientAuth] now)"

text \<open>\<open>attachTLSInspectors\<close> wraps the two hooks of a configuration; a missing hook answers nil.\<close>

record ('hello, 'conf, 'conn) tls_hooks =
  GetConfigForClient :: "('hello \<Rightarrow> lib_error + 'conf option) option"
  VerifyConnection :: "('conn \<Rightarrow> lib_error option) option"

definition attachTLSInspectors ::
  "('hello, 'conf, 'conn) tls_hooks \<Rightarrow> ('hello, 'conf, 'conn) tls_hooks" where
  "attachTLSInspectors cfg =
     (let origGetConfig = GetConfigForClient cfg; origVerify = VerifyConnection cfg in
      \<lparr>GetConfigForClient = Some (\<lambda>chi.
         (case origGetConfig of Some f \<Rightarrow> f chi | None \<Rightarrow> Inr None)),
       VerifyConnection = Some (\<lambda>cs.
         (case origVerify of Some f \<Rightarrow> f cs | None \<Rightarrow> None))\<rparr>)"

text \<open>What the TLS stack gets from a hook, a missing one included.\<close>

definition hook_config :: "('hello, 'conf, 'conn) tls_hooks \<Rightarrow> 'hello \<Rightarrow> lib_error + 'conf option" where
  "hook_config cfg chi = (case GetConfigForClient cfg of None \<Rightarrow> Inr None | Some f \<Rightarrow> f chi)"

definition hook_verdict :: "('hello, 'conf, 'conn) tls_hooks \<Rightarrow> 'conn \<Rightarrow> lib_error option" where
  "hook_verdict cfg cs = (case VerifyConnection cfg of None \<Rightarrow> None | Some f \<Rightarrow> f cs)"

lemma inspectors_transparent:
  "hook_config (attachTLSInspectors cfg) = hook_config cfg"
  "hook_verdict (attachTLSInspectors cfg) = hook_verdict cfg"
  by (auto simp: fun_eq_iff hook_config_def hook_verdict_def attachTLSInspectors_def Let_def
      split: option.splits)

subsection \<open>The response recorder\<close>

text \<open>
  A handler drives its \<open>http.ResponseWriter\<close> with these calls; \<open>taken\<close> is the number of bytes
  the connection takes of a write (all of them, or fewer when the write fails).
\<close>

datatype writer_call = CallWriteHeader int | CallWrite bytes nat | CallFlush

text \<open>What the writer knows of the exchange: the protocol, and whether it answers a \<open>HEAD\<close>.\<close>

record exchange =
  is_http2 :: bool
  answers_head :: bool

record http_writer =
  sent_status :: "int option"
  sent_informational :: "int list"
  sent_body :: bytes
  writer_panicked :: bool

definition fresh_writer :: http_writer where
  "fresh_writer = \<lparr>sent_status = None, sent_informational = [], sent_body = [], writer_panicked = False\<rparr>"

text \<open>
  The writer of \<open>net/http\<close>, as the package documents it. The first final status counts; later ones
  are ignored. Before it, the statuses 1xx are sent as informational headers of their own (in
  HTTP/1.1 all but 101, which is final). A status that is not a number of three digits panics.
\<close>

definition informational :: "exchange \<Rightarrow> int \<Rightarrow> bool" where
  "informational x code \<longleftrightarrow> 100 \<le> code \<and> code \<le> 199 \<and> (code = 101 \<longrightarrow> is_http2 x)"

definition write_header :: "exchange \<Rightarrow> int \<Rightarrow> http_writer \<Rightarrow> http_writer" where
  "write_header x code w =
     (if sent_status w \<noteq> None then w
      else if code < 100 \<or> 999 < code then w\<lparr>writer_panicked := True\<rparr>
      else if informational x code then w\<lparr>sent_informational := sent_informational w @ [code]\<rparr>
      else w\<lparr>sent_status := Some code\<rparr>)"

text \<open>
  A write sends the header with status 200 if there was none. Statuses without a body take no
  bytes; the bytes of an answer to \<open>HEAD\<close> are taken, and not sent. The first result is the
  number of bytes that \<open>Write\<close> returns.
\<close>

definition body_allowed :: "int \<Rightarrow> bool" where
  "body_allowed code \<longleftrightarrow> \<not> (100 \<le> code \<and> code \<le> 199) \<and> code \<noteq> 204 \<and> code \<noteq> 304"

definition write_body :: "exchange \<Rightarrow> bytes \<Rightarrow> nat \<Rightarrow> http_writer \<Rightarrow> nat \<times> http_writer" where
  "write_body x bs taken w =
     (let w' = write_header x 200 w;
          accepted = (case sent_status w' of
             Some code \<Rightarrow> if body_allowed code then take taken bs else [] | None \<Rightarrow> [])
      in (length accepted,
          w'\<lparr>sent_body := sent_body w' @ (if answers_head x then [] else accepted)\<rparr>))"

text \<open>After a panic the handler makes no more calls.\<close>

fun http_writer_step :: "exchange \<Rightarrow> writer_call \<Rightarrow> http_writer \<Rightarrow> http_writer" where
  "http_writer_step x (CallWriteHeader code) w =
     (if writer_panicked w then w else write_header x code w)"
| "http_writer_step x (CallWrite bs taken) w =
     (if writer_panicked w then w else snd (write_body x bs taken w))"
| "http_writer_step x CallFlush w =
     (if writer_panicked w then w else write_header x 200 w)"

record responseRecorder =
  ResponseWriter :: http_writer
  statusCode :: int
  bytesWritten :: "64 word"

definition recorder_write_header :: "exchange \<Rightarrow> int \<Rightarrow> responseRecorder \<Rightarrow> responseRecorder" where
  "recorder_write_header x code rec =
     rec\<lparr>statusCode := code, ResponseWriter := write_header x code (ResponseWriter rec)\<rparr>"

definition recorder_write :: "exchange \<Rightarrow> bytes \<Rightarrow> nat \<Rightarrow> responseRecorder \<Rightarrow> responseRecorder" where
  "recorder_write x bs taken rec =
     (let rec' = (if statusCode rec = 0 then rec\<lparr>statusCode := 200\<rparr> else rec)
      in case write_body x bs taken (ResponseWriter rec') of
           (n, w') \<Rightarrow> rec'\<lparr>ResponseWriter := w', bytesWritten := bytesWritten rec' + word_of_nat n\<rparr>)"

definition recorder_flush :: "exchange \<Rightarrow> responseRecorder \<Rightarrow> responseRecorder" where
  "recorder_flush x rec = rec\<lparr>ResponseWriter := write_header x 200 (ResponseWriter rec)\<rparr>"

fun recorder_step :: "exchange \<Rightarrow> writer_call \<Rightarrow> responseRecorder \<Rightarrow> responseRecorder" where
  "recorder_step x (CallWriteHeader code) rec =
     (if writer_panicked (ResponseWriter rec) then rec else recorder_write_header x code rec)"
| "recorder_step x (CallWrite bs taken) rec =
     (if writer_panicked (ResponseWriter rec) then rec else recorder_write x bs taken rec)"
| "recorder_step x CallFlush rec =
     (if writer_panicked (ResponseWriter rec) then rec else recorder_flush x rec)"

lemmas recorder_defs = recorder_write_header_def recorder_write_def recorder_flush_def
  write_body_def write_header_def

text \<open>The recorder \<open>requestLogger\<close> wraps around the connection's writer, run over the calls.\<close>

definition requestLogger :: "exchange \<Rightarrow> writer_call list \<Rightarrow> responseRecorder" where
  "requestLogger x calls =
     fold (recorder_step x) calls
       \<lparr>ResponseWriter = fresh_writer, statusCode = 200, bytesWritten = 0\<rparr>"

text \<open>The status a client sees when the handler is done: without any call, 200.\<close>

definition answered_status :: "http_writer \<Rightarrow> int" where
  "answered_status w = (case sent_status w of None \<Rightarrow> 200 | Some code \<Rightarrow> code)"

lemma recorder_step_forwards:
  "ResponseWriter (recorder_step x c rec) = http_writer_step x c (ResponseWriter rec)"
  by (cases c) (simp_all add: recorder_write_header_def recorder_write_def recorder_flush_def Let_def
      split: prod.split)

lemma recorder_forwards:
  "ResponseWriter (fold (recorder_step x) calls rec) = fold (http_writer_step x) calls (ResponseWriter rec)"
  by (induction calls arbitrary: rec) (simp_all add: recorder_step_forwards)

text \<open>
  The calls the handlers make: at most one status, a final one, and before any byte. Any number
  of informational headers in front would be logged as the status if no final one followed.
\<close>

fun writes_only :: "writer_call list \<Rightarrow> bool" where
  "writes_only [] = True"
| "writes_only (CallWriteHeader _ # _) = False"
| "writes_only (_ # cs) = writes_only cs"

fun header_first :: "exchange \<Rightarrow> writer_call list \<Rightarrow> bool" where
  "header_first x (CallWriteHeader code # cs) =
     (100 \<le> code \<and> code \<le> 999 \<and> \<not> informational x code \<and> writes_only cs)"
| "header_first x cs = writes_only cs"

fun offered_bytes :: "writer_call list \<Rightarrow> nat" where
  "offered_bytes [] = 0"
| "offered_bytes (CallWrite bs taken # cs) = length bs + offered_bytes cs"
| "offered_bytes (_ # cs) = offered_bytes cs"

lemma writes_only_Cons: "writes_only (c # cs) \<longleftrightarrow> (\<forall>code. c \<noteq> CallWriteHeader code) \<and> writes_only cs"
  by (cases c) simp_all

lemma not_informational_200 [simp]: "\<not> informational x 200"
  by (simp add: informational_def)

lemma write_header_200 [simp]:
  "sent_status (write_header x 200 w) = Some (answered_status w)"
  "writer_panicked (write_header x 200 w) = writer_panicked w"
  "sent_body (write_header x code w) = sent_body w"
  by (auto simp: write_header_def answered_status_def)

lemma write_body_simps [simp]:
  "sent_status (snd (write_body x bs taken w)) = Some (answered_status w)"
  "writer_panicked (snd (write_body x bs taken w)) = writer_panicked w"
  by (simp_all add: write_body_def Let_def)

text \<open>Once no status call is to come, what is logged and what is answered are settled.\<close>

lemma writes_only_status:
  assumes "writes_only calls" "statusCode rec \<noteq> 0"
  shows "statusCode (fold (recorder_step x) calls rec) = statusCode rec"
  using assms
proof (induction calls arbitrary: rec)
  case (Cons c cs)
  then have "statusCode (recorder_step x c rec) = statusCode rec"
    by (cases c) (auto simp: recorder_write_def recorder_flush_def Let_def split: prod.split)
  with Cons show ?case by (simp add: writes_only_Cons)
qed simp

lemma writes_only_answered:
  "writes_only calls \<Longrightarrow>
     answered_status (fold (http_writer_step x) calls w) = answered_status w"
proof (induction calls arbitrary: w)
  case (Cons c cs)
  then have "answered_status (http_writer_step x c w) = answered_status w"
    by (cases c) (auto simp: answered_status_def)
  with Cons show ?case by (simp add: writes_only_Cons)
qed simp

lemma recorder_status:
  assumes "header_first x calls"
  shows "statusCode (requestLogger x calls) = answered_status (ResponseWriter (requestLogger x calls))"
proof (cases "\<exists>code cs. calls = CallWriteHeader code # cs")
  case True
  then obtain code cs where calls: "calls = CallWriteHeader code # cs" by blast
  with assms have "writes_only cs" "100 \<le> code" "code \<le> 999" "\<not> informational x code" by simp_all
  with calls show ?thesis
    by (simp add: requestLogger_def recorder_forwards fresh_writer_def recorder_write_header_def
        write_header_def writes_only_status writes_only_answered)
      (simp add: answered_status_def)
next
  case False
  with assms have "writes_only calls" by (cases "(x, calls)" rule: header_first.cases) auto
  then show ?thesis
    by (simp add: requestLogger_def recorder_forwards writes_only_status writes_only_answered)
      (simp add: answered_status_def fresh_writer_def)
qed

text \<open>The size: what the writer took, which is what was sent unless the answer is to a \<open>HEAD\<close>.\<close>

lemma recorder_bytes:
  assumes "\<not> answers_head x" "bytesWritten rec = word_of_nat (length (sent_body (ResponseWriter rec)))"
  shows "bytesWritten (fold (recorder_step x) calls rec) =
    word_of_nat (length (sent_body (ResponseWriter (fold (recorder_step x) calls rec))))"
  using assms(2)
proof (induction calls arbitrary: rec)
  case (Cons c cs)
  have "bytesWritten (recorder_step x c rec) =
      word_of_nat (length (sent_body (ResponseWriter (recorder_step x c rec))))"
    using Cons.prems assms(1)
    by (cases c) (auto simp: recorder_write_header_def recorder_write_def recorder_flush_def
        write_body_def Let_def)
  from Cons.IH [OF this] show ?case by simp
qed simp

lemma sent_body_bound:
  "length (sent_body (fold (http_writer_step x) calls w)) \<le> length (sent_body w) + offered_bytes calls"
proof (induction calls arbitrary: w)
  case (Cons c cs)
  have "length (sent_body (http_writer_step x c w)) \<le> length (sent_body w) + offered_bytes [c]"
    by (cases c) (auto simp: write_body_def Let_def)
  moreover have "offered_bytes (c # cs) = offered_bytes [c] + offered_bytes cs"
    by (cases c) simp_all
  ultimately show ?case using Cons.IH [of "http_writer_step x c w"] by simp
qed simp

lemma head_sends_nothing:
  assumes "answers_head x"
  shows "sent_body (fold (http_writer_step x) calls w) = sent_body w"
proof (induction calls arbitrary: w)
  case (Cons c cs)
  have "sent_body (http_writer_step x c w) = sent_body w"
    using assms by (cases c) (auto simp: write_body_def Let_def)
  with Cons show ?case by simp
qed simp

text \<open>What is logged for a \<open>HEAD\<close> is what would be logged for the same calls with a body.\<close>

definition writers_alike :: "http_writer \<Rightarrow> http_writer \<Rightarrow> bool" where
  "writers_alike w1 w2 \<longleftrightarrow>
     sent_status w1 = sent_status w2 \<and> writer_panicked w1 = writer_panicked w2"

definition alike :: "responseRecorder \<Rightarrow> responseRecorder \<Rightarrow> bool" where
  "alike r1 r2 \<longleftrightarrow> statusCode r1 = statusCode r2 \<and> bytesWritten r1 = bytesWritten r2 \<and>
     writers_alike (ResponseWriter r1) (ResponseWriter r2)"

lemma informational_head: "informational (x\<lparr>answers_head := b\<rparr>) code = informational x code"
  by (simp add: informational_def)

lemma write_header_alike:
  "writers_alike w1 w2 \<Longrightarrow>
     writers_alike (write_header x code w1) (write_header (x\<lparr>answers_head := b\<rparr>) code w2)"
  by (cases "sent_status w1 = None"; cases "code < 100 \<or> 999 < code"; cases "informational x code")
    (simp_all only: writers_alike_def write_header_def informational_head if_True if_False simp_thms,
     simp_all)

lemma write_body_alike:
  assumes "writers_alike w1 w2"
  shows "fst (write_body x bs taken w1) = fst (write_body (x\<lparr>answers_head := b\<rparr>) bs taken w2) \<and>
    writers_alike (snd (write_body x bs taken w1)) (snd (write_body (x\<lparr>answers_head := b\<rparr>) bs taken w2))"
  using write_header_alike [OF assms, of x 200 b]
  by (simp add: writers_alike_def write_body_def Let_def)

lemma recorder_write_simps:
  "statusCode (recorder_write x bs taken rec) = (if statusCode rec = 0 then 200 else statusCode rec)"
  "bytesWritten (recorder_write x bs taken rec) =
     bytesWritten rec + word_of_nat (fst (write_body x bs taken (ResponseWriter rec)))"
  "ResponseWriter (recorder_write x bs taken rec) = snd (write_body x bs taken (ResponseWriter rec))"
  by (simp_all add: recorder_write_def Let_def split: prod.split)

lemma alike_step:
  assumes "alike r1 r2"
  shows "alike (recorder_step x c r1) (recorder_step (x\<lparr>answers_head := b\<rparr>) c r2)"
proof -
  from assms have w: "writers_alike (ResponseWriter r1) (ResponseWriter r2)" by (simp add: alike_def)
  then have p: "writer_panicked (ResponseWriter r1) = writer_panicked (ResponseWriter r2)"
    by (simp add: writers_alike_def)
  show ?thesis
  proof (cases c)
    case (CallWriteHeader code)
    with assms p write_header_alike [OF w, of x code b] show ?thesis
      by (simp add: alike_def recorder_write_header_def)
  next
    case (CallWrite bs taken)
    with assms p write_body_alike [OF w, of x bs taken b] show ?thesis
      by (simp add: alike_def recorder_write_simps)
  next
    case CallFlush
    with assms p write_header_alike [OF w, of x 200 b] show ?thesis
      by (simp add: alike_def recorder_flush_def)
  qed
qed

lemma alike_logged:
  "alike r1 r2 \<Longrightarrow>
     alike (fold (recorder_step x) calls r1) (fold (recorder_step (x\<lparr>answers_head := b\<rparr>)) calls r2)"
  by (induction calls arbitrary: r1 r2) (simp_all add: alike_step)

lemma requestLogger_alike:
  "alike (requestLogger x calls) (requestLogger (x\<lparr>answers_head := b\<rparr>) calls)"
  unfolding requestLogger_def by (rule alike_logged) (simp add: alike_def writers_alike_def)

end
