(* ===== verification/System.thy ===== *)
theory System
  imports Server
begin

text \<open>
  The running backend: requests on the two listeners, passes of the cleanup worker and
  administrative calls of the registry's interface, as atomic steps on the shared state.
  Runs are finite sequences of events with their answers. Taking a request as one step leaves
  out that concurrent requests interleave their calls of the stores, so what holds of these
  runs is claimed for them only; \<open>Interleaving\<close> has the machine in which the calls of
  enrollments and of the protected resource are separate steps, with the properties that hold
  there and the one that does not.
\<close>

subsection \<open>Routing\<close>

text \<open>
  A request on the enrollment listener needs the readings of either handler. The patterns
  have no trailing slash, so the multiplexer serves exactly these paths.
\<close>

record port_reading =
  pr_generate :: generate_reading
  pr_enroll :: enroll_reading

datatype answer =
    ChallengeAnswer "ChallengeResponse http_response"
  | EnrollAnswer "EnrollResponse http_response"
  | PingAnswer "ProtectedResponse http_response"
  | NoRoute
  | HandshakeRefused
  | StorageAnswer "storage_error option"
  | NoAnswer

definition serve_enroll_port ::
  "golib \<Rightarrow> server \<Rightarrow> port_reading \<Rightarrow> http_request \<Rightarrow> backend_state \<Rightarrow> answer \<times> backend_state" where
  "serve_enroll_port lib srv env req s =
     (if req_Path req = ''/api/v1/enroll/challenge'' then
        (case ChallengeHandler_ServeHTTP (eh_store (enroll_handler srv)) (challenge_ttl srv)
                (pr_generate env) req (es_store s) of
           (r, store') \<Rightarrow> (ChallengeAnswer r, s\<lparr>es_store := store'\<rparr>))
      else if req_Path req = ''/api/v1/enroll'' then
        (case EnrollHandler_ServeHTTP lib (pr_enroll env) (enroll_handler srv) req s of
           (r, s') \<Rightarrow> (EnrollAnswer r, s'))
      else (NoRoute, s))"

record mtls_reading =
  handshake_now :: instant
  ping_now :: instant

definition serve_mtls_port ::
  "golib \<Rightarrow> server \<Rightarrow> mtls_reading \<Rightarrow> certificate list \<Rightarrow> http_request \<Rightarrow> backend_state \<Rightarrow> answer" where
  "serve_mtls_port lib srv env peers req s =
     (if \<not> handshake_accepts lib (mtls_tls srv) (handshake_now env) peers then HandshakeRefused
      else if req_Path req = ''/api/v1/protected/ping'' then
        PingAnswer (protected_ping (Some (eh_deviceRepo (enroll_handler srv))) (ping_now env)
          (es_repo s) (es_repo s) (es_repo s) (req\<lparr>req_TLS := Some peers\<rparr>))
      else NoRoute)"

subsection \<open>Steps and runs\<close>

datatype event =
    EnrollPortRequest port_reading http_request
  | MtlsPortRequest mtls_reading "certificate list" http_request
  | CleanupTick instant
  | AdminRevokeDevice string
  | AdminRevokeSerial string

inductive step :: "golib \<Rightarrow> server \<Rightarrow> backend_state \<Rightarrow> event \<Rightarrow> answer \<Rightarrow> backend_state \<Rightarrow> bool"
  for lib :: golib and srv :: server where
  enroll_port: "serve_enroll_port lib srv env req s = (a, s') \<Longrightarrow>
     step lib srv s (EnrollPortRequest env req) a s'"
| mtls_port: "step lib srv s (MtlsPortRequest menv peers req) (serve_mtls_port lib srv menv peers req s) s"
| cleanup: "step lib srv s (CleanupTick now) NoAnswer (s\<lparr>es_store := cleanup_pass now (es_store s)\<rparr>)"
| revoke_device: "RevokeDevice (eh_deviceRepo (enroll_handler srv)) identity (es_repo s) = (x, repo') \<Longrightarrow>
     step lib srv s (AdminRevokeDevice identity) (StorageAnswer x) (s\<lparr>es_repo := repo'\<rparr>)"
| revoke_serial: "RevokeSerial (eh_deviceRepo (enroll_handler srv)) serial (es_repo s) = (x, repo') \<Longrightarrow>
     step lib srv s (AdminRevokeSerial serial) (StorageAnswer x) (s\<lparr>es_repo := repo'\<rparr>)"

inductive_simps step_simps:
  "step lib srv s (EnrollPortRequest env req) a s'"
  "step lib srv s (MtlsPortRequest menv peers req) a s'"
  "step lib srv s (CleanupTick now) a s'"
  "step lib srv s (AdminRevokeDevice identity) a s'"
  "step lib srv s (AdminRevokeSerial serial) a s'"

type_synonym trace = "(event \<times> answer) list"

inductive run :: "golib \<Rightarrow> server \<Rightarrow> backend_state \<Rightarrow> trace \<Rightarrow> backend_state \<Rightarrow> bool"
  for lib :: golib and srv :: server and s0 :: backend_state where
  run_start: "run lib srv s0 [] s0"
| run_step: "run lib srv s0 tr s \<Longrightarrow> step lib srv s ev a s' \<Longrightarrow> run lib srv s0 (tr @ [(ev, a)]) s'"

inductive_cases run_snocE: "run lib srv s0 (tr @ [(ev, a)]) s'"

text \<open>The servers that \<open>main\<close> builds work on the in-memory stores.\<close>

definition in_memory :: "server \<Rightarrow> bool" where
  "in_memory srv \<longleftrightarrow>
     (\<exists>c pem ttl. enroll_handler srv = mem_handler c pem ttl)"

definition initial_state :: "Verifier \<Rightarrow> backend_state" where
  "initial_state v =
     \<lparr>es_verifier = v, es_store = NewMemoryChallengeStore, es_repo = NewMemoryDeviceRepo\<rparr>"

lemma in_memory_simps:
  assumes "in_memory srv"
  shows "eh_store (enroll_handler srv) = memory_challenge_store"
    "eh_deviceRepo (enroll_handler srv) = memory_device_repo"
  using assms by (auto simp: in_memory_def)

lemma in_memory_backend: "in_memory srv \<Longrightarrow> enroll_backend (enroll_handler srv) challenges devices revokedSerials"
  using mem_enroll.enroll_backend_axioms by (auto simp: in_memory_def)

lemma build_server_in_memory: "build_server lib cfg fs = Inr (srv, s) \<Longrightarrow> in_memory srv"
  by (auto simp: build_server_def in_memory_def) (intro exI, rule refl)

subsection \<open>What an event adds to the registry\<close>

text \<open>
  An enrollment that answers 201 for an identity, with the serial of the certificate that
  was signed for it.
\<close>

definition enrolls :: "golib \<Rightarrow> server \<Rightarrow> event \<Rightarrow> answer \<Rightarrow> string \<Rightarrow> string \<Rightarrow> bool" where
  "enrolls lib srv ev a identity serial \<longleftrightarrow>
     (\<exists>env req status body csrDER cert pem.
        ev = EnrollPortRequest env req \<and> a = EnrollAnswer (JsonResponse status body) \<and>
        er_DeviceIdentity body = identity \<and> er_ClientCertificate body = string_of_bytes pem \<and>
        SignCSR lib (signing (pr_enroll env)) (eh_ca (enroll_handler srv)) csrDER identity
          (eh_clientCertTTL (enroll_handler srv)) = Inr (cert, pem) \<and>
        serial = serial_text cert)"

lemma step_enroll_created:
  assumes "step lib srv s ev a s'" "a = EnrollAnswer (JsonResponse status body)"
  obtains env req where "ev = EnrollPortRequest env req"
    "EnrollHandler_ServeHTTP lib (pr_enroll env) (enroll_handler srv) req s = (JsonResponse status body, s')"
  using assms
  by (cases rule: step.cases)
    (auto simp: serve_enroll_port_def serve_mtls_port_def split: if_splits prod.splits)

lemma enrolls_only_created:
  "enrolls lib srv ev a i serial \<Longrightarrow>
     \<exists>env req status body. ev = EnrollPortRequest env req \<and>
       a = EnrollAnswer (JsonResponse status body) \<and> er_DeviceIdentity body = i"
  by (auto simp: enrolls_def)

lemma created_enrolls:
  assumes srv: "enroll_handler srv = mem_handler c pem ttl"
    and run: "EnrollHandler_ServeHTTP lib (pr_enroll env) (mem_handler c pem ttl) req s =
      (JsonResponse status body, s')"
  obtains rec where "devices (es_repo s') = (devices (es_repo s))(er_DeviceIdentity body \<mapsto> rec)"
    "revokedSerials (es_repo s') = revokedSerials (es_repo s)"
    "dev_Identity rec = er_DeviceIdentity body" "\<not> dev_IsRevoked rec"
    "\<forall>old. devices (es_repo s) (er_DeviceIdentity body) = Some old \<longrightarrow> \<not> dev_IsRevoked old"
    "enrolls lib srv (EnrollPortRequest env req) (EnrollAnswer (JsonResponse status body))
       (er_DeviceIdentity body) (dev_CertSerial rec)"
  using run
proof (rule mem_enroll.created)
  fix q rec cert pem'
  let ?rec = "device_record q rec (er_DeviceIdentity body) cert (enrolled_now (pr_enroll env))"
  assume sign: "SignCSR lib (signing (pr_enroll env)) (eh_ca (mem_handler c pem ttl)) (p_csrDER q)
      (er_DeviceIdentity body) (eh_clientCertTTL (mem_handler c pem ttl)) = Inr (cert, pem')"
    and old: "\<forall>old. devices (es_repo s) (er_DeviceIdentity body) = Some old \<longrightarrow> \<not> dev_IsRevoked old"
    and devs: "devices (es_repo s') = (devices (es_repo s))(er_DeviceIdentity body \<mapsto> ?rec)"
    and revs: "revokedSerials (es_repo s') = revokedSerials (es_repo s)"
    and body: "body = enroll_response (mem_handler c pem ttl) q (er_DeviceIdentity body) pem'"
  have "er_ClientCertificate body = string_of_bytes pem'"
    by (subst body) (simp add: enroll_response_def Let_def)
  with sign srv have "enrolls lib srv (EnrollPortRequest env req)
      (EnrollAnswer (JsonResponse status body)) (er_DeviceIdentity body) (serial_text cert)"
    unfolding enrolls_def by auto
  then show thesis
    by (intro that [OF devs revs _ _ old]) (simp_all add: device_record_def serial_text_def)
qed

text \<open>
  How one step changes the registry: an enrollment stores a fresh record under its identity
  when the identity was not revoked, revoking marks the record; nothing else changes the
  devices, and no step takes a serial off the revoked ones.
\<close>

lemma enroll_port_devices:
  assumes srv: "in_memory srv" and st: "serve_enroll_port lib srv env req s = (a, s')"
  shows "revokedSerials (es_repo s) \<subseteq> revokedSerials (es_repo s')"
    and "devices (es_repo s') i = Some rec \<Longrightarrow>
         (dev_Identity rec = i \<and> \<not> dev_IsRevoked rec \<and>
           enrolls lib srv (EnrollPortRequest env req) a i (dev_CertSerial rec) \<and>
           (\<forall>old. devices (es_repo s) i = Some old \<longrightarrow> \<not> dev_IsRevoked old)) \<or>
         (devices (es_repo s) i = Some rec \<and>
           (\<forall>serial. \<not> enrolls lib srv (EnrollPortRequest env req) a i serial))"
    and "devices (es_repo s) i \<noteq> None \<Longrightarrow> devices (es_repo s') i \<noteq> None"
proof -
  from srv obtain c pem ttl where h: "enroll_handler srv = mem_handler c pem ttl"
    by (auto simp: in_memory_def)
  have "revokedSerials (es_repo s) \<subseteq> revokedSerials (es_repo s') \<and>
    (devices (es_repo s') i = Some rec \<longrightarrow>
         (dev_Identity rec = i \<and> \<not> dev_IsRevoked rec \<and>
           enrolls lib srv (EnrollPortRequest env req) a i (dev_CertSerial rec) \<and>
           (\<forall>old. devices (es_repo s) i = Some old \<longrightarrow> \<not> dev_IsRevoked old)) \<or>
         (devices (es_repo s) i = Some rec \<and>
           (\<forall>serial. \<not> enrolls lib srv (EnrollPortRequest env req) a i serial))) \<and>
    (devices (es_repo s) i \<noteq> None \<longrightarrow> devices (es_repo s') i \<noteq> None)"
  proof (cases "\<exists>r. a = EnrollAnswer r")
    case False
    with st have "es_repo s' = es_repo s"
      by (auto simp: serve_enroll_port_def split: if_splits prod.splits)
    moreover from False have "\<not> enrolls lib srv (EnrollPortRequest env req) a i serial" for serial
      by (auto dest: enrolls_only_created)
    ultimately show ?thesis by simp
  next
    case True
    then obtain r where a: "a = EnrollAnswer r" by blast
    with st h have run: "EnrollHandler_ServeHTTP lib (pr_enroll env) (mem_handler c pem ttl) req s = (r, s')"
      by (auto simp: serve_enroll_port_def split: if_splits prod.splits)
    show ?thesis
    proof (cases r)
      case (ErrorResponse status msg)
      with a have "\<not> enrolls lib srv (EnrollPortRequest env req) a i serial" for serial
        by (auto dest: enrolls_only_created)
      with mem_enroll.refused [OF run [unfolded ErrorResponse]] show ?thesis by auto
    next
      case (JsonResponse status body)
      from h run [unfolded JsonResponse] obtain rec' where
        devs: "devices (es_repo s') = (devices (es_repo s))(er_DeviceIdentity body \<mapsto> rec')"
        and rest: "revokedSerials (es_repo s') = revokedSerials (es_repo s)"
          "dev_Identity rec' = er_DeviceIdentity body" "\<not> dev_IsRevoked rec'"
          "\<forall>old. devices (es_repo s) (er_DeviceIdentity body) = Some old \<longrightarrow> \<not> dev_IsRevoked old"
        and en: "enrolls lib srv (EnrollPortRequest env req) (EnrollAnswer (JsonResponse status body))
           (er_DeviceIdentity body) (dev_CertSerial rec')"
        by (rule created_enrolls)
      have "\<not> enrolls lib srv (EnrollPortRequest env req) a i serial"
        if "i \<noteq> er_DeviceIdentity body" for serial
        using that a JsonResponse by (auto dest: enrolls_only_created)
      with devs rest en a JsonResponse show ?thesis by (cases "i = er_DeviceIdentity body") auto
    qed
  qed
  then show "revokedSerials (es_repo s) \<subseteq> revokedSerials (es_repo s')"
    "devices (es_repo s') i = Some rec \<Longrightarrow>
         (dev_Identity rec = i \<and> \<not> dev_IsRevoked rec \<and>
           enrolls lib srv (EnrollPortRequest env req) a i (dev_CertSerial rec) \<and>
           (\<forall>old. devices (es_repo s) i = Some old \<longrightarrow> \<not> dev_IsRevoked old)) \<or>
         (devices (es_repo s) i = Some rec \<and>
           (\<forall>serial. \<not> enrolls lib srv (EnrollPortRequest env req) a i serial))"
    "devices (es_repo s) i \<noteq> None \<Longrightarrow> devices (es_repo s') i \<noteq> None" by blast+
qed

lemma step_devices:
  assumes srv: "in_memory srv" and st: "step lib srv s ev a s'"
    and dev: "devices (es_repo s') i = Some rec"
  shows "(dev_Identity rec = i \<and> \<not> dev_IsRevoked rec \<and> ev \<noteq> AdminRevokeDevice i \<and>
           enrolls lib srv ev a i (dev_CertSerial rec) \<and>
           (\<forall>old. devices (es_repo s) i = Some old \<longrightarrow> \<not> dev_IsRevoked old)) \<or>
         (devices (es_repo s) i = Some rec \<and> ev \<noteq> AdminRevokeDevice i \<and>
           (\<forall>serial. \<not> enrolls lib srv ev a i serial)) \<or>
         (\<exists>old. devices (es_repo s) i = Some old \<and> rec = old\<lparr>dev_IsRevoked := True\<rparr> \<and>
            ev = AdminRevokeDevice i)"
  using st
proof cases
  case (enroll_port env req)
  with dev enroll_port_devices(2) [OF srv enroll_port(2)] show ?thesis by auto
next
  case (revoke_device identity x repo')
  with dev in_memory_simps [OF srv] mem_RevokeDevice_simps(1) [of identity "es_repo s"] show ?thesis
    by (auto simp: enrolls_def split: if_splits)
next
  case (revoke_serial serial x repo')
  with dev in_memory_simps [OF srv] mem_RevokeSerial_simps(2) [of serial "es_repo s"] show ?thesis
    by (auto simp: enrolls_def)
qed (use dev in \<open>auto simp: enrolls_def\<close>)

lemma step_devices_dom:
  assumes "in_memory srv" "step lib srv s ev a s'" "devices (es_repo s) i \<noteq> None"
  shows "devices (es_repo s') i \<noteq> None"
  using assms(2)
proof cases
  case (enroll_port env req)
  with assms enroll_port_devices(3) show ?thesis by metis
next
  case (revoke_device identity x repo')
  with assms in_memory_simps [OF assms(1)] mem_RevokeDevice_simps(1) [of identity "es_repo s"]
  show ?thesis by auto
next
  case (revoke_serial serial x repo')
  with assms in_memory_simps [OF assms(1)] mem_RevokeSerial_simps(2) [of serial "es_repo s"]
  show ?thesis by auto
qed (use assms in auto)

lemma step_revokedSerials:
  assumes "in_memory srv" "step lib srv s ev a s'"
  shows "revokedSerials (es_repo s) \<subseteq> revokedSerials (es_repo s')"
  using assms(2)
proof cases
  case (enroll_port env req)
  with assms enroll_port_devices(1) show ?thesis by metis
next
  case (revoke_device identity x repo')
  with in_memory_simps [OF assms(1)] mem_RevokeDevice_simps(2) [of identity "es_repo s"]
  show ?thesis by (auto split: option.splits)
next
  case (revoke_serial serial x repo')
  with in_memory_simps [OF assms(1)] mem_RevokeSerial_simps(3) [of serial "es_repo s"]
  show ?thesis by auto
qed auto

end
