(* ===== verification/Traces.thy ===== *)
theory Traces
  imports System
begin

text \<open>
  What holds along every run of the backend: which enrollment stands behind a registered
  device, that revocation lasts, where the challenge of an enrollment came from, and what the
  attestation of an enrolled key was.
\<close>

subsection \<open>The verifier's policy and roots do not change\<close>

lemma enroll_verifier_frame:
  assumes "EnrollHandler_ServeHTTP lib env h req s = (r, s')"
  shows "policy (es_verifier s') = policy (es_verifier s)"
    "rootPool (es_verifier s') = rootPool (es_verifier s)"
proof -
  have attest: "policy v' = policy v \<and> rootPool v' = rootPool v"
    if "enroll_attest lib e q v = (x, v')" for e q v x v'
    using that by (auto simp: enroll_attest_def split: prod.splits sum.splits dest: VerifyAttestation_frame)
  have issue: "policy (es_verifier t') = policy (es_verifier t) \<and>
      rootPool (es_verifier t') = rootPool (es_verifier t)"
    if "enroll_issue lib env h q t = (x, t')" for q t x t'
    using that by (auto simp: enroll_issue_def Let_def split: prod.splits sum.splits dest: attest)
  have "policy (es_verifier s') = policy (es_verifier s) \<and>
      rootPool (es_verifier s') = rootPool (es_verifier s)"
    using assms by (auto simp: EnrollHandler_ServeHTTP_def split: prod.splits sum.splits dest: issue)
  then show "policy (es_verifier s') = policy (es_verifier s)"
    "rootPool (es_verifier s') = rootPool (es_verifier s)" by simp_all
qed

lemma step_verifier_frame:
  assumes "step lib srv s ev a s'"
  shows "policy (es_verifier s') = policy (es_verifier s) \<and>
    rootPool (es_verifier s') = rootPool (es_verifier s)"
  using assms
proof cases
  case (enroll_port env req)
  then show ?thesis
    by (auto simp: serve_enroll_port_def split: if_splits prod.splits dest: enroll_verifier_frame)
qed auto

lemma run_verifier_frame:
  "run lib srv s0 tr s \<Longrightarrow> policy (es_verifier s) = policy (es_verifier s0) \<and>
     rootPool (es_verifier s) = rootPool (es_verifier s0)"
  by (induction rule: run.induct) (auto dest: step_verifier_frame)

subsection \<open>Registered devices and revocations\<close>

text \<open>
  The last enrollment of an identity in a trace, with nothing after it that enrolls the
  identity again and, for a record that is not revoked, nothing that revokes it.
\<close>

definition last_enrolled :: "golib \<Rightarrow> server \<Rightarrow> trace \<Rightarrow> string \<Rightarrow> string \<Rightarrow> bool \<Rightarrow> bool" where
  "last_enrolled lib srv tr i serial revoked \<longleftrightarrow>
     (\<exists>tr1 ev a tr2. tr = tr1 @ (ev, a) # tr2 \<and> enrolls lib srv ev a i serial \<and>
        (\<forall>(ev', a') \<in> set tr2. (\<forall>serial'. \<not> enrolls lib srv ev' a' i serial') \<and>
           (\<not> revoked \<longrightarrow> ev' \<noteq> AdminRevokeDevice i)))"

lemma last_enrolled_snoc:
  assumes "last_enrolled lib srv tr i serial r" "\<forall>serial'. \<not> enrolls lib srv ev a i serial'"
    and "\<not> r' \<longrightarrow> \<not> r \<and> ev \<noteq> AdminRevokeDevice i"
  shows "last_enrolled lib srv (tr @ [(ev, a)]) i serial r'"
proof -
  from assms(1) obtain tr1 ev1 a1 tr2 where tr: "tr = tr1 @ (ev1, a1) # tr2"
    and en: "enrolls lib srv ev1 a1 i serial"
    and rest: "\<forall>(ev', a') \<in> set tr2. (\<forall>serial'. \<not> enrolls lib srv ev' a' i serial') \<and>
           (\<not> r \<longrightarrow> ev' \<noteq> AdminRevokeDevice i)"
    by (auto simp: last_enrolled_def)
  have "\<forall>(ev', a') \<in> set (tr2 @ [(ev, a)]). (\<forall>serial'. \<not> enrolls lib srv ev' a' i serial') \<and>
           (\<not> r' \<longrightarrow> ev' \<noteq> AdminRevokeDevice i)"
    using rest assms(2,3) by auto
  with en show ?thesis unfolding last_enrolled_def
    by (intro exI [of _ tr1] exI [of _ ev1] exI [of _ a1] exI [of _ "tr2 @ [(ev, a)]"]) (simp add: tr)
qed

lemma last_enrolled_new:
  "enrolls lib srv ev a i serial \<Longrightarrow> last_enrolled lib srv (tr @ [(ev, a)]) i serial r"
  unfolding last_enrolled_def by (intro exI [of _ tr] exI [of _ ev] exI [of _ a] exI [of _ "[]"]) simp

lemma run_devices:
  assumes "run lib srv s0 tr s" "in_memory srv" "devices (es_repo s0) = Map.empty"
    and "devices (es_repo s) i = Some rec"
  shows "dev_Identity rec = i \<and> last_enrolled lib srv tr i (dev_CertSerial rec) (dev_IsRevoked rec)"
  using assms
proof (induction arbitrary: rec rule: run.induct)
  case (run_step tr s ev a s')
  from step_devices [OF run_step.prems(1) run_step.hyps(2) run_step.prems(3)]
  consider "dev_Identity rec = i" "enrolls lib srv ev a i (dev_CertSerial rec)"
    | "devices (es_repo s) i = Some rec" "ev \<noteq> AdminRevokeDevice i"
      "\<forall>serial. \<not> enrolls lib srv ev a i serial"
    | old where "devices (es_repo s) i = Some old" "rec = old\<lparr>dev_IsRevoked := True\<rparr>"
      "ev = AdminRevokeDevice i" by blast
  then show ?case
  proof cases
    case 1
    then show ?thesis by (simp add: last_enrolled_new)
  next
    case 2
    with run_step.IH [OF run_step.prems(1,2) 2(1)] show ?thesis
      by (auto intro: last_enrolled_snoc)
  next
    case 3
    moreover have "\<not> enrolls lib srv ev a i serial" for serial
      using 3 by (auto simp: enrolls_def)
    ultimately show ?thesis
      using run_step.IH [OF run_step.prems(1,2) 3(1)] by (auto intro: last_enrolled_snoc)
  qed
qed simp

text \<open>A revoked device is never unrevoked, because its identity is not enrolled again.\<close>

definition revoked_device :: "backend_state \<Rightarrow> string \<Rightarrow> bool" where
  "revoked_device s i \<longleftrightarrow> (\<exists>rec. devices (es_repo s) i = Some rec \<and> dev_IsRevoked rec)"

lemma step_revoked_device:
  assumes "in_memory srv" "step lib srv s ev a s'" "revoked_device s i"
  shows "revoked_device s' i"
proof -
  from assms(3) have "devices (es_repo s) i \<noteq> None" by (auto simp: revoked_device_def)
  with step_devices_dom [OF assms(1,2)] obtain rec where "devices (es_repo s') i = Some rec" by blast
  with step_devices [OF assms(1,2), of i rec] assms(3) show ?thesis
    by (auto simp: revoked_device_def)
qed

lemma run_revocations:
  assumes "run lib srv s0 tr s" "in_memory srv"
  shows "(AdminRevokeDevice i, StorageAnswer None) \<in> set tr \<Longrightarrow> revoked_device s i"
    and "(AdminRevokeSerial serial, StorageAnswer None) \<in> set tr \<Longrightarrow> serial \<in> revokedSerials (es_repo s)"
proof -
  have "((AdminRevokeDevice i, StorageAnswer None) \<in> set tr \<longrightarrow> revoked_device s i) \<and>
    ((AdminRevokeSerial serial, StorageAnswer None) \<in> set tr \<longrightarrow> serial \<in> revokedSerials (es_repo s))"
    using assms
  proof (induction rule: run.induct)
    case (run_step tr s ev a s')
    have now: "revoked_device s' i" if "ev = AdminRevokeDevice i" "a = StorageAnswer None"
      using run_step.hyps(2) that in_memory_simps [OF run_step.prems]
        memrepo.revoke_device_ok [of i "es_repo s" "es_repo s'"]
      by (auto simp: step_simps revoked_device_def)
    have now': "serial \<in> revokedSerials (es_repo s')" if "ev = AdminRevokeSerial serial"
      using run_step.hyps(2) that in_memory_simps [OF run_step.prems]
        mem_RevokeSerial_simps(3) [of serial "es_repo s"]
      by (auto simp: step_simps)
    show ?case
      using run_step.IH [OF run_step.prems] now now'
        step_revoked_device [OF run_step.prems run_step.hyps(2)]
        step_revokedSerials [OF run_step.prems run_step.hyps(2)]
      by auto
  qed simp
  then show "(AdminRevokeDevice i, StorageAnswer None) \<in> set tr \<Longrightarrow> revoked_device s i"
    "(AdminRevokeSerial serial, StorageAnswer None) \<in> set tr \<Longrightarrow> serial \<in> revokedSerials (es_repo s)"
    by blast+
qed

subsection \<open>Accepted requests\<close>

lemma ping_accepted:
  assumes srv: "in_memory srv"
    and ping: "serve_mtls_port lib srv env peers req s = PingAnswer (JsonResponse status body)"
  obtains c cs rec where "peers = c # cs" "handshake_accepts lib (mtls_tls srv) (handshake_now env) peers"
    "req_Method req = MethodGet" "status = StatusOK"
    "self_bound c (pr_ClientIdentity body)"
    "devices (es_repo s) (pr_ClientIdentity body) = Some rec" "\<not> dev_IsRevoked rec"
    "dev_CertSerial rec = serial_text c" "serial_text c \<notin> revokedSerials (es_repo s)"
    "pr_CertSerial body = serial_text c" "pr_DeviceLabel body = dev_Label rec"
proof -
  from ping in_memory_simps [OF srv] have hs: "handshake_accepts lib (mtls_tls srv) (handshake_now env) peers"
    and pp: "protected_ping (Some memory_device_repo) (ping_now env) (es_repo s) (es_repo s) (es_repo s)
      (req\<lparr>req_TLS := Some peers\<rparr>) = JsonResponse status body"
    by (auto simp: serve_mtls_port_def split: if_splits)
  from pp obtain identity where
    auth: "authenticate (Some memory_device_repo) (es_repo s) (es_repo s) (es_repo s)
      (req\<lparr>req_TLS := Some peers\<rparr>) = Inr identity"
    and rest: "req_Method req = MethodGet" "status = StatusOK"
      "pr_ClientIdentity body = id_Identity identity" "pr_DeviceLabel body = id_Label identity"
      "pr_CertSerial body = id_CertSerial identity"
    by (auto simp: protected_ping_ok_iff)
  from auth obtain c cs rec where "peers = c # cs" "self_bound c (id_Identity identity)"
    "devices (es_repo s) (id_Identity identity) = Some rec" "dev_CertSerial rec = serial_text c"
    "\<not> dev_IsRevoked rec" "serial_text c \<notin> revokedSerials (es_repo s)"
    and eq: "identity = \<lparr>id_Identity = id_Identity identity, id_Label = dev_Label rec,
                    id_CertSerial = serial_text c, id_Record = Some rec\<rparr>"
    unfolding memrepo.authenticate_now_eq_Inr by auto
  moreover have "id_Label identity = dev_Label rec" "id_CertSerial identity = serial_text c"
    by (subst eq, simp)+
  ultimately show thesis using that hs rest by simp
qed

text \<open>Conversely, a registered certificate is enough, once the handshake accepts it.\<close>

lemma ping_admitted:
  assumes srv: "in_memory srv" and bound: "self_bound c i"
    and dev: "devices (es_repo s) i = Some rec" "dev_CertSerial rec = serial_text c" "\<not> dev_IsRevoked rec"
    and hs: "handshake_accepts lib (mtls_tls srv) (handshake_now env) [c]"
    and serial: "serial_text c \<notin> revokedSerials (es_repo s)"
    and req: "req_Method req = MethodGet" "req_Path req = ''/api/v1/protected/ping''"
  shows "\<exists>pong. serve_mtls_port lib srv env [c] req s = PingAnswer (JsonResponse StatusOK pong) \<and>
    pr_ClientIdentity pong = i \<and> pr_CertSerial pong = serial_text c \<and> pr_DeviceLabel pong = dev_Label rec"
proof -
  let ?id = "\<lparr>id_Identity = i, id_Label = dev_Label rec, id_CertSerial = serial_text c, id_Record = Some rec\<rparr>"
  have "authenticate (Some memory_device_repo) (es_repo s) (es_repo s) (es_repo s)
      (req\<lparr>req_TLS := Some [c]\<rparr>) = Inr ?id"
    unfolding memrepo.authenticate_now_eq_Inr using bound dev serial by auto
  then have "\<exists>pong. protected_ping (Some memory_device_repo) (ping_now env) (es_repo s) (es_repo s) (es_repo s)
      (req\<lparr>req_TLS := Some [c]\<rparr>) = JsonResponse StatusOK pong \<and>
    pr_ClientIdentity pong = i \<and> pr_CertSerial pong = serial_text c \<and> pr_DeviceLabel pong = dev_Label rec"
    unfolding protected_ping_ok_iff using req by auto
  then show ?thesis using hs req in_memory_simps [OF srv] by (auto simp: serve_mtls_port_def)
qed

subsection \<open>Challenges\<close>

text \<open>The challenge an accepted enrollment was verified against, and the ones handed out.\<close>

definition spends :: "golib \<Rightarrow> Policy \<Rightarrow> string \<Rightarrow> event \<times> answer \<Rightarrow> bool" where
  "spends lib p ch ea \<longleftrightarrow>
     (\<exists>env req status body q. ea = (EnrollPortRequest env req, EnrollAnswer (JsonResponse status body)) \<and>
        enroll_decode lib p req = Inr q \<and> p_challenge q \<noteq> [] \<and> b64_encode (p_challenge q) = ch)"

definition hands_out :: "string \<Rightarrow> event \<times> answer \<Rightarrow> bool" where
  "hands_out ch ea \<longleftrightarrow>
     (\<exists>status body. snd ea = ChallengeAnswer (JsonResponse status body) \<and> cr_Challenge body = ch)"

definition count :: "('a \<Rightarrow> bool) \<Rightarrow> 'a list \<Rightarrow> nat" where
  "count P xs = length (filter P xs)"

lemma count_snoc: "count P (xs @ [x]) = count P xs + (if P x then 1 else 0)"
  by (simp add: count_def)

lemma count_pos: "0 < count P xs \<longleftrightarrow> (\<exists>x \<in> set xs. P x)"
  by (auto simp: count_def filter_empty_conv)

lemma spends_not_hands_out: "spends lib p ch ea \<Longrightarrow> \<not> hands_out ch' ea"
  by (auto simp: spends_def hands_out_def)

lemma enroll_port_challenges:
  assumes srv: "in_memory srv" and st: "serve_enroll_port lib srv env req s = (a, s')"
  shows "spends lib (policy (es_verifier s)) ch (EnrollPortRequest env req, a) \<Longrightarrow>
      challenges (es_store s) ch \<noteq> None \<and> challenges (es_store s') ch = None"
    and "challenges (es_store s') ch \<noteq> None \<Longrightarrow> \<not> hands_out ch (EnrollPortRequest env req, a) \<Longrightarrow>
      challenges (es_store s) ch \<noteq> None"
proof -
  from srv obtain c pem ttl where h: "enroll_handler srv = mem_handler c pem ttl"
    by (auto simp: in_memory_def)
  have enroll: "EnrollHandler_ServeHTTP lib (pr_enroll env) (mem_handler c pem ttl) req s = (r, s')"
    if "a = EnrollAnswer r" for r
    using st that h by (auto simp: serve_enroll_port_def split: if_splits prod.splits)
  show "spends lib (policy (es_verifier s)) ch (EnrollPortRequest env req, a) \<Longrightarrow>
      challenges (es_store s) ch \<noteq> None \<and> challenges (es_store s') ch = None"
  proof -
    assume "spends lib (policy (es_verifier s)) ch (EnrollPortRequest env req, a)"
    then obtain status body q where a: "a = EnrollAnswer (JsonResponse status body)"
      and q: "enroll_decode lib (policy (es_verifier s)) req = Inr q" "p_challenge q \<noteq> []"
        "b64_encode (p_challenge q) = ch"
      by (auto simp: spends_def)
    from enroll [OF a] show ?thesis
      by (rule mem_enroll.created) (use q in auto)
  qed
  show "challenges (es_store s') ch \<noteq> None \<Longrightarrow> \<not> hands_out ch (EnrollPortRequest env req, a) \<Longrightarrow>
      challenges (es_store s) ch \<noteq> None"
  proof -
    assume live: "challenges (es_store s') ch \<noteq> None"
      and no: "\<not> hands_out ch (EnrollPortRequest env req, a)"
    show ?thesis
    proof (cases a)
      case (ChallengeAnswer r)
      with st h have r: "ChallengeHandler_ServeHTTP memory_challenge_store (challenge_ttl srv)
          (pr_generate env) req (es_store s) = (r, es_store s')"
        by (auto simp: serve_enroll_port_def split: if_splits prod.splits)
      show ?thesis
      proof (cases r)
        case (ErrorResponse status msg)
        with r live show ?thesis by (auto dest: mem.challenge_handler_error)
      next
        case (JsonResponse status body)
        with no ChallengeAnswer have "cr_Challenge body \<noteq> ch" by (simp add: hands_out_def)
        with live mem.challenge_handler_ok(6) [OF r [unfolded JsonResponse]] show ?thesis by simp
      qed
    next
      case (EnrollAnswer r)
      show ?thesis
      proof (cases r)
        case (ErrorResponse status msg)
        with live mem_enroll.refused(3) [OF enroll [OF EnrollAnswer, unfolded ErrorResponse]]
        show ?thesis by auto
      next
        case (JsonResponse status body)
        from enroll [OF EnrollAnswer, unfolded JsonResponse] show ?thesis
          by (rule mem_enroll.created) (use live in \<open>auto split: if_splits\<close>)
      qed
    qed (use st live in \<open>auto simp: serve_enroll_port_def split: if_splits prod.splits\<close>)
  qed
qed

lemma step_challenges:
  assumes srv: "in_memory srv" and st: "step lib srv s ev a s'"
  shows "spends lib (policy (es_verifier s)) ch (ev, a) \<Longrightarrow>
      challenges (es_store s) ch \<noteq> None \<and> challenges (es_store s') ch = None"
    and "challenges (es_store s') ch \<noteq> None \<Longrightarrow> \<not> hands_out ch (ev, a) \<Longrightarrow>
      challenges (es_store s) ch \<noteq> None"
proof -
  show "spends lib (policy (es_verifier s)) ch (ev, a) \<Longrightarrow>
      challenges (es_store s) ch \<noteq> None \<and> challenges (es_store s') ch = None"
    using st enroll_port_challenges(1) [OF srv] by cases (auto simp: spends_def)
  show "challenges (es_store s') ch \<noteq> None \<Longrightarrow> \<not> hands_out ch (ev, a) \<Longrightarrow>
      challenges (es_store s) ch \<noteq> None"
    using st
  proof cases
    case (enroll_port env req)
    then show "challenges (es_store s') ch \<noteq> None \<Longrightarrow> \<not> hands_out ch (ev, a) \<Longrightarrow> ?thesis"
      using enroll_port_challenges(2) [OF srv enroll_port(2)] by simp
  qed (auto simp: cleanup_pass_def split: option.splits)
qed

lemma run_challenges:
  assumes "run lib srv s0 tr s" "in_memory srv" "challenges (es_store s0) = Map.empty"
    "policy (es_verifier s0) = p"
  shows "count (spends lib p ch) tr + (if challenges (es_store s) ch = None then 0 else 1) \<le>
    count (hands_out ch) tr"
  using assms
proof (induction rule: run.induct)
  case (run_step tr s ev a s')
  from run_verifier_frame [OF run_step.hyps(1)] run_step.prems(3)
  have p: "policy (es_verifier s) = p" by simp
  from step_challenges [OF run_step.prems(1) run_step.hyps(2), of ch] p
  have "spends lib p ch (ev, a) \<Longrightarrow>
      challenges (es_store s) ch \<noteq> None \<and> challenges (es_store s') ch = None"
    and "challenges (es_store s') ch \<noteq> None \<Longrightarrow> \<not> hands_out ch (ev, a) \<Longrightarrow>
      challenges (es_store s) ch \<noteq> None" by auto
  with run_step.IH [OF run_step.prems] spends_not_hands_out [of lib p ch "(ev, a)" ch]
  show ?case by (auto simp: count_snoc split: if_splits)
qed (simp add: count_def)

subsection \<open>What stands behind an enrollment\<close>

text \<open>
  The evidence for an identity: the request's chain attests, under the policy and the roots,
  the key whose fingerprint the identity is, with a challenge that was handed out before.
\<close>

definition attested_enrollment ::
  "golib \<Rightarrow> cert_pool \<Rightarrow> Policy \<Rightarrow> event \<Rightarrow> string \<Rightarrow> string \<Rightarrow> bool" where
  "attested_enrollment lib roots p ev i ch \<longleftrightarrow>
     (\<exists>env req q der. ev = EnrollPortRequest env req \<and> enroll_decode lib p req = Inr q \<and>
        b64_encode (p_challenge q) = ch \<and> p_challenge q \<noteq> [] \<and>
        csr_public_key (p_csr q) = EncodableKey der \<and> i = hex_encode (sha256 der) \<and>
        attested_key lib roots p (chain_now (verify_reading (pr_enroll env))) (p_chainDER q)
          (p_challenge q) (EncodableKey der))"

lemma enrolls_attested:
  assumes srv: "in_memory srv" and st: "step lib srv s ev a s'" and en: "enrolls lib srv ev a i serial"
    and strict: "strict_policy (policy (es_verifier s))"
  shows "\<exists>ch. attested_enrollment lib (rootPool (es_verifier s)) (policy (es_verifier s)) ev i ch \<and>
    spends lib (policy (es_verifier s)) ch (ev, a)"
proof -
  from en obtain env req status body where ev: "ev = EnrollPortRequest env req"
    and a: "a = EnrollAnswer (JsonResponse status body)" and i: "er_DeviceIdentity body = i"
    by (auto dest: enrolls_only_created)
  from srv obtain c pem ttl where h: "enroll_handler srv = mem_handler c pem ttl"
    by (auto simp: in_memory_def)
  with st ev a have "EnrollHandler_ServeHTTP lib (pr_enroll env) (mem_handler c pem ttl) req s =
      (JsonResponse status body, s')"
    by (auto simp: step_simps serve_enroll_port_def split: if_splits prod.splits)
  then show ?thesis
  proof (rule mem_enroll.created)
    fix q rec cert pem'
    assume q: "enroll_decode lib (policy (es_verifier s)) req = Inr q"
      and v: "VerifyAttestation lib (verify_reading (pr_enroll env)) (es_verifier s) (p_chainDER q)
        (p_challenge q) (csr_public_key (p_csr q)) = (Inr rec, es_verifier s')"
      and f: "PublicKeyFingerprint (csr_public_key (p_csr q)) = Inr (er_DeviceIdentity body)"
      and ch: "if p_challenge q = [] then AllowEmptyAttestation (policy (es_verifier s)) \<and>
          es_store s' = es_store s
        else (\<exists>ex. challenges (es_store s) (b64_encode (p_challenge q)) = Some ex \<and>
            consume_now (pr_enroll env) < ex) \<and>
          challenges (es_store s') = (challenges (es_store s))(b64_encode (p_challenge q) := None)"
    have ne: "p_challenge q \<noteq> []" using ch strict by (auto simp: strict_policy_def)
    from f obtain der where der: "csr_public_key (p_csr q) = EncodableKey der"
      "er_DeviceIdentity body = hex_encode (sha256 der)"
      by (auto simp: PublicKeyFingerprint_eq_Inr)
    from VerifyAttestation_strict(1) [OF strict v] der q ne i ev
    have "attested_enrollment lib (rootPool (es_verifier s)) (policy (es_verifier s)) ev i
        (b64_encode (p_challenge q))"
      unfolding attested_enrollment_def by auto
    moreover have "spends lib (policy (es_verifier s)) (b64_encode (p_challenge q)) (ev, a)"
      using q ne ev a by (auto simp: spends_def)
    ultimately show ?thesis by blast
  qed
qed

lemma run_prefix:
  assumes "run lib srv s0 (tr1 @ tr2) s"
  shows "\<exists>s1. run lib srv s0 tr1 s1"
  using assms
proof (induction tr2 arbitrary: s rule: rev_induct)
  case (snoc x tr2)
  obtain ev a where "x = (ev, a)" by (cases x)
  with snoc.prems have "run lib srv s0 ((tr1 @ tr2) @ [(ev, a)]) s" by simp
  then show ?case by (rule run_snocE) (auto intro: snoc.IH)
qed auto

lemma run_event:
  assumes "run lib srv s0 (tr1 @ (ev, a) # tr2) s"
  obtains s1 s2 where "run lib srv s0 tr1 s1" "step lib srv s1 ev a s2"
proof -
  have "run lib srv s0 ((tr1 @ [(ev, a)]) @ tr2) s" using assms by simp
  from run_prefix [OF this] obtain s2 where "run lib srv s0 (tr1 @ [(ev, a)]) s2" by blast
  then show thesis by (rule run_snocE) (auto intro: that)
qed

end
