(* ===== verification/Asn1Encoder.thy ===== *)
theory Asn1Encoder
  imports Asn1
begin

text \<open>
  An encoder for the DER values of the attestation extension, as the specification of what
  the parser of \<open>Asn1\<close> accepts: decoding an encoded value gives the value back and leaves
  exactly the bytes that follow it. The bounds are the parser's own: tags and lengths below
  \<open>2^31\<close>, integers of 64 (\<open>int\<close>) or 32 bits (\<open>Enumerated\<close>).
\<close>

definition asn1_limit :: nat where "asn1_limit = 2147483648"

lemma asn1_limit_small [simp]:
  "Suc 0 < asn1_limit" "2 < asn1_limit" "4 < asn1_limit" "10 < asn1_limit" "16 < asn1_limit"
  "17 < asn1_limit"
  by (simp_all add: asn1_limit_def)

definition byte_of_nat :: "nat \<Rightarrow> byte" where "byte_of_nat n = word_of_nat n"

lemma unat_byte_of_nat [simp]: "n < 256 \<Longrightarrow> unat (byte_of_nat n) = n"
  by (simp add: byte_of_nat_def unat_of_nat)

subsection \<open>Digits\<close>

text \<open>The digits of a number in a base, the most significant first.\<close>

function digits :: "nat \<Rightarrow> nat \<Rightarrow> nat list" where
  "digits base n = (if n < base \<or> base < 2 then [n] else digits base (n div base) @ [n mod base])"
  by pat_completeness auto
termination
  by (relation "measure snd") (auto intro: div_less_dividend)

declare digits.simps [simp del]

definition from_digits :: "nat \<Rightarrow> nat \<Rightarrow> nat list \<Rightarrow> nat" where
  "from_digits base acc ds = foldl (\<lambda>a d. a * base + d) acc ds"

lemma from_digits_simps [simp]:
  "from_digits base acc [] = acc"
  "from_digits base acc (d # ds) = from_digits base (acc * base + d) ds"
  "from_digits base acc (ds @ es) = from_digits base (from_digits base acc ds) es"
  by (simp_all add: from_digits_def)

lemma from_digits_ge: "0 < base \<Longrightarrow> acc \<le> from_digits base acc ds"
proof (induction ds arbitrary: acc)
  case (Cons d ds)
  have "acc \<le> acc * base + d" using Cons.prems by (simp add: trans_le_add1)
  also have "\<dots> \<le> from_digits base (acc * base + d) ds" by (rule Cons.IH [OF Cons.prems])
  finally show ?case by simp
qed simp

lemma digits_not_Nil [simp]: "digits base n \<noteq> []"
  by (subst digits.simps) simp

lemma from_digits_digits: "from_digits base 0 (digits base n) = n"
proof (induction base n rule: digits.induct)
  case (1 base n)
  show ?case
  proof (cases "n < base \<or> base < 2")
    case True
    then show ?thesis by (simp add: digits.simps [of base n])
  next
    case False
    with 1 show ?thesis by (subst digits.simps) simp
  qed
qed

lemma digits_less: "2 \<le> base \<Longrightarrow> d \<in> set (digits base n) \<Longrightarrow> d < base"
proof (induction base n rule: digits.induct)
  case (1 base n)
  show ?case
  proof (cases "n < base")
    case True
    with 1 show ?thesis by (simp add: digits.simps [of base n])
  next
    case False
    with 1 show ?thesis by (subst (asm) (2) digits.simps) (auto simp: digits.simps [of base n])
  qed
qed

lemma hd_digits: "2 \<le> base \<Longrightarrow> 0 < n \<Longrightarrow> 0 < hd (digits base n)"
proof (induction base n rule: digits.induct)
  case (1 base n)
  show ?case
  proof (cases "n < base")
    case True
    with 1 show ?thesis by (simp add: digits.simps [of base n])
  next
    case False
    with 1 have "0 < n div base" by (simp add: div_greater_zero_iff)
    with 1 False show ?thesis by (subst digits.simps) (simp add: hd_append)
  qed
qed

lemma digits_length: "2 \<le> base \<Longrightarrow> n < base ^ Suc k \<Longrightarrow> length (digits base n) \<le> Suc k"
proof (induction k arbitrary: n)
  case 0
  then show ?case by (simp add: digits.simps [of base n])
next
  case (Suc k)
  show ?case
  proof (cases "n < base")
    case True
    then show ?thesis by (simp add: digits.simps [of base n])
  next
    case False
    have "n div base < base ^ Suc k"
      using Suc.prems by (simp add: less_mult_imp_div_less mult.commute)
    with Suc False show ?thesis by (subst digits.simps) simp
  qed
qed

subsection \<open>Headers\<close>

definition encode_base128 :: "nat \<Rightarrow> bytes" where
  "encode_base128 n =
     (let ds = digits 128 n
      in map (\<lambda>d. byte_of_nat (128 + d)) (butlast ds) @ [byte_of_nat (last ds)])"

definition encode_length :: "nat \<Rightarrow> bytes" where
  "encode_length n =
     (if n < 128 then [byte_of_nat n]
      else let ds = digits 256 n in byte_of_nat (128 + length ds) # map byte_of_nat ds)"

definition encode_header :: "nat \<Rightarrow> bool \<Rightarrow> nat \<Rightarrow> nat \<Rightarrow> bytes" where
  "encode_header cls compound tag n =
     byte_of_nat (64 * cls + (if compound then 32 else 0) + (if tag < 31 then tag else 31)) #
     (if tag < 31 then [] else encode_base128 tag) @ encode_length n"

lemma parse_base128_digits:
  assumes "\<forall>d \<in> set ds. d < 128" "d < 128" "s + length ds < 5"
    and "s = 0 \<longrightarrow> ds \<noteq> [] \<longrightarrow> hd ds \<noteq> 0"
    and "from_digits 128 acc (ds @ [d]) < asn1_limit"
  shows "parse_base128 s acc (map (\<lambda>d. byte_of_nat (128 + d)) ds @ byte_of_nat d # rest) =
     Inr (from_digits 128 acc (ds @ [d]), rest)"
  using assms
proof (induction ds arbitrary: s acc)
  case Nil
  then show ?case by (auto simp: Let_def asn1_limit_def)
next
  case (Cons e ds)
  have e: "e < 128" "unat (byte_of_nat (128 + e)) = 128 + e" using Cons.prems by simp_all
  have "parse_base128 (Suc s) (acc * 128 + e)
      (map (\<lambda>d. byte_of_nat (128 + d)) ds @ byte_of_nat d # rest) =
    Inr (from_digits 128 (acc * 128 + e) (ds @ [d]), rest)"
    by (rule Cons.IH) (use Cons.prems in auto)
  with e Cons.prems show ?case by (auto simp: Let_def mod_add_eq)
qed

lemma parse_base128_encode:
  assumes "0 < n" "n < asn1_limit"
  shows "parse_base128 0 0 (encode_base128 n @ rest) = Inr (n, rest)"
proof -
  let ?ds = "digits 128 n"
  have split: "butlast ?ds @ [last ?ds] = ?ds" by simp
  have "length ?ds \<le> Suc 4" by (rule digits_length) (use assms in \<open>simp_all add: asn1_limit_def\<close>)
  then have len: "0 + length (butlast ?ds) < 5" by simp
  have hd: "hd (butlast ?ds) \<noteq> 0" if "butlast ?ds \<noteq> []"
    using that hd_digits [of 128 n] assms(1) split by (metis hd_append2 less_irrefl one_less_numeral_iff
        semiring_norm(76) numeral_le_iff Suc_1 Suc_leI)
  have less: "d < 128" if "d \<in> set ?ds" for d using digits_less [OF _ that] by simp
  have "parse_base128 0 0 (map (\<lambda>d. byte_of_nat (128 + d)) (butlast ?ds) @
      byte_of_nat (last ?ds) # rest) = Inr (from_digits 128 0 (butlast ?ds @ [last ?ds]), rest)"
    by (rule parse_base128_digits)
      (use assms len hd less less [OF last_in_set [OF digits_not_Nil]] in
        \<open>auto dest: in_set_butlastD simp only: split from_digits_digits\<close>)
  then show ?thesis by (simp only: encode_base128_def Let_def split from_digits_digits) simp
qed

lemma parse_length_bytes_digits:
  assumes "\<forall>d \<in> set ds. d < 256" "acc = 0 \<longrightarrow> ds \<noteq> [] \<longrightarrow> hd ds \<noteq> 0"
    and "from_digits 256 acc ds < asn1_limit"
  shows "parse_length_bytes (length ds) acc (map byte_of_nat ds @ rest) =
     Inr (from_digits 256 acc ds, rest)"
  using assms
proof (induction ds arbitrary: acc)
  case (Cons d ds)
  have d: "d < 256" "unat (byte_of_nat d) = d" using Cons.prems by simp_all
  have "acc * 256 + d \<le> from_digits 256 (acc * 256 + d) ds" by (rule from_digits_ge) simp
  with Cons.prems have small: "acc < 8388608" by (auto simp: asn1_limit_def)
  have pos: "acc * 256 + d \<noteq> 0" using Cons.prems by auto
  have "parse_length_bytes (length ds) (acc * 256 + d) (map byte_of_nat ds @ rest) =
      Inr (from_digits 256 (acc * 256 + d) ds, rest)"
    by (rule Cons.IH) (use Cons.prems pos in auto)
  with d small pos show ?case by (auto simp: Let_def)
qed simp

lemma parse_length_encode:
  assumes "n < asn1_limit"
  shows "parse_length (encode_length n @ rest) = Inr (n, rest)"
proof (cases "n < 128")
  case True
  then show ?thesis by (simp add: parse_length_def encode_length_def)
next
  case False
  let ?ds = "digits 256 n"
  have "length ?ds \<le> Suc 3" by (rule digits_length) (use assms in \<open>simp_all add: asn1_limit_def\<close>)
  moreover have "1 \<le> length ?ds" by (simp add: Suc_leI)
  ultimately have len: "unat (byte_of_nat (128 + length ?ds)) = 128 + length ?ds" by simp
  have less: "d < 256" if "d \<in> set ?ds" for d using digits_less [OF _ that] by simp
  have hd: "hd ?ds \<noteq> 0" using hd_digits [of 256 n] False by simp
  have "parse_length_bytes (length ?ds) 0 (map byte_of_nat ?ds @ rest) =
      Inr (from_digits 256 0 ?ds, rest)"
    by (rule parse_length_bytes_digits) (use less hd assms in \<open>auto simp: from_digits_digits\<close>)
  then have "parse_length_bytes (length ?ds) 0 (map byte_of_nat ?ds @ rest) = Inr (n, rest)"
    by (simp add: from_digits_digits)
  with False len \<open>1 \<le> length ?ds\<close> show ?thesis
    by (simp add: parse_length_def encode_length_def Let_def)
qed

lemma first_byte_less: "cls < 4 \<Longrightarrow> t < 32 \<Longrightarrow> 64 * cls + (if c then 32 else 0) + t < (256::nat)"
  by auto

lemma first_byte_fields:
  assumes "cls < 4" "t < (32::nat)" and n: "n = 64 * cls + (if c then 32 else 0) + t"
  shows "n mod 32 = t" "n div 64 = cls" "odd (n div 32) = c"
proof -
  obtain k where k: "k = 2 * cls + (if c then 1 else 0)" by blast
  have n32: "n = 32 * k + t" by (simp add: n k)
  then show "n mod 32 = t" using assms(2) by simp
  have d32: "n div 32 = k" using assms(2) n32 by simp
  then show "odd (n div 32) = c" by (simp add: k)
  have "n div 64 = n div 32 div 2" by (simp add: div_mult2_eq [symmetric])
  with d32 show "n div 64 = cls" by (simp add: k)
qed

lemma parse_header_encode:
  assumes "cls < 4" "tag < asn1_limit" "n < asn1_limit"
  shows "parse_tag_and_length (encode_header cls compound tag n @ rest) =
     Inr (\<lparr>tl_class = cls, tl_compound = compound, tl_tag = tag, tl_length = n\<rparr>, rest)"
proof -
  let ?t = "if tag < 31 then tag else 31"
  let ?n = "64 * cls + (if compound then 32 else 0) + ?t"
  have t: "?t < 32" by simp
  have b: "unat (byte_of_nat ?n) = ?n"
    by (rule unat_byte_of_nat) (rule first_byte_less [OF assms(1) t])
  note fields = first_byte_fields [OF assms(1) t refl, of compound]
  have number: "(if unat (byte_of_nat ?n) mod 32 = 31
      then and_then (parse_base128 0 0 ((if tag < 31 then [] else encode_base128 tag) @
             encode_length n @ rest))
             (\<lambda>(t, rest'). if t < 31 then Inl Asn1NonMinimalTag else Inr (t, rest'))
      else Inr (unat (byte_of_nat ?n) mod 32, (if tag < 31 then [] else encode_base128 tag) @
             encode_length n @ rest)) = Inr (tag, encode_length n @ rest)"
    unfolding b fields(1) using assms(2) by (simp add: parse_base128_encode)
  show ?thesis
    unfolding parse_tag_and_length_def encode_header_def
    by (simp only: append.simps append_assoc list.case number [unfolded b fields(1)] and_then_simps
        prod.case parse_length_encode [OF assms(3)] b fields)
qed

lemma encode_header_not_Nil [simp]: "encode_header cls compound tag n \<noteq> []"
  by (simp add: encode_header_def)

subsection \<open>Fields\<close>

definition encode_tlv :: "nat \<Rightarrow> bool \<Rightarrow> nat \<Rightarrow> bytes \<Rightarrow> bytes" where
  "encode_tlv cls compound tag content = encode_header cls compound tag (length content) @ content"

lemma encode_tlv_not_Nil [simp]: "encode_tlv cls compound tag content \<noteq> []"
  by (simp add: encode_tlv_def)

lemma parse_field_encode:
  assumes "cls < 4" "tag < asn1_limit" "length content < asn1_limit"
    and "matches \<lparr>tl_class = cls, tl_compound = compound, tl_tag = tag, tl_length = length content\<rparr>"
  shows "parse_field dflt matches conv (encode_tlv cls compound tag content @ rest) =
     and_then (conv \<lparr>tl_class = cls, tl_compound = compound, tl_tag = tag, tl_length = length content\<rparr>
         content (encode_tlv cls compound tag content)) (\<lambda>v. Inr (v, rest))"
  using assms(4)
  by (simp add: parse_field_def encode_tlv_def parse_header_encode [OF assms(1-3)] Let_def)

subsection \<open>Integers\<close>

text \<open>The shortest two's complement representation.\<close>

function int_bytes :: "int \<Rightarrow> bytes" where
  "int_bytes k =
     (if - 128 \<le> k \<and> k < 128 then [word_of_int k]
      else int_bytes (k div 256) @ [word_of_int (k mod 256)])"
  by pat_completeness auto
termination
proof (relation "measure (\<lambda>k. nat \<bar>k\<bar>)")
  fix k :: int
  assume "\<not> (- 128 \<le> k \<and> k < 128)"
  then have "\<bar>k div 256\<bar> < \<bar>k\<bar>" by linarith
  then show "(k div 256, k) \<in> measure (\<lambda>k. nat \<bar>k\<bar>)" by simp
qed simp

declare int_bytes.simps [simp del]

lemma int_bytes_not_Nil [simp]: "int_bytes k \<noteq> []"
  by (subst int_bytes.simps) simp

lemma twos_complement_snoc:
  "bs \<noteq> [] \<Longrightarrow> twos_complement (bs @ [b]) = twos_complement bs * 256 + uint b"
  by (simp add: twos_complement_def big_endian_snoc hd_append algebra_simps)

lemma uint_byte_of_int: "uint (word_of_int k :: byte) = k mod 256"
  by (simp add: unsigned_of_int take_bit_eq_mod)

lemma unat_byte_of_int: "int (unat (word_of_int k :: byte)) = k mod 256"
  by (simp add: uint_byte_of_int flip: uint_nat)

lemma twos_complement_int_bytes: "twos_complement (int_bytes k) = k"
proof (induction k rule: int_bytes.induct)
  case (1 k)
  show ?case
  proof (cases "- 128 \<le> k \<and> k < 128")
    case True
    have "(128 \<le> unat (word_of_int k :: byte)) = (128 \<le> k mod 256)"
      using unat_byte_of_int [of k] by linarith
    moreover have "k mod 256 = (if k < 0 then k + 256 else k)"
      using True by presburger
    ultimately show ?thesis
      using True by (simp add: int_bytes.simps [of k] twos_complement_def big_endian_def
          uint_byte_of_int)
  next
    case False
    then have "int_bytes k = int_bytes (k div 256) @ [word_of_int (k mod 256)]"
      by (auto simp: int_bytes.simps [of k])
    with 1 False show ?thesis by (simp add: twos_complement_snoc uint_byte_of_int)
  qed
qed

lemma small_mod_256:
  fixes j :: int
  assumes "- 128 \<le> j" "j < 128"
  shows "j mod 256 = 0 \<Longrightarrow> j = 0" "j mod 256 = 255 \<Longrightarrow> j = - 1"
  using assms by presburger+

lemma check_integer_append:
  "check_integer (a # b # bs) = Inr () \<Longrightarrow> check_integer (a # b # bs @ [c]) = Inr ()"
  by (simp add: check_integer_def)

lemma check_int_bytes: "check_integer (int_bytes k) = Inr ()"
proof (induction k rule: int_bytes.induct)
  case (1 k)
  show ?case
  proof (cases "- 128 \<le> k \<and> k < 128")
    case True
    then show ?thesis by (simp add: int_bytes.simps [of k] check_integer_def)
  next
    case False
    let ?b = "word_of_int (k mod 256) :: byte"
    have eq: "int_bytes k = int_bytes (k div 256) @ [?b]"
      using False by (auto simp: int_bytes.simps [of k])
    show ?thesis
    proof (cases "- 128 \<le> k div 256 \<and> k div 256 < 128")
      case inner: True
      let ?a = "word_of_int (k div 256) :: byte"
      have a: "int (unat ?a) = (k div 256) mod 256" by (rule unat_byte_of_int)
      have b: "int (unat ?b) = k mod 256" using unat_byte_of_int [of "k mod 256"] by simp
      have k: "k = k div 256 * 256 + k mod 256" "0 \<le> k mod 256" "k mod 256 < 256" by simp_all
      have "\<not> (unat ?a = 0 \<and> unat ?b < 128)"
      proof
        assume z: "unat ?a = 0 \<and> unat ?b < 128"
        with a have "(k div 256) mod 256 = 0" by simp
        with inner have "k div 256 = 0" by (simp add: small_mod_256)
        moreover have "k mod 256 < 128" using z b by linarith
        ultimately show False using False k by linarith
      qed
      moreover have "\<not> (unat ?a = 255 \<and> 128 \<le> unat ?b)"
      proof
        assume z: "unat ?a = 255 \<and> 128 \<le> unat ?b"
        with a have "(k div 256) mod 256 = 255" by simp
        with inner have "k div 256 = - 1" by (simp add: small_mod_256)
        moreover have "128 \<le> k mod 256" using z b by linarith
        ultimately show False using False k by linarith
      qed
      ultimately show ?thesis
        using inner by (simp add: eq int_bytes.simps [of "k div 256"] check_integer_def)
    next
      case outer: False
      then obtain a b bs where "int_bytes (k div 256) = a # b # bs"
        by (metis append_Cons append_Nil int_bytes.simps int_bytes_not_Nil list.exhaust)
      with 1 False eq show ?thesis by (simp add: check_integer_append)
    qed
  qed
qed

lemma int_bytes_length:
  "- (128 * 256 ^ n) \<le> k \<Longrightarrow> k < 128 * 256 ^ n \<Longrightarrow> length (int_bytes k) \<le> Suc n"
proof (induction n arbitrary: k)
  case 0
  then show ?case by (simp add: int_bytes.simps [of k])
next
  case (Suc n)
  obtain m :: int where m: "m = 128 * 256 ^ n" by blast
  with Suc.prems have "- (m * 256) \<le> k" "k < m * 256" by simp_all
  then have "- m \<le> k div 256" "k div 256 < m" by linarith+
  with m have "length (int_bytes (k div 256)) \<le> Suc n" by (intro Suc.IH) simp_all
  then show ?case by (simp add: int_bytes.simps [of k])
qed

definition int64 :: "int \<Rightarrow> bool" where "int64 k \<longleftrightarrow> - (2 ^ 63) \<le> k \<and> k < 2 ^ 63"
definition int32 :: "int \<Rightarrow> bool" where "int32 k \<longleftrightarrow> - (2 ^ 31) \<le> k \<and> k < 2 ^ 31"

lemma int32_int64: "int32 k \<Longrightarrow> int64 k"
  by (simp add: int32_def int64_def)

lemma parse_int64_bytes:
  assumes "int64 k"
  shows "parse_int64 (int_bytes k) = Inr k"
proof -
  have "length (int_bytes k) \<le> Suc 7" by (rule int_bytes_length) (use assms in \<open>simp_all add: int64_def\<close>)
  then show ?thesis by (simp add: parse_int64_def check_int_bytes twos_complement_int_bytes)
qed

lemma parse_int32_bytes:
  assumes "int32 k"
  shows "parse_int32 (int_bytes k) = Inr k"
  using assms parse_int64_bytes [OF int32_int64 [OF assms]]
  by (simp add: parse_int32_def check_int_bytes int32_def)

text \<open>Fields of each type, followed by more input.\<close>

definition encode_int :: "int \<Rightarrow> bytes" where "encode_int k = encode_tlv 0 False 2 (int_bytes k)"
definition encode_enumerated :: "int \<Rightarrow> bytes" where
  "encode_enumerated k = encode_tlv 0 False 10 (int_bytes k)"
definition encode_boolean :: "bool \<Rightarrow> bytes" where
  "encode_boolean b = encode_tlv 0 False 1 [if b then 255 else 0]"
definition encode_octets :: "bytes \<Rightarrow> bytes" where "encode_octets bs = encode_tlv 0 False 4 bs"
definition encode_sequence :: "bytes \<Rightarrow> bytes" where "encode_sequence bs = encode_tlv 0 True 16 bs"
definition encode_set :: "bytes \<Rightarrow> bytes" where "encode_set bs = encode_tlv 0 True 17 bs"

definition make_raw :: "nat \<Rightarrow> bool \<Rightarrow> nat \<Rightarrow> bytes \<Rightarrow> raw_value" where
  "make_raw cls compound tag content =
     \<lparr>rv_class = cls, rv_tag = tag, rv_compound = compound, rv_bytes = content,
      rv_full = encode_tlv cls compound tag content\<rparr>"

lemma int_bytes_short: "int64 k \<Longrightarrow> length (int_bytes k) < asn1_limit"
  using int_bytes_length [of 7 k] by (simp add: int64_def asn1_limit_def)

lemma parse_int_field_encode: "int64 k \<Longrightarrow> parse_int_field (encode_int k @ rest) = Inr (k, rest)"
  unfolding parse_int_field_def encode_int_def
  by (subst parse_field_encode)
    (simp_all add: int_bytes_short universal_def parse_int64_bytes)

lemma parse_enumerated_field_encode:
  "int32 k \<Longrightarrow> parse_enumerated_field (encode_enumerated k @ rest) = Inr (k, rest)"
  unfolding parse_enumerated_field_def encode_enumerated_def
  by (subst parse_field_encode)
    (simp_all add: int_bytes_short int32_int64 universal_def parse_int32_bytes)

lemma parse_boolean_field_encode: "parse_boolean_field (encode_boolean b @ rest) = Inr (b, rest)"
  unfolding parse_boolean_field_def encode_boolean_def
  by (subst parse_field_encode) (simp_all add: universal_def parse_boolean_def)

lemma parse_octets_field_encode:
  "length bs < asn1_limit \<Longrightarrow> parse_octets_field dflt (encode_octets bs @ rest) = Inr (bs, rest)"
  unfolding parse_octets_field_def encode_octets_def
  by (subst parse_field_encode) (simp_all add: universal_def)

lemma parse_raw_field_encode:
  "cls < 4 \<Longrightarrow> tag < asn1_limit \<Longrightarrow> length content < asn1_limit \<Longrightarrow>
     parse_raw_field (encode_tlv cls compound tag content @ rest) =
       Inr (make_raw cls compound tag content, rest)"
  unfolding parse_raw_field_def
  by (subst parse_field_encode) (simp_all add: make_raw_def)

lemma parse_struct_encode:
  "length bs < asn1_limit \<Longrightarrow>
     parse_struct p (encode_sequence bs @ rest) = and_then (p bs) (\<lambda>v. Inr (v, rest))"
  unfolding parse_struct_def encode_sequence_def
  by (subst parse_field_encode) (simp_all add: universal_def)

subsection \<open>Sequences of elements\<close>

lemma count_elements_encode:
  assumes "\<forall>(cls, c, tag, content) \<in> set items. cls < 4 \<and> tag < asn1_limit \<and>
      length content < asn1_limit \<and>
      matches \<lparr>tl_class = cls, tl_compound = c, tl_tag = tag, tl_length = length content\<rparr>"
  shows "count_elements matches (concat (map (\<lambda>(cls, c, tag, content). encode_tlv cls c tag content) items)) =
    Inr (length items)"
  using assms
proof (induction items)
  case (Cons item items)
  obtain cls c tag content where item: "item = (cls, c, tag, content)" by (cases item)
  obtain more where more: "more = concat (map (\<lambda>(cls, c, tag, content). encode_tlv cls c tag content) items)"
    by blast
  have count: "count_elements matches more = Inr (length items)" using Cons more by auto
  have header: "parse_tag_and_length (encode_header cls c tag (length content) @ content @ more) =
      Inr (\<lparr>tl_class = cls, tl_compound = c, tl_tag = tag, tl_length = length content\<rparr>, content @ more)"
    by (rule parse_header_encode) (use Cons.prems item in auto)
  have "matches \<lparr>tl_class = cls, tl_compound = c, tl_tag = tag, tl_length = length content\<rparr>"
    using Cons.prems item by simp
  then have "count_elements matches (encode_tlv cls c tag content @ more) = Inr (Suc (length items))"
    by (subst count_elements.simps) (simp add: encode_tlv_def header count del: and_then_eq_Inr)
  then show ?case by (simp add: item more)
qed (simp add: count_elements.simps)

lemma parse_elements_encode:
  assumes "\<forall>x \<in> set xs. \<forall>rest. p (enc x @ rest) = Inr (f x, rest)"
  shows "parse_elements (length xs) p (concat (map enc xs)) = Inr (map f xs)"
  using assms by (induction xs) auto

text \<open>A SEQUENCE of arbitrary values.\<close>

type_synonym raw_item = "nat \<times> bool \<times> nat \<times> bytes"

definition raw_item_ok :: "raw_item \<Rightarrow> bool" where
  "raw_item_ok x = (case x of (cls, c, tag, content) \<Rightarrow>
     cls < 4 \<and> tag < asn1_limit \<and> length content < asn1_limit)"

definition encode_item :: "raw_item \<Rightarrow> bytes" where
  "encode_item x = (case x of (cls, c, tag, content) \<Rightarrow> encode_tlv cls c tag content)"

definition item_raw :: "raw_item \<Rightarrow> raw_value" where
  "item_raw x = (case x of (cls, c, tag, content) \<Rightarrow> make_raw cls c tag content)"

lemma parse_raw_sequence_encode:
  assumes "\<forall>x \<in> set items. raw_item_ok x" "length (concat (map encode_item items)) < asn1_limit"
  shows "parse_slice_field False (\<lambda>_. True) parse_raw_field
      (encode_sequence (concat (map encode_item items)) @ rest) = Inr (map item_raw items, rest)"
proof -
  have enc: "encode_item = (\<lambda>(cls, c, tag, content). encode_tlv cls c tag content)"
    by (auto simp: fun_eq_iff encode_item_def)
  have "count_elements (\<lambda>_. True) (concat (map encode_item items)) = Inr (length items)"
    unfolding enc by (rule count_elements_encode) (use assms in \<open>auto simp: raw_item_ok_def\<close>)
  moreover have "parse_elements (length items) parse_raw_field (concat (map encode_item items)) =
      Inr (map item_raw items)"
    by (rule parse_elements_encode)
      (use assms in \<open>auto simp: raw_item_ok_def encode_item_def item_raw_def parse_raw_field_encode\<close>)
  ultimately show ?thesis
    unfolding parse_slice_field_def encode_sequence_def
    by (subst parse_field_encode)
      (use assms(2) in \<open>simp_all add: universal_def parse_sequence_of_def\<close>)
qed

end
