(* ===== verification/AttestationEncoder.thy ===== *)
theory AttestationEncoder
  imports Asn1Encoder VerifierFacts
begin

text \<open>
  What a device puts into the attestation extension, as an abstract record, its DER encoding,
  and the facts that the decoders of \<open>types.go\<close> and \<open>verifier.go\<close> give the record back. The
  last lemma is the verdict of the verifier on an encoded attestation in terms of the record
  alone.
\<close>

subsection \<open>The key description\<close>

record description =
  ad_version :: int
  ad_level :: int
  ad_km_version :: int
  ad_km_level :: int
  ad_challenge :: bytes
  ad_unique :: bytes
  ad_software :: "raw_item list"
  ad_tee :: "raw_item list"

definition list_content :: "raw_item list \<Rightarrow> bytes" where
  "list_content items = concat (map encode_item items)"

definition description_content :: "description \<Rightarrow> bytes" where
  "description_content d =
     encode_int (ad_version d) @ encode_enumerated (ad_level d) @
     encode_int (ad_km_version d) @ encode_enumerated (ad_km_level d) @
     encode_octets (ad_challenge d) @ encode_octets (ad_unique d) @
     encode_sequence (list_content (ad_software d)) @ encode_sequence (list_content (ad_tee d))"

definition encode_description :: "description \<Rightarrow> bytes" where
  "encode_description d = encode_sequence (description_content d)"

definition description_ok :: "description \<Rightarrow> bool" where
  "description_ok d \<longleftrightarrow>
     int64 (ad_version d) \<and> int32 (ad_level d) \<and> int64 (ad_km_version d) \<and> int32 (ad_km_level d) \<and>
     (\<forall>x \<in> set (ad_software d). raw_item_ok x) \<and> (\<forall>x \<in> set (ad_tee d). raw_item_ok x) \<and>
     length (description_content d) < asn1_limit"

definition list_raw :: "raw_item list \<Rightarrow> raw_value" where
  "list_raw items = make_raw 0 True 16 (list_content items)"

definition decoded :: "description \<Rightarrow> KeyDescription" where
  "decoded d =
     \<lparr>kd_AttestationVersion = ad_version d, kd_AttestationSecurityLevel = ad_level d,
      kd_KeymasterVersion = ad_km_version d, kd_KeymasterSecurityLevel = ad_km_level d,
      kd_AttestationChallenge = ad_challenge d, kd_UniqueID = ad_unique d,
      kd_SoftwareEnforced = list_raw (ad_software d), kd_TeeEnforced = list_raw (ad_tee d)\<rparr>"

lemma length_encode_tlv: "length content \<le> length (encode_tlv cls c tag content)"
  by (simp add: encode_tlv_def)

lemma description_lengths:
  assumes "description_ok d"
  shows "length (ad_challenge d) < asn1_limit" "length (ad_unique d) < asn1_limit"
    "length (list_content (ad_software d)) < asn1_limit" "length (list_content (ad_tee d)) < asn1_limit"
proof -
  have "length (description_content d) < asn1_limit" using assms by (simp add: description_ok_def)
  then show "length (ad_challenge d) < asn1_limit" "length (ad_unique d) < asn1_limit"
    "length (list_content (ad_software d)) < asn1_limit" "length (list_content (ad_tee d)) < asn1_limit"
    by (simp_all add: description_content_def encode_octets_def encode_sequence_def encode_tlv_def)
qed

lemma parse_description:
  assumes "description_ok d"
  shows "parse_KeyDescription (encode_description d) = Inr (decoded d)"
proof -
  note ok = assms [unfolded description_ok_def] and len = description_lengths [OF assms]
  have tee: "parse_raw_field (encode_sequence (list_content (ad_tee d))) =
      Inr (list_raw (ad_tee d), [])"
    using parse_raw_field_encode [of 0 16 "list_content (ad_tee d)" True "[]"] len
    by (simp add: encode_sequence_def list_raw_def)
  have software: "parse_raw_field (encode_sequence (list_content (ad_software d)) @ rest) =
      Inr (list_raw (ad_software d), rest)" for rest
    unfolding encode_sequence_def list_raw_def
    by (rule parse_raw_field_encode) (use len in simp_all)
  have "KeyDescription_fields (description_content d) = Inr (decoded d)"
    using ok len tee software
    by (simp add: KeyDescription_fields_def description_content_def parse_int_field_encode
        parse_enumerated_field_encode parse_octets_field_encode decoded_def)
  then show ?thesis
    using parse_struct_encode [of "description_content d" KeyDescription_fields "[]"] ok
    by (simp add: parse_KeyDescription_def unmarshal_def encode_description_def)
qed

subsection \<open>Authorization lists\<close>

text \<open>An EXPLICIT context-specific tag, as Android uses them.\<close>

definition tagged :: "nat \<Rightarrow> bytes \<Rightarrow> raw_item" where
  "tagged tag content = (2, True, tag, content)"

lemma rv_list_raw [simp]: "rv_full (list_raw items) = encode_sequence (list_content items)"
  by (simp add: list_raw_def make_raw_def encode_sequence_def)

lemma rv_item_raw:
  "rv_tag (item_raw (cls, c, tag, content)) = tag" "rv_bytes (item_raw (cls, c, tag, content)) = content"
  by (simp_all add: item_raw_def make_raw_def)

lemma findTagged_list:
  assumes "\<forall>x \<in> set items. raw_item_ok x" "length (list_content items) < asn1_limit"
  shows "findTagged (rv_full (list_raw items)) tag =
     Inr (List.find (\<lambda>r. rv_tag r = tag) (map item_raw items))"
proof -
  have "parse_raw_items (encode_sequence (list_content items)) = Inr (map item_raw items)"
    using parse_raw_sequence_encode [of items "[]"] assms
    by (simp add: parse_raw_items_def unmarshal_def list_content_def)
  then show ?thesis by (simp add: findTagged_def encode_sequence_def)
qed

definition encode_root :: "RootOfTrust \<Rightarrow> bytes" where
  "encode_root r = encode_sequence
     (encode_octets (rot_VerifiedBootKey r) @ encode_boolean (rot_DeviceLocked r) @
      encode_enumerated (rot_VerifiedBootState r) @ encode_octets (rot_VerifiedBootHash r))"

lemma parse_root_encode:
  assumes "int32 (rot_VerifiedBootState r)" "length (encode_root r) < asn1_limit"
  shows "parse_RootOfTrust (encode_root r) = Inr r"
proof -
  let ?c = "encode_octets (rot_VerifiedBootKey r) @ encode_boolean (rot_DeviceLocked r) @
      encode_enumerated (rot_VerifiedBootState r) @ encode_octets (rot_VerifiedBootHash r)"
  have len: "length ?c < asn1_limit" "length (rot_VerifiedBootKey r) < asn1_limit"
    "length (rot_VerifiedBootHash r) < asn1_limit"
    using assms(2) by (simp_all add: encode_root_def encode_sequence_def encode_octets_def encode_tlv_def)
  have "parse_octets_field (Some []) (encode_octets (rot_VerifiedBootHash r)) =
      Inr (rot_VerifiedBootHash r, [])"
    using parse_octets_field_encode [of "rot_VerifiedBootHash r" "Some []" "[]"] len by simp
  then have "RootOfTrust_fields ?c = Inr r"
    using assms(1) len
    by (simp add: RootOfTrust_fields_def parse_octets_field_encode parse_boolean_field_encode
        parse_enumerated_field_encode)
  then show ?thesis
    using parse_struct_encode [of ?c RootOfTrust_fields "[]"] len(1)
    by (simp add: parse_RootOfTrust_def unmarshal_def encode_root_def)
qed

lemma parse_int_value_encode: "int64 k \<Longrightarrow> parse_int_value (encode_int k) = Inr k"
  using parse_int_field_encode [of k "[]"] by (simp add: parse_int_value_def unmarshal_def)

subsection \<open>The application id\<close>

definition package_content :: "attestationPackageInfo \<Rightarrow> bytes" where
  "package_content pkg = encode_octets (PackageName pkg) @ encode_int (PackageVersion pkg)"

definition application_content :: "attestationPackageInfo list \<Rightarrow> bytes" where
  "application_content pkgs = concat (map (\<lambda>p. encode_sequence (package_content p)) pkgs)"

text \<open>The signature digests, the second field of the structure, are left out as the code does.\<close>

definition encode_application_id :: "attestationPackageInfo list \<Rightarrow> bytes" where
  "encode_application_id pkgs = encode_octets (encode_sequence (encode_set (application_content pkgs)))"

lemma application_lengths:
  assumes "length (encode_application_id pkgs) < asn1_limit"
  shows "length (encode_sequence (encode_set (application_content pkgs))) < asn1_limit"
    "length (encode_set (application_content pkgs)) < asn1_limit"
    "length (application_content pkgs) < asn1_limit"
    "p \<in> set pkgs \<Longrightarrow> length (package_content p) < asn1_limit"
    "p \<in> set pkgs \<Longrightarrow> length (PackageName p) < asn1_limit"
proof -
  show l1: "length (encode_sequence (encode_set (application_content pkgs))) < asn1_limit"
    and "length (encode_set (application_content pkgs)) < asn1_limit"
    and l3: "length (application_content pkgs) < asn1_limit"
    using assms by (simp_all add: encode_application_id_def encode_octets_def encode_sequence_def
        encode_set_def encode_tlv_def)
  have sub: "length (encode_sequence (package_content p)) \<le> length (application_content pkgs)"
    if "p \<in> set pkgs"
    using that unfolding application_content_def length_concat map_map
    by (intro member_le_sum_list) auto
  show l4: "p \<in> set pkgs \<Longrightarrow> length (package_content p) < asn1_limit"
    using sub l3 length_encode_tlv [of "package_content p" 0 True 16] by (simp add: encode_sequence_def)
  then show "p \<in> set pkgs \<Longrightarrow> length (PackageName p) < asn1_limit"
    by (simp add: package_content_def encode_octets_def encode_tlv_def)
qed

lemma parse_application_id:
  assumes "length (encode_application_id pkgs) < asn1_limit" "\<forall>p \<in> set pkgs. int64 (PackageVersion p)"
  shows "parseAttestationApplicationId (encode_application_id pkgs) = Inr pkgs"
proof -
  note len = application_lengths [OF assms(1)]
  let ?set = "encode_set (application_content pkgs)"
  have pkg: "attestationPackageInfo_fields (package_content p) = Inr p" if "p \<in> set pkgs" for p
    using that len(5) [of p] assms(2) parse_int_field_encode [of "PackageVersion p" "[]"]
    by (simp add: attestationPackageInfo_fields_def package_content_def parse_octets_field_encode)
  have elems: "parse_elements (length pkgs) (parse_struct attestationPackageInfo_fields)
      (application_content pkgs) = Inr pkgs"
    unfolding application_content_def
    using parse_elements_encode [of pkgs "parse_struct attestationPackageInfo_fields"
        "\<lambda>p. encode_sequence (package_content p)" "\<lambda>p. p"] len pkg
    by (simp add: parse_struct_encode)
  have items: "application_content pkgs = concat (map (\<lambda>(cls, c, tag, content).
      encode_tlv cls c tag content) (map (\<lambda>p. (0, True, 16, package_content p)) pkgs))"
    by (simp add: application_content_def encode_sequence_def comp_def)
  have count: "count_elements (universal 16 True) (application_content pkgs) = Inr (length pkgs)"
    unfolding items
    using count_elements_encode [of "map (\<lambda>p. (0, True, 16, package_content p)) pkgs" "universal 16 True"]
      len by (auto simp: universal_def)
  have set_field: "parse_slice_field True (universal 16 True) (parse_struct attestationPackageInfo_fields)
      ?set = Inr (pkgs, [])"
    using parse_field_encode [of 0 17 "application_content pkgs" "universal 17 True" True None
        "\<lambda>_ inner _. parse_sequence_of (universal 16 True) (parse_struct attestationPackageInfo_fields) inner"
        "[]"] len count elems
    by (simp add: parse_slice_field_def encode_set_def universal_def parse_sequence_of_def)
  then have "attestationApplicationId_fields ?set = Inr pkgs"
    by (simp add: attestationApplicationId_fields_def)
  then have inner: "unmarshal (parse_struct attestationApplicationId_fields) (encode_sequence ?set) = Inr pkgs"
    using parse_struct_encode [of ?set attestationApplicationId_fields "[]"] len(2)
    by (simp add: unmarshal_def)
  have "unmarshal parse_raw_field (encode_application_id pkgs) =
      Inr (make_raw 0 False 4 (encode_sequence ?set))"
    using parse_raw_field_encode [of 0 4 "encode_sequence ?set" False "[]"] len(1)
    by (simp add: unmarshal_def encode_application_id_def encode_octets_def)
  with inner show ?thesis by (simp add: parseAttestationApplicationId_def make_raw_def)
qed

subsection \<open>A device's attestation\<close>

text \<open>
  The record a device attests: the levels, the challenge, the root of trust, the versions and
  the packages the key is bound to. The secure hardware vouches for the root of trust and the
  versions, the operating system for the application id, as on Android devices.
\<close>

record device_attestation =
  da_version :: int
  da_level :: int
  da_km_level :: int
  da_challenge :: bytes
  da_root :: RootOfTrust
  da_os_version :: int
  da_patch_level :: int
  da_packages :: "attestationPackageInfo list"

definition device_description :: "device_attestation \<Rightarrow> description" where
  "device_description a =
     \<lparr>ad_version = da_version a, ad_level = da_level a,
      ad_km_version = da_version a, ad_km_level = da_km_level a,
      ad_challenge = da_challenge a, ad_unique = [],
      ad_software = [tagged TagAttestationApplicationId (encode_application_id (da_packages a))],
      ad_tee = [tagged TagRootOfTrust (encode_root (da_root a)),
                tagged TagOSVersion (encode_int (da_os_version a)),
                tagged TagOSPatch (encode_int (da_patch_level a))]\<rparr>"

definition encode_attestation :: "device_attestation \<Rightarrow> bytes" where
  "encode_attestation a = encode_description (device_description a)"

text \<open>Values of the types' ranges, with an encoding below the parser's length limit.\<close>

definition attestation_ok :: "device_attestation \<Rightarrow> bool" where
  "attestation_ok a \<longleftrightarrow>
     int64 (da_version a) \<and> int32 (da_level a) \<and> int32 (da_km_level a) \<and>
     int32 (rot_VerifiedBootState (da_root a)) \<and> int64 (da_os_version a) \<and> int64 (da_patch_level a) \<and>
     (\<forall>p \<in> set (da_packages a). int64 (PackageVersion p)) \<and>
     length (description_content (device_description a)) < asn1_limit"

lemma tags_small [simp]:
  "TagRootOfTrust < asn1_limit" "TagOSVersion < asn1_limit" "TagOSPatch < asn1_limit"
  "TagAttestationApplicationId < asn1_limit"
  by (simp_all add: tag_defs asn1_limit_def)

lemma list_content_member:
  "(cls, c, tag, content) \<in> set items \<Longrightarrow> length content \<le> length (list_content items)"
proof -
  assume "(cls, c, tag, content) \<in> set items"
  then have "length (encode_tlv cls c tag content) \<le> length (list_content items)"
    unfolding list_content_def length_concat map_map
    by (intro member_le_sum_list) (force simp: encode_item_def, simp)
  then show ?thesis using length_encode_tlv le_trans by blast
qed

lemma attestation_lengths:
  assumes "attestation_ok a"
  shows "length (encode_application_id (da_packages a)) < asn1_limit"
    "length (encode_root (da_root a)) < asn1_limit"
    "length (encode_int (da_os_version a)) < asn1_limit"
    "length (encode_int (da_patch_level a)) < asn1_limit"
    "length (list_content (ad_software (device_description a))) < asn1_limit"
    "length (list_content (ad_tee (device_description a))) < asn1_limit"
proof -
  have "length (description_content (device_description a)) < asn1_limit"
    using assms by (simp add: attestation_ok_def)
  then show s: "length (list_content (ad_software (device_description a))) < asn1_limit"
    and t: "length (list_content (ad_tee (device_description a))) < asn1_limit"
    by (simp_all add: description_content_def encode_sequence_def encode_tlv_def)
  have "(2, True, TagAttestationApplicationId, encode_application_id (da_packages a)) \<in>
      set (ad_software (device_description a))"
    by (simp add: device_description_def tagged_def)
  from le_less_trans [OF list_content_member [OF this] s]
  show "length (encode_application_id (da_packages a)) < asn1_limit" .
  have "(2, True, TagRootOfTrust, encode_root (da_root a)) \<in> set (ad_tee (device_description a))"
    "(2, True, TagOSVersion, encode_int (da_os_version a)) \<in> set (ad_tee (device_description a))"
    "(2, True, TagOSPatch, encode_int (da_patch_level a)) \<in> set (ad_tee (device_description a))"
    by (simp_all add: device_description_def tagged_def)
  from this [THEN list_content_member, THEN le_less_trans, OF t]
  show "length (encode_root (da_root a)) < asn1_limit"
    "length (encode_int (da_os_version a)) < asn1_limit"
    "length (encode_int (da_patch_level a)) < asn1_limit" by blast+
qed

lemma device_description_ok: "attestation_ok a \<Longrightarrow> description_ok (device_description a)"
  using attestation_lengths [of a]
  by (auto simp: attestation_ok_def description_ok_def device_description_def tagged_def raw_item_ok_def)

lemma parse_attestation:
  "attestation_ok a \<Longrightarrow>
     parse_KeyDescription (encode_attestation a) = Inr (decoded (device_description a))"
  by (simp add: encode_attestation_def parse_description device_description_ok)

lemma device_findTagged:
  assumes "attestation_ok a"
  shows "findTagged (rv_full (kd_TeeEnforced (decoded (device_description a)))) tag =
      Inr (List.find (\<lambda>r. rv_tag r = tag) (map item_raw (ad_tee (device_description a))))"
    "findTagged (rv_full (kd_SoftwareEnforced (decoded (device_description a)))) tag =
      Inr (List.find (\<lambda>r. rv_tag r = tag) (map item_raw (ad_software (device_description a))))"
proof -
  have items: "\<forall>x \<in> set (ad_tee (device_description a)). raw_item_ok x"
    "\<forall>x \<in> set (ad_software (device_description a)). raw_item_ok x"
    using device_description_ok [OF assms] by (simp_all add: description_ok_def)
  show "findTagged (rv_full (kd_TeeEnforced (decoded (device_description a)))) tag =
      Inr (List.find (\<lambda>r. rv_tag r = tag) (map item_raw (ad_tee (device_description a))))"
    unfolding decoded_def KeyDescription.simps
    by (rule findTagged_list [OF items(1) attestation_lengths(6) [OF assms]])
  show "findTagged (rv_full (kd_SoftwareEnforced (decoded (device_description a)))) tag =
      Inr (List.find (\<lambda>r. rv_tag r = tag) (map item_raw (ad_software (device_description a))))"
    unfolding decoded_def KeyDescription.simps
    by (rule findTagged_list [OF items(2) attestation_lengths(5) [OF assms]])
qed

lemma device_values:
  assumes "attestation_ok a"
  shows "findRootOfTrust (rv_full (kd_TeeEnforced (decoded (device_description a)))) =
      Inr (Some (da_root a))"
    "findIntTag (rv_full (kd_TeeEnforced (decoded (device_description a)))) TagOSVersion =
      Inr (da_os_version a)"
    "findIntTag (rv_full (kd_TeeEnforced (decoded (device_description a)))) TagOSPatch =
      Inr (da_patch_level a)"
    "application_listed (decoded (device_description a)) package \<longleftrightarrow>
      (\<exists>p \<in> set (da_packages a). PackageName p = bytes_of_string package)"
proof -
  note ok = assms [unfolded attestation_ok_def] and len = attestation_lengths [OF assms]
  have tee: "map item_raw (ad_tee (device_description a)) =
      [make_raw 2 True TagRootOfTrust (encode_root (da_root a)),
       make_raw 2 True TagOSVersion (encode_int (da_os_version a)),
       make_raw 2 True TagOSPatch (encode_int (da_patch_level a))]"
    by (simp add: device_description_def tagged_def item_raw_def)
  have software: "map item_raw (ad_software (device_description a)) =
      [make_raw 2 True TagAttestationApplicationId (encode_application_id (da_packages a))]"
    by (simp add: device_description_def tagged_def item_raw_def)
  show "findRootOfTrust (rv_full (kd_TeeEnforced (decoded (device_description a)))) =
      Inr (Some (da_root a))"
    using ok len(2) unfolding findRootOfTrust_def device_findTagged [OF assms] tee
    by (simp add: make_raw_def parse_root_encode)
  show "findIntTag (rv_full (kd_TeeEnforced (decoded (device_description a)))) TagOSVersion =
      Inr (da_os_version a)"
    "findIntTag (rv_full (kd_TeeEnforced (decoded (device_description a)))) TagOSPatch =
      Inr (da_patch_level a)"
    using ok unfolding findIntTag_def device_findTagged [OF assms] tee
    by (simp_all add: make_raw_def tag_defs parse_int_value_encode)
  have at: "application_id_at (decoded (device_description a)) raw \<longleftrightarrow>
      raw = make_raw 2 True TagAttestationApplicationId (encode_application_id (da_packages a))" for raw
    unfolding application_id_at_def device_findTagged [OF assms] tee software
    by (auto simp: make_raw_def tag_defs)
  have "parseAttestationApplicationId (encode_application_id (da_packages a)) = Inr (da_packages a)"
    using ok len(1) by (simp add: parse_application_id)
  then show "application_listed (decoded (device_description a)) package \<longleftrightarrow>
      (\<exists>p \<in> set (da_packages a). PackageName p = bytes_of_string package)"
    by (simp add: application_listed_def at make_raw_def)
qed

text \<open>The verdict of the strict policies, in terms of the device's record.\<close>

definition genuine_device :: "Policy \<Rightarrow> bytes \<Rightarrow> device_attestation \<Rightarrow> bool" where
  "genuine_device p ch a \<longleftrightarrow>
     da_challenge a = ch \<and> hardware_level (da_level a) \<and> hardware_level (da_km_level a) \<and>
     rot_DeviceLocked (da_root a) \<and> rot_VerifiedBootState (da_root a) = VerifiedBootStateVerified \<and>
     (ExpectedPackageName p = [] \<or>
        (\<exists>pkg \<in> set (da_packages a). PackageName pkg = bytes_of_string (ExpectedPackageName p))) \<and>
     versions_allowed p (da_os_version a) (da_patch_level a)"

lemma hardware_description_device:
  "attestation_ok a \<Longrightarrow>
     hardware_description p ch (decoded (device_description a)) \<longleftrightarrow> genuine_device p ch a"
  unfolding hardware_description_def genuine_device_def
  by (simp add: device_values) (simp add: decoded_def device_description_def)

lemma encode_attestation_not_Nil [simp]: "encode_attestation a \<noteq> []"
  by (simp add: encode_attestation_def encode_description_def encode_sequence_def)

lemma extension_step_device:
  assumes "strict_policy p" "attestation_ok a" "find_attestation_ext leaf = Some ext"
    "ext_value ext = encode_attestation a"
  shows "(\<exists>rec. extension_step p leaf ch = Inr rec) \<longleftrightarrow> genuine_device p ch a"
proof -
  have "(\<exists>rec. extension_step p leaf ch = Inr rec) \<longleftrightarrow>
      (\<exists>rec. description_step p ch (decoded (device_description a)) = Inr rec)"
    using assms by (auto simp: extension_step_strict strict_policy_def parse_attestation)
  then show ?thesis
    by (simp only: description_step_strict [OF assms(1)] hardware_description_device [OF assms(2)])
qed

end
