(* ===== verification/Examples.thy ===== *)
theory Examples
  imports Traces AttestationEncoder
begin

text \<open>
  A concrete setting in which the hypotheses of the properties hold: functions in place of
  the cryptographic library, a device with its attestation, a server, and a run in which the
  device asks for a challenge, enrolls and is let in.
\<close>

subsection \<open>A device\<close>

definition demo_challenge :: bytes where "demo_challenge = replicate 32 7"

definition demo_attestation :: device_attestation where
  "demo_attestation =
     \<lparr>da_version = 4, da_level = SecurityLevelTrustedEnvironment,
      da_km_level = SecurityLevelStrongBox, da_challenge = demo_challenge,
      da_root = \<lparr>rot_VerifiedBootKey = [1, 2], rot_DeviceLocked = True,
                 rot_VerifiedBootState = VerifiedBootStateVerified, rot_VerifiedBootHash = [3]\<rparr>,
      da_os_version = 140000, da_patch_level = 20240905,
      da_packages = [\<lparr>PackageName = bytes_of_string ''com.kypeli.mtlspoc'', PackageVersion = 1\<rparr>]\<rparr>"

lemma demo_attestation_ok: "attestation_ok demo_attestation"
  by (simp add: attestation_ok_def demo_attestation_def int64_def int32_def level_defs
      VerifiedBootStateVerified_def description_content_def device_description_def tagged_def
      tag_defs encode_int_def encode_enumerated_def encode_octets_def encode_sequence_def
      encode_set_def encode_boolean_def encode_tlv_def encode_header_def encode_length_def
      encode_base128_def encode_root_def encode_application_id_def application_content_def
      package_content_def list_content_def encode_item_def int_bytes.simps digits.simps Let_def
      bytes_of_string_def demo_challenge_def asn1_limit_def)

definition demo_spki :: bytes where "demo_spki = [42]"

definition demo_key :: public_key where "demo_key = EncodableKey demo_spki"

definition demo_identity :: string where "demo_identity = hex_encode (sha256 demo_spki)"

lemma demo_fingerprint: "PublicKeyFingerprint demo_key = Inr demo_identity"
  by (simp add: demo_key_def demo_identity_def)

lemma demo_identity_not_Nil [simp]: "demo_identity \<noteq> []"
  using fingerprint_shape(3) [OF demo_fingerprint] .

definition demo_extension :: extension where
  "demo_extension = \<lparr>ext_id = [1, 3, 6, 1, 4, 1, 11129, 2, 1, 17],
     ext_value = encode_attestation demo_attestation\<rparr>"

lemma demo_extension_attests: "is_attestation_ext demo_extension"
  by (simp add: is_attestation_ext_def demo_extension_def AndroidKeyAttestationOID_def
      decimal_nat.simps digit_char_def char_of_def bit_Suc_0_iff)

definition demo_leaf :: certificate where
  "demo_leaf = zero_certificate\<lparr>Raw := [1], PublicKey := demo_key, Extensions := [demo_extension]\<rparr>"

definition demo_intermediate :: certificate where
  "demo_intermediate = zero_certificate
     \<lparr>Raw := [2], PublicKey := EncodableKey [43], IsCA := True\<rparr>"

lemma demo_leaf_ext: "find_attestation_ext demo_leaf = Some demo_extension"
  by (simp add: find_attestation_ext_def demo_leaf_def zero_certificate_def demo_extension_attests)

subsection \<open>A library\<close>

text \<open>
  A certificate of the demo authority is encoded as a 3 followed by its serial number; the
  authority signs for the demo identity and key only. A PEM text marks each byte of its type
  with a 1 and ends the type with a 0.
\<close>

definition demo_issued :: "bytes \<Rightarrow> certificate" where
  "demo_issued bs = zero_certificate
     \<lparr>Raw := 3 # bs, SerialNumber := twos_complement bs, CommonName := demo_identity,
      URIs := [''urn:device:'' @ demo_identity], PublicKey := demo_key\<rparr>"

fun demo_pem_decode :: "bytes \<Rightarrow> bytes \<Rightarrow> (pem_block \<times> bytes) option" where
  "demo_pem_decode ty (b # c # rest) =
     (if b = 1 then demo_pem_decode (ty @ [c]) rest
      else Some (\<lparr>block_type = string_of_bytes ty, block_headers = [], block_bytes = c # rest\<rparr>, []))"
| "demo_pem_decode ty [b] =
     Some (\<lparr>block_type = string_of_bytes ty, block_headers = [], block_bytes = []\<rparr>, [])"
| "demo_pem_decode ty [] = None"

definition demo_pem_encode :: "string \<Rightarrow> bytes \<Rightarrow> bytes" where
  "demo_pem_encode ty der = concat (map (\<lambda>c. [1, byte_of c]) ty) @ 0 # der"

lemma demo_pem_decode_encode:
  "demo_pem_decode ty (concat (map (\<lambda>c. [1, byte_of c]) s) @ 0 # der) =
     Some (\<lparr>block_type = string_of_bytes ty @ s, block_headers = [], block_bytes = der\<rparr>, [])"
proof (induction s arbitrary: ty)
  case Nil
  then show ?case by (cases der) simp_all
next
  case (Cons c s)
  then show ?case by (simp add: string_of_bytes_def)
qed

definition demo_lib :: golib where
  "demo_lib =
     \<lparr>lib_parse_certificate =
        (\<lambda>der. if der = [1] then Inr demo_leaf
               else if der = [2] then Inr demo_intermediate
               else if der \<noteq> [] \<and> hd der = 3 then Inr (demo_issued (tl der))
               else Inl ''x509: malformed certificate''),
      lib_parse_request =
        (\<lambda>der. if der = [5] then Inr \<lparr>csr_raw = der, csr_public_key = demo_key\<rparr>
               else if der = [6] then Inr \<lparr>csr_raw = der, csr_public_key = NilKey\<rparr>
               else Inl ''x509: malformed request''),
      lib_check_signature = (\<lambda>_. True),
      lib_verify = (\<lambda>_ _ _ _ _. True),
      lib_create_certificate =
        (\<lambda>_ t _ k _. if CommonName t = demo_identity \<and> URIs t = [''urn:device:'' @ demo_identity] \<and>
                        k = demo_key
                     then Inr (3 # int_bytes (SerialNumber t)) else Inl ''refused''),
      lib_url_parse = Inr,
      lib_pem_decode = demo_pem_decode [],
      lib_pem_encode = demo_pem_encode,
      lib_parse_ec_key = (\<lambda>der. Inr \<lparr>key_secret = der, key_public = NilKey\<rparr>),
      lib_parse_pkcs8_key = (\<lambda>_. Inl ''unsupported''),
      lib_marshal_ec_key = (\<lambda>k. if key_public k = NilKey then Inr (key_secret k) else Inl ''unknown''),
      lib_decode_enroll_request =
        (\<lambda>body. if body = [1]
                then Inr \<lparr>DeviceID = ''phone'', CSR = b64_encode [5],
                          AttestationChain = [b64_encode [1], b64_encode [2]]\<rparr>
                else if body = [2]
                then Inr \<lparr>DeviceID = [], CSR = b64_encode [5], AttestationChain = []\<rparr>
                else Inl ''invalid character''),
      lib_x509_key_pair = (\<lambda>cert _. Inr [cert]),
      lib_status_entries = (\<lambda>_. Inr [])\<rparr>"

lemma demo_certificates_round_trip: "certificates_round_trip demo_lib"
  by (auto simp: certificates_round_trip_def demo_lib_def demo_issued_def zero_certificate_def
      twos_complement_int_bytes split: if_splits)

lemma demo_pem_round_trip: "pem_round_trip demo_lib"
  by (simp add: pem_round_trip_def demo_lib_def demo_pem_encode_def demo_pem_decode_encode
      string_of_bytes_def)

lemma demo_ec_keys_round_trip: "ec_keys_round_trip demo_lib"
  by (auto simp: ec_keys_round_trip_def demo_lib_def split: if_splits)

lemma demo_parses_plain_urns: "parses_plain_urns demo_lib"
  by (simp add: parses_plain_urns_def demo_lib_def)

subsection \<open>A server\<close>

definition demo_ca :: CA where
  "demo_ca = \<lparr>ca_Certificate = zero_certificate\<lparr>Raw := [9], CommonName := ''CA'', IsCA := True\<rparr>,
              ca_PrivateKey = \<lparr>key_secret = [8], key_public = NilKey\<rparr>\<rparr>"

definition demo_policy :: Policy where
  "demo_policy = DefaultStrictPolicy\<lparr>ExpectedPackageName := ''com.kypeli.mtlspoc'',
     MinOsVersion := 130000, MinPatchLevel := 20240101\<rparr>"

lemma demo_policy_strict: "strict_policy demo_policy"
  by (simp add: strict_policy_def demo_policy_def DefaultStrictPolicy_def)

definition demo_verifier :: Verifier where
  "demo_verifier = \<lparr>rootPool = [], policy = demo_policy, revocations = None\<rparr>"

definition demo_server :: server where
  "demo_server =
     \<lparr>enroll_addr = '':8080'',
      enroll_tls = \<lparr>tls_Certificates = [], tls_ClientCAs = [], tls_ClientAuth = NoClientCert,
                    tls_MinVersion = VersionTLS12\<rparr>,
      challenge_ttl = 60 * second,
      enroll_handler = mem_handler demo_ca ''CA PEM'' (168 * hour),
      mtls_addr = '':8443'',
      mtls_tls = \<lparr>tls_Certificates = [], tls_ClientCAs = NewCertPoolFromCert (ca_Certificate demo_ca),
                  tls_ClientAuth = RequireAndVerifyClientCert, tls_MinVersion = VersionTLS13\<rparr>\<rparr>"

lemma demo_server_in_memory: "in_memory demo_server"
  unfolding in_memory_def demo_server_def by auto

subsection \<open>The attestation is accepted\<close>

lemma demo_genuine: "genuine_device demo_policy demo_challenge demo_attestation"
  by (simp add: genuine_device_def demo_attestation_def hardware_level_def demo_policy_def
      versions_allowed_def)

lemma demo_parse_chain: "parse_chain demo_lib [[1], [2]] = Inr [demo_leaf, demo_intermediate]"
  by (simp add: parse_chain_def demo_lib_def)

lemma demo_attested:
  "attested_key demo_lib roots demo_policy now [[1], [2]] demo_challenge demo_key"
proof -
  have "hardware_description demo_policy demo_challenge (decoded (device_description demo_attestation))"
    using demo_genuine hardware_description_device [OF demo_attestation_ok] by simp
  moreover have "parse_KeyDescription (ext_value demo_extension) =
      Inr (decoded (device_description demo_attestation))"
    by (simp add: demo_extension_def parse_attestation demo_attestation_ok)
  moreover have "ext_value demo_extension \<noteq> []" by (simp add: demo_extension_def)
  moreover have "lib_verify demo_lib demo_leaf roots (foldl AddCert [] [demo_intermediate])
      [ExtKeyUsageAny] now" by (simp add: demo_lib_def)
  moreover have "PublicKey demo_leaf = demo_key" by (simp add: demo_leaf_def)
  ultimately show ?thesis
    unfolding attested_key_def
    using demo_parse_chain demo_leaf_ext
    by (simp add: demo_key_def maxChainCertificates_def)
qed

lemma demo_verified:
  assumes "policy v = demo_policy" "revocations v = None"
  shows "\<exists>rec. VerifyAttestation demo_lib env v [[1], [2]] demo_challenge demo_key = (Inr rec, v)"
proof (rule VerifyAttestation_strict_complete)
  show "strict_policy (policy v)" by (simp add: assms demo_policy_strict)
  show "attested_key demo_lib (rootPool v) (policy v) (chain_now env) [[1], [2]] demo_challenge demo_key"
    by (simp add: assms demo_attested)
  show "revocation_step demo_lib (list_env env) v certs = (Inr (), v)" for certs
    by (simp add: revocation_step_def assms)
qed

text \<open>The same with a revocation list that was fetched just now and names no key.\<close>

definition demo_client_list :: RevocationStatusClient where
  "demo_client_list = \<lparr>listURL = DefaultRevocationListURL, client_timeout = None, list_ttl = hour,
     entries = Some Map.empty, fetched = 100\<rparr>"

definition demo_checking_verifier :: Verifier where
  "demo_checking_verifier = demo_verifier\<lparr>revocations := Some demo_client_list\<rparr>"

definition demo_env :: verify_env where
  "demo_env = \<lparr>list_env = (\<lambda>_. \<lparr>since_now = 100, fetch_response = HttpFailed ''offline'',
     fetch_now = 100\<rparr>), chain_now = 100\<rparr>"

lemma demo_list_current: "\<not> list_stale demo_client_list 100"
  by (simp add: list_stale_def demo_client_list_def sint_hour sint_time_sub min_duration_def
      max_duration_def)

lemma demo_not_revoked:
  "IsKeyRevoked demo_lib (list_env demo_env i) (EncodableKey der) demo_client_list =
     (Inr False, demo_client_list)"
  by (simp add: IsKeyRevoked_def refresh_list_def demo_env_def demo_list_current)
    (simp add: demo_client_list_def lookup_revoked_def)

lemma demo_revocations_checked:
  "revocation_step demo_lib (list_env demo_env) demo_checking_verifier [demo_leaf, demo_intermediate] =
     (Inr (), demo_checking_verifier)"
  by (simp add: revocation_step_def demo_checking_verifier_def demo_not_revoked demo_verifier_def
      demo_policy_def DefaultStrictPolicy_def demo_leaf_def demo_intermediate_def demo_key_def)

lemma demo_checked:
  "\<exists>rec. VerifyAttestation demo_lib demo_env demo_checking_verifier [[1], [2]] demo_challenge demo_key =
     (Inr rec, demo_checking_verifier)"
proof (rule VerifyAttestation_strict_complete)
  show "strict_policy (policy demo_checking_verifier)"
    by (simp add: demo_checking_verifier_def demo_verifier_def demo_policy_strict)
  show "attested_key demo_lib (rootPool demo_checking_verifier) (policy demo_checking_verifier)
      (chain_now demo_env) [[1], [2]] demo_challenge demo_key"
    by (simp add: demo_checking_verifier_def demo_verifier_def demo_attested)
  show "parse_chain demo_lib [[1], [2]] = Inr certs \<Longrightarrow>
      revocation_step demo_lib (list_env demo_env) demo_checking_verifier certs =
        (Inr (), demo_checking_verifier)" for certs
    using demo_parse_chain demo_revocations_checked by auto
qed

subsection \<open>A run\<close>

definition demo_port :: "int \<Rightarrow> instant \<Rightarrow> port_reading" where
  "demo_port serial now =
     \<lparr>pr_generate = \<lparr>random_bytes = Inr demo_challenge, generate_now = now\<rparr>,
      pr_enroll =
        \<lparr>consume_now = now,
         verify_reading = \<lparr>list_env = (\<lambda>_. \<lparr>since_now = now, fetch_response = HttpFailed ''offline'',
                                         fetch_now = now\<rparr>), chain_now = now\<rparr>,
         signing = \<lparr>serial_draw = Inr serial, sign_now = now, sign_entropy = []\<rparr>,
         enrolled_now = now\<rparr>\<rparr>"

definition demo_get_challenge :: http_request where
  "demo_get_challenge = \<lparr>req_Method = MethodGet, req_Path = ''/api/v1/enroll/challenge'',
     req_Body = [], req_TLS = Some []\<rparr>"

definition demo_enroll_request :: http_request where
  "demo_enroll_request = \<lparr>req_Method = MethodPost, req_Path = ''/api/v1/enroll'', req_Body = [1],
     req_TLS = Some []\<rparr>"

definition demo_ping_request :: http_request where
  "demo_ping_request = \<lparr>req_Method = MethodGet, req_Path = ''/api/v1/protected/ping'', req_Body = [],
     req_TLS = None\<rparr>"

definition demo_prepared :: prepared where
  "demo_prepared = \<lparr>p_label = ''phone'', p_csrDER = [5],
     p_csr = \<lparr>csr_raw = [5], csr_public_key = demo_key\<rparr>, p_chainDER = [[1], [2]],
     p_challenge = demo_challenge\<rparr>"

lemma demo_decode: "enroll_decode demo_lib demo_policy demo_enroll_request = Inr demo_prepared"
proof -
  have chain: "decode_chain [b64_encode [1], b64_encode [2]] = Inr [[1], [2]]"
    by (simp add: decode_chain_def del: b64_encode.simps)
  have "ExtractChallenge demo_lib [[1], [2]] = Inr demo_challenge"
    unfolding ExtractChallenge_ok
    using demo_leaf_ext parse_attestation [OF demo_attestation_ok]
    by (auto simp: demo_lib_def demo_extension_def decoded_def device_description_def
        demo_attestation_def)
  then have locate: "locate_challenge demo_lib demo_policy [[1], [2]] = Inr demo_challenge"
    by (simp add: locate_challenge_def)
  have decoded: "lib_decode_enroll_request demo_lib
      (take maxEnrollBodyBytes (req_Body demo_enroll_request)) =
    Inr \<lparr>DeviceID = ''phone'', CSR = b64_encode [5], AttestationChain = [b64_encode [1], b64_encode [2]]\<rparr>"
    by (simp add: demo_lib_def demo_enroll_request_def maxEnrollBodyBytes_def)
  have csr: "lib_parse_request demo_lib [5] = Inr \<lparr>csr_raw = [5], csr_public_key = demo_key\<rparr>"
    by (simp add: demo_lib_def)
  have label: "deviceLabelPattern ''phone''"
    by (simp add: deviceLabelPattern_def label_rest_def label_first_def)
  have post: "req_Method demo_enroll_request = MethodPost" by (simp add: demo_enroll_request_def)
  have policy: "\<not> AllowEmptyAttestation demo_policy"
    using demo_policy_strict by (simp add: strict_policy_def)
  show ?thesis
    using label
    by (simp del: b64_encode.simps add: enroll_decode_def post decoded csr chain locate policy demo_prepared_def)
qed

lemma demo_sign:
  "SignCSR demo_lib (signing (pr_enroll (demo_port serial now))) demo_ca [5] demo_identity ttl =
     Inr (demo_issued (int_bytes serial), demo_pem_encode ''CERTIFICATE'' (3 # int_bytes serial))"
proof -
  have "lib_create_certificate demo_lib e (client_template n demo_identity
      (''urn:device:'' @ demo_identity) t ttl) c demo_key k = Inr (3 # int_bytes n)" for e n t c k
    by (simp add: demo_lib_def client_template_def)
  then show ?thesis
    by (simp add: SignCSR_def demo_port_def) (simp add: demo_lib_def)
qed

lemma demo_issued_serial: "serial_text (demo_issued (int_bytes serial)) = decimal_int serial"
  by (simp add: serial_text_def demo_issued_def twos_complement_int_bytes)

definition demo_body :: "int \<Rightarrow> EnrollResponse" where
  "demo_body serial = enroll_response (enroll_handler demo_server) demo_prepared demo_identity
     (demo_pem_encode ''CERTIFICATE'' (3 # int_bytes serial))"

lemma demo_body_simps [simp]:
  "er_DeviceIdentity (demo_body serial) = demo_identity" "er_DeviceLabel (demo_body serial) = ''phone''"
  "er_ClientCertificate (demo_body serial) =
     string_of_bytes (demo_pem_encode ''CERTIFICATE'' (3 # int_bytes serial))"
  by (simp_all add: demo_body_def enroll_response_def demo_prepared_def Let_def)

text \<open>The steps of the enrollment, for any handler with the demo authority.\<close>

lemma demo_consume:
  assumes "challenges st (b64_encode demo_challenge) = Some ex" "now < ex"
  shows "enroll_consume memory_challenge_store demo_policy
      (consume_now (pr_enroll (demo_port serial now))) demo_prepared st =
    (Inr (), st\<lparr>challenges := (challenges st)(b64_encode demo_challenge := None)\<rparr>)"
proof -
  have "demo_challenge \<noteq> []" by (simp add: demo_challenge_def)
  with assms show ?thesis
    by (simp add: enroll_consume_def demo_prepared_def mem_VerifyAndConsume_def time_defs demo_port_def)
qed

lemma demo_attest:
  assumes "policy v = demo_policy" "revocations v = None"
  shows "\<exists>rec. enroll_attest demo_lib env demo_prepared v = (Inr (rec, demo_identity), v)"
proof -
  obtain rec where "VerifyAttestation demo_lib env v [[1], [2]] demo_challenge demo_key = (Inr rec, v)"
    using demo_verified [OF assms] by blast
  then show ?thesis by (simp add: enroll_attest_ok demo_prepared_def demo_fingerprint)
qed

lemma demo_enroll_sign:
  assumes "eh_ca h = demo_ca"
  shows "enroll_sign demo_lib (signing (pr_enroll (demo_port serial now))) h demo_prepared demo_identity =
     Inr (demo_issued (int_bytes serial), demo_pem_encode ''CERTIFICATE'' (3 # int_bytes serial))"
  unfolding enroll_sign_def assms by (simp add: demo_prepared_def demo_sign)

definition demo_record :: "AttestationRecord \<Rightarrow> int \<Rightarrow> instant \<Rightarrow> DeviceRecord" where
  "demo_record rec serial now =
     device_record demo_prepared rec demo_identity (demo_issued (int_bytes serial))
       (enrolled_now (pr_enroll (demo_port serial now)))"

lemma demo_record_simps [simp]:
  "dev_Identity (demo_record rec serial now) = demo_identity"
  "dev_CertSerial (demo_record rec serial now) = decimal_int serial"
  "\<not> dev_IsRevoked (demo_record rec serial now)" "dev_Label (demo_record rec serial now) = ''phone''"
  by (simp_all add: demo_record_def device_record_def demo_prepared_def demo_issued_def
      twos_complement_int_bytes)

lemma demo_refuse:
  "\<forall>rec. devices r demo_identity = Some rec \<longrightarrow> \<not> dev_IsRevoked rec \<Longrightarrow>
     enroll_refuse_revoked memory_device_repo demo_identity r = Inr ()"
  by (auto simp: enroll_refuse_revoked_def mem_GetDevice_def split: option.splits)

lemma demo_server_simps:
  "eh_store (enroll_handler demo_server) = memory_challenge_store"
  "eh_deviceRepo (enroll_handler demo_server) = memory_device_repo"
  "eh_ca (enroll_handler demo_server) = demo_ca" "eh_clientCertTTL (enroll_handler demo_server) = 168 * hour"
  by (simp_all add: demo_server_def)

lemma demo_enroll:
  assumes v: "policy (es_verifier s) = demo_policy" "revocations (es_verifier s) = None"
    and live: "challenges (es_store s) (b64_encode demo_challenge) = Some ex" "now < ex"
    and dev: "\<forall>rec. devices (es_repo s) demo_identity = Some rec \<longrightarrow> \<not> dev_IsRevoked rec"
  shows "\<exists>rec. EnrollHandler_ServeHTTP demo_lib (pr_enroll (demo_port serial now))
       (enroll_handler demo_server) demo_enroll_request s =
     (JsonResponse StatusCreated (demo_body serial),
      s\<lparr>es_store := (es_store s)\<lparr>challenges := (challenges (es_store s))(b64_encode demo_challenge := None)\<rparr>,
        es_repo := (es_repo s)\<lparr>devices := (devices (es_repo s))(demo_identity \<mapsto> rec)\<rparr>\<rparr>) \<and>
     dev_CertSerial rec = decimal_int serial \<and> \<not> dev_IsRevoked rec \<and> dev_Label rec = ''phone''"
proof -
  let ?env = "pr_enroll (demo_port serial now)" and ?h = "enroll_handler demo_server"
  obtain rec where attest: "enroll_attest demo_lib (verify_reading ?env) demo_prepared (es_verifier s) =
      (Inr (rec, demo_identity), es_verifier s)"
    using demo_attest [OF v] by blast
  let ?rec = "demo_record rec serial now"
  have persist: "enroll_persist memory_device_repo (device_record demo_prepared rec demo_identity
      (demo_issued (int_bytes serial)) (enrolled_now ?env)) (es_repo s) =
      (Inr (), (es_repo s)\<lparr>devices := (devices (es_repo s))(demo_identity \<mapsto> ?rec)\<rparr>)"
    unfolding demo_record_def [symmetric] by (simp add: enroll_persist_def mem_RegisterDevice_def)
  have "EnrollHandler_ServeHTTP demo_lib ?env ?h demo_enroll_request s =
     (JsonResponse StatusCreated (demo_body serial),
      s\<lparr>es_store := (es_store s)\<lparr>challenges := (challenges (es_store s))(b64_encode demo_challenge := None)\<rparr>,
        es_repo := (es_repo s)\<lparr>devices := (devices (es_repo s))(demo_identity \<mapsto> ?rec)\<rparr>\<rparr>)"
    by (simp add: EnrollHandler_ServeHTTP_def enroll_issue_def v demo_decode demo_server_simps
        demo_consume [OF live] attest demo_refuse [OF dev] demo_enroll_sign persist demo_body_def)
  then show ?thesis using demo_record_simps by blast
qed

text \<open>The device asks for a challenge, enrolls and presents its certificate.\<close>

definition demo_events :: "answer \<Rightarrow> trace" where
  "demo_events a =
     [(EnrollPortRequest (demo_port 77 100) demo_get_challenge, a),
      (EnrollPortRequest (demo_port 77 200) demo_enroll_request,
       EnrollAnswer (JsonResponse StatusCreated (demo_body 77)))]"

lemma demo_challenge_answer:
  "\<exists>a. serve_enroll_port demo_lib demo_server (demo_port serial now) demo_get_challenge s =
     (ChallengeAnswer (JsonResponse StatusOK a),
      s\<lparr>es_store := (es_store s)\<lparr>challenges := (challenges (es_store s))
         (b64_encode demo_challenge \<mapsto> now + 60000000000)\<rparr>\<rparr>) \<and> cr_Challenge a = b64_encode demo_challenge"
proof -
  have "eh_store (enroll_handler demo_server) = memory_challenge_store"
    "sint (challenge_ttl demo_server) = 60000000000"
    by (simp_all add: demo_server_def second_def)
  then show ?thesis
    by (simp add: serve_enroll_port_def demo_get_challenge_def ChallengeHandler_ServeHTTP_def
        mem_Generate_def demo_port_def time_add_def Let_def)
qed

lemma demo_run:
  "\<exists>b rec s. run demo_lib demo_server (initial_state demo_verifier)
       (demo_events (ChallengeAnswer (JsonResponse StatusOK b))) s \<and>
     cr_Challenge b = b64_encode demo_challenge \<and>
     devices (es_repo s) = [demo_identity \<mapsto> rec] \<and> revokedSerials (es_repo s) = {} \<and>
     es_verifier s = demo_verifier \<and> dev_CertSerial rec = decimal_int 77 \<and> \<not> dev_IsRevoked rec \<and>
     dev_Label rec = ''phone''"
proof -
  let ?s0 = "initial_state demo_verifier"
  obtain b s1 where c: "serve_enroll_port demo_lib demo_server (demo_port 77 100) demo_get_challenge ?s0 =
      (ChallengeAnswer (JsonResponse StatusOK b), s1)" "cr_Challenge b = b64_encode demo_challenge"
    and s1: "s1 = ?s0\<lparr>es_store := (es_store ?s0)\<lparr>challenges := (challenges (es_store ?s0))
         (b64_encode demo_challenge \<mapsto> 100 + 60000000000)\<rparr>\<rparr>"
    using demo_challenge_answer [of 77 100 ?s0] by blast
  have f1: "policy (es_verifier s1) = demo_policy" "revocations (es_verifier s1) = None"
    "challenges (es_store s1) (b64_encode demo_challenge) = Some 60000000100"
    "devices (es_repo s1) = Map.empty" "revokedSerials (es_repo s1) = {}" "es_verifier s1 = demo_verifier"
    by (simp_all add: s1 initial_state_def demo_verifier_def NewMemoryDeviceRepo_def)
  obtain rec where e: "EnrollHandler_ServeHTTP demo_lib (pr_enroll (demo_port 77 200))
      (enroll_handler demo_server) demo_enroll_request s1 = (JsonResponse StatusCreated (demo_body 77),
      s1\<lparr>es_store := (es_store s1)\<lparr>challenges := (challenges (es_store s1))(b64_encode demo_challenge := None)\<rparr>,
        es_repo := (es_repo s1)\<lparr>devices := (devices (es_repo s1))(demo_identity \<mapsto> rec)\<rparr>\<rparr>)"
    and rec: "dev_CertSerial rec = decimal_int 77" "\<not> dev_IsRevoked rec" "dev_Label rec = ''phone''"
    using demo_enroll [OF f1(1-3), of 200 77] f1(4) by auto
  let ?s2 = "s1\<lparr>es_store := (es_store s1)\<lparr>challenges := (challenges (es_store s1))(b64_encode demo_challenge := None)\<rparr>,
        es_repo := (es_repo s1)\<lparr>devices := (devices (es_repo s1))(demo_identity \<mapsto> rec)\<rparr>\<rparr>"
  have st2: "serve_enroll_port demo_lib demo_server (demo_port 77 200) demo_enroll_request s1 =
      (EnrollAnswer (JsonResponse StatusCreated (demo_body 77)), ?s2)"
    using e by (simp add: serve_enroll_port_def demo_enroll_request_def)
  have "run demo_lib demo_server ?s0 (demo_events (ChallengeAnswer (JsonResponse StatusOK b))) ?s2"
    using run_step [OF run_step [OF run_start enroll_port [OF c(1)]] enroll_port [OF st2]]
    by (simp add: demo_events_def)
  with c(2) rec f1 show ?thesis by (intro exI [of _ b] exI [of _ rec] exI [of _ ?s2]) simp
qed

definition demo_client :: "int \<Rightarrow> certificate" where
  "demo_client serial = demo_issued (int_bytes serial)"

lemma demo_client_facts:
  "CommonName (demo_client serial) = demo_identity" "PublicKey (demo_client serial) = demo_key"
  "serial_text (demo_client serial) = decimal_int serial"
  "self_bound (demo_client serial) demo_identity"
  by (simp_all add: demo_client_def demo_issued_def zero_certificate_def serial_text_def
      twos_complement_int_bytes self_bound_def demo_fingerprint)

definition demo_mtls :: mtls_reading where
  "demo_mtls = \<lparr>handshake_now = 300, ping_now = 301\<rparr>"

definition demo_pong :: "string \<Rightarrow> int \<Rightarrow> ProtectedResponse" where
  "demo_pong label serial =
     \<lparr>pr_Status = ''ok'', pr_Message = ''mTLS handshake verified successfully'',
      pr_ClientIdentity = demo_identity, pr_DeviceLabel = label, pr_CertSerial = decimal_int serial,
      pr_Timestamp = unix_seconds 301\<rparr>"

lemma demo_ping:
  assumes "devices (es_repo s) demo_identity = Some rec" "dev_CertSerial rec = decimal_int serial"
    "\<not> dev_IsRevoked rec" "decimal_int serial \<notin> revokedSerials (es_repo s)"
  shows "serve_mtls_port demo_lib demo_server demo_mtls [demo_client serial] demo_ping_request s =
     PingAnswer (JsonResponse StatusOK (demo_pong (dev_Label rec) serial))"
proof -
  have srv: "eh_deviceRepo (enroll_handler demo_server) = memory_device_repo"
    "handshake_accepts demo_lib (mtls_tls demo_server) t [c]" for t c
    by (simp_all add: demo_server_def handshake_accepts_def demo_lib_def)
  have "authenticate (Some memory_device_repo) (es_repo s) (es_repo s) (es_repo s)
      (demo_ping_request\<lparr>req_TLS := Some [demo_client serial]\<rparr>) =
    Inr \<lparr>id_Identity = demo_identity, id_Label = dev_Label rec, id_CertSerial = decimal_int serial,
         id_Record = Some rec\<rparr>"
    unfolding memrepo.authenticate_now_eq_Inr
    using assms demo_client_facts [of serial] by auto
  then have "protected_ping (Some memory_device_repo) 301 (es_repo s) (es_repo s) (es_repo s)
      (demo_ping_request\<lparr>req_TLS := Some [demo_client serial]\<rparr>) =
    JsonResponse StatusOK (demo_pong (dev_Label rec) serial)"
    by (simp add: protected_ping_ok_iff demo_pong_def) (simp add: demo_ping_request_def)
  then show ?thesis
    by (simp add: serve_mtls_port_def srv) (simp add: demo_ping_request_def demo_mtls_def)
qed

end
