(* ===== verification/Interleaving.thy ===== *)
theory Interleaving
  imports Traces
begin

text \<open>
  Enrollments that interleave. An enrollment request is a thread whose steps are the handler's
  calls of the shared objects, each atomic under that object's lock; between two steps other
  threads, requests and administrative calls run. Run without interruption, the steps are
  \<open>EnrollHandler_ServeHTTP\<close>. (The calls of the revocation client inside one verification
  stay one step: they only refresh a cache.)
\<close>

subsection \<open>Threads\<close>

datatype thread =
    Arrived http_request
  | Decoded prepared
  | Consumed prepared
  | Attested prepared AttestationRecord string
  | Checked prepared AttestationRecord string
  | Signed prepared DeviceRecord bytes
  | Unregistered DeviceRecord
  | Done "EnrollResponse http_response"

definition thread_step ::
  "golib \<Rightarrow> enroll_reading \<Rightarrow> ('c, 'r) EnrollHandler \<Rightarrow> thread \<times> ('c, 'r) enroll_state \<Rightarrow>
     thread \<times> ('c, 'r) enroll_state" where
  "thread_step lib env h ts =
     (case ts of (t, s) \<Rightarrow>
       (case t of
          Arrived req \<Rightarrow>
            (case enroll_decode lib (policy (es_verifier s)) req of
               Inl e \<Rightarrow> (Done (http_fail e), s) | Inr q \<Rightarrow> (Decoded q, s))
        | Decoded q \<Rightarrow>
            (case enroll_consume (eh_store h) (policy (es_verifier s)) (consume_now env) q (es_store s) of
               (Inl e, store') \<Rightarrow> (Done (http_fail e), s\<lparr>es_store := store'\<rparr>)
             | (Inr _, store') \<Rightarrow> (Consumed q, s\<lparr>es_store := store'\<rparr>))
        | Consumed q \<Rightarrow>
            (case enroll_attest lib (verify_reading env) q (es_verifier s) of
               (Inl e, v') \<Rightarrow> (Done (http_fail e), s\<lparr>es_verifier := v'\<rparr>)
             | (Inr (rec, identity), v') \<Rightarrow> (Attested q rec identity, s\<lparr>es_verifier := v'\<rparr>))
        | Attested q rec identity \<Rightarrow>
            (case enroll_refuse_revoked (eh_deviceRepo h) identity (es_repo s) of
               Inl e \<Rightarrow> (Done (http_fail e), s) | Inr _ \<Rightarrow> (Checked q rec identity, s))
        | Checked q rec identity \<Rightarrow>
            (case enroll_sign lib (signing env) h q identity of
               Inl e \<Rightarrow> (Done (http_fail e), s)
             | Inr (clientCert, clientPEM) \<Rightarrow>
                 (Signed q (device_record q rec identity clientCert (enrolled_now env)) clientPEM, s))
        | Signed q devRecord clientPEM \<Rightarrow>
            (case RegisterDevice (eh_deviceRepo h) devRecord (es_repo s) of
               (Some _, repo') \<Rightarrow> (Unregistered devRecord, s\<lparr>es_repo := repo'\<rparr>)
             | (None, repo') \<Rightarrow>
                 (Done (JsonResponse StatusCreated
                    (enroll_response h q (dev_Identity devRecord) clientPEM)), s\<lparr>es_repo := repo'\<rparr>))
        | Unregistered devRecord \<Rightarrow>
            (Done (http_fail (StatusInternalServerError, ''failed to persist device record'')),
             s\<lparr>es_repo := snd (RevokeSerial (eh_deviceRepo h) (dev_CertSerial devRecord) (es_repo s))\<rparr>)
        | Done r \<Rightarrow> (Done r, s)))"

lemma thread_steps_Done [simp]: "((thread_step lib env h) ^^ n) (Done r, s) = (Done r, s)"
  by (induction n) (simp_all add: thread_step_def)

lemma thread_step_unfold:
  "((thread_step lib env h) ^^ Suc n) ts = ((thread_step lib env h) ^^ n) (thread_step lib env h ts)"
  by (simp add: funpow_swap1)

text \<open>The last steps, from the attestation on, are \<open>enroll_issue\<close>.\<close>

lemma thread_issue:
  assumes "enroll_issue lib env h q s = (r, s')"
  shows "((thread_step lib env h) ^^ 5) (Consumed q, s) = (Done r, s')"
proof -
  obtain x v' where attest: "enroll_attest lib (verify_reading env) q (es_verifier s) = (x, v')"
    by fastforce
  show ?thesis
  proof (cases x)
    case (Inl e)
    with attest assms show ?thesis
      by (simp add: eval_nat_numeral thread_step_unfold del: funpow.simps)
        (simp add: thread_step_def enroll_issue_def)
  next
    case (Inr ri)
    obtain rec i where ri: "ri = (rec, i)" by (cases ri)
    let ?s1 = "s\<lparr>es_verifier := v'\<rparr>"
    have one: "thread_step lib env h (Consumed q, s) = (Attested q rec i, ?s1)"
      using attest Inr ri by (simp add: thread_step_def)
    show ?thesis
    proof (cases "enroll_refuse_revoked (eh_deviceRepo h) i (es_repo s)")
      case (Inl e)
      then have "thread_step lib env h (Attested q rec i, ?s1) = (Done (http_fail e), ?s1)"
        by (simp add: thread_step_def)
      with one Inl Inr ri attest assms show ?thesis
        by (simp add: eval_nat_numeral thread_step_unfold del: funpow.simps)
          (simp add: enroll_issue_def)
    next
      case ok: (Inr u)
      then have two: "thread_step lib env h (Attested q rec i, ?s1) = (Checked q rec i, ?s1)"
        by (simp add: thread_step_def)
      show ?thesis
      proof (cases "enroll_sign lib (signing env) h q i")
        case (Inl e)
        then have "thread_step lib env h (Checked q rec i, ?s1) = (Done (http_fail e), ?s1)"
          by (simp add: thread_step_def)
        with one two Inl ok Inr ri attest assms show ?thesis
          by (simp add: eval_nat_numeral thread_step_unfold del: funpow.simps)
            (simp add: enroll_issue_def)
      next
        case signed: (Inr cp)
        obtain cert pem where cp: "cp = (cert, pem)" by (cases cp)
        let ?dev = "device_record q rec i cert (enrolled_now env)"
        have three: "thread_step lib env h (Checked q rec i, ?s1) = (Signed q ?dev pem, ?s1)"
          using signed cp by (simp add: thread_step_def)
        have id: "dev_Identity ?dev = i" by (simp add: device_record_def)
        obtain e repo' where reg: "RegisterDevice (eh_deviceRepo h) ?dev (es_repo s) = (e, repo')"
          by fastforce
        show ?thesis
          using one two three reg ok Inr ri attest signed cp assms id
          by (cases e) (simp_all add: eval_nat_numeral thread_step_unfold del: funpow.simps,
            simp_all add: thread_step_def enroll_issue_def enroll_persist_def)
      qed
    qed
  qed
qed

text \<open>Seven uninterrupted steps are one call of the handler.\<close>

lemma thread_handler:
  assumes "EnrollHandler_ServeHTTP lib env h req s = (r, s')"
  shows "((thread_step lib env h) ^^ 7) (Arrived req, s) = (Done r, s')"
proof (cases "enroll_decode lib (policy (es_verifier s)) req")
  case (Inl e)
  with assms show ?thesis
    by (simp add: eval_nat_numeral thread_step_unfold del: funpow.simps)
      (simp add: thread_step_def EnrollHandler_ServeHTTP_def)
next
  case (Inr q)
  have seven: "(7::nat) = Suc (Suc 5)" by simp
  obtain x store' where consume: "enroll_consume (eh_store h) (policy (es_verifier s))
      (consume_now env) q (es_store s) = (x, store')" by fastforce
  have one: "thread_step lib env h (Arrived req, s) = (Decoded q, s)"
    using Inr by (simp add: thread_step_def)
  show ?thesis
  proof (cases x)
    case (Inl e)
    then have "thread_step lib env h (Decoded q, s) = (Done (http_fail e), s\<lparr>es_store := store'\<rparr>)"
      using consume by (simp add: thread_step_def)
    with one Inl Inr consume assms show ?thesis
      by (simp only: seven thread_step_unfold thread_steps_Done) (simp add: EnrollHandler_ServeHTTP_def)
  next
    case ok: (Inr u)
    then have two: "thread_step lib env h (Decoded q, s) = (Consumed q, s\<lparr>es_store := store'\<rparr>)"
      using consume by (simp add: thread_step_def)
    have "enroll_issue lib env h q (s\<lparr>es_store := store'\<rparr>) = (r, s')"
      using assms Inr ok consume by (simp add: EnrollHandler_ServeHTTP_def)
    from thread_issue [OF this] show ?thesis
      by (simp only: seven thread_step_unfold one two)
  qed
qed

subsection \<open>The interleaved machine\<close>

record concurrent =
  shared :: backend_state
  threads :: "nat \<rightharpoonup> enroll_reading \<times> thread"

datatype ievent = Arrive nat enroll_reading http_request | Advance nat | Atomic event answer

inductive istep :: "golib \<Rightarrow> server \<Rightarrow> concurrent \<Rightarrow> ievent \<Rightarrow> concurrent \<Rightarrow> bool"
  for lib :: golib and srv :: server where
  arrive: "threads c tid = None \<Longrightarrow>
     istep lib srv c (Arrive tid env req) (c\<lparr>threads := (threads c)(tid \<mapsto> (env, Arrived req))\<rparr>)"
| advance: "threads c tid = Some (env, t) \<Longrightarrow>
     thread_step lib env (enroll_handler srv) (t, shared c) = (t', s') \<Longrightarrow>
     istep lib srv c (Advance tid) (c\<lparr>shared := s', threads := (threads c)(tid \<mapsto> (env, t'))\<rparr>)"
| atomic: "step lib srv (shared c) ev a s' \<Longrightarrow>
     istep lib srv c (Atomic ev a) (c\<lparr>shared := s'\<rparr>)"

inductive iruns :: "golib \<Rightarrow> server \<Rightarrow> concurrent \<Rightarrow> ievent list \<Rightarrow> concurrent \<Rightarrow> bool"
  for lib :: golib and srv :: server where
  iruns_done: "iruns lib srv c [] c"
| iruns_step: "istep lib srv c e c1 \<Longrightarrow> iruns lib srv c1 es c2 \<Longrightarrow> iruns lib srv c (e # es) c2"

inductive_cases iruns_ConsE: "iruns lib srv c (e # es) c'"
inductive_cases iruns_NilE: "iruns lib srv c [] c'"
inductive_cases istep_AdvanceE: "istep lib srv c (Advance tid) c'"
inductive_cases istep_AtomicE: "istep lib srv c (Atomic ev a) c'"

lemma iruns_append: "iruns lib srv c es c1 \<Longrightarrow> iruns lib srv c1 es' c2 \<Longrightarrow> iruns lib srv c (es @ es') c2"
  by (induction rule: iruns.induct) (auto intro: iruns_step)

text \<open>A run of atomic events is a schedule; a thread that runs alone iterates its step.\<close>

lemma istep_atomic:
  "step lib srv s ev a s' \<Longrightarrow>
     istep lib srv \<lparr>shared = s, threads = ts\<rparr> (Atomic ev a) \<lparr>shared = s', threads = ts\<rparr>"
  using istep.atomic [of lib srv "\<lparr>shared = s, threads = ts\<rparr>" ev a s'] by simp

lemma istep_arrive:
  "ts tid = None \<Longrightarrow> istep lib srv \<lparr>shared = s, threads = ts\<rparr> (Arrive tid env req)
     \<lparr>shared = s, threads = ts(tid \<mapsto> (env, Arrived req))\<rparr>"
  using istep.arrive [of "\<lparr>shared = s, threads = ts\<rparr>" tid lib srv env req] by simp

lemma istep_advance:
  "ts tid = Some (env, t) \<Longrightarrow> thread_step lib env (enroll_handler srv) (t, s) = (t', s') \<Longrightarrow>
     istep lib srv \<lparr>shared = s, threads = ts\<rparr> (Advance tid) \<lparr>shared = s', threads = ts(tid \<mapsto> (env, t'))\<rparr>"
  using istep.advance [of "\<lparr>shared = s, threads = ts\<rparr>" tid env t lib srv t' s'] by simp

lemma run_iruns:
  "run lib srv s0 tr s \<Longrightarrow>
     iruns lib srv \<lparr>shared = s0, threads = ts\<rparr> (map (\<lambda>(e, a). Atomic e a) tr) \<lparr>shared = s, threads = ts\<rparr>"
proof (induction rule: run.induct)
  case run_start
  then show ?case by (simp add: iruns_done)
next
  case (run_step tr s ev a s')
  have "iruns lib srv \<lparr>shared = s, threads = ts\<rparr> [Atomic ev a] \<lparr>shared = s', threads = ts\<rparr>"
    by (rule iruns_step [OF istep_atomic [OF run_step.hyps(2)] iruns_done])
  from iruns_append [OF run_step.IH this] show ?case by simp
qed

lemma iruns_advances:
  assumes "threads c tid = Some (env, t)"
  shows "iruns lib srv c (replicate n (Advance tid))
    (case ((thread_step lib env (enroll_handler srv)) ^^ n) (t, shared c) of
       (t', s') \<Rightarrow> c\<lparr>shared := s', threads := (threads c)(tid \<mapsto> (env, t'))\<rparr>)"
  using assms
proof (induction n arbitrary: c t)
  case 0
  have "c\<lparr>shared := shared c, threads := (threads c)(tid \<mapsto> (env, t))\<rparr> = c"
    by (cases c) (use 0 in \<open>simp add: fun_upd_idem\<close>)
  then show ?case by (simp only: replicate.simps(1) funpow_0 prod.case iruns_done)
next
  case (Suc n)
  obtain t1 s1 where st: "thread_step lib env (enroll_handler srv) (t, shared c) = (t1, s1)" by fastforce
  let ?c1 = "c\<lparr>shared := s1, threads := (threads c)(tid \<mapsto> (env, t1))\<rparr>"
  have "istep lib srv c (Advance tid) ?c1" by (rule istep.advance [OF Suc.prems st])
  moreover have "threads ?c1 tid = Some (env, t1)" by simp
  from Suc.IH [OF this] have "iruns lib srv ?c1 (replicate n (Advance tid))
      (case ((thread_step lib env (enroll_handler srv)) ^^ n) (t1, s1) of
         (t', s') \<Rightarrow> c\<lparr>shared := s', threads := (threads c)(tid \<mapsto> (env, t'))\<rparr>)"
    by (simp del: fun_upd_apply split: prod.splits)
  ultimately show ?case
    using st by (simp add: thread_step_unfold iruns_step del: funpow.simps fun_upd_apply)
qed

subsection \<open>Revocation and enrollments under way\<close>

text \<open>A thread that has seen the identity not revoked and has not yet stored its record.\<close>

definition past_check :: "string \<Rightarrow> thread \<Rightarrow> bool" where
  "past_check i t =
     (case t of
        Checked q rec identity \<Rightarrow> identity = i
      | Signed q devRecord clientPEM \<Rightarrow> dev_Identity devRecord = i
      | _ \<Rightarrow> False)"

definition none_past_check :: "string \<Rightarrow> concurrent \<Rightarrow> bool" where
  "none_past_check i c \<longleftrightarrow> (\<forall>tid env t. threads c tid = Some (env, t) \<longrightarrow> \<not> past_check i t)"

lemma thread_step_registry:
  assumes h: "h = mem_handler ca pem ttl" and st: "thread_step lib env h (t, s) = (t', s')"
    and rev: "revoked_device s i" and no: "\<not> past_check i t"
  shows "revoked_device s' i \<and> \<not> past_check i t'"
proof (cases t)
  case (Arrived req)
  with st rev show ?thesis
    by (auto simp: thread_step_def past_check_def split: sum.splits)
next
  case (Decoded q)
  with st rev show ?thesis
    by (auto simp: thread_step_def past_check_def revoked_device_def split: sum.splits prod.splits)
next
  case (Consumed q)
  with st rev show ?thesis
    by (auto simp: thread_step_def past_check_def revoked_device_def split: sum.splits prod.splits)
next
  case (Attested q rec identity)
  have "enroll_refuse_revoked memory_device_repo i (es_repo s) \<noteq> Inr u" for u
    using rev mem_enroll.refuse_revoked_ok [of ca pem ttl i "es_repo s" u]
    by (auto simp: revoked_device_def)
  with Attested st rev show ?thesis
    by (auto simp: thread_step_def past_check_def h split: sum.splits)
next
  case (Checked q rec identity)
  with st rev no show ?thesis
    by (auto simp: thread_step_def past_check_def device_record_def split: sum.splits prod.splits)
next
  case (Signed q devRecord clientPEM)
  with st rev no show ?thesis
    by (auto simp: thread_step_def past_check_def revoked_device_def h mem_RegisterDevice_def)
next
  case (Unregistered devRecord)
  with st rev show ?thesis
    by (auto simp: thread_step_def past_check_def revoked_device_def h repo_simps)
next
  case (Done r)
  with st rev show ?thesis by (auto simp: thread_step_def past_check_def)
qed

lemma istep_stays_revoked:
  assumes "istep lib srv c e c'" "in_memory srv" "revoked_device (shared c) i" "none_past_check i c"
  shows "revoked_device (shared c') i \<and> none_past_check i c'"
  using assms(1)
proof cases
  case (arrive tid env req)
  with assms show ?thesis by (auto simp: none_past_check_def past_check_def)
next
  case (advance tid env t t' s')
  from assms(2) obtain ca pem ttl where h: "enroll_handler srv = mem_handler ca pem ttl"
    by (auto simp: in_memory_def)
  have "\<not> past_check i t" using assms(4) advance by (auto simp: none_past_check_def)
  with thread_step_registry [OF h advance(4) assms(3)] advance assms(4)
  show ?thesis by (auto simp: none_past_check_def)
next
  case (atomic ev a s')
  with assms step_revoked_device show ?thesis by (auto simp: none_past_check_def)
qed

lemma iruns_stays_revoked:
  "iruns lib srv c es c' \<Longrightarrow> in_memory srv \<Longrightarrow> revoked_device (shared c) i \<Longrightarrow> none_past_check i c \<Longrightarrow>
     revoked_device (shared c') i \<and> none_past_check i c'"
  by (induction rule: iruns.induct) (auto dest: istep_stays_revoked)

text \<open>No schedule takes a serial off the revoked ones.\<close>

lemma thread_step_revokedSerials:
  assumes "h = mem_handler ca pem ttl" "thread_step lib env h (t, s) = (t', s')"
  shows "revokedSerials (es_repo s) \<subseteq> revokedSerials (es_repo s')"
  using assms(2) unfolding assms(1)
  by (cases t) (auto simp: thread_step_def mem_RegisterDevice_def mem_RevokeSerial_def
      split: sum.splits prod.splits)

lemma iruns_revokedSerials:
  assumes "iruns lib srv c es c'" "in_memory srv"
  shows "revokedSerials (es_repo (shared c)) \<subseteq> revokedSerials (es_repo (shared c'))"
proof -
  from assms(2) obtain ca pem ttl where h: "enroll_handler srv = mem_handler ca pem ttl"
    by (auto simp: in_memory_def)
  have one: "revokedSerials (es_repo (shared c)) \<subseteq> revokedSerials (es_repo (shared c1))"
    if "istep lib srv c e c1" for c e c1
    using that
  proof cases
    case (advance tid env t t' s')
    with thread_step_revokedSerials [OF h] show ?thesis by fastforce
  next
    case (atomic ev a s')
    with step_revokedSerials [OF assms(2)] show ?thesis by fastforce
  qed simp
  show ?thesis using assms(1) by (induction rule: iruns.induct) (use one in blast)+
qed

text \<open>What an administrator's successful revocation leaves in the registry.\<close>

lemma istep_revoke_device:
  assumes "istep lib srv c (Atomic (AdminRevokeDevice i) (StorageAnswer None)) c1" "in_memory srv"
  obtains rec where "devices (es_repo (shared c)) i = Some rec" "revoked_device (shared c1) i"
    "dev_CertSerial rec \<in> revokedSerials (es_repo (shared c1))" "threads c1 = threads c"
proof -
  from assms obtain repo' where revoke: "mem_RevokeDevice i (es_repo (shared c)) = (None, repo')"
    and c1: "shared c1 = (shared c)\<lparr>es_repo := repo'\<rparr>" "threads c1 = threads c"
    by (auto elim!: istep_AtomicE simp: step_simps in_memory_simps)
  from revoke obtain rec where rec: "devices (es_repo (shared c)) i = Some rec"
    using mem_RevokeDevice_simps(3) [of i "es_repo (shared c)"] by auto
  with revoke c1 mem_RevokeDevice_simps(1,2) [of i "es_repo (shared c)"]
  show thesis by (intro that [OF rec]) (simp_all add: revoked_device_def)
qed

lemma istep_revoke_serial:
  assumes "istep lib srv c (Atomic (AdminRevokeSerial serial) a) c1" "in_memory srv"
  shows "serial \<in> revokedSerials (es_repo (shared c1))"
  using assms mem_RevokeSerial_simps(3) [of serial "es_repo (shared c)"]
  by (auto elim!: istep_AtomicE simp: step_simps in_memory_simps)

text \<open>
  A request of the protected resource reads the registry three times, and other steps run in
  between: the record, its activity and the serial are each looked up in a state of their own.
\<close>

lemma interleaved_ping_accepted:
  assumes "in_memory srv"
    and "protected_ping (Some (eh_deviceRepo (enroll_handler srv))) now (es_repo sa) (es_repo sb)
      (es_repo sc) req = JsonResponse status body"
  shows "\<not> revoked_device sb (pr_ClientIdentity body) \<and>
    pr_CertSerial body \<notin> revokedSerials (es_repo sc) \<and>
    (\<exists>c cs rec. req_TLS req = Some (c # cs) \<and> self_bound c (pr_ClientIdentity body) \<and>
       pr_CertSerial body = serial_text c \<and>
       devices (es_repo sa) (pr_ClientIdentity body) = Some rec \<and> dev_CertSerial rec = serial_text c)"
proof -
  from assms(2) in_memory_simps [OF assms(1)] obtain identity where
    auth: "authenticate (Some memory_device_repo) (es_repo sa) (es_repo sb) (es_repo sc) req = Inr identity"
    and body: "pr_ClientIdentity body = id_Identity identity" "pr_CertSerial body = id_CertSerial identity"
    by (auto simp: protected_ping_ok_iff)
  from auth obtain c cs rec rec2 where "devices (es_repo sb) (id_Identity identity) = Some rec2"
    "\<not> dev_IsRevoked rec2" "serial_text c \<notin> revokedSerials (es_repo sc)"
    "req_TLS req = Some (c # cs)" "self_bound c (id_Identity identity)"
    "devices (es_repo sa) (id_Identity identity) = Some rec" "dev_CertSerial rec = serial_text c"
    and eq: "identity = \<lparr>id_Identity = id_Identity identity, id_Label = dev_Label rec,
                    id_CertSerial = serial_text c, id_Record = Some rec\<rparr>"
    unfolding memrepo.authenticate_eq_Inr by blast
  moreover have "id_CertSerial identity = serial_text c" by (subst eq) simp
  ultimately show ?thesis using body by (auto simp: revoked_device_def)
qed

subsection \<open>Challenges of enrollments under way\<close>

text \<open>
  Nothing but the challenge endpoint, which answers in one step, puts a challenge into the store.
\<close>

lemma thread_step_challenges:
  assumes h: "h = mem_handler ca pem ttl" and st: "thread_step lib env h (t, s) = (t', s')"
    and "challenges (es_store s) ch = None"
  shows "challenges (es_store s') ch = None"
  using st assms(3) unfolding h
  by (cases t)
    (auto simp: thread_step_def enroll_consume_def store_simps
      split: sum.splits prod.splits option.splits if_splits
      dest!: arg_cong [where f = snd])

lemma iruns_challenge_gone:
  assumes "iruns lib srv c es c'" "in_memory srv" "challenges (es_store (shared c)) ch = None"
    and "\<forall>ev a. Atomic ev a \<in> set es \<longrightarrow> \<not> hands_out ch (ev, a)"
  shows "challenges (es_store (shared c')) ch = None"
proof -
  from assms(2) obtain ca pem ttl where h: "enroll_handler srv = mem_handler ca pem ttl"
    by (auto simp: in_memory_def)
  have one: "challenges (es_store (shared c1)) ch = None"
    if "istep lib srv c e c1" "challenges (es_store (shared c)) ch = None"
      "\<forall>ev a. e = Atomic ev a \<longrightarrow> \<not> hands_out ch (ev, a)" for c e c1
    using that(1)
  proof cases
    case (advance tid env t t' s')
    with thread_step_challenges [OF h] that(2) show ?thesis by fastforce
  next
    case (atomic ev a s')
    with that(3) have "\<not> hands_out ch (ev, a)" by simp
    with step_challenges(2) [OF assms(2) atomic(3)] that(2) atomic(2) show ?thesis by fastforce
  qed (use that(2) in simp)
  show ?thesis using assms(1,3,4)
    by (induction rule: iruns.induct) (use one in \<open>auto simp: Ball_def\<close>)
qed

text \<open>The step in which a thread consumes its challenge, and what it needs and leaves.\<close>

lemma thread_consumes:
  assumes h: "h = mem_handler ca pem ttl"
    and st: "thread_step lib env h (Decoded q, s) = (t', s')" and "p_challenge q \<noteq> []"
  shows "if \<exists>ex. challenges (es_store s) (b64_encode (p_challenge q)) = Some ex \<and> consume_now env < ex
     then t' = Consumed q
     else t' = Done (http_fail (StatusBadRequest, ''invalid or expired attestation challenge''))"
    and "challenges (es_store s') (b64_encode (p_challenge q)) = None"
proof -
  obtain ok store' where consume: "mem_VerifyAndConsume (consume_now env)
      (b64_encode (p_challenge q)) (es_store s) = (ok, store')" by fastforce
  from consume mem_VerifyAndConsume_result [of "consume_now env" "b64_encode (p_challenge q)" "es_store s"]
  have ok: "ok \<longleftrightarrow> (\<exists>ex. challenges (es_store s) (b64_encode (p_challenge q)) = Some ex \<and>
      consume_now env < ex)" by simp
  from consume mem_VerifyAndConsume_state [of "consume_now env" "b64_encode (p_challenge q)" "es_store s"]
  have gone: "challenges store' (b64_encode (p_challenge q)) = None" by simp
  from st consume assms(3) have "t' = (if ok then Consumed q else
      Done (http_fail (StatusBadRequest, ''invalid or expired attestation challenge'')))"
    and s': "es_store s' = store'"
    by (auto simp: thread_step_def enroll_consume_def h split: if_splits)
  with ok show "if \<exists>ex. challenges (es_store s) (b64_encode (p_challenge q)) = Some ex \<and> consume_now env < ex
     then t' = Consumed q
     else t' = Done (http_fail (StatusBadRequest, ''invalid or expired attestation challenge''))"
    by auto
  from gone s' show "challenges (es_store s') (b64_encode (p_challenge q)) = None" by simp
qed

subsection \<open>The window\<close>

text \<open>
  The window between the check and the registration: a revocation that falls into it is
  overwritten by the record of the enrollment.
\<close>

lemma revocation_overwritten:
  assumes "in_memory srv" "threads c tid = Some (env, Signed q devRecord clientPEM)"
    and "iruns lib srv c [Atomic (AdminRevokeDevice i) a, Advance tid] c'" "dev_Identity devRecord = i"
  shows "devices (es_repo (shared c')) i = Some devRecord"
proof -
  from assms(3) obtain c1 where one: "istep lib srv c (Atomic (AdminRevokeDevice i) a) c1"
    and two: "istep lib srv c1 (Advance tid) c'" by (auto elim!: iruns_ConsE iruns_NilE)
  from one have "threads c1 = threads c" by (auto elim: istep_AtomicE)
  with two assms(2) have "shared c' = snd (thread_step lib env (enroll_handler srv)
      (Signed q devRecord clientPEM, shared c1))"
    by (auto elim!: istep_AdvanceE)
  with assms(4) in_memory_simps [OF assms(1)] show ?thesis
    by (simp add: thread_step_def mem_RegisterDevice_def)
qed

end
