(* ===== verification/Evidence.thy ===== *)
theory Evidence
  imports Interleaving
begin

text \<open>
  The evidence behind registered devices when enrollments interleave: in every schedule, a
  record and every enrollment that is past its attestation belong to a key that the verifier
  accepted, with a challenge that had been handed out.
\<close>

definition key_evidence ::
  "golib \<Rightarrow> cert_pool \<Rightarrow> Policy \<Rightarrow> string set \<Rightarrow> string \<Rightarrow> bool" where
  "key_evidence lib roots p handed i \<longleftrightarrow>
     (\<exists>chain ch der now. i = hex_encode (sha256 der) \<and> b64_encode ch \<in> handed \<and>
        attested_key lib roots p now chain ch (EncodableKey der))"

text \<open>The challenges that the atomic requests of a schedule handed out.\<close>

definition handed_out :: "ievent list \<Rightarrow> string set" where
  "handed_out es = {ch. \<exists>ev a. Atomic ev a \<in> set es \<and> hands_out ch (ev, a)}"

lemma handed_out_Nil [simp]: "handed_out [] = {}"
  by (simp add: handed_out_def)

lemma handed_out_Cons: "handed_out (e # es) = handed_out [e] \<union> handed_out es"
  by (auto simp: handed_out_def)

fun thread_evidence :: "golib \<Rightarrow> cert_pool \<Rightarrow> Policy \<Rightarrow> string set \<Rightarrow> thread \<Rightarrow> bool" where
  "thread_evidence lib roots p H (Consumed q) \<longleftrightarrow> p_challenge q \<noteq> [] \<and> b64_encode (p_challenge q) \<in> H"
| "thread_evidence lib roots p H (Attested q rec i) \<longleftrightarrow> key_evidence lib roots p H i"
| "thread_evidence lib roots p H (Checked q rec i) \<longleftrightarrow> key_evidence lib roots p H i"
| "thread_evidence lib roots p H (Signed q devRecord pem) \<longleftrightarrow>
     key_evidence lib roots p H (dev_Identity devRecord)"
| "thread_evidence lib roots p H _ \<longleftrightarrow> True"

definition state_evidence ::
  "golib \<Rightarrow> cert_pool \<Rightarrow> Policy \<Rightarrow> string set \<Rightarrow> backend_state \<Rightarrow> bool" where
  "state_evidence lib roots p H s \<longleftrightarrow>
     policy (es_verifier s) = p \<and> rootPool (es_verifier s) = roots \<and>
     (\<forall>ch. challenges (es_store s) ch \<noteq> None \<longrightarrow> ch \<in> H) \<and>
     (\<forall>i rec. devices (es_repo s) i = Some rec \<longrightarrow> key_evidence lib roots p H i)"

definition evidence_kept ::
  "golib \<Rightarrow> cert_pool \<Rightarrow> Policy \<Rightarrow> string set \<Rightarrow> concurrent \<Rightarrow> bool" where
  "evidence_kept lib roots p H c \<longleftrightarrow> state_evidence lib roots p H (shared c) \<and>
     (\<forall>tid env t. threads c tid = Some (env, t) \<longrightarrow> thread_evidence lib roots p H t)"

lemma key_evidence_mono: "key_evidence lib roots p H i \<Longrightarrow> H \<subseteq> H' \<Longrightarrow> key_evidence lib roots p H' i"
  by (auto simp: key_evidence_def)

lemma thread_evidence_mono:
  "thread_evidence lib roots p H t \<Longrightarrow> H \<subseteq> H' \<Longrightarrow> thread_evidence lib roots p H' t"
  by (cases t) (auto intro: key_evidence_mono)

lemma state_evidence_mono:
  "state_evidence lib roots p H s \<Longrightarrow> H \<subseteq> H' \<Longrightarrow> state_evidence lib roots p H' s"
  unfolding state_evidence_def by (blast intro: key_evidence_mono)

subsection \<open>One step of an enrollment\<close>

lemma attest_evidence:
  assumes "strict_policy (policy v)" "enroll_attest lib env q v = (Inr (rec, i), v')"
    and "b64_encode (p_challenge q) \<in> H"
  shows "key_evidence lib (rootPool v) (policy v) H i"
proof -
  from assms(2) obtain der where verified: "VerifyAttestation lib env v (p_chainDER q) (p_challenge q)
      (EncodableKey der) = (Inr rec, v')" and i: "i = hex_encode (sha256 der)"
    by (auto simp: enroll_attest_def PublicKeyFingerprint_eq_Inr split: prod.splits sum.splits)
  from VerifyAttestation_strict(1) [OF assms(1) verified] assms(3) i
  show ?thesis unfolding key_evidence_def by blast
qed

lemma attest_frame:
  "enroll_attest lib env q v = (x, v') \<Longrightarrow> policy v' = policy v \<and> rootPool v' = rootPool v"
  by (auto simp: enroll_attest_def split: prod.splits sum.splits dest: VerifyAttestation_frame)

lemma thread_step_evidence:
  assumes h: "h = mem_handler ca pem ttl" and strict: "strict_policy p"
    and s: "state_evidence lib roots p H s" and t: "thread_evidence lib roots p H t"
    and st: "thread_step lib env h (t, s) = (t', s')"
  shows "state_evidence lib roots p H s' \<and> thread_evidence lib roots p H t'"
proof (cases t)
  case (Arrived req)
  with st s show ?thesis by (auto simp: thread_step_def split: sum.splits)
next
  case (Decoded q)
  show ?thesis
  proof (cases "p_challenge q = []")
    case True
    with Decoded st s strict show ?thesis
      by (auto simp: thread_step_def enroll_consume_def state_evidence_def strict_policy_def)
  next
    case False
    from thread_consumes(1) [OF h st [unfolded Decoded] False] s False
    have "thread_evidence lib roots p H t'" by (auto simp: state_evidence_def split: if_splits)
    moreover have "ch \<in> H" if "challenges (es_store s') ch \<noteq> None" for ch
      using thread_step_challenges [OF h st, of ch] s that by (auto simp: state_evidence_def)
    moreover have "es_verifier s' = es_verifier s" "es_repo s' = es_repo s"
      using st Decoded by (auto simp: thread_step_def split: prod.splits sum.splits)
    ultimately show ?thesis using s by (auto simp: state_evidence_def)
  qed
next
  case (Consumed q)
  obtain x v' where attest: "enroll_attest lib (verify_reading env) q (es_verifier s) = (x, v')"
    by fastforce
  have "state_evidence lib roots p H (s\<lparr>es_verifier := v'\<rparr>)"
    using s attest_frame [OF attest] by (simp add: state_evidence_def)
  moreover have "key_evidence lib roots p H i" if "x = Inr (rec, i)" for rec i
    using attest_evidence [of "es_verifier s" lib "verify_reading env" q rec i v' H]
      attest that s strict t Consumed by (simp add: state_evidence_def)
  ultimately show ?thesis
    using st Consumed attest by (cases x) (auto simp: thread_step_def)
next
  case (Attested q rec i)
  with st s t show ?thesis by (auto simp: thread_step_def split: sum.splits)
next
  case (Checked q rec i)
  with st s t show ?thesis by (auto simp: thread_step_def device_record_def split: sum.splits)
next
  case (Signed q devRecord clientPEM)
  with st s t show ?thesis
    by (auto simp: thread_step_def h mem_RegisterDevice_def state_evidence_def split: if_splits)
next
  case (Unregistered devRecord)
  with st s show ?thesis by (auto simp: thread_step_def h state_evidence_def repo_simps)
next
  case (Done r)
  with st s show ?thesis by (auto simp: thread_step_def)
qed

subsection \<open>All steps\<close>

lemma step_evidence:
  assumes srv: "in_memory srv" and strict: "strict_policy p" and st: "step lib srv s ev a s'"
    and s: "state_evidence lib roots p H s"
  shows "state_evidence lib roots p (H \<union> handed_out [Atomic ev a]) s'"
proof -
  let ?H = "H \<union> handed_out [Atomic ev a]"
  have pol: "policy (es_verifier s) = p" "rootPool (es_verifier s) = roots"
    using s by (simp_all add: state_evidence_def)
  have "ch \<in> ?H" if "challenges (es_store s') ch \<noteq> None" for ch
    using step_challenges(2) [OF srv st that] s by (auto simp: state_evidence_def handed_out_def)
  moreover have "key_evidence lib roots p ?H i" if dev: "devices (es_repo s') i = Some rec" for i rec
  proof (cases "devices (es_repo s) i = None")
    case False
    then obtain old where "devices (es_repo s) i = Some old" by blast
    with s have "key_evidence lib roots p H i" by (simp add: state_evidence_def)
    then show ?thesis by (rule key_evidence_mono) simp
  next
    case True
    with step_devices [OF srv st dev] have "enrolls lib srv ev a i (dev_CertSerial rec)" by auto
    from enrolls_attested [OF srv st this] strict pol obtain ch where
      att: "attested_enrollment lib roots p ev i ch" and spend: "spends lib p ch (ev, a)" by auto
    from step_challenges(1) [OF srv st, of ch] spend pol have "challenges (es_store s) ch \<noteq> None" by simp
    with s have "ch \<in> ?H" by (simp add: state_evidence_def)
    with att show ?thesis unfolding attested_enrollment_def key_evidence_def by blast
  qed
  ultimately show ?thesis using step_verifier_frame [OF st] pol by (simp add: state_evidence_def)
qed

lemma istep_evidence:
  assumes "istep lib srv c e c'" and srv: "in_memory srv" and strict: "strict_policy p"
    and c: "evidence_kept lib roots p H c"
  shows "evidence_kept lib roots p (H \<union> handed_out [e]) c'"
proof -
  let ?H = "H \<union> handed_out [e]"
  have more: "evidence_kept lib roots p ?H c"
    using c unfolding evidence_kept_def by (blast intro: state_evidence_mono thread_evidence_mono)
  from assms(1) show ?thesis
  proof cases
    case (arrive tid env req)
    with more show ?thesis by (auto simp: evidence_kept_def)
  next
    case (advance tid env t t' s')
    from srv obtain ca pem ttl where h: "enroll_handler srv = mem_handler ca pem ttl"
      by (auto simp: in_memory_def)
    from more advance(3) have "state_evidence lib roots p ?H (shared c)" "thread_evidence lib roots p ?H t"
      by (auto simp: evidence_kept_def)
    from thread_step_evidence [OF h strict this advance(4)] more advance(2)
    show ?thesis by (auto simp: evidence_kept_def)
  next
    case (atomic ev a s')
    from c have "state_evidence lib roots p H (shared c)" by (simp add: evidence_kept_def)
    from step_evidence [OF srv strict atomic(3) this] more atomic(1,2)
    show ?thesis by (simp add: evidence_kept_def)
  qed
qed

lemma iruns_evidence:
  assumes "iruns lib srv c es c'" "in_memory srv" "strict_policy p" "evidence_kept lib roots p H c"
  shows "evidence_kept lib roots p (H \<union> handed_out es) c'"
  using assms
proof (induction arbitrary: H rule: iruns.induct)
  case (iruns_step c e c1 es c2)
  from iruns_step.IH [OF iruns_step.prems(1,2)
      istep_evidence [OF iruns_step.hyps(1) iruns_step.prems]]
  show ?case by (simp add: Un_assoc handed_out_Cons [of e es])
qed simp

lemma initial_evidence:
  "evidence_kept lib (rootPool v) (policy v) {} \<lparr>shared = initial_state v, threads = Map.empty\<rparr>"
  by (simp add: evidence_kept_def state_evidence_def initial_state_def NewMemoryChallengeStore_def
      NewMemoryDeviceRepo_def)

end
