(* ===== verification/VerifierProperties.thy ===== *)
theory VerifierProperties
  imports Examples
begin

text \<open>
  Properties of the attestation verifier, the revocation list, the certificate signer and the
  certificate pools, each with an instance in the concrete setting of \<open>Examples\<close>.
\<close>

subsection \<open>Attestation\<close>

text \<open>
  C4. The exact verdict of the verifier under the strict policies: it accepts a chain if and
  only if the chain consists of 2 to 16 certificates that parse, the revocation check lets
  them pass, the leaf is verified up to the verifier's roots with the others as
  intermediates, its key is the key of the CSR, and its extension carries the expected
  challenge, hardware security levels, a TEE-enforced root of trust that is locked and
  verified, the expected package and the required versions.
\<close>

theorem strict_verdict:
  assumes "strict_policy (policy v)"
  shows "(\<exists>rec v'. VerifyAttestation lib env v chain ch k = (Inr rec, v')) \<longleftrightarrow>
     attested_key lib (rootPool v) (policy v) (chain_now env) chain ch k \<and>
     (\<exists>certs v'. parse_chain lib chain = Inr certs \<and>
        revocation_step lib (list_env env) v certs = (Inr (), v'))"
  using assms by (rule VerifyAttestation_strict_iff)

theorem strict_verdict_witness:
  "attested_key demo_lib [] demo_policy 100 [[1], [2]] demo_challenge demo_key \<and>
   (\<exists>rec v'. VerifyAttestation demo_lib demo_env demo_checking_verifier [[1], [2]] demo_challenge
      demo_key = (Inr rec, v'))"
  using strict_verdict [of demo_checking_verifier demo_lib demo_env "[[1], [2]]" demo_challenge demo_key]
    demo_policy_strict demo_checked
  by (auto simp: demo_checking_verifier_def demo_verifier_def demo_env_def)

text \<open>
  C15. From the device's record to the verdict: when the leaf carries the DER encoding of what
  a device attests, the strict policies accept exactly the genuine devices - the right
  challenge, hardware levels, a locked bootloader, a verified boot, the expected package and
  recent enough versions. The parser loses or confuses nothing on the way.
\<close>

theorem device_verdict:
  assumes "strict_policy p" "attestation_ok a" "find_attestation_ext leaf = Some ext"
    and "ext_value ext = encode_attestation a"
  shows "(\<exists>rec. extension_step p leaf ch = Inr rec) \<longleftrightarrow> genuine_device p ch a"
  using assms by (rule extension_step_device)

theorem device_verdict_witness:
  "(\<exists>rec. extension_step demo_policy demo_leaf demo_challenge = Inr rec) \<and>
   \<not> (\<exists>rec. extension_step demo_policy demo_leaf [] = Inr rec)"
proof -
  have v: "(\<exists>rec. extension_step demo_policy demo_leaf ch = Inr rec) \<longleftrightarrow>
      genuine_device demo_policy ch demo_attestation" for ch
    by (rule device_verdict [OF demo_policy_strict demo_attestation_ok demo_leaf_ext])
      (simp add: demo_extension_def)
  have "\<not> genuine_device demo_policy [] demo_attestation"
    by (simp add: genuine_device_def demo_attestation_def demo_challenge_def)
  with v demo_genuine show ?thesis by blast
qed

text \<open>
  C16. Decoding an encoded attestation gives back the challenge and levels the device put in,
  and the tag lookups find its root of trust, its versions and its packages.
\<close>

theorem attestation_round_trip:
  assumes "attestation_ok a"
  shows "\<exists>kd. parse_KeyDescription (encode_attestation a) = Inr kd \<and>
     kd_AttestationChallenge kd = da_challenge a \<and>
     kd_AttestationSecurityLevel kd = da_level a \<and> kd_KeymasterSecurityLevel kd = da_km_level a \<and>
     findRootOfTrust (rv_full (kd_TeeEnforced kd)) = Inr (Some (da_root a)) \<and>
     findIntTag (rv_full (kd_TeeEnforced kd)) TagOSVersion = Inr (da_os_version a) \<and>
     findIntTag (rv_full (kd_TeeEnforced kd)) TagOSPatch = Inr (da_patch_level a) \<and>
     (application_listed kd package \<longleftrightarrow>
        (\<exists>p \<in> set (da_packages a). PackageName p = bytes_of_string package))"
  using parse_attestation [OF assms] device_values [OF assms]
  by (intro exI [of _ "decoded (device_description a)"])
    (simp, simp add: decoded_def device_description_def)

theorem attestation_round_trip_witness:
  "\<exists>kd. parse_KeyDescription (encode_attestation demo_attestation) = Inr kd \<and>
     kd_AttestationChallenge kd = demo_challenge \<and> kd_AttestationSecurityLevel kd = 1 \<and>
     findIntTag (rv_full (kd_TeeEnforced kd)) TagOSVersion = Inr 140000 \<and>
     application_listed kd ''com.kypeli.mtlspoc''"
  using attestation_round_trip [OF demo_attestation_ok, of "''com.kypeli.mtlspoc''"]
  by (auto simp: demo_attestation_def level_defs)

text \<open>
  C20. A verification that succeeds with the revocation check on has asked the verifier's own
  client about every certificate of the chain, one after the other, and every answer was no:
  the list the client held after that question, which it fetched or still had, gives the
  fingerprint of the certificate's key no status that reads revoked. The verifier keeps the
  client as the last question left it.
\<close>

theorem chain_checked_for_revocation:
  assumes "VerifyAttestation lib env v chain ch k = (Inr rec, v')" "chain \<noteq> []"
    and "CheckRevocationList (policy v)" "revocations v = Some rc"
  shows "\<exists>certs cs. parse_chain lib chain = Inr certs \<and>
     length cs = Suc (length certs) \<and> cs ! 0 = rc \<and> revocations v' = Some (cs ! length certs) \<and>
     (\<forall>i < length certs.
        IsKeyRevoked lib (list_env env i) (PublicKey (certs ! i)) (cs ! i) = (Inr False, cs ! Suc i) \<and>
        (\<exists>kid listed. PublicKeyFingerprint (PublicKey (certs ! i)) = Inr kid \<and>
           entries (cs ! Suc i) = Some listed \<and>
           (\<forall>status. listed kid = Some status \<longrightarrow> \<not> spells_revoked status)))"
  using assms by (rule VerifyAttestation_checked)

theorem chain_checked_for_revocation_witness:
  "\<exists>c. IsKeyRevoked demo_lib (list_env demo_env 0) demo_key demo_client_list = (Inr False, c) \<and>
     IsKeyRevoked demo_lib (list_env demo_env 1) (PublicKey demo_intermediate) c =
       (Inr False, demo_client_list)"
proof -
  obtain rec where v: "VerifyAttestation demo_lib demo_env demo_checking_verifier [[1], [2]]
      demo_challenge demo_key = (Inr rec, demo_checking_verifier)"
    using demo_checked by blast
  have r: "revocations demo_checking_verifier = Some demo_client_list"
    "CheckRevocationList (policy demo_checking_verifier)"
    by (simp_all add: demo_checking_verifier_def demo_verifier_def demo_policy_def
        DefaultStrictPolicy_def)
  from chain_checked_for_revocation [OF v _ r(2,1)] demo_parse_chain r(1)
  obtain cs where cs: "cs ! 0 = demo_client_list" "demo_client_list = cs ! 2"
    and asked: "\<forall>i < 2. IsKeyRevoked demo_lib (list_env demo_env i)
      (PublicKey ([demo_leaf, demo_intermediate] ! i)) (cs ! i) = (Inr False, cs ! Suc i)"
    by (auto simp: numeral_2_eq_2)
  have "PublicKey demo_leaf = demo_key" by (simp add: demo_leaf_def)
  with asked [THEN spec, of 0] asked [THEN spec, of 1] cs show ?thesis
    by (intro exI [of _ "cs ! 1"]) (simp add: numeral_2_eq_2)
qed

text \<open>
  C36. In an enrollment the verifier's challenge comparison cannot fail: the challenge the
  handler passes is the one it read from the leaf's extension, so the binding of the
  attestation to the session is the consumption of the challenge alone.
\<close>

theorem challenge_mismatch_unreachable:
  assumes "locate_challenge lib p chain = Inr ch"
  shows "fst (VerifyAttestation lib env v chain ch k) \<noteq> Inl ChallengeMismatch"
  using assms by (rule VerifyAttestation_not_mismatch)

theorem challenge_mismatch_unreachable_witness:
  "fst (VerifyAttestation demo_lib demo_env demo_checking_verifier [[1], [2]] demo_challenge
     (EncodableKey [0])) \<noteq> Inl ChallengeMismatch"
proof (rule challenge_mismatch_unreachable)
  show "locate_challenge demo_lib demo_policy [[1], [2]] = Inr demo_challenge"
    unfolding locate_challenge_ok ExtractChallenge_ok
    using demo_leaf_ext parse_attestation [OF demo_attestation_ok]
    by (auto simp: demo_lib_def demo_extension_def decoded_def device_description_def
        demo_attestation_def)
qed

text \<open>
  C35. Development mode only relaxes: a chain that a strict policy accepts is accepted by the
  development policy with the same package and minimum versions, without the revocation check
  and also with it, when the strict policy makes it.
\<close>

theorem development_mode_relaxes:
  assumes "strict_policy (policy v)" "VerifyAttestation lib env v chain ch k = (Inr rec, v')"
  shows "(\<exists>rec'. VerifyAttestation lib env (v\<lparr>policy := relaxed_policy (policy v)\<rparr>) chain ch k =
     (Inr rec', v\<lparr>policy := relaxed_policy (policy v)\<rparr>)) \<and>
   (CheckRevocationList (policy v) \<longrightarrow>
     (\<exists>rec'. VerifyAttestation lib env (v\<lparr>policy := relaxed_checking True (policy v)\<rparr>) chain ch k =
        (Inr rec', v'\<lparr>policy := relaxed_checking True (policy v)\<rparr>)))"
  using VerifyAttestation_relaxed [OF assms, of False] VerifyAttestation_relaxed [OF assms, of True]
  by (simp add: relaxed_policy_unchecked)

theorem development_mode_relaxes_witness:
  "\<exists>rec. VerifyAttestation demo_lib demo_env
     (demo_checking_verifier\<lparr>policy := relaxed_policy demo_policy\<rparr>) [[1], [2]] demo_challenge demo_key =
     (Inr rec, demo_checking_verifier\<lparr>policy := relaxed_policy demo_policy\<rparr>)"
proof -
  have p: "policy demo_checking_verifier = demo_policy"
    by (simp add: demo_checking_verifier_def demo_verifier_def)
  obtain rec where v: "VerifyAttestation demo_lib demo_env demo_checking_verifier [[1], [2]]
      demo_challenge demo_key = (Inr rec, demo_checking_verifier)"
    using demo_checked by blast
  have "strict_policy (policy demo_checking_verifier)" by (simp add: p demo_policy_strict)
  from development_mode_relaxes [OF this v, THEN conjunct1] show ?thesis by (simp only: p)
qed

subsection \<open>The revocation list\<close>

text \<open>
  C21. The client fails closed: when the list it holds is stale and the server does not answer
  with status 200 and a readable, decodable list, the question is answered with an error and
  the client keeps the state it had.
\<close>

theorem revocation_fails_closed:
  assumes "list_stale c (since_now env)"
    and "\<nexists>body broken bytes parsed. fetch_response env = HttpResponse 200 body broken \<and>
       read_limited body broken = Inr bytes \<and> lib_status_entries lib bytes = Inr parsed"
  shows "\<exists>e. IsKeyRevoked lib env k c = (Inl e, c)"
proof -
  obtain x c' where ask: "IsKeyRevoked lib env k c = (x, c')" by fastforce
  show ?thesis
  proof (cases x)
    case (Inl e)
    with ask IsKeyRevoked_eq_Inl show ?thesis by blast
  next
    case (Inr b)
    with ask have "refresh_list lib env c = (Inr (), c')" by (auto simp: IsKeyRevoked_eq_Inr)
    with assms(1) have "fetchLocked lib (fetch_response env) (fetch_now env) c = (Inr (), c')"
      by (simp add: refresh_list_def)
    then show ?thesis by (rule fetchLocked_ok) (use assms(2) in blast)
  qed
qed

theorem revocation_fails_closed_witness:
  "\<exists>e. IsKeyRevoked demo_lib \<lparr>since_now = 0, fetch_response = HttpResponse 503 [] False, fetch_now = 0\<rparr>
     demo_key (NewRevocationStatusClient [] (24 * hour) None) =
     (Inl e, NewRevocationStatusClient [] (24 * hour) None)"
  by (rule revocation_fails_closed) (simp_all add: list_stale_def NewRevocationStatusClient_def Let_def)

text \<open>
  C22. What the list decides. When the client has no list, or one older than its time to live,
  and the server answers 200 with a list (of which at most 4 MiB are read) whose ids are
  distinct up to case, then a key is revoked exactly when the list has an entry for the
  SHA-256 fingerprint of its encoding, in any case of its hex digits, whose status is the
  word revoked in any case; the order of the entries does not matter. Until the time to live
  is over, later questions are answered from the same list, whatever the server would say.
\<close>

theorem list_decides:
  assumes "entries c = None \<or> sint (list_ttl c) < sint (time_sub (since_now env) (fetched c))"
    and "fetch_response env = HttpResponse 200 body broken" "broken \<longrightarrow> 4194304 \<le> length body"
    and "lib_status_entries lib (take 4194304 body) = Inr xs" "distinct (map (to_lower \<circ> fst) xs)"
  shows "\<exists>c'. IsKeyRevoked lib env (EncodableKey der) c =
       (Inr (names_revoked xs (hex_encode (sha256 der))), c') \<and>
     (\<forall>env' der'. sint (time_sub (since_now env') (fetch_now env)) \<le> sint (list_ttl c) \<longrightarrow>
        IsKeyRevoked lib env' (EncodableKey der') c' =
          (Inr (names_revoked xs (hex_encode (sha256 der'))), c'))"
proof -
  let ?c = "c\<lparr>entries := Some (list_entries xs), fetched := fetch_now env\<rparr>"
  have "refresh_list lib env c = (Inr (), ?c)"
    using assms(1-4)
    by (auto simp: refresh_list_def list_stale_def fetchLocked_def read_limited_def max_list_bytes_def)
  then have now: "IsKeyRevoked lib env (EncodableKey der) c =
      (Inr (names_revoked xs (hex_encode (sha256 der))), ?c)"
    by (simp add: IsKeyRevoked_def lookup_list_entries [OF assms(5)])
  have "IsKeyRevoked lib env' (EncodableKey der') ?c =
      (Inr (names_revoked xs (hex_encode (sha256 der'))), ?c)"
    if "sint (time_sub (since_now env') (fetch_now env)) \<le> sint (list_ttl c)" for env' der'
    using that
    by (simp add: IsKeyRevoked_def refresh_list_def list_stale_def lookup_list_entries [OF assms(5)])
  with now show ?thesis by blast
qed

text \<open>A library whose list has the demo key's fingerprint with the given status.\<close>

definition listing_lib :: "string \<Rightarrow> golib" where
  "listing_lib status = demo_lib\<lparr>lib_status_entries :=
     (\<lambda>_. Inr [(demo_identity, status), (''cd'', ''REVOKED'')])\<rparr>"

definition listing_env :: revocation_reading where
  "listing_env = \<lparr>since_now = 0, fetch_response = HttpResponse 200 [] False, fetch_now = 0\<rparr>"

theorem list_decides_witness:
  "(\<exists>c. IsKeyRevoked (listing_lib ''Revoked'') listing_env demo_key
      (NewRevocationStatusClient [] (24 * hour) None) = (Inr True, c)) \<and>
   (\<exists>c. IsKeyRevoked (listing_lib ''SUSPENDED'') listing_env demo_key
      (NewRevocationStatusClient [] (24 * hour) None) = (Inr False, c))"
proof -
  let ?c = "NewRevocationStatusClient [] (24 * hour) None"
  let ?xs = "\<lambda>status. [(demo_identity, status), (''cd'', ''REVOKED'')]"
  have id: "to_lower demo_identity = demo_identity" "demo_identity = hex_encode (sha256 demo_spki)"
    "length demo_identity = 64"
    using fingerprint_shape [OF demo_fingerprint] demo_fingerprint by (simp_all add: demo_key_def)
  have cd: "to_lower ''cd'' \<noteq> demo_identity"
  proof
    assume "to_lower ''cd'' = demo_identity"
    then have "length (to_lower ''cd'') = 64" using id(3) by simp
    then show False by (simp add: to_lower_def)
  qed
  have spell: "spells_revoked ''Revoked''" "\<not> spells_revoked ''SUSPENDED''"
    by (simp_all add: spells_revoked_def to_lower_def lower_char_def char_of_def bit_Suc_0_iff)
  have named: "names_revoked (?xs status) demo_identity \<longleftrightarrow> spells_revoked status" for status
    using id(1) cd by (simp add: names_revoked_def)
  have "\<exists>c'. IsKeyRevoked (listing_lib status) listing_env (EncodableKey demo_spki) ?c =
      (Inr (names_revoked (?xs status) (hex_encode (sha256 demo_spki))), c')" for status
  proof -
    have "entries ?c = None" by (simp add: NewRevocationStatusClient_def Let_def)
    then show ?thesis
      using list_decides [of ?c listing_env "[]" False "listing_lib status" "?xs status" demo_spki] cd id(1)
      by (auto simp: listing_env_def listing_lib_def)
  qed
  from this [of "''Revoked''"] this [of "''SUSPENDED''"] show ?thesis
    unfolding demo_key_def by (simp only: id(2) [symmetric] named spell simp_thms)
qed

subsection \<open>Signing and pools\<close>

text \<open>
  C23. What \<open>SignCSR\<close> issues: the signature of the request was valid, and the template that the
  root's key signs for the key of the request has the given identity as its common name and
  device URN, a serial number of at most 128 bits, no authority to sign (an end-entity
  certificate by its basic constraints, digital signatures as the only key usage), client
  authentication as the only purpose, and a validity from a minute before now to the time to
  live after it. The certificate that is returned, and encoded for the device, has that serial
  number, that identity and that key.
\<close>

theorem issued_certificate:
  assumes "SignCSR lib env c csrDER identity ttl = Inr (cert, pem)" "draw_in_range (serial_draw env)"
    and "certificates_round_trip lib" "parses_plain_urns lib" "list_all is_hex_lower identity"
  shows "\<exists>csr der t. lib_parse_request lib csrDER = Inr csr \<and> lib_check_signature lib csr \<and>
     lib_create_certificate lib (sign_entropy env) t (ca_Certificate c) (csr_public_key csr)
       (ca_PrivateKey c) = Inr der \<and>
     CommonName t = identity \<and> Organization t = [''Hardware mTLS Client''] \<and>
     URIs t = [''urn:device:'' @ identity] \<and> DNSNames t = [] \<and> IPAddresses t = [] \<and>
     BasicConstraintsValid t \<and> \<not> IsCA t \<and> KeyUsage t = 1 \<and> ExtKeyUsage t = [ExtKeyUsageClientAuth] \<and>
     NotBefore t = sign_now env - 60 * 1000000000 \<and> NotAfter t = sign_now env + sint ttl \<and>
     SerialNumber t = SerialNumber cert \<and> 0 \<le> SerialNumber cert \<and> SerialNumber cert < 2 ^ 128 \<and>
     lib_parse_certificate lib der = Inr cert \<and> pem = lib_pem_encode lib ''CERTIFICATE'' der \<and>
     PublicKey cert = csr_public_key csr \<and> CommonName cert = identity \<and>
     URIs cert = [''urn:device:'' @ identity]"
proof -
  from assms(1) obtain csr n uri der where csr: "lib_parse_request lib csrDER = Inr csr"
      "lib_check_signature lib csr"
    and n: "serial_draw env = Inr n" and uri: "lib_url_parse lib (''urn:device:'' @ identity) = Inr uri"
    and der: "lib_create_certificate lib (sign_entropy env)
       (client_template n identity uri (sign_now env) ttl)
       (ca_Certificate c) (csr_public_key csr) (ca_PrivateKey c) = Inr der"
    and cert: "lib_parse_certificate lib der = Inr cert"
    and pem: "pem = lib_pem_encode lib ''CERTIFICATE'' der"
    by (rule SignCSR_ok)
  have u: "uri = ''urn:device:'' @ identity" using uri assms(4,5) by (auto simp: parses_plain_urns_def)
  let ?t = "client_template n identity uri (sign_now env) ttl"
  note facts = certificates_round_tripD [OF assms(3) der cert]
  from n assms(2) have "0 \<le> n" "n < 2 ^ 128"
    by (simp_all add: draw_in_range_def serialNumberLimit_def)
  moreover have "sint (- minute) = - 60000000000" by (simp add: minute_def second_def)
  then have "CommonName ?t = identity" "Organization ?t = [''Hardware mTLS Client'']"
    "URIs ?t = [''urn:device:'' @ identity]" "DNSNames ?t = []" "IPAddresses ?t = []"
    "BasicConstraintsValid ?t" "\<not> IsCA ?t" "KeyUsage ?t = 1" "ExtKeyUsage ?t = [ExtKeyUsageClientAuth]"
    "NotBefore ?t = sign_now env - 60 * 1000000000" "NotAfter ?t = sign_now env + sint ttl"
    "SerialNumber ?t = n"
    by (simp_all add: client_template_def zero_certificate_def time_add_def u
        KeyUsageDigitalSignature_def)
  ultimately show ?thesis
    using csr der pem cert facts by (intro exI [of _ csr] exI [of _ der] exI [of _ ?t]) simp
qed

theorem issued_certificate_witness:
  "PublicKey (demo_client 77) = demo_key \<and> URIs (demo_client 77) = [''urn:device:'' @ demo_identity] \<and>
   0 \<le> SerialNumber (demo_client 77) \<and> SerialNumber (demo_client 77) < 2 ^ 128"
proof -
  have "draw_in_range (serial_draw (signing (pr_enroll (demo_port 77 0))))"
    by (simp add: draw_in_range_def demo_port_def serialNumberLimit_def)
  moreover have "list_all is_hex_lower demo_identity"
    using fingerprint_shape(2) [OF demo_fingerprint] .
  ultimately show ?thesis
    using issued_certificate [OF demo_sign [of 77 0 hour] _ demo_certificates_round_trip
        demo_parses_plain_urns]
    by (auto simp: demo_client_def demo_lib_def)
qed

text \<open>
  A pool made from PEM data is either refused or holds at least one certificate, no two of
  them the same.
\<close>

theorem pem_pool_shape:
  assumes "NewCertPoolFromPEM lib pemBytes = Inr pool"
  shows "pool \<noteq> [] \<and> distinct (map Raw pool)"
proof -
  from assms have "append_certs_from_pem lib [] False pemBytes = (pool, True)"
    by (auto simp: NewCertPoolFromPEM_def split: prod.splits if_splits)
  from append_certs_from_pem_pool [OF this] show ?thesis by simp
qed

theorem pem_pool_shape_witness:
  "distinct (map Raw [demo_leaf]) \<and>
   NewCertPoolFromPEM demo_lib (demo_pem_encode ''CERTIFICATE'' [1]) = Inr [demo_leaf]"
proof -
  let ?enc = "demo_pem_encode ''CERTIFICATE'' [1]"
  have dec: "lib_pem_decode demo_lib ?enc =
      Some (\<lparr>block_type = ''CERTIFICATE'', block_headers = [], block_bytes = [1]\<rparr>, [])"
    using demo_pem_round_trip by (simp add: pem_round_trip_def demo_lib_def)
  have none: "lib_pem_decode demo_lib [] = None" by (simp add: demo_lib_def)
  have cert: "lib_parse_certificate demo_lib [1] = Inr demo_leaf" by (simp add: demo_lib_def)
  have len: "0 < length ?enc" by (simp add: demo_pem_encode_def)
  have pool: "NewCertPoolFromPEM demo_lib ?enc = Inr [demo_leaf]"
    using len by (simp add: NewCertPoolFromPEM_def append_certs_from_pem.simps [of demo_lib]
        dec none cert AddCert_def)
  with pem_pool_shape [OF pool] show ?thesis by simp
qed

text \<open>
  C37. The pool of a verifier that is given none holds exactly the certificates embedded in the
  source: both of them are in it, and nothing else is.
\<close>

theorem default_roots:
  assumes "NewVerifier lib None p = Inr v"
  shows "\<exists>rsa ec. parse_root lib 0 GoogleHardwareAttestationRootRSA = Inr rsa \<and>
     parse_root lib 1 GoogleHardwareAttestationRootEC = Inr ec \<and>
     Raw ` set (rootPool v) = {Raw rsa, Raw ec} \<and> set (rootPool v) \<subseteq> {rsa, ec} \<and>
     policy v = p \<and> revocations v = None"
proof -
  from assms obtain rsa ec where roots: "parse_root lib 0 GoogleHardwareAttestationRootRSA = Inr rsa"
      "parse_root lib 1 GoogleHardwareAttestationRootEC = Inr ec"
    and pool: "rootPool v = AddCert (AddCert [] rsa) ec" and v: "policy v = p" "revocations v = None"
    by (auto simp: NewVerifier_ok NewGoogleRootCertPool_def DefaultGoogleRootPEMs_def)
  have "Raw ` set (rootPool v) = {Raw rsa, Raw ec}" by (auto simp: pool AddCert_raw_set)
  moreover have "set (rootPool v) \<subseteq> {rsa, ec}" by (auto simp: pool AddCert_def)
  ultimately show ?thesis using roots v by blast
qed

definition roots_lib :: golib where
  "roots_lib = demo_lib\<lparr>lib_pem_decode := (\<lambda>pem.
     if pem = bytes_of_string GoogleHardwareAttestationRootRSA
     then Some (\<lparr>block_type = ''CERTIFICATE'', block_headers = [], block_bytes = [1]\<rparr>, [])
     else Some (\<lparr>block_type = ''CERTIFICATE'', block_headers = [], block_bytes = [2]\<rparr>, []))\<rparr>"

lemma roots_lib_verifier: "\<exists>v. NewVerifier roots_lib None p = Inr v"
  by (simp add: NewVerifier_def NewGoogleRootCertPool_def DefaultGoogleRootPEMs_def parse_root_def
      roots_lib_def) (simp add: demo_lib_def)

theorem default_roots_witness:
  "\<exists>v (rsa :: certificate) (ec :: certificate). NewVerifier roots_lib None DefaultStrictPolicy = Inr v \<and>
     Raw ` set (rootPool v) = {Raw rsa, Raw ec}"
proof -
  obtain v where v: "NewVerifier roots_lib None DefaultStrictPolicy = Inr v"
    by (rule exE [OF roots_lib_verifier])
  from default_roots [OF v] show ?thesis
  proof (elim exE conjE)
    fix rsa ec :: certificate
    assume "Raw ` set (rootPool v) = {Raw rsa, Raw ec}"
    with v show ?thesis by (intro exI conjI)
  qed
qed

end
