(* ===== verification/HandlerProperties.thy ===== *)
theory HandlerProperties
  imports Examples
begin

text \<open>
  Properties of single requests: the challenge endpoint, the enrollment with its error paths,
  and the middleware in front of the protected resource. Those about enrollment hold for any
  pair of stores that keep their contracts (\<open>enroll_backend\<close>) where the statement says so.
\<close>

subsection \<open>The challenge endpoint\<close>

text \<open>
  C25. A successful answer hands out the base64 text of the random bytes with the configured
  time to live, and the store then accepts this challenge once, at exactly the times before
  its expiry.
\<close>

theorem challenge_endpoint:
  assumes "ChallengeHandler_ServeHTTP memory_challenge_store ttl env req s = (JsonResponse status body, s')"
  shows "req_Method req = MethodGet \<and> status = StatusOK \<and>
     (\<exists>bytes. random_bytes env = Inr bytes \<and> cr_Challenge body = b64_encode bytes) \<and>
     cr_ExpiresIn body = duration_seconds_int ttl \<and>
     cr_ExpiresAt body = rfc3339 (generate_now env + sint ttl) \<and>
     (\<forall>now. fst (mem_VerifyAndConsume now (cr_Challenge body) s') \<longleftrightarrow> now < generate_now env + sint ttl) \<and>
     (\<forall>now now'. \<not> fst (mem_VerifyAndConsume now' (cr_Challenge body)
        (snd (mem_VerifyAndConsume now (cr_Challenge body) s'))))"
  using mem.challenge_handler_ok [OF assms]
  by (simp add: time_add_def mem_VerifyAndConsume_result mem_VerifyAndConsume_state)

theorem challenge_endpoint_witness:
  "\<exists>body s'. ChallengeHandler_ServeHTTP memory_challenge_store (60 * second)
       \<lparr>random_bytes = Inr [1, 2, 3], generate_now = 0\<rparr> demo_get_challenge NewMemoryChallengeStore =
       (JsonResponse StatusOK body, s') \<and>
     cr_Challenge body = ''AQID'' \<and> cr_ExpiresAt body = rfc3339 60000000000 \<and>
     fst (mem_VerifyAndConsume 59999999999 (cr_Challenge body) s')"
proof -
  let ?env = "\<lparr>random_bytes = Inr [1, 2, 3], generate_now = 0\<rparr>"
  obtain body s' where run: "ChallengeHandler_ServeHTTP memory_challenge_store (60 * second) ?env
      demo_get_challenge NewMemoryChallengeStore = (JsonResponse StatusOK body, s')"
    by (simp add: ChallengeHandler_ServeHTTP_def mem_Generate_def demo_get_challenge_def Let_def
        del: b64_encode.simps)
  have ttl: "sint (60 * second) = 60000000000" by (simp add: second_def)
  from challenge_endpoint [OF run]
  have facts: "cr_Challenge body = b64_encode [1, 2, 3]" "cr_ExpiresAt body = rfc3339 60000000000"
    "\<forall>now. fst (mem_VerifyAndConsume now (cr_Challenge body) s') \<longleftrightarrow> now < 60000000000"
    unfolding ttl by auto
  have "b64_encode [1, 2, 3] = ''AQID''" by (simp add: b64_char_def b64_alphabet_def)
  with facts run show ?thesis by auto
qed

subsection \<open>Enrollment\<close>

text \<open>
  C9. What a 201 answer means: the challenge in the attestation was live and is spent, the
  chain was verified for the key of the request, the certificate that is returned was signed
  for that key and names its fingerprint, and a record with the certificate's serial is
  stored under that fingerprint, which no revoked record held; nothing else in the registry
  changed.
\<close>

theorem enrollment_outcome:
  assumes "EnrollHandler_ServeHTTP lib env (mem_handler c caPEM ttl) req s = (JsonResponse status body, s')"
  shows "\<exists>q rec cert pem. status = StatusCreated \<and>
     enroll_decode lib (policy (es_verifier s)) req = Inr q \<and>
     VerifyAttestation lib (verify_reading env) (es_verifier s) (p_chainDER q) (p_challenge q)
       (csr_public_key (p_csr q)) = (Inr rec, es_verifier s') \<and>
     PublicKeyFingerprint (csr_public_key (p_csr q)) = Inr (er_DeviceIdentity body) \<and>
     SignCSR lib (signing env) c (p_csrDER q) (er_DeviceIdentity body) ttl = Inr (cert, pem) \<and>
     er_ClientCertificate body = string_of_bytes pem \<and> er_CaCertificate body = caPEM \<and>
     (if p_challenge q = [] then AllowEmptyAttestation (policy (es_verifier s)) \<and> es_store s' = es_store s
      else (\<exists>ex. challenges (es_store s) (b64_encode (p_challenge q)) = Some ex \<and> consume_now env < ex) \<and>
           challenges (es_store s') = (challenges (es_store s))(b64_encode (p_challenge q) := None)) \<and>
     (\<forall>old. devices (es_repo s) (er_DeviceIdentity body) = Some old \<longrightarrow> \<not> dev_IsRevoked old) \<and>
     devices (es_repo s') = (devices (es_repo s))(er_DeviceIdentity body \<mapsto>
       device_record q rec (er_DeviceIdentity body) cert (enrolled_now env)) \<and>
     revokedSerials (es_repo s') = revokedSerials (es_repo s)"
  using assms
proof (rule mem_enroll.created)
  fix q rec cert pem
  assume body: "body = enroll_response (mem_handler c caPEM ttl) q (er_DeviceIdentity body) pem"
  have "er_ClientCertificate body = string_of_bytes pem \<and> er_CaCertificate body = caPEM"
    by (subst (1 2) body) (simp add: enroll_response_def Let_def)
  then show "\<lbrakk>enroll_decode lib (policy (es_verifier s)) req = Inr q;
     VerifyAttestation lib (verify_reading env) (es_verifier s) (p_chainDER q) (p_challenge q)
       (csr_public_key (p_csr q)) = (Inr rec, es_verifier s');
     PublicKeyFingerprint (csr_public_key (p_csr q)) = Inr (er_DeviceIdentity body);
     SignCSR lib (signing env) (eh_ca (mem_handler c caPEM ttl)) (p_csrDER q)
       (er_DeviceIdentity body) (eh_clientCertTTL (mem_handler c caPEM ttl)) = Inr (cert, pem);
     if p_challenge q = [] then AllowEmptyAttestation (policy (es_verifier s)) \<and> es_store s' = es_store s
      else (\<exists>ex. challenges (es_store s) (b64_encode (p_challenge q)) = Some ex \<and> consume_now env < ex) \<and>
           challenges (es_store s') = (challenges (es_store s))(b64_encode (p_challenge q) := None);
     \<forall>old. devices (es_repo s) (er_DeviceIdentity body) = Some old \<longrightarrow> \<not> dev_IsRevoked old;
     devices (es_repo s') = (devices (es_repo s))(er_DeviceIdentity body \<mapsto>
       device_record q rec (er_DeviceIdentity body) cert (enrolled_now env));
     revokedSerials (es_repo s') = revokedSerials (es_repo s); status = StatusCreated\<rbrakk> \<Longrightarrow> ?thesis"
    by (intro exI [of _ q] exI [of _ rec] exI [of _ cert] exI [of _ pem] conjI) simp_all
qed

text \<open>A state in which the demo device's challenge is live.\<close>

definition demo_ready :: backend_state where
  "demo_ready = (initial_state demo_verifier)\<lparr>es_store := \<lparr>challenges = [b64_encode demo_challenge \<mapsto> 1000]\<rparr>\<rparr>"

lemma demo_ready_simps:
  "policy (es_verifier demo_ready) = demo_policy" "revocations (es_verifier demo_ready) = None"
  "challenges (es_store demo_ready) (b64_encode demo_challenge) = Some 1000"
  "devices (es_repo demo_ready) = Map.empty" "revokedSerials (es_repo demo_ready) = {}"
  by (simp_all add: demo_ready_def initial_state_def demo_verifier_def NewMemoryDeviceRepo_def)

lemma demo_server_handler: "enroll_handler demo_server = mem_handler demo_ca ''CA PEM'' (168 * hour)"
  by (simp add: demo_server_def)

lemma demo_enrolled:
  "\<exists>s'. EnrollHandler_ServeHTTP demo_lib (pr_enroll (demo_port 77 200)) (mem_handler demo_ca ''CA PEM''
     (168 * hour)) demo_enroll_request demo_ready = (JsonResponse StatusCreated (demo_body 77), s')"
  using demo_enroll [OF demo_ready_simps(1-3), of 200 77] demo_ready_simps(4)
  unfolding demo_server_handler by auto

theorem enrollment_outcome_witness:
  "\<exists>s' rec. EnrollHandler_ServeHTTP demo_lib (pr_enroll (demo_port 77 200)) (mem_handler demo_ca ''CA PEM''
       (168 * hour)) demo_enroll_request demo_ready = (JsonResponse StatusCreated (demo_body 77), s') \<and>
     devices (es_repo s') = [demo_identity \<mapsto> rec] \<and> revokedSerials (es_repo s') = {} \<and>
     challenges (es_store s') (b64_encode demo_challenge) = None"
proof -
  obtain s' where run: "EnrollHandler_ServeHTTP demo_lib (pr_enroll (demo_port 77 200))
      (mem_handler demo_ca ''CA PEM'' (168 * hour)) demo_enroll_request demo_ready =
      (JsonResponse StatusCreated (demo_body 77), s')" using demo_enrolled by blast
  from enrollment_outcome [OF run] obtain q rec cert where
    q: "enroll_decode demo_lib demo_policy demo_enroll_request = Inr q"
    and store: "if p_challenge q = [] then AllowEmptyAttestation demo_policy \<and> es_store s' = es_store demo_ready
      else (\<exists>ex. challenges (es_store demo_ready) (b64_encode (p_challenge q)) = Some ex \<and>
          consume_now (pr_enroll (demo_port 77 200)) < ex) \<and>
        challenges (es_store s') = (challenges (es_store demo_ready))(b64_encode (p_challenge q) := None)"
    and devs: "devices (es_repo s') = (devices (es_repo demo_ready))(demo_identity \<mapsto>
      device_record q rec demo_identity cert (enrolled_now (pr_enroll (demo_port 77 200))))"
    and revs: "revokedSerials (es_repo s') = revokedSerials (es_repo demo_ready)"
    unfolding demo_ready_simps(1) demo_body_simps(1) by blast
  from q demo_decode have "p_challenge q = demo_challenge" by (auto simp: demo_prepared_def)
  then have "p_challenge q = demo_challenge" "demo_challenge \<noteq> []" by (simp_all add: demo_challenge_def)
  with store have "challenges (es_store s') (b64_encode demo_challenge) = None" by simp
  with run devs revs show ?thesis unfolding demo_ready_simps by blast
qed

text \<open>
  C10. A refused enrollment leaves nothing behind: over any stores that keep their contracts, no
  record is stored or changed, no revoked serial is forgotten, no challenge becomes live,
  and the answer is one of the four error statuses, 405 exactly for a request that is not a
  POST.
\<close>

theorem refused_enrollment:
  assumes "enroll_backend h live devs revs"
    and "EnrollHandler_ServeHTTP lib env h req s = (ErrorResponse status msg, s')"
  shows "devs (es_repo s') = devs (es_repo s) \<and> revs (es_repo s) \<subseteq> revs (es_repo s') \<and>
     live (es_store s') \<subseteq>\<^sub>m live (es_store s) \<and>
     policy (es_verifier s') = policy (es_verifier s) \<and> rootPool (es_verifier s') = rootPool (es_verifier s) \<and>
     status \<in> {StatusMethodNotAllowed, StatusBadRequest, StatusForbidden, StatusInternalServerError} \<and>
     (status = StatusMethodNotAllowed \<longleftrightarrow> req_Method req \<noteq> MethodPost)"
proof -
  note facts = enroll_backend.refused [OF assms]
  have "live (es_store s') \<subseteq>\<^sub>m live (es_store s)" using facts(3) by (auto simp: map_le_def)
  with facts(1,2) enroll_verifier_frame [OF assms(2)] enroll_error_status [OF assms(2)]
  show ?thesis by blast
qed

text \<open>A challenge that the store does not hold: the demo request against a fresh server.\<close>

lemma demo_refused:
  "EnrollHandler_ServeHTTP demo_lib (pr_enroll (demo_port 77 200)) (enroll_handler demo_server)
     demo_enroll_request (initial_state demo_verifier) =
   (ErrorResponse StatusBadRequest ''invalid or expired attestation challenge'', initial_state demo_verifier)"
proof -
  have "demo_challenge \<noteq> []" by (simp add: demo_challenge_def)
  then have "enroll_consume memory_challenge_store demo_policy t demo_prepared NewMemoryChallengeStore =
      (Inl (StatusBadRequest, ''invalid or expired attestation challenge''), NewMemoryChallengeStore)" for t
    by (simp add: enroll_consume_def demo_prepared_def mem_VerifyAndConsume_def NewMemoryChallengeStore_def
        del: b64_encode.simps)
  moreover have "policy (es_verifier (initial_state demo_verifier)) = demo_policy"
    "es_store (initial_state demo_verifier) = NewMemoryChallengeStore"
    by (simp_all add: initial_state_def demo_verifier_def)
  ultimately show ?thesis
    by (simp add: EnrollHandler_ServeHTTP_def demo_decode demo_server_simps)
qed

theorem refused_enrollment_witness:
  "\<exists>msg s'. EnrollHandler_ServeHTTP demo_lib (pr_enroll (demo_port 77 200)) (enroll_handler demo_server)
       demo_enroll_request (initial_state demo_verifier) = (ErrorResponse 400 msg, s') \<and>
     devices (es_repo s') = Map.empty \<and> challenges (es_store s') = Map.empty"
proof -
  let ?s = "initial_state demo_verifier"
  have "enroll_backend (enroll_handler demo_server) challenges devices revokedSerials"
    by (rule in_memory_backend [OF demo_server_in_memory])
  from refused_enrollment [OF this demo_refused]
  have "devices (es_repo ?s) = devices (es_repo ?s)" "challenges (es_store ?s) \<subseteq>\<^sub>m challenges (es_store ?s)"
    by blast+
  moreover have "devices (es_repo ?s) = Map.empty" "challenges (es_store ?s) = Map.empty"
    by (simp_all add: initial_state_def NewMemoryDeviceRepo_def NewMemoryChallengeStore_def)
  moreover have "StatusBadRequest = 400" by (simp add: status_defs)
  ultimately show ?thesis using demo_refused by metis
qed

text \<open>
  C11. Revocation binds the enrollment: over any stores that keep their contracts, an identity
  with a revoked record keeps that record whatever is requested, and no answer certifies
  that identity again.
\<close>

theorem revoked_identity_refused:
  assumes "enroll_backend h live devs revs"
    and "EnrollHandler_ServeHTTP lib env h req s = (resp, s')"
    and "devs (es_repo s) i = Some rec" "dev_IsRevoked rec"
  shows "devs (es_repo s') i = Some rec \<and>
     (\<forall>status body. resp = JsonResponse status body \<longrightarrow> er_DeviceIdentity body \<noteq> i)"
  using enroll_backend.revoked_not_enrolled [OF assms] by blast

definition demo_revoked_state :: backend_state where
  "demo_revoked_state = demo_ready\<lparr>es_repo := \<lparr>devices = [demo_identity \<mapsto>
     (demo_record zero_AttestationRecord 5 10)\<lparr>dev_IsRevoked := True\<rparr>], revokedSerials = {''5''}\<rparr>\<rparr>"

theorem revoked_identity_refused_witness:
  "\<exists>resp s'. EnrollHandler_ServeHTTP demo_lib (pr_enroll (demo_port 77 200)) (enroll_handler demo_server)
       demo_enroll_request demo_revoked_state = (resp, s') \<and>
     devices (es_repo s') demo_identity =
       Some ((demo_record zero_AttestationRecord 5 10)\<lparr>dev_IsRevoked := True\<rparr>)"
proof -
  obtain resp s' where run: "EnrollHandler_ServeHTTP demo_lib (pr_enroll (demo_port 77 200))
      (enroll_handler demo_server) demo_enroll_request demo_revoked_state = (resp, s')" by fastforce
  have backend: "enroll_backend (enroll_handler demo_server) challenges devices revokedSerials"
    by (rule in_memory_backend [OF demo_server_in_memory])
  have "devices (es_repo demo_revoked_state) demo_identity =
      Some ((demo_record zero_AttestationRecord 5 10)\<lparr>dev_IsRevoked := True\<rparr>)"
    by (simp add: demo_revoked_state_def)
  from revoked_identity_refused [OF backend run this] run show ?thesis by simp
qed

text \<open>
  C12. When the record of a new device cannot be stored, the certificate that was signed for it
  does not survive: its serial is revoked, provided the registry still takes revocations.
\<close>

theorem unstored_certificate_revoked:
  assumes "enroll_backend h live devs revs"
    and "EnrollHandler_ServeHTTP lib env h req s =
       (ErrorResponse StatusInternalServerError ''failed to persist device record'', s')"
    and "\<And>serial r. fst (RevokeSerial (eh_deviceRepo h) serial r) = None"
  shows "\<exists>csrDER identity cert pem.
     SignCSR lib (signing env) (eh_ca h) csrDER identity (eh_clientCertTTL h) = Inr (cert, pem) \<and>
     devs (es_repo s') = devs (es_repo s) \<and>
     revs (es_repo s') = insert (serial_text cert) (revs (es_repo s))"
  using assms(2)
proof (rule enroll_persist_failed)
  fix q rec identity cert pem e
  let ?rec = "device_record q rec identity cert (enrolled_now env)"
  assume sign: "enroll_sign lib (signing env) h q identity = Inr (cert, pem)"
    and persist: "enroll_persist (eh_deviceRepo h) ?rec (es_repo s) = (Inl e, es_repo s')"
  have serial: "dev_CertSerial ?rec = serial_text cert" by (simp add: device_record_def serial_text_def)
  from persist obtain e1 r1 where reg: "RegisterDevice (eh_deviceRepo h) ?rec (es_repo s) = (Some e1, r1)"
    and rev: "es_repo s' = snd (RevokeSerial (eh_deviceRepo h) (serial_text cert) r1)"
    unfolding serial [symmetric] by (auto simp: enroll_persist_def split: prod.splits option.splits)
  have repo: "device_repo (eh_deviceRepo h) devs revs" using assms(1) by (simp add: enroll_backend_def)
  have "RevokeSerial (eh_deviceRepo h) (serial_text cert) r1 = (None, es_repo s')"
    using rev assms(3) [of "serial_text cert" r1] by (simp add: prod_eq_iff)
  from device_repo.revoke_serial_ok [OF repo this] device_repo.register_error [OF repo reg] sign
  show ?thesis by (auto simp: enroll_sign_def map_err_eq_Inr)
qed

text \<open>A registry that is full: it revokes and looks up, but takes no new record.\<close>

definition full_repo :: "memoryDeviceRepo DeviceRepo" where
  "full_repo = memory_device_repo\<lparr>RegisterDevice := (\<lambda>_ r. (Some (StorageFailure ''disk full''), r))\<rparr>"

lemma full_repo_simps [simp]:
  "RegisterDevice full_repo rec r = (Some (StorageFailure ''disk full''), r)"
  "GetDevice full_repo = mem_GetDevice" "RevokeDevice full_repo = mem_RevokeDevice"
  "RevokeSerial full_repo = mem_RevokeSerial" "IsSerialRevoked full_repo = mem_IsSerialRevoked"
  "IsDeviceActive full_repo = mem_IsDeviceActive"
  by (simp_all add: full_repo_def)

interpretation fullrepo: device_repo full_repo devices revokedSerials
  by unfold_locales
    (auto simp: mem_GetDevice_def mem_RevokeDevice_def mem_RevokeSerial_def
      mem_IsSerialRevoked_def mem_IsDeviceActive_def split: option.splits)

abbreviation full_handler :: "(memoryChallengeStore, memoryDeviceRepo) EnrollHandler" where
  "full_handler \<equiv> NewEnrollHandler demo_ca ''CA PEM'' memory_challenge_store full_repo (168 * hour)"

lemma demo_unstored:
  "\<exists>s'. EnrollHandler_ServeHTTP demo_lib (pr_enroll (demo_port 77 200)) full_handler demo_enroll_request
     demo_ready = (ErrorResponse StatusInternalServerError ''failed to persist device record'', s')"
proof -
  obtain rec where attest: "enroll_attest demo_lib (verify_reading (pr_enroll (demo_port 77 200)))
      demo_prepared (es_verifier demo_ready) = (Inr (rec, demo_identity), es_verifier demo_ready)"
    using demo_attest [OF demo_ready_simps(1,2)] by blast
  have consume: "enroll_consume memory_challenge_store demo_policy (consume_now (pr_enroll (demo_port 77 200)))
      demo_prepared (es_store demo_ready) = (Inr (), (es_store demo_ready)\<lparr>challenges :=
        (challenges (es_store demo_ready))(b64_encode demo_challenge := None)\<rparr>)"
    by (rule demo_consume [OF demo_ready_simps(3)]) simp
  have refuse: "enroll_refuse_revoked full_repo demo_identity (es_repo demo_ready) = Inr ()"
    by (simp add: enroll_refuse_revoked_def mem_GetDevice_def demo_ready_simps)
  have "enroll_sign demo_lib (signing (pr_enroll (demo_port 77 200))) full_handler demo_prepared
      demo_identity = Inr (demo_issued (int_bytes 77), demo_pem_encode ''CERTIFICATE'' (3 # int_bytes 77))"
    by (rule demo_enroll_sign) simp
  then show ?thesis
    by (simp add: EnrollHandler_ServeHTTP_def enroll_issue_def demo_ready_simps(1) demo_decode consume
        attest refuse enroll_persist_def http_fail_def split: prod.split)
qed

theorem unstored_certificate_revoked_witness:
  "\<exists>s' serial. EnrollHandler_ServeHTTP demo_lib (pr_enroll (demo_port 77 200)) full_handler
       demo_enroll_request demo_ready =
       (ErrorResponse StatusInternalServerError ''failed to persist device record'', s') \<and>
     devices (es_repo s') = Map.empty \<and> revokedSerials (es_repo s') = {serial}"
proof -
  obtain s' where run: "EnrollHandler_ServeHTTP demo_lib (pr_enroll (demo_port 77 200)) full_handler
      demo_enroll_request demo_ready =
      (ErrorResponse StatusInternalServerError ''failed to persist device record'', s')"
    using demo_unstored by blast
  have "enroll_backend full_handler challenges devices revokedSerials"
    by (simp add: enroll_backend_def mem.challenge_store_axioms fullrepo.device_repo_axioms)
  from unstored_certificate_revoked [OF this run] have "\<exists>cert :: certificate.
      devices (es_repo s') = Map.empty \<and> revokedSerials (es_repo s') = {serial_text cert}"
    by (auto simp: demo_ready_simps mem_RevokeSerial_simps)
  with run show ?thesis by blast
qed

text \<open>
  C24. The label is for display only: two requests that decode alike but for the label get the
  same answer but for the label it echoes, spend the same challenge, and leave the same
  registry but for the labels in it - the same identity, serial and security level.
\<close>

theorem label_display_only:
  assumes "enroll_decode lib (policy (es_verifier s)) req = Inr q"
    and "enroll_decode lib (policy (es_verifier s)) req' = Inr (q\<lparr>p_label := l\<rparr>)"
    and "EnrollHandler_ServeHTTP lib env (mem_handler c caPEM ttl) req s = (r, s1)"
  shows "\<exists>s2. EnrollHandler_ServeHTTP lib env (mem_handler c caPEM ttl) req' s = (relabel l r, s2) \<and>
     es_store s2 = es_store s1 \<and> es_verifier s2 = es_verifier s1 \<and>
     erase_labels (es_repo s2) = erase_labels (es_repo s1)"
proof -
  obtain x st where consume: "enroll_consume memory_challenge_store (policy (es_verifier s))
      (consume_now env) q (es_store s) = (x, st)" by fastforce
  show ?thesis
  proof (cases x)
    case (Inl e)
    with assms consume show ?thesis by (auto simp: EnrollHandler_ServeHTTP_def)
  next
    case (Inr u)
    with assms consume have "enroll_issue lib env (mem_handler c caPEM ttl) q (s\<lparr>es_store := st\<rparr>) = (r, s1)"
      by (simp add: EnrollHandler_ServeHTTP_def)
    from enroll_issue_label [OF this, of l] assms(2) consume Inr show ?thesis
      by (auto simp: EnrollHandler_ServeHTTP_def)
  qed
qed

definition relabel_lib :: golib where
  "relabel_lib = demo_lib\<lparr>lib_decode_enroll_request := (\<lambda>body.
     Inr \<lparr>DeviceID = (if body = [1] then ''phone'' else ''tablet''), CSR = b64_encode [5],
          AttestationChain = []\<rparr>)\<rparr>"

theorem label_display_only_witness:
  "\<exists>r s1 s2. EnrollHandler_ServeHTTP relabel_lib (pr_enroll (demo_port 77 200))
       (mem_handler demo_ca ''CA PEM'' hour) demo_enroll_request
       (initial_state (demo_verifier\<lparr>policy := DevelopmentPolicy\<rparr>)) = (r, s1) \<and>
     EnrollHandler_ServeHTTP relabel_lib (pr_enroll (demo_port 77 200))
       (mem_handler demo_ca ''CA PEM'' hour) (demo_enroll_request\<lparr>req_Body := [2]\<rparr>)
       (initial_state (demo_verifier\<lparr>policy := DevelopmentPolicy\<rparr>)) = (relabel ''tablet'' r, s2) \<and>
     erase_labels (es_repo s2) = erase_labels (es_repo s1)"
proof -
  let ?s = "initial_state (demo_verifier\<lparr>policy := DevelopmentPolicy\<rparr>)"
  let ?q = "\<lparr>p_label = ''phone'', p_csrDER = [5], p_csr = \<lparr>csr_raw = [5], csr_public_key = demo_key\<rparr>,
    p_chainDER = [], p_challenge = []\<rparr>"
  have pol: "policy (es_verifier ?s) = DevelopmentPolicy" by (simp add: initial_state_def)
  have labels: "deviceLabelPattern ''phone''" "deviceLabelPattern ''tablet''"
    by (simp_all add: deviceLabelPattern_def label_rest_def label_first_def)
  have parse: "lib_parse_request relabel_lib [5] = Inr \<lparr>csr_raw = [5], csr_public_key = demo_key\<rparr>"
    by (simp add: relabel_lib_def) (simp add: demo_lib_def)
  have empty: "AllowEmptyAttestation DevelopmentPolicy" by (simp add: DevelopmentPolicy_def)
  have request: "lib_decode_enroll_request relabel_lib body =
      Inr \<lparr>DeviceID = (if body = [1] then ''phone'' else ''tablet''), CSR = b64_encode [5],
          AttestationChain = []\<rparr>" for body
    by (simp add: relabel_lib_def del: b64_encode.simps)
  have "enroll_decode relabel_lib (policy (es_verifier ?s)) demo_enroll_request = Inr ?q"
    "enroll_decode relabel_lib (policy (es_verifier ?s)) (demo_enroll_request\<lparr>req_Body := [2]\<rparr>) =
      Inr (?q\<lparr>p_label := ''tablet''\<rparr>)"
    unfolding pol
    by (simp_all add: enroll_decode_def request labels parse empty demo_enroll_request_def Let_def
        decode_chain_def locate_challenge_def maxEnrollBodyBytes_def del: b64_encode.simps)
  moreover obtain r s1 where run: "EnrollHandler_ServeHTTP relabel_lib (pr_enroll (demo_port 77 200))
      (mem_handler demo_ca ''CA PEM'' hour) demo_enroll_request ?s = (r, s1)" by fastforce
  ultimately have "\<exists>s2. EnrollHandler_ServeHTTP relabel_lib (pr_enroll (demo_port 77 200))
       (mem_handler demo_ca ''CA PEM'' hour) (demo_enroll_request\<lparr>req_Body := [2]\<rparr>) ?s =
       (relabel ''tablet'' r, s2) \<and> erase_labels (es_repo s2) = erase_labels (es_repo s1)"
    using label_display_only by blast
  with run show ?thesis by blast
qed

subsection \<open>The protected resource\<close>

text \<open>
  C14. The middleware's verdict: a request is let through with an identity if and only if the
  certificate it came with names that identity and has the key whose fingerprint it is, the
  registry holds a record for it with the serial of this very certificate, the device is
  active, and the serial is not revoked. The three readings of the registry may differ.
\<close>

theorem middleware_verdict:
  "authenticate (Some memory_device_repo) r1 r2 r3 req = Inr identity \<longleftrightarrow>
     (\<exists>c cs record. req_TLS req = Some (c # cs) \<and> certificate_identity c = id_Identity identity \<and>
        PublicKeyFingerprint (PublicKey c) = Inr (id_Identity identity) \<and>
        devices r1 (id_Identity identity) = Some record \<and> dev_CertSerial record = serial_text c \<and>
        mem_IsDeviceActive (id_Identity identity) r2 \<and> serial_text c \<notin> revokedSerials r3 \<and>
        identity = \<lparr>id_Identity = id_Identity identity, id_Label = dev_Label record,
                    id_CertSerial = serial_text c, id_Record = Some record\<rparr>)"
  unfolding memrepo.authenticate_eq_Inr self_bound_def
    memrepo.is_device_active [simplified memory_device_repo_simps] by simp

text \<open>
  C26. The status of the protected resource: 401 without a client certificate, 403 when the
  middleware refuses the device, 405 for another method, and 200 otherwise.
\<close>

theorem protected_status:
  "response_status (protected_ping repo now r1 r2 r3 req) =
     (case req_TLS req of
        Some (c # cs) \<Rightarrow>
          (if \<not> is_ok (authenticate repo r1 r2 r3 req) then 403
           else if req_Method req \<noteq> MethodGet then 405 else 200)
      | _ \<Rightarrow> 401)"
proof (cases "authenticate repo r1 r2 r3 req")
  case (Inl e)
  from authenticate_error_status [OF this] Inl show ?thesis
    by (auto simp: protected_ping_def MtlsAuthMiddleware_def is_ok_def status_defs
        split: option.splits list.splits)
next
  case (Inr identity)
  then have "\<exists>c cs. req_TLS req = Some (c # cs)"
    by (auto simp: authenticate_def split: option.splits list.splits)
  with Inr show ?thesis
    by (auto simp: protected_ping_def MtlsAuthMiddleware_def ProtectedPingHandler_ServeHTTP_def
        GetDeviceIdentity_def is_ok_def status_defs)
qed

end
