(* ===== verification/Lifecycle.thy ===== *)
theory Lifecycle
  imports Server
begin

text \<open>
  \<open>cmd/server/main.go\<close> from the start of the two listeners to the end of the process: the
  goroutines that serve, the channel \<open>errChan\<close> they report on, the signals, the \<open>select\<close> that
  waits for either, and the graceful shutdown of both servers under one deadline.

  The process is a state machine. \<open>main_at\<close> is the statement \<open>main\<close> executes next; each of
  the two \<open>http.Server\<close> values has the goroutine that runs \<open>ListenAndServeTLS\<close> on it, the flag that
  \<open>Shutdown\<close> sets, and its connections, busy or idle. An event is one atomic action of \<open>main\<close>, of
  a goroutine, of a client, of the operating system, or of the clock; \<open>process_step\<close> says when it
  can happen and what it does.
\<close>

subsection \<open>The servers of \<open>net/http\<close>\<close>

datatype listener = EnrollListener | MtlsListener

text \<open>What \<open>ListenAndServeTLS\<close> returns: the sentinel of a shutdown or another error, never nil.\<close>

datatype serve_error = ErrServerClosed | ServeError string

text \<open>
  The goroutine of a server: not started, about to listen, in the accept loop, back from
  \<open>ListenAndServeTLS\<close>, or at its end.
\<close>

datatype goroutine = NotStarted | Calling | Serving | Returned serve_error | Ended

record http_server =
  routine :: goroutine
  inShutdown :: bool
  busy_conns :: nat
  idle_conns :: nat

definition new_http_server :: http_server where
  "new_http_server = \<lparr>routine = NotStarted, inShutdown = False, busy_conns = 0, idle_conns = 0\<rparr>"

text \<open>
  As the package documents it: listening fails with an error, or the accept loop starts unless
  the server is shutting down; an error of the accept loop is reported as \<open>ErrServerClosed\<close> once
  the server is shutting down (which closes the listener).
\<close>

definition listen_result :: "string option \<Rightarrow> http_server \<Rightarrow> http_server" where
  "listen_result err h =
     h\<lparr>routine := (case err of
         Some e \<Rightarrow> Returned (ServeError e)
       | None \<Rightarrow> if inShutdown h then Returned ErrServerClosed else Serving)\<rparr>"

definition accept_fails :: "string \<Rightarrow> http_server \<Rightarrow> http_server" where
  "accept_fails e h = h\<lparr>routine := Returned (if inShutdown h then ErrServerClosed else ServeError e)\<rparr>"

text \<open>A connection whose request is answered stays open, unless the server is shutting down.\<close>

definition answer_request :: "http_server \<Rightarrow> http_server" where
  "answer_request h =
     h\<lparr>busy_conns := busy_conns h - 1,
       idle_conns := (if inShutdown h then idle_conns h else idle_conns h + 1)\<rparr>"

subsection \<open>The process\<close>

datatype os_signal = Interrupt | SIGTERM

text \<open>The statements of \<open>main\<close>, and the two ways the process ends.\<close>

datatype main_at =
    AtServe listener
  | AtNotify
  | AtSelect
  | AtContext
  | AtShutdown listener
  | InShutdown listener
  | AtReturn
  | Exited nat
  | Killed os_signal

record process =
  main_at :: main_at
  http_servers :: "listener \<Rightarrow> http_server"
  errChan :: "string list"
  quit :: "os_signal list"
  clock :: instant
  ctx_deadline :: instant
  expired :: "listener \<Rightarrow> bool"

definition errChan_capacity :: nat where "errChan_capacity = 2"
definition quit_capacity :: nat where "quit_capacity = 1"
definition shutdown_timeout :: duration where "shutdown_timeout = 5 * second"

text \<open>
  The process when the listeners are about to be started: \<open>log.Fatalf\<close> has ended it with
  status 1 if the configuration, the certificates or the policy did not make a server.
\<close>

definition start_process ::
  "golib \<Rightarrow> bootstrap_reading \<Rightarrow> environment \<Rightarrow> files \<Rightarrow> instant \<Rightarrow> process" where
  "start_process lib env e fs now =
     \<lparr>main_at = (case fst (start_server lib env e fs) of
         Inl _ \<Rightarrow> Exited 1 | Inr _ \<Rightarrow> AtServe EnrollListener),
      http_servers = (\<lambda>_. new_http_server), errChan = [], quit = [], clock = now,
      ctx_deadline = 0, expired = (\<lambda>_. False)\<rparr>"

definition update_server ::
  "listener \<Rightarrow> (http_server \<Rightarrow> http_server) \<Rightarrow> process \<Rightarrow> process" where
  "update_server l f p = p\<lparr>http_servers := (http_servers p)(l := f (http_servers p l))\<rparr>"

text \<open>The statement after starting a server, and after shutting it down.\<close>

definition after_serve :: "listener \<Rightarrow> main_at" where
  "after_serve l =
     (case l of EnrollListener \<Rightarrow> AtServe MtlsListener | MtlsListener \<Rightarrow> AtNotify)"

definition after_shutdown :: "listener \<Rightarrow> main_at" where
  "after_shutdown l =
     (case l of EnrollListener \<Rightarrow> AtShutdown MtlsListener | MtlsListener \<Rightarrow> AtReturn)"

lemma after_serve_simps [simp]:
  "after_serve EnrollListener = AtServe MtlsListener" "after_serve MtlsListener = AtNotify"
  "after_serve l \<noteq> AtServe EnrollListener"
  "after_serve l = AtServe MtlsListener \<longleftrightarrow> l = EnrollListener"
  by (cases l; simp add: after_serve_def)+

lemma after_shutdown_simps [simp]:
  "after_shutdown EnrollListener = AtShutdown MtlsListener" "after_shutdown MtlsListener = AtReturn"
  "after_shutdown l \<noteq> AtServe l'"
  by (cases l; simp add: after_shutdown_def)+

text \<open>The statements of \<open>main\<close> that neither wait nor choose.\<close>

definition main_next :: "process \<Rightarrow> process option" where
  "main_next p =
     (case main_at p of
        AtServe l \<Rightarrow> Some ((update_server l (routine_update (\<lambda>_. Calling)) p)\<lparr>main_at := after_serve l\<rparr>)
      | AtNotify \<Rightarrow> Some (p\<lparr>main_at := AtSelect\<rparr>)
      | AtContext \<Rightarrow>
          Some (p\<lparr>ctx_deadline := time_add (clock p) shutdown_timeout,
                  main_at := AtShutdown EnrollListener\<rparr>)
      | AtShutdown l \<Rightarrow>
          Some ((update_server l (inShutdown_update (\<lambda>_. True)) p)\<lparr>main_at := InShutdown l\<rparr>)
      | AtReturn \<Rightarrow> Some (p\<lparr>main_at := Exited 0\<rparr>)
      | _ \<Rightarrow> None)"

text \<open>The \<open>select\<close>: whichever channel has something to receive.\<close>

definition select_signal :: "process \<Rightarrow> process option" where
  "select_signal p =
     (case (main_at p, quit p) of
        (AtSelect, _ # rest) \<Rightarrow> Some (p\<lparr>quit := rest, main_at := AtContext\<rparr>)
      | _ \<Rightarrow> None)"

definition select_error :: "process \<Rightarrow> process option" where
  "select_error p =
     (case (main_at p, errChan p) of
        (AtSelect, _ # rest) \<Rightarrow> Some (p\<lparr>errChan := rest, main_at := AtContext\<rparr>)
      | _ \<Rightarrow> None)"

text \<open>
  \<open>Shutdown\<close> waits for the accept loop to end; then it closes the idle connections and returns
  when no connection is busy, or gives up when the context has expired.
\<close>

definition shutdown_quiet :: "process \<Rightarrow> process option" where
  "shutdown_quiet p =
     (case main_at p of
        InShutdown l \<Rightarrow>
          if routine (http_servers p l) \<noteq> Serving \<and> busy_conns (http_servers p l) = 0
          then Some ((update_server l (idle_conns_update (\<lambda>_. 0)) p)\<lparr>main_at := after_shutdown l\<rparr>)
          else None
      | _ \<Rightarrow> None)"

definition shutdown_expired :: "process \<Rightarrow> process option" where
  "shutdown_expired p =
     (case main_at p of
        InShutdown l \<Rightarrow>
          if routine (http_servers p l) \<noteq> Serving \<and> ctx_deadline p \<le> clock p
          then Some (p\<lparr>expired := (expired p)(l := True), main_at := after_shutdown l\<rparr>)
          else None
      | _ \<Rightarrow> None)"

text \<open>
  The end of a goroutine: it forgets the sentinel and sends any other error, when the channel
  has room for it.
\<close>

definition failure_text :: "listener \<Rightarrow> string \<Rightarrow> string" where
  "failure_text l e =
     (case l of EnrollListener \<Rightarrow> ''enrollment server failed: '' | MtlsListener \<Rightarrow> ''mTLS server failed: '') @ e"

definition goroutine_report :: "listener \<Rightarrow> process \<Rightarrow> process option" where
  "goroutine_report l p =
     (case routine (http_servers p l) of
        Returned ErrServerClosed \<Rightarrow> Some (update_server l (routine_update (\<lambda>_. Ended)) p)
      | Returned (ServeError e) \<Rightarrow>
          if length (errChan p) < errChan_capacity
          then Some ((update_server l (routine_update (\<lambda>_. Ended)) p)
                 \<lparr>errChan := errChan p @ [failure_text l e]\<rparr>)
          else None
      | _ \<Rightarrow> None)"

text \<open>
  A signal ends the process until \<open>signal.Notify\<close> is called; from then on it is put on \<open>quit\<close>
  if there is room, and dropped otherwise.
\<close>

definition deliver_signal :: "os_signal \<Rightarrow> process \<Rightarrow> process" where
  "deliver_signal sig p =
     (if main_at p \<in> {AtServe EnrollListener, AtServe MtlsListener, AtNotify}
      then p\<lparr>main_at := Killed sig\<rparr>
      else if length (quit p) < quit_capacity then p\<lparr>quit := quit p @ [sig]\<rparr> else p)"

datatype process_event =
    MainNext | SelectSignal | SelectError | ShutdownQuiet | ShutdownExpired
  | ListenResult listener "string option" | AcceptFails listener string | GoroutineReport listener
  | Deliver os_signal
  | AcceptConn listener | AnswerRequest listener | NextRequest listener
  | CloseBusy listener | CloseIdle listener
  | Elapse nat

definition halted :: "process \<Rightarrow> bool" where
  "halted p = (case main_at p of Exited _ \<Rightarrow> True | Killed _ \<Rightarrow> True | _ \<Rightarrow> False)"

text \<open>\<open>server_event\<close> is what happens at one server, where it can.\<close>

definition server_event ::
  "listener \<Rightarrow> (http_server \<Rightarrow> bool) \<Rightarrow> (http_server \<Rightarrow> http_server) \<Rightarrow> process \<Rightarrow> process option" where
  "server_event l can f p = (if can (http_servers p l) then Some (update_server l f p) else None)"

fun enabled_step :: "process_event \<Rightarrow> process \<Rightarrow> process option" where
  "enabled_step MainNext p = main_next p"
| "enabled_step SelectSignal p = select_signal p"
| "enabled_step SelectError p = select_error p"
| "enabled_step ShutdownQuiet p = shutdown_quiet p"
| "enabled_step ShutdownExpired p = shutdown_expired p"
| "enabled_step (ListenResult l err) p =
     server_event l (\<lambda>h. routine h = Calling) (listen_result err) p"
| "enabled_step (AcceptFails l e) p =
     server_event l (\<lambda>h. routine h = Serving) (accept_fails e) p"
| "enabled_step (GoroutineReport l) p = goroutine_report l p"
| "enabled_step (Deliver sig) p = Some (deliver_signal sig p)"
| "enabled_step (AcceptConn l) p =
     server_event l (\<lambda>h. routine h = Serving \<and> \<not> inShutdown h) (busy_conns_update Suc) p"
| "enabled_step (AnswerRequest l) p = server_event l (\<lambda>h. busy_conns h > 0) answer_request p"
| "enabled_step (NextRequest l) p =
     server_event l (\<lambda>h. idle_conns h > 0)
       (\<lambda>h. h\<lparr>idle_conns := idle_conns h - 1, busy_conns := busy_conns h + 1\<rparr>) p"
| "enabled_step (CloseBusy l) p =
     server_event l (\<lambda>h. busy_conns h > 0) (\<lambda>h. h\<lparr>busy_conns := busy_conns h - 1\<rparr>) p"
| "enabled_step (CloseIdle l) p =
     server_event l (\<lambda>h. idle_conns h > 0) (\<lambda>h. h\<lparr>idle_conns := idle_conns h - 1\<rparr>) p"
| "enabled_step (Elapse d) p = Some (p\<lparr>clock := clock p + int d\<rparr>)"

text \<open>Nothing happens in a process that has ended: the return of \<open>main\<close> waits for no goroutine.\<close>

definition process_step :: "process_event \<Rightarrow> process \<Rightarrow> process option" where
  "process_step ev p = (if halted p then None else enabled_step ev p)"

fun process_run :: "process_event list \<Rightarrow> process \<Rightarrow> process option" where
  "process_run [] p = Some p"
| "process_run (ev # evs) p =
     (case process_step ev p of None \<Rightarrow> None | Some p' \<Rightarrow> process_run evs p')"

subsection \<open>Invariants of runs\<close>

named_theorems lifecycle_defs \<open>unfoldings of the actions of the process\<close>

declare main_next_def [lifecycle_defs] select_signal_def [lifecycle_defs]
  select_error_def [lifecycle_defs] shutdown_quiet_def [lifecycle_defs]
  shutdown_expired_def [lifecycle_defs] goroutine_report_def [lifecycle_defs]
  deliver_signal_def [lifecycle_defs] server_event_def [lifecycle_defs]
  update_server_def [lifecycle_defs] listen_result_def [lifecycle_defs]
  accept_fails_def [lifecycle_defs] answer_request_def [lifecycle_defs]

lemmas lifecycle_splits = option.splits main_at.splits listener.splits goroutine.splits
  serve_error.splits list.splits

lemma process_run_append:
  "process_run (xs @ ys) p = Option.bind (process_run xs p) (process_run ys)"
  by (induction xs arbitrary: p) (auto split: option.splits)

lemma process_run_induct [consumes 1, case_names start step]:
  assumes "process_run evs p = Some q"
    and "I [] p"
    and "\<And>tr r ev r'. I tr r \<Longrightarrow> \<not> halted r \<Longrightarrow> enabled_step ev r = Some r' \<Longrightarrow> I (tr @ [ev]) r'"
  shows "I evs q"
  using assms(1)
proof (induction evs arbitrary: q rule: rev_induct)
  case Nil
  with assms(2) show ?case by simp
next
  case (snoc ev evs)
  then obtain r where "process_run evs p = Some r" "process_step ev r = Some q"
    by (auto simp: process_run_append bind_eq_Some_conv split: option.splits)
  with snoc.IH assms(3) show ?case by (auto simp: process_step_def split: if_splits)
qed

lemma listener_neq [simp]:
  "l \<noteq> EnrollListener \<longleftrightarrow> l = MtlsListener" "EnrollListener \<noteq> l \<longleftrightarrow> l = MtlsListener"
  "l \<noteq> MtlsListener \<longleftrightarrow> l = EnrollListener" "MtlsListener \<noteq> l \<longleftrightarrow> l = EnrollListener"
  by (cases l; simp)+

text \<open>The events that are actions of \<open>main\<close>.\<close>

fun main_event :: "process_event \<Rightarrow> bool" where
  "main_event MainNext = True"
| "main_event SelectSignal = True"
| "main_event SelectError = True"
| "main_event ShutdownQuiet = True"
| "main_event ShutdownExpired = True"
| "main_event _ = False"

text \<open>The messages the goroutines can still send fit into the channel.\<close>

fun pending :: "goroutine \<Rightarrow> nat" where
  "pending (Returned ErrServerClosed) = 0"
| "pending Ended = 0"
| "pending _ = 1"

definition reports_fit :: "process \<Rightarrow> bool" where
  "reports_fit p \<longleftrightarrow>
     (main_at p = AtServe EnrollListener \<longrightarrow>
        routine (http_servers p EnrollListener) = NotStarted) \<and>
     (main_at p \<in> {AtServe EnrollListener, AtServe MtlsListener} \<longrightarrow>
        routine (http_servers p MtlsListener) = NotStarted) \<and>
     length (errChan p) + pending (routine (http_servers p EnrollListener)) +
       pending (routine (http_servers p MtlsListener)) \<le> errChan_capacity"

text \<open>How far the shutdown of a server has come, by the statement of \<open>main\<close>.\<close>

fun shutdown_called :: "main_at \<Rightarrow> listener \<Rightarrow> bool" where
  "shutdown_called (InShutdown l') l \<longleftrightarrow> l' = l \<or> l' = MtlsListener"
| "shutdown_called (AtShutdown l') l \<longleftrightarrow> l' = MtlsListener \<and> l = EnrollListener"
| "shutdown_called AtReturn l \<longleftrightarrow> True"
| "shutdown_called (Exited status) l \<longleftrightarrow> status = 0"
| "shutdown_called _ l \<longleftrightarrow> False"

fun shutdown_returned :: "main_at \<Rightarrow> listener \<Rightarrow> bool" where
  "shutdown_returned (InShutdown l') l \<longleftrightarrow> l' = MtlsListener \<and> l = EnrollListener"
| "shutdown_returned (AtShutdown l') l \<longleftrightarrow> l' = MtlsListener \<and> l = EnrollListener"
| "shutdown_returned AtReturn l \<longleftrightarrow> True"
| "shutdown_returned (Exited status) l \<longleftrightarrow> status = 0"
| "shutdown_returned _ l \<longleftrightarrow> False"

lemma shutdown_returned_called: "shutdown_returned m l \<Longrightarrow> shutdown_called m l"
  by (cases m) auto

definition shut_properly :: "process \<Rightarrow> listener \<Rightarrow> bool" where
  "shut_properly p l \<longleftrightarrow>
     (shutdown_called (main_at p) l \<longrightarrow> inShutdown (http_servers p l)) \<and>
     (shutdown_returned (main_at p) l \<longrightarrow> routine (http_servers p l) \<noteq> Serving \<and>
        (expired p l \<and> ctx_deadline p \<le> clock p \<or>
         busy_conns (http_servers p l) = 0 \<and> idle_conns (http_servers p l) = 0))"

lemma reports_fit_step:
  assumes "reports_fit p" "\<not> halted p" "enabled_step ev p = Some p'"
  shows "reports_fit p'"
proof (cases ev)
  case MainNext
  with assms show ?thesis
    by (cases "main_at p") (auto simp: reports_fit_def lifecycle_defs split: listener.splits)
next
  case (GoroutineReport l)
  with assms show ?thesis
    by (cases l)
      (auto simp: reports_fit_def lifecycle_defs split: goroutine.splits serve_error.splits if_splits)
next
  case (ListenResult l err)
  with assms show ?thesis
    by (cases l) (auto simp: reports_fit_def lifecycle_defs split: option.splits if_splits)
next
  case (AcceptFails l e)
  with assms show ?thesis
    by (cases l) (auto simp: reports_fit_def lifecycle_defs split: if_splits)
qed (use assms in \<open>auto simp: reports_fit_def lifecycle_defs split: main_at.splits list.splits if_splits\<close>)

lemma shut_properly_step:
  assumes "shut_properly p l" "\<not> halted p" "enabled_step ev p = Some p'"
  shows "shut_properly p' l"
proof (cases ev)
  case MainNext
  with assms show ?thesis
  proof (cases "main_at p")
    case (AtServe l')
    with MainNext assms show ?thesis
      by (cases l') (auto simp: shut_properly_def lifecycle_defs)
  next
    case (AtShutdown l')
    with MainNext assms show ?thesis
      by (cases l; cases l') (auto simp: shut_properly_def lifecycle_defs)
  qed (auto simp: shut_properly_def lifecycle_defs)
next
  case SelectSignal
  with assms show ?thesis
    by (cases "main_at p") (auto simp: shut_properly_def lifecycle_defs split: list.splits)
next
  case SelectError
  with assms show ?thesis
    by (cases "main_at p") (auto simp: shut_properly_def lifecycle_defs split: list.splits)
next
  case ShutdownQuiet
  with assms obtain l' where "main_at p = InShutdown l'"
    by (auto simp: lifecycle_defs split: main_at.splits)
  with ShutdownQuiet assms show ?thesis
    by (cases l; cases l') (auto simp: shut_properly_def lifecycle_defs split: if_splits)
next
  case ShutdownExpired
  with assms obtain l' where "main_at p = InShutdown l'"
    by (auto simp: lifecycle_defs split: main_at.splits)
  with ShutdownExpired assms show ?thesis
    by (cases l; cases l') (auto simp: shut_properly_def lifecycle_defs split: if_splits)
next
  case (GoroutineReport l')
  with assms show ?thesis
    by (auto simp: shut_properly_def lifecycle_defs
        split: goroutine.splits serve_error.splits if_splits)
next
  case (Deliver sig)
  with assms show ?thesis by (auto simp: shut_properly_def lifecycle_defs split: if_splits)
next
  case (ListenResult l' err)
  with assms show ?thesis
    by (auto simp: shut_properly_def lifecycle_defs dest: shutdown_returned_called
        split: option.splits if_splits)
qed (use assms in \<open>auto simp: shut_properly_def lifecycle_defs split: if_splits\<close>)

text \<open>What can end a process that has started its listeners.\<close>

definition asked_to_stop :: "process_event list \<Rightarrow> bool" where
  "asked_to_stop evs \<longleftrightarrow>
     (\<exists>sig. Deliver sig \<in> set evs) \<or>
     (\<exists>l e. ListenResult l (Some e) \<in> set evs \<or> AcceptFails l e \<in> set evs)"

fun past_select :: "main_at \<Rightarrow> bool" where
  "past_select (AtServe l) = False"
| "past_select AtNotify = False"
| "past_select AtSelect = False"
| "past_select _ = True"

lemma past_select_simps [simp]: "\<not> past_select (after_serve l)"
  by (cases l) simp_all

definition stops_for_reason :: "process_event list \<Rightarrow> process \<Rightarrow> bool" where
  "stops_for_reason evs p \<longleftrightarrow>
     (past_select (main_at p) \<or> quit p \<noteq> [] \<or> errChan p \<noteq> [] \<or>
        (\<exists>l e. routine (http_servers p l) = Returned (ServeError e)) \<longrightarrow> asked_to_stop evs)"

lemma stops_for_reason_step:
  "stops_for_reason evs p \<Longrightarrow> \<not> halted p \<Longrightarrow> enabled_step ev p = Some p' \<Longrightarrow>
     stops_for_reason (evs @ [ev]) p'"
  by (cases ev)
    (auto simp: stops_for_reason_def asked_to_stop_def lifecycle_defs
      split: lifecycle_splits if_splits)

text \<open>The statements \<open>main\<close> has left.\<close>

fun statements_left :: "main_at \<Rightarrow> nat" where
  "statements_left (AtServe EnrollListener) = 10"
| "statements_left (AtServe MtlsListener) = 9"
| "statements_left AtNotify = 8"
| "statements_left AtSelect = 7"
| "statements_left AtContext = 6"
| "statements_left (AtShutdown EnrollListener) = 5"
| "statements_left (InShutdown EnrollListener) = 4"
| "statements_left (AtShutdown MtlsListener) = 3"
| "statements_left (InShutdown MtlsListener) = 2"
| "statements_left AtReturn = 1"
| "statements_left _ = 0"

lemma statements_left_simps [simp]:
  "statements_left (AtServe l) = Suc (statements_left (after_serve l))"
  "statements_left (AtShutdown l) = Suc (statements_left (InShutdown l))"
  "statements_left (InShutdown l) = Suc (statements_left (after_shutdown l))"
  by (cases l; simp)+

lemma statements_left_step:
  "enabled_step ev p = Some p' \<Longrightarrow>
     statements_left (main_at p') + (if main_event ev then 1 else 0) \<le> statements_left (main_at p)"
  by (cases ev) (auto simp: lifecycle_defs split: lifecycle_splits if_splits)

lemma statements_left_bound: "statements_left m \<le> 10"
  by (cases m rule: statements_left.cases) simp_all

subsection \<open>Runs of the backend process\<close>

text \<open>The invariants hold from the start of the process on.\<close>

lemma run_reports_fit:
  assumes "process_run evs (start_process lib env e fs now) = Some p"
  shows "reports_fit p"
  using assms
proof (induction rule: process_run_induct)
  case start
  then show ?case
    by (simp add: reports_fit_def start_process_def new_http_server_def errChan_capacity_def)
qed (rule reports_fit_step)

lemma run_shut_properly:
  assumes "process_run evs (start_process lib env e fs now) = Some p"
  shows "shut_properly p l"
  using assms
proof (induction rule: process_run_induct)
  case start
  then show ?case
    by (simp add: shut_properly_def start_process_def new_http_server_def split: sum.split)
qed (rule shut_properly_step)

lemma run_stops_for_reason:
  assumes "process_run evs (start_process lib env e fs now) = Some p"
    and "start_server lib env e fs = (Inr srv, fs')"
  shows "stops_for_reason evs p"
  using assms(1)
proof (induction rule: process_run_induct)
  case start
  with assms(2) show ?case
    by (simp add: stops_for_reason_def start_process_def new_http_server_def)
qed (rule stops_for_reason_step)

lemma run_main_events:
  assumes "process_run evs p = Some q"
  shows "length (filter main_event evs) + statements_left (main_at q) \<le> statements_left (main_at p)"
  using assms
proof (induction rule: process_run_induct)
  case (step tr r ev r')
  with statements_left_step [of ev r r'] show ?case by (simp split: if_splits)
qed simp

lemma run_exit_status:
  assumes "process_run evs (start_process lib env e fs now) = Some p"
    and "start_server lib env e fs = (Inr srv, fs')" "main_at p = Exited status"
  shows "status = 0"
  using assms(1,3)
proof (induction arbitrary: status rule: process_run_induct)
  case start
  with assms(2) show ?case by (simp add: start_process_def)
next
  case (step tr r ev r')
  from step(2,3,4) show ?case
    by (cases ev)
      (auto simp: halted_def lifecycle_defs after_serve_def after_shutdown_def
        split: lifecycle_splits if_splits)
qed

end
