(* ===== verification/Certgen.thy ===== *)
theory Certgen
  imports Bootstrap
begin

text \<open>
  \<open>cmd/certgen/main.go\<close>: the command that generates the certificates of a development setup.
  A run is a function from the parsed flags and the file system to the outcome of the
  process and the file system it leaves; what it prints is not modelled.
\<close>

record certgen_flags =
  outDir :: string
  caCN :: string
  serverCN :: string
  force :: bool
  androidCAPath :: string

definition default_flags :: certgen_flags where
  "default_flags = \<lparr>outDir = ''certs'', caCN = ''Hardware mTLS PoC Root CA'',
     serverCN = ''localhost'', force = False,
     androidCAPath = path_join [''..'', ''android'', ''app'', ''src'', ''debug'', ''res'', ''raw'',
       ''debug_ca.crt'']\<rparr>"

datatype certgen_outcome =
    AlreadyExist
  | RemoveFailed string
  | BootstrapFailed bootstrap_error
  | CopyUnreadable file_error
  | CopyUnwritable file_error
  | Generated

fun exit_code :: "certgen_outcome \<Rightarrow> nat" where
  "exit_code AlreadyExist = 0"
| "exit_code Generated = 0"
| "exit_code _ = 1"

definition certgen_paths :: "string \<Rightarrow> BootstrapPaths" where
  "certgen_paths dir =
     \<lparr>bp_CaCertPath = path_join [dir, ''ca.crt''],
      bp_CaKeyPath = path_join [dir, ''ca.key''],
      bp_ServerCertPath = path_join [dir, ''server.crt''],
      bp_ServerKeyPath = path_join [dir, ''server.key'']\<rparr>"

text \<open>The loop of \<open>os.Remove\<close> stops at the first error other than a missing file.\<close>

fun remove_all :: "string list \<Rightarrow> files \<Rightarrow> certgen_outcome option \<times> files" where
  "remove_all [] fs = (None, fs)"
| "remove_all (p # ps) fs =
     (case remove_file p fs of
        (None, fs') \<Rightarrow> remove_all ps fs'
      | (Some e, fs') \<Rightarrow>
          if e = NotExist then remove_all ps fs' else (Some (RemoveFailed p), fs'))"

definition copyAndroidCA :: "string \<Rightarrow> string \<Rightarrow> files \<Rightarrow> certgen_outcome \<times> files" where
  "copyAndroidCA targetPath caCertPath fs =
     (if targetPath = [] then (Generated, fs)
      else if stat fs (path_dir targetPath) \<noteq> Some Directory then (Generated, fs)
      else (case read_file fs caCertPath of
          Inl e \<Rightarrow> (CopyUnreadable e, fs)
        | Inr content \<Rightarrow>
            (case write_file targetPath content 420 fs of
               (Some e, fs') \<Rightarrow> (CopyUnwritable e, fs')
             | (None, fs') \<Rightarrow> (Generated, fs'))))"

definition certgen_options :: "certgen_flags \<Rightarrow> BootstrapOptions" where
  "certgen_options flags =
     \<lparr>bo_Paths = certgen_paths (outDir flags), bo_CaCN = caCN flags, bo_ServerCN = serverCN flags,
      bo_CaValidity = 10 * 365 * 24 * hour, bo_ServerValidity = 5 * 365 * 24 * hour\<rparr>"

definition certgen_generate ::
  "golib \<Rightarrow> bootstrap_reading \<Rightarrow> certgen_flags \<Rightarrow> files \<Rightarrow> certgen_outcome \<times> files" where
  "certgen_generate lib env flags fs =
     (case BootstrapCertificates lib env (certgen_options flags) fs of
        (Inl e, fs') \<Rightarrow> (BootstrapFailed e, fs')
      | (Inr generated, fs') \<Rightarrow> copyAndroidCA (androidCAPath flags) (bp_CaCertPath generated) fs')"

definition certgen_main ::
  "golib \<Rightarrow> bootstrap_reading \<Rightarrow> certgen_flags \<Rightarrow> files \<Rightarrow> certgen_outcome \<times> files" where
  "certgen_main lib env flags fs =
     (let paths = managed_paths (certgen_paths (outDir flags));
          anyExist = list_ex (\<lambda>p. stat fs p \<noteq> None) paths
      in if anyExist then
           (if \<not> force flags then (AlreadyExist, fs)
            else (case remove_all paths fs of
                (Some outcome, fs') \<Rightarrow> (outcome, fs')
              | (None, fs') \<Rightarrow> certgen_generate lib env flags fs'))
         else certgen_generate lib env flags fs)"

lemma certgen_keeps_without_force:
  "\<not> force flags \<Longrightarrow> certgen_main lib env flags fs = (outcome, fs') \<Longrightarrow>
     \<exists>p \<in> set (managed_paths (certgen_paths (outDir flags))). stat fs p \<noteq> None \<Longrightarrow>
     outcome = AlreadyExist \<and> fs' = fs"
  by (auto simp: certgen_main_def Let_def list_ex_iff)

lemma remove_all_outcome: "remove_all ps fs = (Some x, fs') \<Longrightarrow> exit_code x = 1"
  by (induction ps fs rule: remove_all.induct) (auto split: prod.splits option.splits if_splits)

text \<open>A removed path is gone for the rest of the loop.\<close>

lemma remove_file_stat:
  assumes "remove_file p fs = (e, fs')"
  shows "stat fs q = None \<Longrightarrow> stat fs' q = None"
    and "e = None \<or> e = Some NotExist \<Longrightarrow> stat fs' p = None"
  using assms
  by (auto simp: remove_file_def stat_def node_at_def Let_def split: option.splits if_splits)

lemma remove_all_stat:
  "remove_all ps fs = (None, fs') \<Longrightarrow>
     (\<forall>p \<in> set ps. stat fs' p = None) \<and> (\<forall>q. stat fs q = None \<longrightarrow> stat fs' q = None)"
proof (induction ps fs rule: remove_all.induct)
  case (2 p ps fs)
  obtain e fs1 where r: "remove_file p fs = (e, fs1)" by fastforce
  with 2 have ok: "e = None \<or> e = Some NotExist" and rest: "remove_all ps fs1 = (None, fs')"
    by (auto split: option.splits if_splits)
  have "(\<forall>p \<in> set ps. stat fs' p = None) \<and> (\<forall>q. stat fs1 q = None \<longrightarrow> stat fs' q = None)"
    using 2 r ok rest by (auto split: option.splits)
  with remove_file_stat [OF r] ok show ?case by auto
qed simp

text \<open>
  The copy for the Android build is the certificate the bootstrap just wrote, when it is
  written to a file of its own.
\<close>

lemma copyAndroidCA_content:
  assumes "copyAndroidCA target caCert fs = (Generated, fs')"
    and "target \<noteq> []" "stat fs (path_dir target) = Some Directory"
  shows "file_content fs' target = file_content fs caCert"
    and "clean_path caCert \<noteq> clean_path target \<Longrightarrow> file_content fs' caCert = file_content fs caCert"
proof -
  from assms obtain content where r: "read_file fs caCert = Inr content"
    and w: "write_file target content 420 fs = (None, fs')"
    by (auto simp: copyAndroidCA_def split: sum.splits prod.splits option.splits)
  from write_file_ok(1) [OF w] read_file_content [OF r]
  show "file_content fs' target = file_content fs caCert" by simp
  show "clean_path caCert \<noteq> clean_path target \<Longrightarrow> file_content fs' caCert = file_content fs caCert"
    using write_file_other [OF w] by (simp add: file_content_def)
qed

text \<open>What a run that generated a set went through.\<close>

lemma remove_file_readable: "remove_file p fs = (e, fs') \<Longrightarrow> refuses_read fs' = refuses_read fs"
  by (auto simp: remove_file_def Let_def split: option.splits if_splits)

lemma remove_all_readable: "remove_all ps fs = (x, fs') \<Longrightarrow> refuses_read fs' = refuses_read fs"
proof (induction ps arbitrary: fs)
  case (Cons p ps)
  obtain e fs1 where r: "remove_file p fs = (e, fs1)" by fastforce
  with Cons.prems have "remove_all ps fs1 = (x, fs') \<or> fs' = fs1"
    by (auto split: option.splits if_splits)
  with Cons.IH [of fs1] remove_file_readable [OF r] show ?case by auto
qed simp

lemma certgen_main_generated:
  assumes "certgen_main lib env flags fs = (Generated, fs')"
  obtains fs1 where "certgen_generate lib env flags fs1 = (Generated, fs')"
    "\<forall>q \<in> set (managed_paths (certgen_paths (outDir flags))). stat fs1 q = None"
    "force flags \<or> (\<forall>q \<in> set (managed_paths (certgen_paths (outDir flags))). stat fs q = None)"
    "refuses_read fs1 = refuses_read fs"
proof (cases "\<exists>q \<in> set (managed_paths (certgen_paths (outDir flags))). stat fs q \<noteq> None")
  case False
  with assms that [of fs] show thesis by (auto simp: certgen_main_def Let_def list_ex_iff)
next
  case True
  obtain x fs1 where r: "remove_all (managed_paths (certgen_paths (outDir flags))) fs = (x, fs1)"
    by fastforce
  from remove_all_outcome [of "managed_paths (certgen_paths (outDir flags))" fs Generated fs1] True assms r
  have "x = None" "force flags" "certgen_generate lib env flags fs1 = (Generated, fs')"
    by (auto simp: certgen_main_def Let_def list_ex_iff split: if_splits option.splits)
  with that [of fs1] remove_all_stat r remove_all_readable [OF r] show thesis by blast
qed

lemma certgen_generate_ok:
  assumes "certgen_generate lib env flags fs = (Generated, fs')"
  obtains fs2 where
    "BootstrapCertificates lib env (certgen_options flags) fs = (Inr (certgen_paths (outDir flags)), fs2)"
    "copyAndroidCA (androidCAPath flags) (bp_CaCertPath (certgen_paths (outDir flags))) fs2 = (Generated, fs')"
proof -
  obtain x fs2 where b: "BootstrapCertificates lib env (certgen_options flags) fs = (x, fs2)" by fastforce
  with assms obtain p where p: "x = Inr p"
    "copyAndroidCA (androidCAPath flags) (bp_CaCertPath p) fs2 = (Generated, fs')"
    by (auto simp: certgen_generate_def split: sum.splits)
  moreover from b p(1) have "p = certgen_paths (outDir flags)"
    using bootstrap_ok_files(1) [of lib env "certgen_options flags" fs p fs2]
    by (simp add: certgen_options_def)
  ultimately show thesis using that b by simp
qed

lemma copyAndroidCA_other:
  assumes "copyAndroidCA target caCert fs = (x, fs')" "clean_path q \<noteq> clean_path target"
  shows "read_file fs' q = read_file fs q"
proof -
  have "stat fs' q = stat fs q \<and> refuses_read fs' = refuses_read fs"
    if "write_file target c m fs = (e, fs')" for c m e
    using write_file_other [OF that assms(2)] write_file_frame [OF that] by simp
  with assms(1) show ?thesis
    by (auto simp: copyAndroidCA_def read_file_def split: if_splits sum.splits prod.splits option.splits
        node.splits)
qed

end
