(* ===== verification/DeploymentProperties.thy ===== *)
theory DeploymentProperties
  imports Examples Certgen
begin

text \<open>
  Properties of the bootstrap of the certificates, of the command that generates them, of the
  configuration and of the server that is built from it, with an installation on an empty
  file system as the concrete setting.
\<close>

subsection \<open>An installation\<close>

definition empty_disk :: files where
  "empty_disk = \<lparr>nodes = Map.empty, refuses_write = (\<lambda>_. False), refuses_read = (\<lambda>_. False),
     short_write = (\<lambda>_. None)\<rparr>"

definition issuing_lib :: golib where
  "issuing_lib = demo_lib\<lparr>lib_create_certificate := (\<lambda>_ _ _ _ _. Inr [2])\<rparr>"

definition install_key :: ecdsa_key where
  "install_key = \<lparr>key_secret = [8], key_public = NilKey\<rparr>"

definition install_reading :: bootstrap_reading where
  "install_reading =
     \<lparr>ca_draws = \<lparr>ca_key_draw = Inr install_key, ca_serial_draw = Inr 5, ca_now_before = 0,
                  ca_now_after = 1, ca_entropy = []\<rparr>,
      server_key_draw = Inr install_key, server_serial_draw = Inr 6,
      host_interfaces = Inr [], server_now_before = 2, server_now_after = 3, server_entropy = []\<rparr>"

definition install_options :: BootstrapOptions where
  "install_options = certgen_options default_flags"

lemma install_paths:
  "bo_Paths install_options = \<lparr>bp_CaCertPath = ''certs/ca.crt'', bp_CaKeyPath = ''certs/ca.key'',
     bp_ServerCertPath = ''certs/server.crt'', bp_ServerKeyPath = ''certs/server.key''\<rparr>"
  by (simp add: install_options_def certgen_options_def default_flags_def certgen_paths_def
      path_join_def clean_path_def clean_step_def)

lemma install_managed:
  "managed_paths (bo_Paths install_options) =
     [''certs/ca.crt'', ''certs/ca.key'', ''certs/server.crt'', ''certs/server.key'']"
  by (simp add: install_paths managed_paths_def)

lemma install_clean [simp]:
  "clean_path ''certs/ca.crt'' = ''certs/ca.crt''" "clean_path ''certs/ca.key'' = ''certs/ca.key''"
  "clean_path ''certs/server.crt'' = ''certs/server.crt''"
  "clean_path ''certs/server.key'' = ''certs/server.key''" "clean_path ''certs'' = ''certs''"
  by (simp_all add: clean_path_def clean_step_def)

lemma install_dirs [simp]:
  "path_dir ''certs/ca.crt'' = ''certs''" "path_dir ''certs/ca.key'' = ''certs''"
  "path_dir ''certs/server.crt'' = ''certs''" "path_dir ''certs/server.key'' = ''certs''"
  "dirOf ''certs/ca.crt'' = ''certs''" "dirOf ''certs/server.crt'' = ''certs''"
  "path_ancestors ''certs'' = [''certs'']"
  by (simp_all add: path_dir_def up_to_last_slash_def clean_path_def clean_step_def dirOf_def
      path_ancestors_def eval_nat_numeral)

lemma issuing_lib_hypotheses: "pem_round_trip issuing_lib" "ec_keys_round_trip issuing_lib"
  using demo_pem_round_trip demo_ec_keys_round_trip
  by (simp_all add: issuing_lib_def pem_round_trip_def ec_keys_round_trip_def)

lemma install_generated:
  "\<exists>certPEM keyPEM. GenerateCA issuing_lib (ca_draws install_reading) cn validity =
     Inr (\<lparr>ca_Certificate = demo_intermediate, ca_PrivateKey = install_key\<rparr>, certPEM, keyPEM)"
  by (simp add: GenerateCA_def install_reading_def issuing_lib_def)
    (simp add: demo_lib_def install_key_def)

lemma install_server: "\<exists>certPEM keyPEM. make_server issuing_lib install_reading opts c = Inr (certPEM, keyPEM)"
  by (simp add: make_server_def install_reading_def issuing_lib_def)
    (simp add: demo_lib_def install_key_def)

lemma installed:
  "\<exists>fs'. BootstrapCertificates issuing_lib install_reading install_options empty_disk =
     (Inr (bo_Paths install_options), fs')"
proof -
  let ?fs1 = "empty_disk\<lparr>nodes := [''certs'' \<mapsto> Directory]\<rparr>"
  obtain certPEM keyPEM where gen: "GenerateCA issuing_lib (ca_draws install_reading)
      (bo_CaCN (with_defaults install_options)) (bo_CaValidity (with_defaults install_options)) =
     Inr (\<lparr>ca_Certificate = demo_intermediate, ca_PrivateKey = install_key\<rparr>, certPEM, keyPEM)"
    using install_generated by blast
  obtain sPEM skPEM where server: "make_server issuing_lib install_reading
      (with_defaults install_options) \<lparr>ca_Certificate = demo_intermediate, ca_PrivateKey = install_key\<rparr> =
     Inr (sPEM, skPEM)"
    using install_server by blast
  have m1: "mkdir_all ''certs'' empty_disk = (None, ?fs1)"
    by (simp add: mkdir_all_def empty_disk_def node_at_def)
  have m2: "mkdir_all ''certs'' ?fs1 = (None, ?fs1)"
    by (simp add: mkdir_all_def empty_disk_def node_at_def)
  have none: "existing_files ?fs1 (bo_Paths install_options) = []"
    by (simp add: existing_files_def install_managed fileExists_def stat_def node_at_def)
  have "\<exists>fs'. generate_all issuing_lib install_reading (with_defaults install_options)
      (bo_Paths install_options) ?fs1 = (Inr (bo_Paths install_options), fs')"
    by (simp add: generate_all_def fs_then_def gen server install_paths fs_pure_def fs_write_def
        write_file_def node_at_def empty_disk_def)
  with none have "\<exists>fs'. bootstrap_missing issuing_lib install_reading install_options ?fs1 =
      (Inr (bo_Paths install_options), fs')"
    by (simp add: bootstrap_missing_def)
  with m1 m2 show ?thesis
    by (simp add: BootstrapCertificates_def Let_def install_paths)
qed

lemma empty_disk_fresh: "\<forall>q \<in> set (managed_paths (bo_Paths install_options)). \<not> is_file empty_disk q"
  by (simp add: install_managed is_file_def stat_def node_at_def empty_disk_def)

subsection \<open>Bootstrapping the certificates\<close>

text \<open>
  C30. A bootstrap never destroys anything: whatever file existed before it, under any path,
  has the same content after it, whether the bootstrap succeeds or fails, and at whichever
  step it fails.
\<close>

theorem bootstrap_never_overwrites:
  assumes "BootstrapCertificates lib env opts fs = (r, fs')" "file_content fs q = Some c"
  shows "file_content fs' q = Some c"
  using assms by (rule bootstrap_keeps_content)

theorem bootstrap_never_overwrites_witness:
  "\<exists>r fs'. BootstrapCertificates issuing_lib install_reading install_options
       (empty_disk\<lparr>nodes := [''certs'' \<mapsto> Directory, ''certs/ca.crt'' \<mapsto> File [7] 420]\<rparr>) = (r, fs') \<and>
     file_content fs' ''certs/ca.crt'' = Some [7]"
proof -
  let ?fs = "empty_disk\<lparr>nodes := [''certs'' \<mapsto> Directory, ''certs/ca.crt'' \<mapsto> File [7] 420]\<rparr>"
  obtain r fs' where run: "BootstrapCertificates issuing_lib install_reading install_options ?fs = (r, fs')"
    by fastforce
  have "file_content ?fs ''certs/ca.crt'' = Some [7]"
    by (simp add: file_content_def stat_def node_at_def)
  from bootstrap_never_overwrites [OF run this] run show ?thesis by blast
qed

text \<open>
  C31. A bootstrap that succeeds leaves all four files, and bootstrapping again, with whatever
  keys and random numbers, succeeds without changing anything.
\<close>

theorem bootstrap_idempotent:
  assumes "BootstrapCertificates lib env opts fs = (Inr p, fs')"
  shows "p = bo_Paths opts \<and> (\<forall>q \<in> set (managed_paths p). is_file fs' q) \<and>
     BootstrapCertificates lib' env' opts fs' = (Inr p, fs')"
  using bootstrap_ok_files [OF assms] bootstrap_ok_directories [OF assms] bootstrap_complete by auto

theorem bootstrap_idempotent_witness:
  "\<exists>fs'. BootstrapCertificates issuing_lib install_reading install_options fs' =
     (Inr (bo_Paths install_options), fs') \<and> is_file fs' ''certs/server.key''"
proof -
  obtain fs' where run: "BootstrapCertificates issuing_lib install_reading install_options empty_disk =
      (Inr (bo_Paths install_options), fs')" using installed by blast
  from bootstrap_idempotent [OF run] show ?thesis by (auto simp: install_managed)
qed

text \<open>
  C32. An incomplete set of files is refused, naming the files that exist, and no file is
  created, changed or removed.
\<close>

theorem partial_set_refused:
  assumes "BootstrapCertificates lib env opts fs = (r, fs')"
    and "\<exists>q \<in> set (managed_paths (bo_Paths opts)). is_file fs q"
    and "\<exists>q \<in> set (managed_paths (bo_Paths opts)). \<not> is_file fs q"
  shows "(\<forall>q. file_content fs' q = file_content fs q) \<and>
     (r = Inl (PartialSet (filter (is_file fs) (managed_paths (bo_Paths opts)))) \<or>
      (\<exists>e. r = Inl (CertsDirFailed e)))"
proof -
  have "existing_files fs (bo_Paths opts) = filter (is_file fs) (managed_paths (bo_Paths opts))"
    unfolding existing_files_def by (rule filter_cong) (simp_all add: fileExists_iff)
  with bootstrap_partial [OF assms] show ?thesis by (auto simp: same_files_def)
qed

theorem partial_set_refused_witness:
  "fst (BootstrapCertificates issuing_lib install_reading install_options
       (empty_disk\<lparr>nodes := [''certs'' \<mapsto> Directory, ''certs/ca.crt'' \<mapsto> File [7] 420]\<rparr>)) =
     Inl (PartialSet [''certs/ca.crt''])"
proof -
  let ?fs = "empty_disk\<lparr>nodes := [''certs'' \<mapsto> Directory, ''certs/ca.crt'' \<mapsto> File [7] 420]\<rparr>"
  obtain r fs' where run: "BootstrapCertificates issuing_lib install_reading install_options ?fs = (r, fs')"
    by fastforce
  have files: "filter (is_file ?fs) (managed_paths (bo_Paths install_options)) = [''certs/ca.crt'']"
    by (simp add: install_managed is_file_def stat_def node_at_def)
  have "mkdir_all ''certs'' ?fs = (None, ?fs)" by (simp add: mkdir_all_def node_at_def)
  with run have no_dir_error: "\<nexists>e. r = Inl (CertsDirFailed e)"
    by (auto simp: BootstrapCertificates_def Let_def install_paths fs_then_def fs_mkdir_def
        bootstrap_missing_def existing_files_def managed_paths_def fileExists_def stat_def
        node_at_def empty_disk_def split: if_splits)
  from partial_set_refused [OF run] no_dir_error files run show ?thesis
    by (auto simp: install_managed is_file_def stat_def node_at_def)
qed

text \<open>
  C33. On a fresh installation the root that the server loads from the files is the root that
  was generated, certificate and key, whatever else was written in between.
\<close>

theorem fresh_root_loads:
  assumes "BootstrapCertificates lib env opts fs = (Inr p, fs')"
    and "\<forall>q \<in> set (managed_paths (bo_Paths opts)). \<not> is_file fs q"
    and "distinct (map clean_path (managed_paths (bo_Paths opts)))"
    and "pem_round_trip lib" "ec_keys_round_trip lib" "\<forall>q. \<not> refuses_read fs q"
  shows "\<exists>c certPEM keyPEM.
     GenerateCA lib (ca_draws env) (bo_CaCN (with_defaults opts)) (bo_CaValidity (with_defaults opts))
       = Inr (c, certPEM, keyPEM) \<and>
     LoadCA lib fs' (bp_CaCertPath p) (bp_CaKeyPath p) = Inr c"
  using assms by (rule bootstrap_fresh_load)

theorem fresh_root_loads_witness:
  "\<exists>fs' c. BootstrapCertificates issuing_lib install_reading install_options empty_disk =
       (Inr (bo_Paths install_options), fs') \<and>
     LoadCA issuing_lib fs' ''certs/ca.crt'' ''certs/ca.key'' = Inr c \<and>
     ca_PrivateKey c = install_key"
proof -
  obtain fs' where run: "BootstrapCertificates issuing_lib install_reading install_options empty_disk =
      (Inr (bo_Paths install_options), fs')" using installed by blast
  have "distinct (map clean_path (managed_paths (bo_Paths install_options)))"
    "\<forall>q. \<not> refuses_read empty_disk q" by (simp_all add: install_managed empty_disk_def)
  from fresh_root_loads [OF run empty_disk_fresh this(1) issuing_lib_hypotheses this(2)]
  obtain c certPEM keyPEM where "GenerateCA issuing_lib (ca_draws install_reading)
      (bo_CaCN (with_defaults install_options)) (bo_CaValidity (with_defaults install_options)) =
      Inr (c, certPEM, keyPEM)"
    and load: "LoadCA issuing_lib fs' ''certs/ca.crt'' ''certs/ca.key'' = Inr c"
    by (auto simp: install_paths)
  moreover have "ca_PrivateKey c = install_key"
    using calculation(1) install_generated [of "bo_CaCN (with_defaults install_options)"
        "bo_CaValidity (with_defaults install_options)"] by auto
  ultimately show ?thesis using run by blast
qed

text \<open>
  C40. \<open>dirOf\<close> cuts a path at its last slash. For a root or server certificate directly below the
  root directory that leaves the empty path, which \<open>MkdirAll\<close> refuses, so such a set cannot be
  bootstrapped; for the root certificate nothing has been changed by then. (No directories are
  made for the keys, so their paths are not affected.)
\<close>

theorem root_directory_refused:
  assumes "slash \<notin> set name"
    and "bp_CaCertPath (bo_Paths opts) = slash # name \<or> bp_ServerCertPath (bo_Paths opts) = slash # name"
  shows "dirOf (slash # name) = [] \<and>
     (\<exists>e fs'. BootstrapCertificates lib env opts fs = (Inl (CertsDirFailed e), fs') \<and>
        (bp_CaCertPath (bo_Paths opts) = slash # name \<longrightarrow> e = NotExist \<and> fs' = fs))"
proof -
  have d: "dirOf (slash # name) = []" using dirOf_slash [OF assms(1), of "[]"] by simp
  have empty: "fs_mkdir [] g = (Inl (CertsDirFailed NotExist), g)" for g
    by (simp add: fs_mkdir_def mkdir_all_def)
  show ?thesis
  proof (cases "bp_CaCertPath (bo_Paths opts) = slash # name")
    case True
    with d empty show ?thesis by (simp add: BootstrapCertificates_def fs_then_def Let_def)
  next
    case False
    with assms(2) have server: "bp_ServerCertPath (bo_Paths opts) = slash # name" by simp
    obtain r fs1 where first: "fs_mkdir (dirOf (bp_CaCertPath (bo_Paths opts))) fs = (r, fs1)"
      by fastforce
    then have "r = Inr () \<or> (\<exists>e. r = Inl (CertsDirFailed e))"
      by (auto simp: fs_mkdir_def split: prod.splits option.splits)
    with first server d empty False show ?thesis
      by (auto simp: BootstrapCertificates_def fs_then_def Let_def)
  qed
qed

theorem root_directory_refused_witness:
  "fst (BootstrapCertificates issuing_lib install_reading
     (install_options\<lparr>bo_Paths := (bo_Paths install_options)\<lparr>bp_CaCertPath := ''/ca.crt''\<rparr>\<rparr>) empty_disk) =
     Inl (CertsDirFailed NotExist) \<and>
   (\<exists>e. fst (BootstrapCertificates issuing_lib install_reading
     (install_options\<lparr>bo_Paths := (bo_Paths install_options)\<lparr>bp_ServerCertPath := ''/s.crt''\<rparr>\<rparr>) empty_disk) =
     Inl (CertsDirFailed e))"
proof
  show "fst (BootstrapCertificates issuing_lib install_reading
     (install_options\<lparr>bo_Paths := (bo_Paths install_options)\<lparr>bp_CaCertPath := ''/ca.crt''\<rparr>\<rparr>) empty_disk) =
     Inl (CertsDirFailed NotExist)"
    using root_directory_refused [of "''ca.crt''"
        "install_options\<lparr>bo_Paths := (bo_Paths install_options)\<lparr>bp_CaCertPath := ''/ca.crt''\<rparr>\<rparr>"
        issuing_lib install_reading empty_disk] by auto
  show "\<exists>e. fst (BootstrapCertificates issuing_lib install_reading
     (install_options\<lparr>bo_Paths := (bo_Paths install_options)\<lparr>bp_ServerCertPath := ''/s.crt''\<rparr>\<rparr>) empty_disk) =
     Inl (CertsDirFailed e)"
    using root_directory_refused [of "''s.crt''"
        "install_options\<lparr>bo_Paths := (bo_Paths install_options)\<lparr>bp_ServerCertPath := ''/s.crt''\<rparr>\<rparr>"
        issuing_lib install_reading empty_disk] by auto
qed

subsection \<open>The command\<close>



subsection \<open>Configuration\<close>

text \<open>
  C38. The two times to live are the configured numbers of seconds and hours exactly when the
  products fit into a 64-bit duration; beyond that they wrap around.
\<close>

theorem configured_durations:
  "(sint (ChallengeTTL (LoadConfig e)) = getEnvInt e ''CHALLENGE_TTL_SECONDS'' 60 * 1000000000 \<longleftrightarrow>
      min_duration \<le> getEnvInt e ''CHALLENGE_TTL_SECONDS'' 60 * 1000000000 \<and>
      getEnvInt e ''CHALLENGE_TTL_SECONDS'' 60 * 1000000000 \<le> max_duration) \<and>
   (sint (ClientCertTTL (LoadConfig e)) = getEnvInt e ''CLIENT_CERT_TTL_HOURS'' 168 * 3600000000000 \<longleftrightarrow>
      min_duration \<le> getEnvInt e ''CLIENT_CERT_TTL_HOURS'' 168 * 3600000000000 \<and>
      getEnvInt e ''CLIENT_CERT_TTL_HOURS'' 168 * 3600000000000 \<le> max_duration)"
  unfolding LoadConfig_durations sint_duration_product by blast

text \<open>
  A challenge time to live of 9223372037 seconds, 292 years, is accepted by the
  configuration and becomes a negative duration: every challenge is expired when it is
  issued.
\<close>

theorem ttl_wraps_negative:
  "sint (ChallengeTTL (LoadConfig [''CHALLENGE_TTL_SECONDS'' \<mapsto> ''9223372037''])) = - 9223372036709551616"
proof -
  have "atoi ''9223372037'' = Some 9223372037"
    by (simp add: atoi_def digits_value_from.simps digit_value_def min_int64_def max_int64_def)
  then have "getEnvInt [''CHALLENGE_TTL_SECONDS'' \<mapsto> ''9223372037''] ''CHALLENGE_TTL_SECONDS'' 60 = 9223372037"
    by (simp add: getEnvInt_def lookup_env_def)
  then show ?thesis unfolding LoadConfig_durations by simp
qed

subsection \<open>The server\<close>

text \<open>
  C27. Without development mode the server that \<open>main\<close> starts enforces the production policy:
  hardware-backed keys on locked, verified devices under Google's embedded roots, for the
  configured package, minimum version and minimum patch level, and with the revocation list
  exactly when it is required, from the configured address and renewed after a day; only
  clients whose certificate is verified up to the loaded root get through the TLS 1.3
  handshake of the protected listener; and it starts with no challenges and no devices.
\<close>

theorem production_server:
  assumes "start_server lib env e fs = (Inr (srv, s), fs')" "\<not> DevMode (LoadConfig e)"
  shows "in_memory srv \<and> s = initial_state (es_verifier s) \<and> strict_policy (policy (es_verifier s)) \<and>
     NewGoogleRootCertPool lib [] = Inr (rootPool (es_verifier s)) \<and>
     ExpectedPackageName (policy (es_verifier s)) = ExpectedAppPackage (LoadConfig e) \<and>
     MinOsVersion (policy (es_verifier s)) = cfg_MinOsVersion (LoadConfig e) \<and>
     MinPatchLevel (policy (es_verifier s)) = cfg_MinPatchLevel (LoadConfig e) \<and>
     CheckRevocationList (policy (es_verifier s)) = RequireRevocationCheck (LoadConfig e) \<and>
     (RequireRevocationCheck (LoadConfig e) \<longrightarrow>
        (\<exists>rc. revocations (es_verifier s) = Some rc \<and> entries rc = None \<and>
           sint (list_ttl rc) = 24 * 3600 * 1000000000 \<and>
           listURL rc = (if RevocationListURL (LoadConfig e) = [] then DefaultRevocationListURL
                         else RevocationListURL (LoadConfig e)))) \<and>
     tls_ClientAuth (mtls_tls srv) = RequireAndVerifyClientCert \<and>
     tls_MinVersion (mtls_tls srv) = VersionTLS13 \<and>
     tls_ClientCAs (mtls_tls srv) = [ca_Certificate (eh_ca (enroll_handler srv))]"
proof -
  from assms(1) have built: "build_server lib (LoadConfig e) fs' = Inr (srv, s)"
    by (auto simp: start_server_def Let_def split: prod.splits sum.splits)
  from build_server_ok [OF built, folded initial_state_def]
  obtain v where v: "build_verifier lib (LoadConfig e) = Inr v" "s = initial_state v"
    and tls: "tls_ClientAuth (mtls_tls srv) = RequireAndVerifyClientCert"
      "tls_MinVersion (mtls_tls srv) = VersionTLS13"
      "tls_ClientCAs (mtls_tls srv) = [ca_Certificate (eh_ca (enroll_handler srv))]"
    by (elim exE conjE)
  from v(2) have ver: "es_verifier s = v" by (simp add: initial_state_def)
  have pol: "policy v = attestation_policy (LoadConfig e)"
    "NewGoogleRootCertPool lib [] = Inr (rootPool v)"
    "RequireRevocationCheck (LoadConfig e) \<Longrightarrow> revocations v =
       Some (NewRevocationStatusClient (RevocationListURL (LoadConfig e)) (24 * hour) None)"
    using v(1) by (auto simp: build_verifier_def NewVerifier_def WithRevocationChecker_def
        split: if_splits)
  have day: "sint (24 * hour) = 24 * 3600 * 1000000000"
    by (simp add: hour_def minute_def second_def)
  have "strict_policy (policy v)"
    using assms(2) by (simp add: pol strict_policy_def attestation_policy_def DefaultStrictPolicy_def)
  moreover have "ExpectedPackageName (policy v) = ExpectedAppPackage (LoadConfig e)"
    "MinOsVersion (policy v) = cfg_MinOsVersion (LoadConfig e)"
    "MinPatchLevel (policy v) = cfg_MinPatchLevel (LoadConfig e)"
    "CheckRevocationList (policy v) = RequireRevocationCheck (LoadConfig e)"
    by (simp_all add: pol attestation_policy_def)
  moreover have "\<exists>rc. revocations v = Some rc \<and> entries rc = None \<and>
      sint (list_ttl rc) = 24 * 3600 * 1000000000 \<and>
      listURL rc = (if RevocationListURL (LoadConfig e) = [] then DefaultRevocationListURL
                    else RevocationListURL (LoadConfig e))" if "RequireRevocationCheck (LoadConfig e)"
    using pol(3) [OF that] day by (simp add: NewRevocationStatusClient_def Let_def)
  ultimately show ?thesis
    using build_server_in_memory [OF built] v(2) tls pol(2) unfolding ver
    by (intro conjI impI) simp_all
qed

definition start_lib :: golib where
  "start_lib = demo_lib\<lparr>lib_pem_decode := (\<lambda>pem.
     Some (\<lparr>block_type = (if pem = [0] then ''EC PRIVATE KEY'' else ''CERTIFICATE''),
            block_headers = [], block_bytes = [2]\<rparr>, []))\<rparr>"

definition prepared_disk :: files where
  "prepared_disk = empty_disk\<lparr>nodes :=
     [''certs'' \<mapsto> Directory, ''certs/ca.crt'' \<mapsto> File [7] 420, ''certs/ca.key'' \<mapsto> File [0] 384,
      ''certs/server.crt'' \<mapsto> File [9] 420, ''certs/server.key'' \<mapsto> File [0] 384]\<rparr>"

lemma default_config:
  "CaCertPath (LoadConfig Map.empty) = ''certs/ca.crt''"
  "CaKeyPath (LoadConfig Map.empty) = ''certs/ca.key''"
  "ServerCertPath (LoadConfig Map.empty) = ''certs/server.crt''"
  "ServerKeyPath (LoadConfig Map.empty) = ''certs/server.key''"
  "EnrollCertPath (LoadConfig Map.empty) = ''certs/server.crt''"
  "EnrollKeyPath (LoadConfig Map.empty) = ''certs/server.key''"
  "DevMode (LoadConfig Map.empty) = False" "RequireRevocationCheck (LoadConfig Map.empty) = True"
  "ExpectedAppPackage (LoadConfig Map.empty) = ''com.kypeli.mtlspoc''"
  by (simp_all add: LoadConfig_def Let_def getEnv_def getEnvBool_def lookup_env_def path_join_def
      clean_path_def clean_step_def)

lemma prepared_files:
  "read_file prepared_disk ''certs/ca.crt'' = Inr [7]" "read_file prepared_disk ''certs/ca.key'' = Inr [0]"
  "read_file prepared_disk ''certs/server.crt'' = Inr [9]"
  "read_file prepared_disk ''certs/server.key'' = Inr [0]"
  by (simp_all add: read_file_def stat_def node_at_def prepared_disk_def empty_disk_def)

lemma started:
  "\<exists>srv s. start_server start_lib env Map.empty prepared_disk = (Inr (srv, s), prepared_disk)"
proof -
  let ?cfg = "LoadConfig Map.empty"
  have paths: "bo_Paths (server_bootstrap_options ?cfg) = bo_Paths install_options"
    by (simp add: server_bootstrap_options_def install_paths default_config)
  have "BootstrapCertificates start_lib env (server_bootstrap_options ?cfg) prepared_disk =
      (Inr (bo_Paths (server_bootstrap_options ?cfg)), prepared_disk)"
  proof (rule bootstrap_complete)
    show "\<forall>q \<in> set (managed_paths (bo_Paths (server_bootstrap_options ?cfg))). is_file prepared_disk q"
      unfolding paths install_managed
      by (simp add: is_file_def stat_def node_at_def prepared_disk_def)
    have "dir_ready prepared_disk ''certs''"
      by (simp add: dir_ready_def node_at_def prepared_disk_def)
    then show "dir_ready prepared_disk (dirOf (bp_CaCertPath (bo_Paths (server_bootstrap_options ?cfg)))) \<and>
       dir_ready prepared_disk (dirOf (bp_ServerCertPath (bo_Paths (server_bootstrap_options ?cfg))))"
      unfolding paths by (simp add: install_paths)
  qed
  then have certs: "ensureCertificates start_lib env ?cfg prepared_disk = (Inr (), prepared_disk)"
    by (simp add: ensureCertificates_def)
  have roots: "\<exists>v. NewVerifier start_lib None p = Inr v" for p
    by (simp add: NewVerifier_def NewGoogleRootCertPool_def DefaultGoogleRootPEMs_def parse_root_def
        start_lib_def) (simp add: demo_lib_def)
  have "\<exists>v. build_verifier start_lib ?cfg = Inr v"
    using roots [of "attestation_policy ?cfg"] by (auto simp: build_verifier_def)
  then obtain v where v: "build_verifier start_lib ?cfg = Inr v" ..
  have ca: "\<exists>c. LoadCA start_lib prepared_disk ''certs/ca.crt'' ''certs/ca.key'' = Inr c"
    by (simp add: LoadCA_def prepared_files start_lib_def) (simp add: demo_lib_def)
  have pair: "LoadX509KeyPair start_lib prepared_disk ''certs/server.crt'' ''certs/server.key'' = Inr [[9]]"
    by (simp add: LoadX509KeyPair_def prepared_files start_lib_def) (simp add: demo_lib_def)
  from ca obtain c where c: "LoadCA start_lib prepared_disk ''certs/ca.crt'' ''certs/ca.key'' = Inr c" ..
  have "\<exists>srv s. build_server start_lib ?cfg prepared_disk = Inr (srv, s)"
    by (simp add: build_server_def default_config prepared_files c v pair)
  with certs show ?thesis by (auto simp: start_server_def)
qed

theorem production_server_witness:
  "\<exists>srv s. start_server start_lib install_reading Map.empty prepared_disk = (Inr (srv, s), prepared_disk) \<and>
     strict_policy (policy (es_verifier s)) \<and> CheckRevocationList (policy (es_verifier s)) \<and>
     ExpectedPackageName (policy (es_verifier s)) = ''com.kypeli.mtlspoc''"
proof -
  obtain srv s where run: "start_server start_lib install_reading Map.empty prepared_disk =
      (Inr (srv, s), prepared_disk)" using started by blast
  have "\<not> DevMode (LoadConfig Map.empty)" by (simp add: default_config)
  from production_server [OF run this] run show ?thesis by (auto simp: default_config)
qed

text \<open>
  C39. The request logger is transparent: whatever a handler writes through the recorder reaches
  the connection unchanged, informational headers, superfluous statuses and panics included.
  For handlers that set a final status at most once, before any byte - all of this backend -
  the logged status is the one the client gets; the logged size is the number of body bytes
  that were sent, below 2^63, unless the request is a \<open>HEAD\<close>, whose answer has no body although
  the size of the suppressed one is logged.
\<close>

theorem recorder_transparent:
  shows "ResponseWriter (requestLogger x calls) = fold (http_writer_step x) calls fresh_writer \<and>
     (header_first x calls \<longrightarrow>
        statusCode (requestLogger x calls) = answered_status (ResponseWriter (requestLogger x calls))) \<and>
     (\<not> answers_head x \<and> offered_bytes calls < 2 ^ 63 \<longrightarrow>
        sint (bytesWritten (requestLogger x calls)) =
          int (length (sent_body (ResponseWriter (requestLogger x calls))))) \<and>
     (answers_head x \<longrightarrow> sent_body (ResponseWriter (requestLogger x calls)) = [] \<and>
        bytesWritten (requestLogger x calls) =
          bytesWritten (requestLogger (x\<lparr>answers_head := False\<rparr>) calls))"
proof (intro conjI impI)
  show forward: "ResponseWriter (requestLogger x calls) = fold (http_writer_step x) calls fresh_writer"
    by (simp add: requestLogger_def recorder_forwards)
  show "header_first x calls \<Longrightarrow>
      statusCode (requestLogger x calls) = answered_status (ResponseWriter (requestLogger x calls))"
    by (rule recorder_status)
  show "answers_head x \<Longrightarrow> sent_body (ResponseWriter (requestLogger x calls)) = []"
    by (simp add: forward head_sends_nothing) (simp add: fresh_writer_def)
  show "bytesWritten (requestLogger x calls) =
      bytesWritten (requestLogger (x\<lparr>answers_head := False\<rparr>) calls)"
    using requestLogger_alike [of x calls False] by (simp add: alike_def)
  assume "\<not> answers_head x \<and> offered_bytes calls < 2 ^ 63"
  then have get: "\<not> answers_head x" and small: "offered_bytes calls < 2 ^ 63" by simp_all
  have "bytesWritten (requestLogger x calls) =
      word_of_nat (length (sent_body (ResponseWriter (requestLogger x calls))))"
    unfolding requestLogger_def by (rule recorder_bytes [OF get]) (simp add: fresh_writer_def)
  moreover have "length (sent_body (ResponseWriter (requestLogger x calls))) < 2 ^ 63"
    using sent_body_bound [of x calls fresh_writer] small by (simp add: forward) (simp add: fresh_writer_def)
  ultimately show "sint (bytesWritten (requestLogger x calls)) =
      int (length (sent_body (ResponseWriter (requestLogger x calls))))"
    by (simp add: sint_word_of_nat_small)
qed

theorem recorder_transparent_witness:
  "statusCode (requestLogger \<lparr>is_http2 = True, answers_head = False\<rparr>
     [CallWriteHeader 403, CallWrite [1, 2, 3] 3]) = 403 \<and>
   sint (bytesWritten (requestLogger \<lparr>is_http2 = True, answers_head = False\<rparr>
     [CallWriteHeader 403, CallWrite [1, 2, 3] 3])) = 3"
proof -
  let ?x = "\<lparr>is_http2 = True, answers_head = False\<rparr>"
  let ?calls = "[CallWriteHeader 403, CallWrite [1, 2, 3] 3]"
  have "header_first ?x ?calls" "\<not> answers_head ?x" "offered_bytes ?calls < 2 ^ 63"
    by (simp_all add: informational_def)
  with recorder_transparent [of ?x ?calls]
  have "ResponseWriter (requestLogger ?x ?calls) = fold (http_writer_step ?x) ?calls fresh_writer"
    "statusCode (requestLogger ?x ?calls) = answered_status (ResponseWriter (requestLogger ?x ?calls))"
    "sint (bytesWritten (requestLogger ?x ?calls)) =
       int (length (sent_body (ResponseWriter (requestLogger ?x ?calls))))" by blast+
  moreover have "sent_status (fold (http_writer_step ?x) ?calls fresh_writer) = Some 403"
    "length (sent_body (fold (http_writer_step ?x) ?calls fresh_writer)) = 3"
    by (simp_all add: write_body_def write_header_def informational_def body_allowed_def
        fresh_writer_def)
  ultimately show ?thesis by (simp add: answered_status_def)
qed

end
