(* ===== verification/LifecycleProperties.thy ===== *)
theory LifecycleProperties
  imports Lifecycle DeploymentProperties
begin

text \<open>
  The properties of the process of \<open>cmd/server\<close>: when and how it ends, and that nothing in it
  waits forever. The demonstration is the installation of \<open>DeploymentProperties\<close> with a
  second listener that cannot be bound.
\<close>

subsection \<open>A run that completes a shutdown\<close>

text \<open>The events a shutdown needs, which no client and no signal takes part in.\<close>

fun shutdown_event :: "process_event \<Rightarrow> bool" where
  "shutdown_event (AcceptFails l e) = True"
| "shutdown_event (Elapse d) = True"
| "shutdown_event ev = main_event ev"

definition completes :: "process \<Rightarrow> bool" where
  "completes p \<longleftrightarrow> (\<exists>evs q. list_all shutdown_event evs \<and> process_run evs p = Some q \<and> main_at q = Exited 0)"

lemma completes_run:
  assumes "process_run evs p = Some q" "list_all shutdown_event evs" "completes q"
  shows "completes p"
proof -
  from assms(3) obtain evs' q' where "list_all shutdown_event evs'" "process_run evs' q = Some q'"
    "main_at q' = Exited 0" by (auto simp: completes_def)
  with assms(1,2) have "list_all shutdown_event (evs @ evs')" "process_run (evs @ evs') p = Some q'"
    by (simp_all add: process_run_append)
  with \<open>main_at q' = Exited 0\<close> show ?thesis unfolding completes_def by blast
qed

lemma completes_next:
  assumes "\<not> halted p" "main_next p = Some q" "completes q"
  shows "completes p"
  by (rule completes_run [of "[MainNext]"]) (use assms in \<open>simp_all add: process_step_def\<close>)

text \<open>A call of \<open>Shutdown\<close> returns once the accept loop has noticed it and the time is over.\<close>

lemma completes_wait:
  assumes "main_at p = InShutdown l"
    and "\<And>q. main_at q = after_shutdown l \<Longrightarrow> completes q"
  shows "completes p"
proof -
  define p1 where "p1 = (if routine (http_servers p l) = Serving
    then update_server l (accept_fails []) p else p)"
  define p2 where "p2 = p1\<lparr>clock := clock p1 + int (nat (ctx_deadline p - clock p1))\<rparr>"
  let ?stop = "if routine (http_servers p l) = Serving then [AcceptFails l []] else []"
  have p1: "process_run ?stop p = Some p1" "main_at p1 = InShutdown l"
    "routine (http_servers p1 l) \<noteq> Serving" "ctx_deadline p1 = ctx_deadline p"
    using assms(1)
    by (simp_all add: p1_def process_step_def halted_def lifecycle_defs)
  have p2: "process_run [Elapse (nat (ctx_deadline p - clock p1))] p1 = Some p2"
    "main_at p2 = InShutdown l" "routine (http_servers p2 l) \<noteq> Serving" "ctx_deadline p2 \<le> clock p2"
    using p1 by (simp_all add: p2_def process_step_def halted_def)
  let ?q = "p2\<lparr>expired := (expired p2)(l := True), main_at := after_shutdown l\<rparr>"
  have run: "process_run [ShutdownExpired] p2 = Some ?q"
    using p2 by (simp add: process_step_def halted_def shutdown_expired_def)
  have q: "completes ?q" by (rule assms(2)) simp
  have "completes p2" by (rule completes_run [OF run _ q]) simp
  then have "completes p1" by (rule completes_run [OF p2(1), rotated]) simp
  then show ?thesis by (rule completes_run [OF p1(1), rotated]) simp
qed

lemma completes_return: "main_at p = AtReturn \<Longrightarrow> completes p"
  unfolding completes_def
  by (rule exI [of _ "[MainNext]"]) (simp add: process_step_def halted_def main_next_def)

lemma completes_in_mtls: "main_at p = InShutdown MtlsListener \<Longrightarrow> completes p"
  by (erule completes_wait) (simp add: completes_return)

lemma completes_at_mtls: "main_at p = AtShutdown MtlsListener \<Longrightarrow> completes p"
  by (rule completes_next) (auto simp: halted_def main_next_def completes_in_mtls)

lemma completes_in_enroll: "main_at p = InShutdown EnrollListener \<Longrightarrow> completes p"
  by (erule completes_wait) (simp add: completes_at_mtls)

lemma completes_at_enroll: "main_at p = AtShutdown EnrollListener \<Longrightarrow> completes p"
  by (rule completes_next) (auto simp: halted_def main_next_def completes_in_enroll)

lemma completes_context: "main_at p = AtContext \<Longrightarrow> completes p"
  by (rule completes_next) (auto simp: halted_def main_next_def completes_at_enroll)

lemma completes_past_select:
  assumes "past_select (main_at p)" "\<not> halted p"
  shows "completes p"
proof (cases "main_at p")
  case (AtShutdown l)
  then show ?thesis by (cases l) (auto intro: completes_at_enroll completes_at_mtls)
next
  case (InShutdown l)
  then show ?thesis by (cases l) (auto intro: completes_in_enroll completes_in_mtls)
qed (use assms in \<open>auto simp: halted_def intro: completes_context completes_return\<close>)

subsection \<open>A failing listener\<close>

definition demo_process :: process where
  "demo_process = start_process start_lib install_reading Map.empty prepared_disk 0"

lemma demo_process_started:
  "main_at demo_process = AtServe EnrollListener" "http_servers demo_process = (\<lambda>_. new_http_server)"
  "errChan demo_process = []" "quit demo_process = []" "clock demo_process = 0"
  "expired demo_process = (\<lambda>_. False)"
proof -
  obtain srv st where "start_server start_lib install_reading Map.empty prepared_disk =
      (Inr (srv, st), prepared_disk)" using started by blast
  then show "main_at demo_process = AtServe EnrollListener"
    "http_servers demo_process = (\<lambda>_. new_http_server)" "errChan demo_process = []"
    "quit demo_process = []" "clock demo_process = 0" "expired demo_process = (\<lambda>_. False)"
    by (simp_all add: demo_process_def start_process_def)
qed

definition demo_shutdown :: "process_event list" where
  "demo_shutdown =
     [MainNext, ListenResult EnrollListener None, MainNext, AcceptConn EnrollListener,
      ListenResult MtlsListener (Some ''address already in use''), GoroutineReport MtlsListener,
      MainNext, SelectError, MainNext, MainNext, AcceptFails EnrollListener ''closed'',
      AnswerRequest EnrollListener, ShutdownQuiet, MainNext, ShutdownQuiet, MainNext]"

lemma demo_shutdown_run: "\<exists>p. process_run demo_shutdown demo_process = Some p \<and> main_at p = Exited 0"
  by (simp add: demo_shutdown_def process_step_def halted_def lifecycle_defs demo_process_started
      new_http_server_def errChan_capacity_def)

subsection \<open>Properties\<close>

text \<open>
  C28. How the process ends. If the configuration, the certificates or the policy make no server,
  the exit status is 1 and nothing was ever started. Otherwise \<open>main\<close> returns only after a
  signal or an error of a listener - also then with status 0 - and when it does, both servers
  were shut down: neither accepts connections, and every connection was answered and closed
  unless the deadline of the shutdown had passed.
\<close>

theorem shutdown_clean:
  assumes "process_run evs (start_process lib env e fs now) = Some p" "main_at p = Exited status"
  shows "case fst (start_server lib env e fs) of
      Inl _ \<Rightarrow> status = 1 \<and> evs = []
    | Inr _ \<Rightarrow> status = 0 \<and> asked_to_stop evs \<and>
        (\<forall>l. inShutdown (http_servers p l) \<and> routine (http_servers p l) \<noteq> Serving \<and>
           (busy_conns (http_servers p l) = 0 \<and> idle_conns (http_servers p l) = 0 \<or>
            expired p l \<and> ctx_deadline p \<le> clock p))"
proof (cases "start_server lib env e fs")
  case (Pair r fs')
  show ?thesis
  proof (cases r)
    case (Inl err)
    with assms Pair show ?thesis
      by (cases evs) (auto simp: start_process_def process_step_def halted_def)
  next
    case (Inr started)
    obtain srv st where start: "start_server lib env e fs = (Inr (srv, st), fs')"
      using Pair Inr by (cases started) simp
    from run_exit_status [OF assms(1) start assms(2)] have "status = 0" .
    moreover from run_stops_for_reason [OF assms(1) start] assms(2) have "asked_to_stop evs"
      by (simp add: stops_for_reason_def)
    ultimately show ?thesis
      using run_shut_properly [OF assms(1)] assms(2) start by (auto simp: shut_properly_def)
  qed
qed

theorem shutdown_clean_witness:
  "\<exists>p. process_run demo_shutdown demo_process = Some p \<and> main_at p = Exited 0 \<and>
     (\<forall>l. inShutdown (http_servers p l))"
proof -
  obtain p where run: "process_run demo_shutdown demo_process = Some p" "main_at p = Exited 0"
    using demo_shutdown_run by blast
  obtain srv st where start: "start_server start_lib install_reading Map.empty prepared_disk =
      (Inr (srv, st), prepared_disk)" using started by blast
  from shutdown_clean [OF run(1) [unfolded demo_process_def] run(2)] start
  have "\<forall>l. inShutdown (http_servers p l)" by auto
  with run show ?thesis by blast
qed

text \<open>
  C29. Nothing in the process waits forever on its own account: \<open>main\<close> executes at most ten
  statements; a goroutine whose server has failed always finds room in the channel, so none
  leaks; and from any state past the \<open>select\<close> the process can come to its end without any
  client closing a connection or answering.
\<close>

theorem shutdown_terminates:
  assumes "process_run evs (start_process lib env e fs now) = Some p"
  shows "length (filter main_event evs) \<le> 10 \<and>
    (\<not> halted p \<longrightarrow>
      (\<forall>l err. routine (http_servers p l) = Returned err \<longrightarrow>
         process_step (GoroutineReport l) p \<noteq> None) \<and>
      (past_select (main_at p) \<longrightarrow>
         (\<exists>evs' q. list_all shutdown_event evs' \<and> process_run evs' p = Some q \<and>
            main_at q = Exited 0)))"
proof (intro conjI impI allI)
  show "length (filter main_event evs) \<le> 10"
    using run_main_events [OF assms] statements_left_bound [of "main_at (start_process lib env e fs now)"]
    by linarith
next
  fix l err
  assume "\<not> halted p" "routine (http_servers p l) = Returned err"
  with run_reports_fit [OF assms] show "process_step (GoroutineReport l) p \<noteq> None"
    by (cases l; cases err)
      (auto simp: process_step_def goroutine_report_def reports_fit_def)
next
  assume "\<not> halted p" "past_select (main_at p)"
  then show "\<exists>evs' q. list_all shutdown_event evs' \<and> process_run evs' p = Some q \<and> main_at q = Exited 0"
    using completes_past_select by (auto simp: completes_def)
qed

theorem shutdown_terminates_witness:
  "\<exists>p. process_run (take 8 demo_shutdown) demo_process = Some p \<and> main_at p = AtContext \<and>
     busy_conns (http_servers p EnrollListener) = 1 \<and>
     (\<exists>evs q. list_all shutdown_event evs \<and> process_run evs p = Some q \<and> main_at q = Exited 0)"
proof -
  obtain p where run: "process_run (take 8 demo_shutdown) demo_process = Some p"
    and p: "main_at p = AtContext" "busy_conns (http_servers p EnrollListener) = 1"
    by (simp add: demo_shutdown_def process_step_def halted_def lifecycle_defs
        demo_process_started new_http_server_def errChan_capacity_def)
  have "\<not> halted p" "past_select (main_at p)" using p by (simp_all add: halted_def)
  with shutdown_terminates [OF run [unfolded demo_process_def]] run p show ?thesis by blast
qed

end
