(* ===== verification/Spec2Isabelle.thy ===== *)
theory Spec2Isabelle
  imports Examples Evidence VerifierProperties HandlerProperties LifecycleProperties
begin

text \<open>
  \<^bold>\<open>The Go backend of a hardware-backed mutual-TLS proof of concept\<close> (\<open>src/backend\<close>).

  \<^bold>\<open>The program.\<close> A device asks the enrollment listener (one-way TLS) for a challenge, has its
  hardware key attested with that challenge, and posts a certificate request with the
  attestation chain. The backend consumes the challenge, verifies the chain and the attestation
  extension against its policy, derives the device's identity from its key (the hex SHA-256 of
  the encoded public key), signs a client certificate for that identity and stores a device
  record. On the second listener (mutual TLS 1.3) a middleware ties the client certificate to
  the record: key, identity, serial, revocations. The rest is deployment: the configuration
  from environment variables, the bootstrap of the root and server certificates, a command
  that does the same for a development setup, and \<open>main\<close>, which puts the parts together.

  \<^bold>\<open>Theories and the code they model.\<close>
  \<^item> \<open>Prelude\<close>: bytes and text, instants (nanoseconds since 1970, unbounded) and 64-bit
    durations, errors as the left summand (\<open>and_then\<close>, \<open>map_err\<close>, \<open>traverse_from\<close>), the
    collections of simplification rules.
  \<^item> \<open>GoText\<close>, \<open>Sha256\<close>, \<open>Asn1\<close>, \<open>Files\<close>, \<open>Http\<close>: what the code uses of Go's standard library -
    base64, hex, decimal numbers, \<open>strconv\<close>, \<open>strings\<close>, \<open>path/filepath\<close>, RFC 3339; SHA-256; the
    DER decoder of \<open>encoding/asn1\<close>; the operations of package \<open>os\<close> on files; requests,
    responses and status codes.
  \<^item> \<open>X509\<close>: the values of \<open>crypto/x509\<close>, \<open>encoding/pem\<close> and \<open>crypto/tls\<close> that the code looks into,
    and the record \<open>golib\<close> of the functions it calls on them.
  \<^item> \<open>AttestationTypes\<close> (\<open>internal/attestation/types.go\<close>), \<open>Revocation\<close> (\<open>revocation.go\<close>),
    \<open>Verifier\<close> (\<open>verifier.go\<close>, one definition per numbered step of \<open>VerifyAttestation\<close>),
    \<open>GoogleRoots\<close> (\<open>google_root.go\<close> and the constructors of the verifier).
  \<^item> \<open>ChallengeStore\<close>, \<open>DeviceRepo\<close> (\<open>internal/storage\<close>): each interface is a record of functions
    on an abstract state with its contract as a locale (\<open>challenge_store\<close>, \<open>device_repo\<close>); the
    in-memory implementations are interpretations (\<open>mem\<close>, \<open>memrepo\<close>).
  \<^item> \<open>Signer\<close> (\<open>internal/ca/signer.go\<close>, \<open>cert_pool.go\<close>), \<open>Bootstrap\<close> (\<open>bootstrap.go\<close>), \<open>Certgen\<close>
    (\<open>cmd/certgen\<close>), \<open>Config\<close> (\<open>internal/config\<close>).
  \<^item> \<open>Middleware\<close> (\<open>internal/middleware/mtls_auth.go\<close>), \<open>Handlers\<close> (\<open>challenge_handler.go\<close>,
    \<open>protected_handler.go\<close>), \<open>EnrollHandler\<close> (\<open>enroll_handler.go\<close>, one definition per step).
  \<^item> \<open>Server\<close> (\<open>cmd/server/main.go\<close>: policy, verifier, listeners, the recorder around the
    handlers) and \<open>System\<close>: the running backend as a step relation over requests on both
    listeners, cleanup passes and administrative revocations. \<open>Interleaving\<close> splits an
    enrollment into its calls of shared objects (\<open>thread_step\<close>) and lets everything else run in
    between; a request of the protected resource there reads the registry in three states.
    \<open>Lifecycle\<close> is the end of \<open>main\<close>: the goroutines of the two servers, the channels \<open>errChan\<close>
    and \<open>quit\<close>, the \<open>select\<close> and the shutdown, one event at a time.

  \<^bold>\<open>Lemmas.\<close> \<open>VerifierFacts\<close> turns the sequence of checks of \<open>VerifyAttestation\<close> into one
  characterisation per policy (\<open>attested_key\<close>, \<open>hardware_description\<close>). \<open>Asn1Encoder\<close> and
  \<open>AttestationEncoder\<close> hold a DER encoder of attestation extensions, with the round trips through
  the decoder of \<open>Asn1\<close> and the verdict on an encoded device. \<open>EnrollFacts\<close> has the locale
  \<open>enroll_backend\<close>, in which the effects of an enrollment are proved once for any two stores with
  the contracts above. \<open>Traces\<close> has the invariants of runs: which enrollment stands behind a
  record, where its challenge came from, that revocations last. \<open>Evidence\<close> carries the first two
  over to interleaved enrollments. \<open>Examples\<close> is a concrete
  library, device, server and run, in which every hypothesis holds and on which the
  properties are instantiated. The properties are in \<open>ChallengeStore\<close>, \<open>DeviceRepo\<close>,
  \<open>VerifierProperties\<close>, \<open>HandlerProperties\<close>, \<open>DeploymentProperties\<close>, \<open>LifecycleProperties\<close> and,
  where they span components, below.

  \<^bold>\<open>State, time, randomness.\<close> The mutexes of the two stores and of the revocation client make
  their operations atomic, so each is a function on its state. A whole request is one step only
  in \<open>System\<close>; that the calls of concurrent requests interleave is the subject of \<open>Interleaving\<close>,
  and it matters: a revocation is final in the one and can be lost in the other. What an
  operation reads from outside - clocks, random numbers, the answer of the revocation server, the host's network
  interfaces - is an argument (records named \<open>..._reading\<close>), with one field per reading; the
  properties hold for all readings. The mutable fields of the enrollment handler (the verifier
  with its cached revocation list, the stores) are the state \<open>enroll_state\<close>.

  \<^bold>\<open>Parameters and hypotheses.\<close> The cryptographic and X.509 functions are fields of \<open>golib\<close>: parsing
  certificates and requests, checking and making signatures, verifying chains, PEM and key
  encodings, URL parsing, the JSON decoding of the two documents. Four hypotheses about them
  are named, each a documented behaviour: \<open>certificates_round_trip\<close> (a created certificate that
  parses has the fields of its template and the given key), \<open>parses_plain_urns\<close>,
  \<open>pem_round_trip\<close> and \<open>ec_keys_round_trip\<close>. Each property says which it uses; the functions of
  \<open>Examples\<close> satisfy all of them.

  \<^bold>\<open>Bounds and termination.\<close> Every definition is total; loops are structural recursions or come
  with a measure (the input gets shorter). There is no fuel: the recursion of the ASN.1 sequence
  parser is bounded by the number of elements that the decoder counts first, as in Go.
  Durations are 64-bit words and wrap around as in the code; ASN.1 integers, lengths and tags
  have the decoder's limits; the chain has at most 16 certificates, the request body 256 KiB,
  the revocation list 4 MiB.

  \<^bold>\<open>Not modelled.\<close> Logging and printing, \<open>connStateLogger\<close>; the read and write timeouts of the
  servers (a connection may close at any time); the record layer and the negotiation of TLS (of
  a handshake only the decision on the client's certificates); the JSON encoding of responses
  and the headers; the effect of a panic; memory use; the Android application under \<open>src/android\<close>, the scripts
  and the tests. A revocation list request inside one verification is one step.
\<close>

subsection \<open>Access\<close>

text \<open>
  C1. The central property. Whoever gets an answer from the protected resource of a production
  server holds a certificate that an earlier enrollment issued for exactly its key: that
  enrollment presented an attestation, valid under the policy and the roots, of a hardware
  key on a locked and verified device, with a challenge the server had handed out before it;
  since then the identity was not enrolled again and not revoked, and the certificate's
  serial was never revoked. (Requests are atomic in these runs; the properties of the
  subsection on interleaved enrollments are about requests that overlap.)
\<close>

theorem access_requires_attestation:
  assumes "in_memory srv" "strict_policy (policy v)" "run lib srv (initial_state v) tr s"
    and "serve_mtls_port lib srv env peers req s = PingAnswer (JsonResponse status body)"
  shows "\<exists>c cs tr1 ev a tr2 ch. peers = c # cs \<and> self_bound c (pr_ClientIdentity body) \<and>
     tr = tr1 @ (ev, a) # tr2 \<and> enrolls lib srv ev a (pr_ClientIdentity body) (serial_text c) \<and>
     attested_enrollment lib (rootPool v) (policy v) ev (pr_ClientIdentity body) ch \<and>
     (\<exists>x \<in> set tr1. hands_out ch x) \<and>
     (\<forall>(ev', a') \<in> set tr2. (\<forall>serial. \<not> enrolls lib srv ev' a' (pr_ClientIdentity body) serial) \<and>
        ev' \<noteq> AdminRevokeDevice (pr_ClientIdentity body)) \<and>
     (AdminRevokeSerial (serial_text c), StorageAnswer None) \<notin> set tr"
  using assms(1,4)
proof (rule ping_accepted)
  fix c cs rec
  let ?i = "pr_ClientIdentity body"
  assume peers: "peers = c # cs" and bound: "self_bound c ?i"
    and rec: "devices (es_repo s) ?i = Some rec" "\<not> dev_IsRevoked rec" "dev_CertSerial rec = serial_text c"
    and serial: "serial_text c \<notin> revokedSerials (es_repo s)"
  have "devices (es_repo (initial_state v)) = Map.empty"
    by (simp add: initial_state_def NewMemoryDeviceRepo_def)
  from run_devices [OF assms(3,1) this rec(1)] rec(2,3)
  have "last_enrolled lib srv tr ?i (serial_text c) False" by simp
  then obtain tr1 ev a tr2 where tr: "tr = tr1 @ (ev, a) # tr2"
    and en: "enrolls lib srv ev a ?i (serial_text c)"
    and later: "\<forall>(ev', a') \<in> set tr2. (\<forall>serial'. \<not> enrolls lib srv ev' a' ?i serial') \<and>
        ev' \<noteq> AdminRevokeDevice ?i"
    by (auto simp: last_enrolled_def)
  from assms(3) tr have "run lib srv (initial_state v) (tr1 @ (ev, a) # tr2) s" by simp
  then obtain s1 s2 where before: "run lib srv (initial_state v) tr1 s1" and st: "step lib srv s1 ev a s2"
    by (rule run_event)
  from run_verifier_frame [OF before] have ver: "policy (es_verifier s1) = policy v"
    "rootPool (es_verifier s1) = rootPool v" by (simp_all add: initial_state_def)
  from enrolls_attested [OF assms(1) st en] assms(2) ver obtain ch where
    att: "attested_enrollment lib (rootPool v) (policy v) ev ?i ch"
    and spend: "spends lib (policy v) ch (ev, a)" by auto
  from step_challenges(1) [OF assms(1) st, of ch] spend ver
  have "challenges (es_store s1) ch \<noteq> None" by simp
  with run_challenges [OF before assms(1), of "policy v" ch]
  have "0 < count (hands_out ch) tr1"
    by (auto simp: initial_state_def NewMemoryChallengeStore_def)
  then have "\<exists>x \<in> set tr1. hands_out ch x" by (simp add: count_pos)
  moreover have "(AdminRevokeSerial (serial_text c), StorageAnswer None) \<notin> set tr"
    using run_revocations(2) [OF assms(3,1)] serial by blast
  ultimately show ?thesis using peers bound tr en att later by blast
qed

theorem access_requires_attestation_witness:
  "\<exists>tr s. run demo_lib demo_server (initial_state demo_verifier) tr s \<and>
     serve_mtls_port demo_lib demo_server demo_mtls [demo_client 77] demo_ping_request s =
       PingAnswer (JsonResponse StatusOK (demo_pong ''phone'' 77)) \<and>
     (\<exists>ev ch. attested_enrollment demo_lib [] demo_policy ev demo_identity ch)"
proof -
  obtain b rec s where run: "run demo_lib demo_server (initial_state demo_verifier)
      (demo_events (ChallengeAnswer (JsonResponse StatusOK b))) s"
    and repo: "devices (es_repo s) = [demo_identity \<mapsto> rec]" "revokedSerials (es_repo s) = {}"
      "dev_CertSerial rec = decimal_int 77" "\<not> dev_IsRevoked rec" "dev_Label rec = ''phone''"
    using demo_run by blast
  have ping: "serve_mtls_port demo_lib demo_server demo_mtls [demo_client 77] demo_ping_request s =
      PingAnswer (JsonResponse StatusOK (demo_pong ''phone'' 77))"
    using demo_ping [of s rec 77] repo by simp
  have v: "strict_policy (policy demo_verifier)" "policy demo_verifier = demo_policy"
    "rootPool demo_verifier = []"
    by (simp_all add: demo_verifier_def demo_policy_strict)
  have "pr_ClientIdentity (demo_pong ''phone'' 77) = demo_identity" by (simp add: demo_pong_def)
  with access_requires_attestation [OF demo_server_in_memory v(1) run ping] v(2,3)
  have "\<exists>ev ch. attested_enrollment demo_lib [] demo_policy ev demo_identity ch" by auto
  with run ping show ?thesis by blast
qed

text \<open>
  C2. Revocation is final, for requests and revocations in any interleaving of their calls. After
  the serial of a certificate has been revoked, no later request with that certificate reaches
  the protected resource. After a device has been revoked, no later request with the
  certificate that was registered then does, and no request with the device's identity at all,
  unless an enrollment of that identity had passed its check of the registry, and had not yet
  registered its record, at the moment of the revocation (a case that is shown below). A
  request looks the registry up three times; other steps may run between the lookups, all of
  which come after the revocation.
\<close>

theorem revocation_is_final:
  assumes "in_memory srv" "istep lib srv c (Atomic ev (StorageAnswer None)) c1"
    and "iruns lib srv c1 es1 ca" "iruns lib srv ca es2 cb" "iruns lib srv cb es3 cc"
    and "protected_ping (Some (eh_deviceRepo (enroll_handler srv))) now (es_repo (shared ca))
      (es_repo (shared cb)) (es_repo (shared cc)) req = JsonResponse status body"
  shows "ev \<noteq> AdminRevokeSerial (pr_CertSerial body) \<and>
    (ev = AdminRevokeDevice (pr_ClientIdentity body) \<longrightarrow>
       \<not> none_past_check (pr_ClientIdentity body) c \<and>
       (\<forall>rec. devices (es_repo (shared c)) (pr_ClientIdentity body) = Some rec \<longrightarrow>
          pr_CertSerial body \<noteq> dev_CertSerial rec))"
proof -
  let ?i = "pr_ClientIdentity body"
  from interleaved_ping_accepted [OF assms(1,6)] have active: "\<not> revoked_device (shared cb) ?i"
    and serial: "pr_CertSerial body \<notin> revokedSerials (es_repo (shared cc))" by simp_all
  have "revokedSerials (es_repo (shared c1)) \<subseteq> revokedSerials (es_repo (shared cc))"
    using iruns_revokedSerials [OF iruns_append [OF iruns_append [OF assms(3,4)] assms(5)] assms(1)] .
  with serial have new: "pr_CertSerial body \<notin> revokedSerials (es_repo (shared c1))" by blast
  have "ev \<noteq> AdminRevokeSerial (pr_CertSerial body)"
    using istep_revoke_serial [OF _ assms(1)] assms(2) new by blast
  moreover have "\<not> none_past_check ?i c \<and> (\<forall>rec. devices (es_repo (shared c)) ?i = Some rec \<longrightarrow>
      pr_CertSerial body \<noteq> dev_CertSerial rec)" if "ev = AdminRevokeDevice ?i"
    using assms(2) [unfolded that] assms(1)
  proof (rule istep_revoke_device)
    fix rec
    assume rec: "devices (es_repo (shared c)) ?i = Some rec" "revoked_device (shared c1) ?i"
      "dev_CertSerial rec \<in> revokedSerials (es_repo (shared c1))" "threads c1 = threads c"
    have "\<not> none_past_check ?i c1"
      using iruns_stays_revoked [OF iruns_append [OF assms(3,4)] assms(1) rec(2)] active by blast
    with rec new show ?thesis by (auto simp: none_past_check_def)
  qed
  ultimately show ?thesis by blast
qed

theorem revocation_is_final_witness:
  "\<exists>s c1. serve_mtls_port demo_lib demo_server demo_mtls [demo_client 77] demo_ping_request s =
       PingAnswer (JsonResponse StatusOK (demo_pong ''phone'' 77)) \<and>
     istep demo_lib demo_server \<lparr>shared = s, threads = Map.empty\<rparr>
       (Atomic (AdminRevokeDevice demo_identity) (StorageAnswer None)) c1 \<and>
     (\<forall>req now es c2. iruns demo_lib demo_server c1 es c2 \<longrightarrow>
       protected_ping (Some memory_device_repo) now (es_repo (shared c2)) (es_repo (shared c2))
         (es_repo (shared c2)) req \<noteq> JsonResponse StatusOK (demo_pong ''phone'' 77))"
proof -
  obtain b rec s where run: "run demo_lib demo_server (initial_state demo_verifier)
      (demo_events (ChallengeAnswer (JsonResponse StatusOK b))) s"
    and repo: "devices (es_repo s) = [demo_identity \<mapsto> rec]" "revokedSerials (es_repo s) = {}"
      "dev_CertSerial rec = decimal_int 77" "\<not> dev_IsRevoked rec" "dev_Label rec = ''phone''"
    using demo_run by blast
  have ping: "serve_mtls_port demo_lib demo_server demo_mtls [demo_client 77] demo_ping_request s =
      PingAnswer (JsonResponse StatusOK (demo_pong ''phone'' 77))"
    using demo_ping [of s rec 77] repo by simp
  obtain repo' where revoked: "mem_RevokeDevice demo_identity (es_repo s) = (None, repo')"
    using repo by (simp add: mem_RevokeDevice_def)
  let ?c1 = "\<lparr>shared = s\<lparr>es_repo := repo'\<rparr>, threads = Map.empty\<rparr>"
  have revoke: "istep demo_lib demo_server \<lparr>shared = s, threads = Map.empty\<rparr>
      (Atomic (AdminRevokeDevice demo_identity) (StorageAnswer None)) ?c1"
    by (rule istep_atomic, rule revoke_device)
      (simp add: in_memory_simps [OF demo_server_in_memory] revoked)
  have identity: "pr_ClientIdentity (demo_pong ''phone'' 77) = demo_identity" by (simp add: demo_pong_def)
  have none: "none_past_check demo_identity \<lparr>shared = s, threads = Map.empty\<rparr>"
    by (simp add: none_past_check_def)
  have "protected_ping (Some memory_device_repo) now (es_repo (shared c2)) (es_repo (shared c2))
      (es_repo (shared c2)) req \<noteq> JsonResponse StatusOK (demo_pong ''phone'' 77)"
    if "iruns demo_lib demo_server ?c1 es c2" for req now es c2
  proof
    assume "protected_ping (Some memory_device_repo) now (es_repo (shared c2)) (es_repo (shared c2))
      (es_repo (shared c2)) req = JsonResponse StatusOK (demo_pong ''phone'' 77)"
    then have "protected_ping (Some (eh_deviceRepo (enroll_handler demo_server))) now
      (es_repo (shared c2)) (es_repo (shared c2)) (es_repo (shared c2)) req =
      JsonResponse StatusOK (demo_pong ''phone'' 77)"
      by (simp add: in_memory_simps [OF demo_server_in_memory])
    from revocation_is_final [OF demo_server_in_memory revoke that iruns_done iruns_done this]
    show False using none by (simp add: identity)
  qed
  with ping revoke show ?thesis by blast
qed

text \<open>
  C3. Across all requests, a challenge backs at most as many enrollments as it was handed out
  by the challenge endpoint. (Requests are atomic here; for enrollments that overlap see below.)
\<close>

theorem challenge_backs_one_enrollment:
  assumes "in_memory srv" "run lib srv (initial_state v) tr s"
  shows "count (spends lib (policy v) ch) tr \<le> count (hands_out ch) tr"
  using run_challenges [OF assms(2,1), of "policy v" ch]
  by (auto simp: initial_state_def NewMemoryChallengeStore_def split: if_splits)

theorem challenge_backs_one_enrollment_witness:
  "\<exists>tr s. run demo_lib demo_server (initial_state demo_verifier) tr s \<and> length tr = 2 \<and>
     count (spends demo_lib demo_policy (b64_encode demo_challenge)) tr \<le>
     count (hands_out (b64_encode demo_challenge)) tr"
proof -
  obtain b s where run: "run demo_lib demo_server (initial_state demo_verifier)
      (demo_events (ChallengeAnswer (JsonResponse StatusOK b))) s"
    using demo_run by blast
  have "policy demo_verifier = demo_policy" by (simp add: demo_verifier_def)
  with challenge_backs_one_enrollment [OF demo_server_in_memory run, of "b64_encode demo_challenge"] run
  show ?thesis by (intro exI [of _ "demo_events (ChallengeAnswer (JsonResponse StatusOK b))"] exI [of _ s])
    (simp add: demo_events_def)
qed

text \<open>
  C13. An enrolled device gets in: the certificate in a 201 answer decodes, names the identity
  of the answer and carries its key, and as long as nothing else has happened the protected
  resource answers the device that presents it, if the handshake accepts it and its fresh
  serial is not one of the revoked ones.
\<close>

theorem enrolled_device_admitted:
  assumes "in_memory srv" "certificates_round_trip lib" "pem_round_trip lib"
    and "serve_enroll_port lib srv env req s = (EnrollAnswer (JsonResponse status body), s')"
  shows "\<exists>der c. lib_pem_decode lib (bytes_of_string (er_ClientCertificate body)) =
       Some (\<lparr>block_type = ''CERTIFICATE'', block_headers = [], block_bytes = der\<rparr>, []) \<and>
     lib_parse_certificate lib der = Inr c \<and> self_bound c (er_DeviceIdentity body) \<and>
     (\<forall>menv preq. handshake_accepts lib (mtls_tls srv) (handshake_now menv) [c] \<and>
        serial_text c \<notin> revokedSerials (es_repo s') \<and>
        req_Method preq = MethodGet \<and> req_Path preq = ''/api/v1/protected/ping'' \<longrightarrow>
        (\<exists>pong. serve_mtls_port lib srv menv [c] preq s' = PingAnswer (JsonResponse StatusOK pong) \<and>
           pr_ClientIdentity pong = er_DeviceIdentity body \<and> pr_CertSerial pong = serial_text c))"
proof -
  from assms(1) obtain ca pem ttl where h: "enroll_handler srv = mem_handler ca pem ttl"
    by (auto simp: in_memory_def)
  with assms(4) have "EnrollHandler_ServeHTTP lib (pr_enroll env) (mem_handler ca pem ttl) req s =
      (JsonResponse status body, s')"
    by (auto simp: serve_enroll_port_def split: if_splits prod.splits)
  then show ?thesis
  proof (rule mem_enroll.created)
    fix q rec cert certPEM
    let ?i = "er_DeviceIdentity body"
    let ?rec = "device_record q rec ?i cert (enrolled_now (pr_enroll env))"
    assume q: "enroll_decode lib (policy (es_verifier s)) req = Inr q"
      and f: "PublicKeyFingerprint (csr_public_key (p_csr q)) = Inr ?i"
      and sign: "SignCSR lib (signing (pr_enroll env)) (eh_ca (mem_handler ca pem ttl)) (p_csrDER q) ?i
        (eh_clientCertTTL (mem_handler ca pem ttl)) = Inr (cert, certPEM)"
      and devs: "devices (es_repo s') = (devices (es_repo s))(?i \<mapsto> ?rec)"
      and body: "body = enroll_response (mem_handler ca pem ttl) q ?i certPEM"
    from sign obtain der where der: "lib_parse_certificate lib der = Inr cert"
      "certPEM = lib_pem_encode lib ''CERTIFICATE'' der" by (rule SignCSR_ok)
    have answer: "bytes_of_string (er_ClientCertificate body) = certPEM"
      by (subst body) (simp add: enroll_response_def Let_def)
    from q have "lib_parse_request lib (p_csrDER q) = Inr (p_csr q)" by (rule enroll_decode_ok)
    from SignCSR_certificate(1,2) [OF sign assms(2) this]
    have "CommonName cert = ?i" "PublicKey cert = csr_public_key (p_csr q)" by simp_all
    moreover have "?i \<noteq> []" using fingerprint_shape(3) [OF f] .
    ultimately have bound: "self_bound cert ?i" using f by (simp add: self_bound_def)
    have rec: "devices (es_repo s') ?i = Some ?rec" "dev_CertSerial ?rec = serial_text cert"
      "\<not> dev_IsRevoked ?rec"
      using devs by (simp_all add: device_record_def serial_text_def)
    have "lib_pem_decode lib certPEM =
        Some (\<lparr>block_type = ''CERTIFICATE'', block_headers = [], block_bytes = der\<rparr>, [])"
      using assms(3) der(2) by (simp add: pem_round_trip_def)
    moreover have "\<exists>pong. serve_mtls_port lib srv menv [cert] preq s' = PingAnswer (JsonResponse StatusOK pong) \<and>
        pr_ClientIdentity pong = ?i \<and> pr_CertSerial pong = serial_text cert"
      if "handshake_accepts lib (mtls_tls srv) (handshake_now menv) [cert] \<and>
        serial_text cert \<notin> revokedSerials (es_repo s') \<and>
        req_Method preq = MethodGet \<and> req_Path preq = ''/api/v1/protected/ping''" for menv preq
      using ping_admitted [OF assms(1) bound rec, of lib menv preq] that by blast
    ultimately show ?thesis using der(1) bound unfolding answer by blast
  qed
qed

theorem enrolled_device_admitted_witness:
  "\<exists>s' c. serve_enroll_port demo_lib demo_server (demo_port 77 200) demo_enroll_request
       ((initial_state demo_verifier)\<lparr>es_store := \<lparr>challenges = [b64_encode demo_challenge \<mapsto> 1000]\<rparr>\<rparr>) =
       (EnrollAnswer (JsonResponse StatusCreated (demo_body 77)), s') \<and>
     (\<exists>pong. serve_mtls_port demo_lib demo_server demo_mtls [c] demo_ping_request s' =
        PingAnswer (JsonResponse StatusOK pong) \<and> pr_ClientIdentity pong = demo_identity)"
proof -
  let ?s = "(initial_state demo_verifier)\<lparr>es_store := \<lparr>challenges = [b64_encode demo_challenge \<mapsto> 1000]\<rparr>\<rparr>"
  have s: "policy (es_verifier ?s) = demo_policy" "revocations (es_verifier ?s) = None"
    "challenges (es_store ?s) (b64_encode demo_challenge) = Some 1000"
    "devices (es_repo ?s) = Map.empty" "revokedSerials (es_repo ?s) = {}"
    by (simp_all add: initial_state_def demo_verifier_def NewMemoryDeviceRepo_def)
  obtain s' where e: "serve_enroll_port demo_lib demo_server (demo_port 77 200) demo_enroll_request ?s =
      (EnrollAnswer (JsonResponse StatusCreated (demo_body 77)), s')"
    and revs: "revokedSerials (es_repo s') = {}"
    using demo_enroll [OF s(1-3), of 200 77] s(4,5)
    by (auto simp: serve_enroll_port_def demo_enroll_request_def)
  from enrolled_device_admitted [OF demo_server_in_memory demo_certificates_round_trip
      demo_pem_round_trip e]
  obtain c :: certificate where c: "\<And>menv preq.
      handshake_accepts demo_lib (mtls_tls demo_server) (handshake_now menv) [c] \<and>
        serial_text c \<notin> revokedSerials (es_repo s') \<and>
        req_Method preq = MethodGet \<and> req_Path preq = ''/api/v1/protected/ping'' \<Longrightarrow>
        (\<exists>pong. serve_mtls_port demo_lib demo_server menv [c] preq s' = PingAnswer (JsonResponse StatusOK pong) \<and>
           pr_ClientIdentity pong = er_DeviceIdentity (demo_body 77))"
    by blast
  have "handshake_accepts demo_lib (mtls_tls demo_server) t [c]" for t
    by (simp add: demo_server_def handshake_accepts_def demo_lib_def)
  with c [of demo_mtls demo_ping_request] revs e show ?thesis
    by (auto simp: demo_ping_request_def)
qed

subsection \<open>Enrollments that interleave\<close>

text \<open>The demo enrollment up to the signature, as steps of a thread.\<close>

lemma demo_thread:
  assumes v: "policy (es_verifier s) = demo_policy" "revocations (es_verifier s) = None"
    and live: "challenges (es_store s) (b64_encode demo_challenge) = Some ex" "now < ex"
    and dev: "\<forall>rec. devices (es_repo s) demo_identity = Some rec \<longrightarrow> \<not> dev_IsRevoked rec"
  shows "\<exists>rec pem s'. ((thread_step demo_lib (pr_enroll (demo_port serial now)) (enroll_handler demo_server)) ^^ 5)
       (Arrived demo_enroll_request, s) = (Signed demo_prepared (demo_record rec serial now) pem, s') \<and>
     es_repo s' = es_repo s"
proof -
  let ?env = "pr_enroll (demo_port serial now)" and ?h = "enroll_handler demo_server"
  obtain rec where attest: "enroll_attest demo_lib (verify_reading ?env) demo_prepared (es_verifier s) =
      (Inr (rec, demo_identity), es_verifier s)"
    using demo_attest [OF v] by blast
  let ?s1 = "s\<lparr>es_store := (es_store s)\<lparr>challenges := (challenges (es_store s))(b64_encode demo_challenge := None)\<rparr>\<rparr>"
  have one: "thread_step demo_lib ?env ?h (Arrived demo_enroll_request, s) = (Decoded demo_prepared, s)"
    by (simp add: thread_step_def v demo_decode)
  have two: "thread_step demo_lib ?env ?h (Decoded demo_prepared, s) = (Consumed demo_prepared, ?s1)"
    by (simp add: thread_step_def v demo_server_simps demo_consume [OF live])
  have three: "thread_step demo_lib ?env ?h (Consumed demo_prepared, ?s1) =
      (Attested demo_prepared rec demo_identity, ?s1)"
    using attest by (simp add: thread_step_def)
  have four: "thread_step demo_lib ?env ?h (Attested demo_prepared rec demo_identity, ?s1) =
      (Checked demo_prepared rec demo_identity, ?s1)"
    by (simp add: thread_step_def demo_server_simps demo_refuse [OF dev])
  have five: "thread_step demo_lib ?env ?h (Checked demo_prepared rec demo_identity, ?s1) =
      (Signed demo_prepared (demo_record rec serial now)
         (demo_pem_encode ''CERTIFICATE'' (3 # int_bytes serial)), ?s1)"
    by (simp add: thread_step_def demo_server_simps demo_enroll_sign demo_record_def)
  have "((thread_step demo_lib ?env ?h) ^^ 5) (Arrived demo_enroll_request, s) =
      (Signed demo_prepared (demo_record rec serial now)
         (demo_pem_encode ''CERTIFICATE'' (3 # int_bytes serial)), ?s1)"
    by (simp add: eval_nat_numeral thread_step_unfold one two three four five del: funpow.simps)
  then show ?thesis by auto
qed

text \<open>
  C7. A challenge is spent once also by enrollments that overlap: after one of them has consumed
  it, and as long as the challenge endpoint does not hand it out again, it is not in the store;
  every other enrollment under way that attests with it is refused in its next step; and no
  request that arrives meanwhile is answered with a certificate for it.
\<close>

theorem challenge_spent_once:
  assumes "in_memory srv" "threads c tid = Some (env, Decoded q)" "p_challenge q \<noteq> []"
    and "istep lib srv c (Advance tid) c1" "threads c1 tid = Some (env, Consumed q)"
    and "iruns lib srv c1 es c2"
    and "\<forall>ev a. Atomic ev a \<in> set es \<longrightarrow> \<not> hands_out (b64_encode (p_challenge q)) (ev, a)"
  shows "challenges (es_store (shared c2)) (b64_encode (p_challenge q)) = None \<and>
    (\<forall>tid' env' q' c3. threads c2 tid' = Some (env', Decoded q') \<and> p_challenge q' = p_challenge q \<and>
       istep lib srv c2 (Advance tid') c3 \<longrightarrow>
       threads c3 tid' = Some (env', Done (http_fail
         (StatusBadRequest, ''invalid or expired attestation challenge'')))) \<and>
    (\<forall>ev a c3. istep lib srv c2 (Atomic ev a) c3 \<longrightarrow>
       \<not> spends lib (policy (es_verifier (shared c2))) (b64_encode (p_challenge q)) (ev, a))"
proof -
  let ?ch = "b64_encode (p_challenge q)"
  from assms(1) obtain ca pem ttl where h: "enroll_handler srv = mem_handler ca pem ttl"
    by (auto simp: in_memory_def)
  from assms(4,2) obtain t' where "thread_step lib env (enroll_handler srv) (Decoded q, shared c) =
      (t', shared c1)" by (auto elim!: istep_AdvanceE)
  from thread_consumes(2) [OF h this assms(3)] have "challenges (es_store (shared c1)) ?ch = None" .
  from iruns_challenge_gone [OF assms(6,1) this assms(7)]
  have gone: "challenges (es_store (shared c2)) ?ch = None" .
  have refused: "threads c3 tid' = Some (env', Done (http_fail
      (StatusBadRequest, ''invalid or expired attestation challenge'')))"
    if other: "threads c2 tid' = Some (env', Decoded q')" "p_challenge q' = p_challenge q"
      and st: "istep lib srv c2 (Advance tid') c3" for tid' env' q' c3
  proof -
    from st other(1) obtain t2 where
      "thread_step lib env' (enroll_handler srv) (Decoded q', shared c2) = (t2, shared c3)"
      and t2: "threads c3 tid' = Some (env', t2)" by (auto elim!: istep_AdvanceE)
    from thread_consumes(1) [OF h this(1)] other(2) assms(3) gone t2 show ?thesis by simp
  qed
  have "\<not> spends lib (policy (es_verifier (shared c2))) ?ch (ev, a)"
    if "istep lib srv c2 (Atomic ev a) c3" for ev a c3
    using that
  proof (rule istep_AtomicE)
    fix s'
    assume "step lib srv (shared c2) ev a s'"
    from step_challenges(1) [OF assms(1) this, of ?ch] gone show ?thesis by blast
  qed
  with gone refused show ?thesis by blast
qed

text \<open>Two enrollments that arrive with the same challenge: the first one consumes it.\<close>

definition double_spend :: concurrent where
  "double_spend = \<lparr>shared = (initial_state demo_verifier)\<lparr>es_store :=
       \<lparr>challenges = [b64_encode demo_challenge \<mapsto> 1000]\<rparr>\<rparr>,
     threads = [0 \<mapsto> (pr_enroll (demo_port 77 200), Decoded demo_prepared),
                1 \<mapsto> (pr_enroll (demo_port 78 200), Decoded demo_prepared)]\<rparr>"

theorem challenge_spent_once_witness:
  "\<exists>c1 c2. istep demo_lib demo_server double_spend (Advance 0) c1 \<and>
     istep demo_lib demo_server c1 (Advance 1) c2 \<and>
     threads c1 0 = Some (pr_enroll (demo_port 77 200), Consumed demo_prepared) \<and>
     threads c2 1 = Some (pr_enroll (demo_port 78 200), Done (http_fail
       (StatusBadRequest, ''invalid or expired attestation challenge'')))"
proof -
  let ?env = "pr_enroll (demo_port 77 200)" and ?env' = "pr_enroll (demo_port 78 200)"
  let ?s = "shared double_spend"
  have t: "threads double_spend 0 = Some (?env, Decoded demo_prepared)"
    "threads double_spend 1 = Some (?env', Decoded demo_prepared)" by (simp_all add: double_spend_def)
  have ch: "p_challenge demo_prepared \<noteq> []" by (simp add: demo_prepared_def demo_challenge_def)
  have s: "policy (es_verifier ?s) = demo_policy"
    "challenges (es_store ?s) (b64_encode demo_challenge) = Some 1000"
    by (simp_all add: double_spend_def initial_state_def demo_verifier_def)
  obtain s1 where "thread_step demo_lib ?env (enroll_handler demo_server) (Decoded demo_prepared, ?s) =
      (Consumed demo_prepared, s1)"
    using demo_consume [OF s(2), of 200] by (simp add: thread_step_def s(1) demo_server_simps)
  from istep.advance [OF t(1) this]
  obtain c1 where one: "istep demo_lib demo_server double_spend (Advance 0) c1"
    and c1: "threads c1 0 = Some (?env, Consumed demo_prepared)"
      "threads c1 1 = Some (?env', Decoded demo_prepared)" using t(2) by auto
  obtain t2 s2 where "thread_step demo_lib ?env' (enroll_handler demo_server)
      (Decoded demo_prepared, shared c1) = (t2, s2)" by fastforce
  from istep.advance [OF c1(2) this] obtain c2 where two: "istep demo_lib demo_server c1 (Advance 1) c2"
    by blast
  from challenge_spent_once [OF demo_server_in_memory t(1) ch one c1(1) iruns_done] c1 two
  have "threads c2 1 = Some (?env', Done (http_fail
      (StatusBadRequest, ''invalid or expired attestation challenge'')))" by auto
  with one two c1 show ?thesis by blast
qed

text \<open>
  C8. Access in every interleaving: when requests and enrollments of a production server
  overlap in any way, whoever gets an answer from the protected resource presents a certificate
  for exactly the key its identity is the fingerprint of, with the serial that is registered
  for it, and that key was attested, under the policy and the roots, with a challenge that the
  server had handed out. The three lookups of the request may be in different states.
\<close>

theorem interleaved_access_attested:
  assumes "in_memory srv" "strict_policy (policy v)"
    and "iruns lib srv \<lparr>shared = initial_state v, threads = Map.empty\<rparr> es ca"
    and "protected_ping (Some (eh_deviceRepo (enroll_handler srv))) now (es_repo (shared ca)) rb rc req =
      JsonResponse status body"
  shows "\<exists>c cs rec chain ch der t. req_TLS req = Some (c # cs) \<and> PublicKey c = EncodableKey der \<and>
     certificate_identity c = pr_ClientIdentity body \<and>
     pr_ClientIdentity body = hex_encode (sha256 der) \<and>
     devices (es_repo (shared ca)) (pr_ClientIdentity body) = Some rec \<and>
     dev_CertSerial rec = serial_text c \<and>
     (\<exists>k. attested_key lib (rootPool v) (policy v) t chain ch (EncodableKey k) \<and>
        pr_ClientIdentity body = hex_encode (sha256 k)) \<and>
     (\<exists>ev a. Atomic ev a \<in> set es \<and> hands_out (b64_encode ch) (ev, a))"
proof -
  let ?i = "pr_ClientIdentity body"
  have "protected_ping (Some (eh_deviceRepo (enroll_handler srv))) now (es_repo (shared ca))
      (es_repo ((shared ca)\<lparr>es_repo := rb\<rparr>)) (es_repo ((shared ca)\<lparr>es_repo := rc\<rparr>)) req =
      JsonResponse status body" using assms(4) by simp
  from interleaved_ping_accepted [OF assms(1) this] obtain c cs rec where
    c: "req_TLS req = Some (c # cs)" "self_bound c ?i"
    and rec: "devices (es_repo (shared ca)) ?i = Some rec" "dev_CertSerial rec = serial_text c"
    by blast
  from c(2) obtain der where der: "PublicKey c = EncodableKey der" "?i = hex_encode (sha256 der)"
    "certificate_identity c = ?i"
    by (auto simp: self_bound_def PublicKeyFingerprint_eq_Inr)
  from iruns_evidence [OF assms(3,1,2) initial_evidence] rec(1)
  have "key_evidence lib (rootPool v) (policy v) (handed_out es) ?i"
    by (simp add: evidence_kept_def state_evidence_def)
  then obtain chain ch k t where "?i = hex_encode (sha256 k)" "b64_encode ch \<in> handed_out es"
    "attested_key lib (rootPool v) (policy v) t chain ch (EncodableKey k)"
    by (auto simp: key_evidence_def)
  with c(1) der rec show ?thesis unfolding handed_out_def by blast
qed

theorem interleaved_access_attested_witness:
  "\<exists>es c'. iruns demo_lib demo_server \<lparr>shared = initial_state demo_verifier, threads = Map.empty\<rparr> es c' \<and>
     protected_ping (Some (eh_deviceRepo (enroll_handler demo_server))) (ping_now demo_mtls)
       (es_repo (shared c')) (es_repo (shared c')) (es_repo (shared c'))
       (demo_ping_request\<lparr>req_TLS := Some [demo_client 77]\<rparr>) =
       JsonResponse StatusOK (demo_pong ''phone'' 77) \<and>
     (\<exists>t chain ch k. attested_key demo_lib [] demo_policy t chain ch (EncodableKey k) \<and>
        demo_identity = hex_encode (sha256 k))"
proof -
  obtain b rec s where run: "run demo_lib demo_server (initial_state demo_verifier)
      (demo_events (ChallengeAnswer (JsonResponse StatusOK b))) s"
    and repo: "devices (es_repo s) = [demo_identity \<mapsto> rec]" "revokedSerials (es_repo s) = {}"
      "dev_CertSerial rec = decimal_int 77" "\<not> dev_IsRevoked rec" "dev_Label rec = ''phone''"
    using demo_run by blast
  have "serve_mtls_port demo_lib demo_server demo_mtls [demo_client 77] demo_ping_request s =
      PingAnswer (JsonResponse StatusOK (demo_pong ''phone'' 77))"
    using demo_ping [of s rec 77] repo by simp
  then have ping: "protected_ping (Some (eh_deviceRepo (enroll_handler demo_server))) (ping_now demo_mtls)
      (es_repo s) (es_repo s) (es_repo s) (demo_ping_request\<lparr>req_TLS := Some [demo_client 77]\<rparr>) =
      JsonResponse StatusOK (demo_pong ''phone'' 77)"
    by (auto simp: serve_mtls_port_def split: if_splits)
  have v: "strict_policy (policy demo_verifier)" "policy demo_verifier = demo_policy"
    "rootPool demo_verifier = []"
    by (simp_all add: demo_verifier_def demo_policy_strict)
  have identity: "pr_ClientIdentity (demo_pong ''phone'' 77) = demo_identity" by (simp add: demo_pong_def)
  let ?c = "\<lparr>shared = s, threads = Map.empty\<rparr>"
  from run_iruns [OF run] obtain es where
    runs: "iruns demo_lib demo_server \<lparr>shared = initial_state demo_verifier, threads = Map.empty\<rparr> es ?c"
    by blast
  have "\<exists>t chain ch k. attested_key demo_lib [] demo_policy t chain ch (EncodableKey k) \<and>
      demo_identity = hex_encode (sha256 k)"
    using interleaved_access_attested [OF demo_server_in_memory v(1) runs, simplified concurrent.simps,
        OF ping] unfolding identity v(2,3) by blast
  with runs ping show ?thesis by (intro exI [of _ es] exI [of _ ?c]) simp
qed

text \<open>
  C6. Outside the window revocation holds in every interleaving: when a device is revoked and no
  enrollment of its identity is between the check of the registry and the registration, the
  device stays revoked, whatever runs afterwards in whatever order.
\<close>

theorem revocation_survives_interleaving:
  assumes "iruns lib srv c es c'" "in_memory srv" "revoked_device (shared c) i" "none_past_check i c"
  shows "revoked_device (shared c') i \<and> none_past_check i c'"
  using assms by (rule iruns_stays_revoked)

theorem revocation_survives_interleaving_witness:
  "\<exists>c'. iruns demo_lib demo_server
       \<lparr>shared = (initial_state demo_verifier)\<lparr>es_repo := \<lparr>devices = [demo_identity \<mapsto>
          (demo_record zero_AttestationRecord 5 10)\<lparr>dev_IsRevoked := True\<rparr>], revokedSerials = {}\<rparr>\<rparr>,
        threads = [0 \<mapsto> (pr_enroll (demo_port 77 200), Arrived demo_enroll_request)]\<rparr>
       (replicate 7 (Advance 0)) c' \<and> revoked_device (shared c') demo_identity"
proof -
  let ?c = "\<lparr>shared = (initial_state demo_verifier)\<lparr>es_repo := \<lparr>devices = [demo_identity \<mapsto>
          (demo_record zero_AttestationRecord 5 10)\<lparr>dev_IsRevoked := True\<rparr>], revokedSerials = {}\<rparr>\<rparr>,
        threads = [0 \<mapsto> (pr_enroll (demo_port 77 200), Arrived demo_enroll_request)]\<rparr>"
  have t: "threads ?c 0 = Some (pr_enroll (demo_port 77 200), Arrived demo_enroll_request)" by simp
  obtain c' where run: "iruns demo_lib demo_server ?c (replicate 7 (Advance 0)) c'"
    using iruns_advances [OF t] by blast
  have "revoked_device (shared ?c) demo_identity" by (simp add: revoked_device_def)
  moreover have "none_past_check demo_identity ?c"
    by (auto simp: none_past_check_def past_check_def split: if_splits)
  ultimately show ?thesis
    using revocation_survives_interleaving [OF run demo_server_in_memory] run by blast
qed

text \<open>
  The window, on the demo server. An enrolled device asks for a second challenge and enrolls
  again, up to the signature (\<open>race_start\<close>); the device is revoked; the enrollment registers
  its record (\<open>race_end\<close>).
\<close>

definition race_window :: "backend_state \<Rightarrow> AttestationRecord \<Rightarrow> bytes \<Rightarrow> concurrent" where
  "race_window s rec pem = \<lparr>shared = s, threads = [0 \<mapsto>
     (pr_enroll (demo_port 78 400), Signed demo_prepared (demo_record rec 78 400) pem)]\<rparr>"

lemma race_start:
  "\<exists>es rec pem s old. iruns demo_lib demo_server \<lparr>shared = initial_state demo_verifier, threads = Map.empty\<rparr>
       es (race_window s rec pem) \<and>
     devices (es_repo s) = [demo_identity \<mapsto> old] \<and> revokedSerials (es_repo s) = {} \<and>
     dev_CertSerial old = decimal_int 77"
proof -
  obtain b old s where run: "run demo_lib demo_server (initial_state demo_verifier)
      (demo_events (ChallengeAnswer (JsonResponse StatusOK b))) s"
    and s: "devices (es_repo s) = [demo_identity \<mapsto> old]" "revokedSerials (es_repo s) = {}"
      "es_verifier s = demo_verifier" "dev_CertSerial old = decimal_int 77" "\<not> dev_IsRevoked old"
    using demo_run by blast
  obtain b2 s2 where ask: "serve_enroll_port demo_lib demo_server (demo_port 78 300) demo_get_challenge s =
      (ChallengeAnswer (JsonResponse StatusOK b2), s2)"
    and s2: "s2 = s\<lparr>es_store := (es_store s)\<lparr>challenges := (challenges (es_store s))
         (b64_encode demo_challenge \<mapsto> 300 + 60000000000)\<rparr>\<rparr>"
    using demo_challenge_answer [of 78 300 s] by blast
  let ?env = "pr_enroll (demo_port 78 400)"
  have f2: "policy (es_verifier s2) = demo_policy" "revocations (es_verifier s2) = None"
    "challenges (es_store s2) (b64_encode demo_challenge) = Some 60000000300" "es_repo s2 = es_repo s"
    using s by (simp_all add: s2 demo_verifier_def)
  obtain rec pem s3 where thread: "((thread_step demo_lib ?env (enroll_handler demo_server)) ^^ 5)
      (Arrived demo_enroll_request, s2) = (Signed demo_prepared (demo_record rec 78 400) pem, s3)"
    and s3: "es_repo s3 = es_repo s"
    using demo_thread [OF f2(1-3), of 400 78] f2(4) s by auto
  let ?c1 = "\<lparr>shared = s2, threads = [0 \<mapsto> (?env, Arrived demo_enroll_request)]\<rparr>"
  have r1: "iruns demo_lib demo_server \<lparr>shared = s, threads = Map.empty\<rparr>
      [Atomic (EnrollPortRequest (demo_port 78 300) demo_get_challenge) (ChallengeAnswer (JsonResponse StatusOK b2)),
       Arrive 0 ?env demo_enroll_request] ?c1"
    using iruns_step [OF istep_atomic [OF enroll_port [OF ask]]
        iruns_step [OF istep_arrive [of Map.empty 0, OF refl] iruns_done]] by simp
  have r2: "iruns demo_lib demo_server ?c1 (replicate 5 (Advance 0)) (race_window s3 rec pem)"
    using iruns_advances [of ?c1 0 ?env "Arrived demo_enroll_request" demo_lib demo_server 5] thread
    by (simp add: race_window_def)
  from iruns_append [OF run_iruns [OF run] iruns_append [OF r1 r2]] s s3 show ?thesis by metis
qed

lemma race_end:
  assumes "devices (es_repo s) = [demo_identity \<mapsto> old]" "revokedSerials (es_repo s) = {}"
    and "dev_CertSerial old = decimal_int 77"
  shows "\<exists>c'. iruns demo_lib demo_server (race_window s rec pem)
       [Atomic (AdminRevokeDevice demo_identity) (StorageAnswer None), Advance 0] c' \<and>
     devices (es_repo (shared c')) = [demo_identity \<mapsto> demo_record rec 78 400] \<and>
     revokedSerials (es_repo (shared c')) = {decimal_int 77}"
proof -
  let ?ts = "threads (race_window s rec pem)"
  define repo' where "repo' = snd (mem_RevokeDevice demo_identity (es_repo s))"
  have revoke: "mem_RevokeDevice demo_identity (es_repo s) = (None, repo')"
    using assms(1) by (simp add: repo'_def prod_eq_iff mem_RevokeDevice_simps)
  have repo': "devices repo' = [demo_identity \<mapsto> old\<lparr>dev_IsRevoked := True\<rparr>]"
    "revokedSerials repo' = {decimal_int 77}"
    using assms by (simp_all add: repo'_def mem_RevokeDevice_simps)
  let ?s4 = "s\<lparr>es_repo := repo'\<rparr>"
  have r3: "istep demo_lib demo_server (race_window s rec pem)
      (Atomic (AdminRevokeDevice demo_identity) (StorageAnswer None)) \<lparr>shared = ?s4, threads = ?ts\<rparr>"
    using istep_atomic [OF revoke_device, of demo_server demo_identity s None repo' demo_lib ?ts] revoke
    by (simp add: in_memory_simps [OF demo_server_in_memory] race_window_def)
  let ?s5 = "?s4\<lparr>es_repo := repo'\<lparr>devices := [demo_identity \<mapsto> demo_record rec 78 400]\<rparr>\<rparr>"
  have "thread_step demo_lib (pr_enroll (demo_port 78 400)) (enroll_handler demo_server)
      (Signed demo_prepared (demo_record rec 78 400) pem, ?s4) =
    (Done (JsonResponse StatusCreated (enroll_response (enroll_handler demo_server) demo_prepared
       demo_identity pem)), ?s5)"
    by (simp add: thread_step_def in_memory_simps [OF demo_server_in_memory] mem_RegisterDevice_def repo')
  from istep_advance [OF _ this, of ?ts 0] obtain ts where
    r4: "istep demo_lib demo_server \<lparr>shared = ?s4, threads = ?ts\<rparr> (Advance 0) \<lparr>shared = ?s5, threads = ts\<rparr>"
    by (fastforce simp: race_window_def)
  from iruns_step [OF r3 iruns_step [OF r4 iruns_done]] repo' show ?thesis
    by (intro exI [of _ "\<lparr>shared = ?s5, threads = ts\<rparr>"]) simp
qed

text \<open>
  C5. Inside the window a revocation is lost. There is a schedule, from a fresh server, in which
  an administrator revokes an enrolled device successfully while the device enrolls again;
  the record of that enrollment replaces the revoked one, and the device is let in.
\<close>

theorem revocation_lost_in_window:
  "\<exists>es c'. iruns demo_lib demo_server \<lparr>shared = initial_state demo_verifier, threads = Map.empty\<rparr> es c' \<and>
     Atomic (AdminRevokeDevice demo_identity) (StorageAnswer None) \<in> set es \<and>
     \<not> revoked_device (shared c') demo_identity \<and>
     serve_mtls_port demo_lib demo_server demo_mtls [demo_client 78] demo_ping_request (shared c') =
       PingAnswer (JsonResponse StatusOK (demo_pong ''phone'' 78))"
proof -
  obtain es rec pem s old where r1: "iruns demo_lib demo_server
      \<lparr>shared = initial_state demo_verifier, threads = Map.empty\<rparr> es (race_window s rec pem)"
    and s: "devices (es_repo s) = [demo_identity \<mapsto> old]" "revokedSerials (es_repo s) = {}"
      "dev_CertSerial old = decimal_int 77"
    using race_start by blast
  obtain c' where r2: "iruns demo_lib demo_server (race_window s rec pem)
      [Atomic (AdminRevokeDevice demo_identity) (StorageAnswer None), Advance 0] c'"
    and c': "devices (es_repo (shared c')) = [demo_identity \<mapsto> demo_record rec 78 400]"
      "revokedSerials (es_repo (shared c')) = {decimal_int 77}"
    using race_end [OF s] by blast
  have "decimal_int 78 \<noteq> decimal_int 77"
    by (simp add: decimal_int_def decimal_nat.simps digit_char_def)
  then have "serve_mtls_port demo_lib demo_server demo_mtls [demo_client 78] demo_ping_request (shared c') =
      PingAnswer (JsonResponse StatusOK (demo_pong ''phone'' 78))"
    using demo_ping [of "shared c'" "demo_record rec 78 400" 78] c' by simp
  moreover have "\<not> revoked_device (shared c') demo_identity" using c' by (simp add: revoked_device_def)
  ultimately show ?thesis using iruns_append [OF r1 r2] by force
qed

end
